(* ===== verification/Prelude.thy ===== *)
theory Prelude
  imports Main "HOL-Library.Word"
begin

text \<open>
  Shared vocabulary of the development: the machine integers of the Rust sources, byte
  strings with their big- and little-endian readings (\<open>u128::from_be_bytes\<close>,
  \<open>to_be_bytes\<close>, \<open>from_le_bytes\<close>), slice copies that panic on a length mismatch,
  saturating \<open>u64\<close> arithmetic, and the cargo features under which the sources compile.
  Everything here is the language or its standard library.
\<close>

named_theorems const_defs
named_theorems weight_defs

section \<open>Machine integers\<close>

type_synonym u8 = "8 word"
type_synonym u16 = "16 word"
type_synonym u32 = "32 word"
type_synonym u64 = "64 word"
type_synonym u128 = "128 word"

type_synonym byte = u8
type_synonym bytes = "byte list"

definition u32_MAX :: nat where
  "u32_MAX = 4294967295"

definition u64_MAX :: nat where
  "u64_MAX = 18446744073709551615"

text \<open>\<open>u64::saturating_add\<close>, \<open>saturating_mul\<close> and \<open>saturating_div\<close> on the values below \<open>2 ^ 64\<close>.\<close>

definition u64_saturating_add :: "nat \<Rightarrow> nat \<Rightarrow> nat" where
  "u64_saturating_add a b = min u64_MAX (a + b)"

definition u64_saturating_mul :: "nat \<Rightarrow> nat \<Rightarrow> nat" where
  "u64_saturating_mul a b = min u64_MAX (a * b)"

definition u64_saturating_div :: "nat \<Rightarrow> nat \<Rightarrow> nat" where
  "u64_saturating_div a b = a div b"

lemmas u64_saturating_defs =
  u64_saturating_add_def u64_saturating_mul_def u64_saturating_div_def

lemma u64_saturating_add_le: "u64_saturating_add a b \<le> a + b"
  by (simp add: u64_saturating_add_def)

lemma u64_saturating_mul_le: "u64_saturating_mul a b \<le> a * b"
  by (simp add: u64_saturating_mul_def)

lemma u64_saturating_add_mono:
  "a \<le> a' \<Longrightarrow> b \<le> b' \<Longrightarrow> u64_saturating_add a b \<le> u64_saturating_add a' b'"
  by (simp add: u64_saturating_add_def min.coboundedI2 add_mono)

lemma u64_saturating_mul_mono:
  "a \<le> a' \<Longrightarrow> b \<le> b' \<Longrightarrow> u64_saturating_mul a b \<le> u64_saturating_mul a' b'"
  by (simp add: u64_saturating_mul_def min.coboundedI2 mult_le_mono)

lemma u64_saturating_mul_ub: "b \<le> B \<Longrightarrow> u64_saturating_mul a b \<le> a * B"
  by (rule order_trans [OF u64_saturating_mul_le]) (rule mult_le_mono2)

lemma unat_ucast_widen_32_128:
  fixes x :: u32
  shows "unat (ucast x :: u128) = unat x"
proof -
  have "unat x < 2 ^ 32"
    using unsigned_less [of x] by simp
  then have "unat x < 2 ^ 128"
    by simp
  then show ?thesis
    by (simp add: unsigned_ucast_eq take_bit_nat_eq_self_iff)
qed

section \<open>Results, panics and slices\<close>

text \<open>
  \<open>Result<A, E>\<close> is the sum \<open>E + A\<close>: \<open>Inl\<close> carries the error, \<open>Inr\<close> the value. A
  function that can panic returns \<open>rust_panic + 'a\<close>.
\<close>

datatype rust_panic =
    CopyLengthMismatch nat nat
  | IndexOutOfBounds nat nat
  | NotACharBoundary nat
  | ExpectFailed string
  | ArithmeticOverflow
  | AssertionFailed string

text \<open>\<open>dst.copy_from_slice(src)\<close> with \<open>dst\<close> of length \<open>n\<close>: panics unless \<open>src\<close> has the same length.\<close>

definition copy_from_slice :: "nat \<Rightarrow> 'a list \<Rightarrow> rust_panic + 'a list" where
  "copy_from_slice n src =
     (if length src = n then Inr src else Inl (CopyLengthMismatch n (length src)))"

text \<open>\<open>data[lo..hi].copy_from_slice(src)\<close>: the slice panics out of range, the copy on a mismatch.\<close>

definition slice_copy :: "'a list \<Rightarrow> nat \<Rightarrow> nat \<Rightarrow> 'a list \<Rightarrow> rust_panic + 'a list" where
  "slice_copy data lo hi src = (
     if hi < lo \<or> length data < hi then Inl (IndexOutOfBounds hi (length data))
     else case copy_from_slice (hi - lo) src of
       Inl p \<Rightarrow> Inl p
     | Inr new \<Rightarrow> Inr (take lo data @ new @ drop hi data))"

text \<open>\<open>xs.split_at(n)\<close> and \<open>&xs[0..n]\<close>.\<close>

definition split_at :: "'a list \<Rightarrow> nat \<Rightarrow> rust_panic + ('a list \<times> 'a list)" where
  "split_at xs n =
     (if n \<le> length xs then Inr (take n xs, drop n xs) else Inl (IndexOutOfBounds n (length xs)))"

definition slice_to :: "'a list \<Rightarrow> nat \<Rightarrow> rust_panic + 'a list" where
  "slice_to xs n =
     (if n \<le> length xs then Inr (take n xs) else Inl (IndexOutOfBounds n (length xs)))"

text \<open>Indexing \<open>xs[i]\<close>: panics out of range.\<close>

definition index_panic :: "'a list \<Rightarrow> nat \<Rightarrow> rust_panic + 'a" where
  "index_panic xs i =
     (if i < length xs then Inr (xs ! i) else Inl (IndexOutOfBounds i (length xs)))"

text \<open>\<open>Path::join\<close> on Unix: an absolute second path replaces the first one.\<close>

definition path_join :: "string \<Rightarrow> string \<Rightarrow> string" where
  "path_join p q =
     (if q \<noteq> [] \<and> hd q = CHR ''/'' then q
      else if p = [] \<or> last p = CHR ''/'' then p @ q
      else p @ ''/'' @ q)"

text \<open>The \<open>?\<close> operator: an error returns early.\<close>

definition result_bind :: "'e + 'a \<Rightarrow> ('a \<Rightarrow> 'e + 'b) \<Rightarrow> 'e + 'b" where
  "result_bind r f = (case r of Inl e \<Rightarrow> Inl e | Inr a \<Rightarrow> f a)"

lemma result_bind_simps [simp]:
  "result_bind (Inl e) f = Inl e"
  "result_bind (Inr a) f = f a"
  by (simp_all add: result_bind_def)

lemma bind_Inr_iff: "result_bind r f = Inr b \<longleftrightarrow> (\<exists>a. r = Inr a \<and> f a = Inr b)"
  by (cases r) simp_all

text \<open>\<open>opt.or_else(f)\<close>: the second computation runs only when the first gives \<open>None\<close>.\<close>

definition or_else :: "'a option \<Rightarrow> 'a option \<Rightarrow> 'a option" where
  "or_else a b = (case a of Some x \<Rightarrow> Some x | None \<Rightarrow> b)"

lemma or_else_simps [simp]:
  "or_else (Some x) b = Some x"
  "or_else None b = b"
  by (simp_all add: or_else_def)

lemma copy_from_slice_Inr [simp]:
  "copy_from_slice n src = Inr dst \<longleftrightarrow> length src = n \<and> dst = src"
  by (auto simp: copy_from_slice_def)

lemma copy_from_slice_Inl_iff:
  "(\<exists>e. copy_from_slice n src = Inl e) \<longleftrightarrow> length src \<noteq> n"
  by (simp add: copy_from_slice_def)

section \<open>Byte order\<close>

primrec le_value :: "bytes \<Rightarrow> nat" where
  "le_value [] = 0"
| "le_value (b # bs) = unat b + 256 * le_value bs"

primrec le_digits :: "nat \<Rightarrow> nat \<Rightarrow> bytes" where
  "le_digits 0 v = []"
| "le_digits (Suc n) v = of_nat (v mod 256) # le_digits n (v div 256)"

lemma unat_byte_less: "unat (b :: byte) < 256"
  using unsigned_less [of b] by simp

lemma unat_of_nat_byte: "unat (of_nat (v mod 256) :: byte) = v mod 256"
  by (simp add: unat_of_nat)

lemma length_le_digits [simp]: "length (le_digits n v) = n"
  by (induction n arbitrary: v) auto

lemma le_value_less: "le_value bs < 256 ^ length bs"
proof (induction bs)
  case (Cons b bs)
  have "unat b + 256 * le_value bs < 256 + 256 * le_value bs"
    using unat_byte_less [of b] by simp
  also have "\<dots> = 256 * Suc (le_value bs)"
    by simp
  also have "\<dots> \<le> 256 * 256 ^ length bs"
    using Cons.IH by (intro mult_le_mono) auto
  finally show ?case
    by simp
qed simp

lemma le_value_digits: "le_value (le_digits n v) = v mod 256 ^ n"
proof (induction n arbitrary: v)
  case (Suc n)
  have "v mod 256 + 256 * ((v div 256) mod 256 ^ n) = v mod (256 * 256 ^ n)"
    by (simp add: mod_mult2_eq)
  then show ?case
    by (simp add: Suc.IH unat_of_nat_byte)
qed (simp add: mod_less_eq_dividend)

lemma le_digits_value: "le_digits (length bs) (le_value bs) = bs"
proof (induction bs)
  case (Cons b bs)
  have b: "unat b < 256"
    by (rule unat_byte_less)
  have "(unat b + 256 * le_value bs) mod 256 = unat b"
    and "(unat b + 256 * le_value bs) div 256 = le_value bs"
    using b by simp_all
  with Cons.IH show ?case
    by simp
qed simp

text \<open>
  \<open>uN::from_le_bytes\<close>, \<open>uN::from_be_bytes\<close> and \<open>uN::to_be_bytes\<close>; the arrays have
  \<open>LENGTH('n) div 8\<close> elements.
\<close>

definition from_le_bytes :: "bytes \<Rightarrow> 'n::len word" where
  "from_le_bytes bs = of_nat (le_value bs)"

definition from_be_bytes :: "bytes \<Rightarrow> 'n::len word" where
  "from_be_bytes bs = of_nat (le_value (rev bs))"

definition to_be_bytes :: "nat \<Rightarrow> 'n::len word \<Rightarrow> bytes" where
  "to_be_bytes n w = rev (le_digits n (unat w))"

lemma length_to_be_bytes [simp]: "length (to_be_bytes n w) = n"
  by (simp add: to_be_bytes_def)

lemma byte_power: "(256 :: nat) ^ n = 2 ^ (8 * n)"
  by (simp add: power_mult)

lemma from_be_to_be:
  fixes w :: "'n::len word"
  assumes "LENGTH('n) = 8 * n"
  shows "from_be_bytes (to_be_bytes n w) = w"
proof -
  have "unat w < 256 ^ n"
    using unsigned_less [of w] by (simp add: byte_power assms)
  then show ?thesis
    by (simp add: from_be_bytes_def to_be_bytes_def le_value_digits)
qed

lemma unat_from_be:
  fixes bs :: bytes
  assumes "LENGTH('n::len) = 8 * length bs"
  shows "unat (from_be_bytes bs :: 'n word) = le_value (rev bs)"
proof -
  have "le_value (rev bs) < 2 ^ LENGTH('n)"
    using le_value_less [of "rev bs"] by (simp add: byte_power assms)
  then show ?thesis
    by (simp add: from_be_bytes_def unat_of_nat)
qed

lemma to_be_from_be:
  assumes "LENGTH('n::len) = 8 * length bs"
  shows "to_be_bytes (length bs) (from_be_bytes bs :: 'n word) = bs"
  using le_digits_value [of "rev bs"]
  by (simp add: to_be_bytes_def unat_from_be [OF assms])

lemma unat_from_le:
  assumes "LENGTH('n::len) = 8 * length bs"
  shows "unat (from_le_bytes bs :: 'n word) = le_value bs"
proof -
  have "le_value bs < 2 ^ LENGTH('n)"
    using le_value_less [of bs] by (simp add: byte_power assms)
  then show ?thesis
    by (simp add: from_le_bytes_def unat_of_nat)
qed

lemma from_le_inject:
  assumes "LENGTH('n::len) = 8 * length bs" and "length bs = length cs"
  shows "(from_le_bytes bs :: 'n word) = from_le_bytes cs \<longleftrightarrow> bs = cs"
proof
  assume "(from_le_bytes bs :: 'n word) = from_le_bytes cs"
  then have "unat (from_le_bytes bs :: 'n word) = unat (from_le_bytes cs :: 'n word)"
    by simp
  then have "le_value bs = le_value cs"
    using assms by (simp add: unat_from_le)
  then show "bs = cs"
    using assms(2) by (metis le_digits_value)
qed simp

lemma le_value_ones: "Suc (le_value (replicate n 255)) = 256 ^ n"
proof (induction n)
  case (Suc n)
  have "Suc (le_value (replicate (Suc n) 255)) = 256 * Suc (le_value (replicate n 255))"
    by simp
  then show ?case
    by (simp only: Suc.IH power_Suc)
qed simp

lemma from_be_ones:
  assumes "LENGTH('n::len) = 8 * n"
  shows "(from_be_bytes (replicate n 255) :: 'n word) = - 1"
proof -
  have "unat (from_be_bytes (replicate n 255) :: 'n word) = le_value (replicate n 255)"
    using unat_from_be [where bs = "replicate n 255" and 'n = 'n] assms by simp
  moreover have "unat (- 1 :: 'n word) = 2 ^ LENGTH('n) - 1"
    by (simp add: unsigned_minus_1_eq_mask mask_eq_exp_minus_1)
  moreover have "le_value (replicate n 255) = 2 ^ LENGTH('n) - 1"
    using le_value_ones [of n] by (simp add: byte_power assms)
  ultimately show ?thesis
    by (simp add: word_unat_eq_iff)
qed

section \<open>Cargo features\<close>

text \<open>The features that select code with \<open>#[cfg(feature = ...)]\<close> in the two templates.\<close>

record features =
  async_backing :: bool
  tanssi :: bool
  runtime_benchmarks :: bool

text \<open>The plain build, and the one with only asynchronous backing switched on.\<close>

definition default_features :: features where
  "default_features = \<lparr>async_backing = False, tanssi = False, runtime_benchmarks = False\<rparr>"

definition async_features :: features where
  "async_features = \<lparr>async_backing = True, tanssi = False, runtime_benchmarks = False\<rparr>"

lemma features_selectors [simp]:
  "async_backing default_features = False" "tanssi default_features = False"
  "runtime_benchmarks default_features = False"
  "async_backing async_features = True" "tanssi async_features = False"
  "runtime_benchmarks async_features = False"
  by (simp_all add: default_features_def async_features_def)

end
