(* ===== verification/Frame_Weight.thy ===== *)
theory Frame_Weight
  imports Prelude
begin

text \<open>
  The interface of the weight type. \<open>Weight\<close>, \<open>RuntimeDbWeight::reads/writes\<close> and the
  constants \<open>WEIGHT_REF_TIME_PER_SECOND\<close>, \<open>WEIGHT_REF_TIME_PER_NANOS\<close> and \<open>MAX_POV_SIZE\<close>
  belong to the Polkadot SDK, not to this repository: they are the fields of a record that
  every definition over weights takes as its argument, and what the runtimes rely on is the
  locale \<open>weight_laws\<close>. Its lemmas bound and order any weight built with the operations the
  runtimes use. The interpretation \<open>sp\<close> is the pair of saturating \<open>u64\<close> counters that the
  SDK documents.
\<close>

section \<open>The operations the runtimes call\<close>

text \<open>\<open>RuntimeDbWeight { read, write }\<close>, the struct literal of \<open>rocksdb_weights.rs\<close>.\<close>

record RuntimeDbWeight =
  db_read :: nat
  db_write :: nat

record 'w weight_api =
  from_parts :: "nat \<Rightarrow> nat \<Rightarrow> 'w"
  ref_time :: "'w \<Rightarrow> nat"
  proof_size :: "'w \<Rightarrow> nat"
  saturating_add :: "'w \<Rightarrow> 'w \<Rightarrow> 'w"
  saturating_mul :: "'w \<Rightarrow> nat \<Rightarrow> 'w"
  reads :: "RuntimeDbWeight \<Rightarrow> nat \<Rightarrow> 'w"
  writes :: "RuntimeDbWeight \<Rightarrow> nat \<Rightarrow> 'w"
  WEIGHT_REF_TIME_PER_SECOND :: nat
  WEIGHT_REF_TIME_PER_NANOS :: nat
  MAX_POV_SIZE :: nat

text \<open>The method chain \<open>w.saturating_add(x).saturating_add(y)...\<close>.\<close>

abbreviation add_chain :: "'w weight_api \<Rightarrow> 'w \<Rightarrow> 'w list \<Rightarrow> 'w" where
  "add_chain W w ws \<equiv> foldl (saturating_add W) w ws"

text \<open>Both dimensions of a weight are at most the given bounds.\<close>

definition within_weight :: "'w weight_api \<Rightarrow> 'w \<Rightarrow> nat \<Rightarrow> nat \<Rightarrow> bool" where
  "within_weight W w r p \<longleftrightarrow> ref_time W w \<le> r \<and> proof_size W w \<le> p"

text \<open>\<open>Weight::all_lte\<close>: below in both dimensions.\<close>

definition weight_le :: "'w weight_api \<Rightarrow> 'w \<Rightarrow> 'w \<Rightarrow> bool" where
  "weight_le W v w \<longleftrightarrow> ref_time W v \<le> ref_time W w \<and> proof_size W v \<le> proof_size W w"

section \<open>What the runtimes rely on\<close>

locale weight_laws =
  fixes W :: "'w weight_api"
  assumes ref_time_from_parts: "ref_time W (from_parts W r p) = r"
    and proof_size_from_parts: "proof_size W (from_parts W r p) = p"
    and ref_time_add:
      "ref_time W (saturating_add W v w) = u64_saturating_add (ref_time W v) (ref_time W w)"
    and proof_size_add:
      "proof_size W (saturating_add W v w) = u64_saturating_add (proof_size W v) (proof_size W w)"
    and ref_time_mul: "ref_time W (saturating_mul W v n) = u64_saturating_mul (ref_time W v) n"
    and proof_size_mul: "proof_size W (saturating_mul W v n) = u64_saturating_mul (proof_size W v) n"
    and ref_time_reads: "ref_time W (reads W d n) = u64_saturating_mul (db_read d) n"
    and proof_size_reads: "proof_size W (reads W d n) = 0"
    and ref_time_writes: "ref_time W (writes W d n) = u64_saturating_mul (db_write d) n"
    and proof_size_writes: "proof_size W (writes W d n) = 0"
    and per_second: "WEIGHT_REF_TIME_PER_SECOND W = 1000000000000"
    and per_nanos: "WEIGHT_REF_TIME_PER_NANOS W = 1000"
    and pov_size_lower: "5 * 1024 * 1024 \<le> MAX_POV_SIZE W"
    and pov_size_u32: "MAX_POV_SIZE W \<le> u32_MAX"
begin

lemmas components =
  ref_time_from_parts proof_size_from_parts ref_time_add proof_size_add ref_time_mul
  proof_size_mul ref_time_reads proof_size_reads ref_time_writes proof_size_writes

lemma within_parts: "within_weight W (from_parts W r p) r p"
  by (simp add: within_weight_def components)

lemma within_add:
  "within_weight W v r p \<Longrightarrow> within_weight W w r' p' \<Longrightarrow>
   within_weight W (saturating_add W v w) (r + r') (p + p')"
  by (auto simp: within_weight_def components
      intro: order_trans [OF u64_saturating_add_le] add_mono)

lemma within_mul:
  "within_weight W v r p \<Longrightarrow> n \<le> N \<Longrightarrow> within_weight W (saturating_mul W v n) (r * N) (p * N)"
  by (auto simp: within_weight_def components
      intro: order_trans [OF u64_saturating_mul_le] mult_le_mono)

lemma within_reads: "n \<le> N \<Longrightarrow> within_weight W (reads W d n) (db_read d * N) 0"
  by (auto simp: within_weight_def components
      intro: order_trans [OF u64_saturating_mul_le] mult_le_mono)

lemma within_writes: "n \<le> N \<Longrightarrow> within_weight W (writes W d n) (db_write d * N) 0"
  by (auto simp: within_weight_def components
      intro: order_trans [OF u64_saturating_mul_le] mult_le_mono)

lemma within_weaken:
  "within_weight W w r p \<Longrightarrow> r \<le> R \<Longrightarrow> p \<le> P \<Longrightarrow> within_weight W w R P"
  by (auto simp: within_weight_def)

lemmas fit_steps =
  within_add within_mul within_parts within_reads within_writes order_refl u64_saturating_mul_ub

lemma le_refl: "weight_le W w w"
  by (simp add: weight_le_def)

lemma le_trans: "weight_le W u v \<Longrightarrow> weight_le W v w \<Longrightarrow> weight_le W u w"
  by (auto simp: weight_le_def)

lemma le_add:
  "weight_le W v v' \<Longrightarrow> weight_le W w w' \<Longrightarrow>
   weight_le W (saturating_add W v w) (saturating_add W v' w')"
  by (simp add: weight_le_def components u64_saturating_add_mono)

lemma le_mul:
  "weight_le W v v' \<Longrightarrow> n \<le> n' \<Longrightarrow> weight_le W (saturating_mul W v n) (saturating_mul W v' n')"
  by (simp add: weight_le_def components u64_saturating_mul_mono)

lemma le_reads: "n \<le> n' \<Longrightarrow> weight_le W (reads W d n) (reads W d n')"
  by (simp add: weight_le_def components u64_saturating_mul_mono)

lemma le_writes: "n \<le> n' \<Longrightarrow> weight_le W (writes W d n) (writes W d n')"
  by (simp add: weight_le_def components u64_saturating_mul_mono)

lemmas mono_steps =
  le_add le_mul le_reads le_writes le_refl order_refl u64_saturating_mul_mono

lemma le_within: "weight_le W v w \<Longrightarrow> within_weight W w r p \<Longrightarrow> within_weight W v r p"
  by (auto simp: weight_le_def within_weight_def)

end

section \<open>The documented weight type\<close>

record sp_weight =
  sp_ref_time :: nat
  sp_proof_size :: nat

definition sp_weight_api :: "nat \<Rightarrow> sp_weight weight_api" where
  "sp_weight_api pov = \<lparr>
     from_parts = (\<lambda>r p. \<lparr>sp_ref_time = r, sp_proof_size = p\<rparr>),
     ref_time = sp_ref_time,
     proof_size = sp_proof_size,
     saturating_add = (\<lambda>v w. \<lparr>
       sp_ref_time = u64_saturating_add (sp_ref_time v) (sp_ref_time w),
       sp_proof_size = u64_saturating_add (sp_proof_size v) (sp_proof_size w)\<rparr>),
     saturating_mul = (\<lambda>v n. \<lparr>
       sp_ref_time = u64_saturating_mul (sp_ref_time v) n,
       sp_proof_size = u64_saturating_mul (sp_proof_size v) n\<rparr>),
     reads = (\<lambda>d n. \<lparr>sp_ref_time = u64_saturating_mul (db_read d) n, sp_proof_size = 0\<rparr>),
     writes = (\<lambda>d n. \<lparr>sp_ref_time = u64_saturating_mul (db_write d) n, sp_proof_size = 0\<rparr>),
     WEIGHT_REF_TIME_PER_SECOND = 1000000000000,
     WEIGHT_REF_TIME_PER_NANOS = 1000,
     MAX_POV_SIZE = pov\<rparr>"

lemma sp_weight_laws:
  "5 * 1024 * 1024 \<le> pov \<Longrightarrow> pov \<le> u32_MAX \<Longrightarrow> weight_laws (sp_weight_api pov)"
  by unfold_locales (simp_all add: sp_weight_api_def)

abbreviation sp_weight_5MiB :: "sp_weight weight_api" where
  "sp_weight_5MiB \<equiv> sp_weight_api (5 * 1024 * 1024)"

interpretation sp: weight_laws sp_weight_5MiB
  by (rule sp_weight_laws) (simp_all add: u32_MAX_def)

section \<open>Registries of weight functions\<close>

text \<open>
  A weight function of a pallet's \<open>WeightInfo\<close> with the ranges of its components, which the
  benchmark records in the comment above it (\<open>The range of component `c` is `[0, 1000]`\<close>).
\<close>

record 'w weight_entry =
  fn_name :: string
  components_range :: "(nat \<times> nat) list"
  weight_of :: "nat list \<Rightarrow> 'w"

definition weight_fn :: "string \<Rightarrow> (nat \<times> nat) list \<Rightarrow> (nat list \<Rightarrow> 'w) \<Rightarrow> 'w weight_entry" where
  "weight_fn n rs f = \<lparr>fn_name = n, components_range = rs, weight_of = f\<rparr>"

lemma weight_fn_sel [simp]:
  "fn_name (weight_fn n rs f) = n"
  "components_range (weight_fn n rs f) = rs"
  "weight_of (weight_fn n rs f) = f"
  by (simp_all add: weight_fn_def)

definition in_range :: "'w weight_entry \<Rightarrow> nat list \<Rightarrow> bool" where
  "in_range e xs \<longleftrightarrow> list_all2 (\<lambda>x (lo, hi). lo \<le> x \<and> x \<le> hi) xs (components_range e)"

text \<open>Every call in the benchmarked ranges stays within the two bounds.\<close>

definition entry_within :: "'w weight_api \<Rightarrow> nat \<Rightarrow> nat \<Rightarrow> 'w weight_entry \<Rightarrow> bool" where
  "entry_within W r p e \<longleftrightarrow> (\<forall>xs. in_range e xs \<longrightarrow> within_weight W (weight_of e xs) r p)"

text \<open>More work never weighs less.\<close>

definition entry_monotone :: "'w weight_api \<Rightarrow> 'w weight_entry \<Rightarrow> bool" where
  "entry_monotone W e \<longleftrightarrow>
     (\<forall>xs ys. list_all2 (\<le>) xs ys \<and> length ys = length (components_range e) \<longrightarrow>
        weight_le W (weight_of e xs) (weight_of e ys))"

lemma in_range_fn [simp]:
  "in_range (weight_fn n [] f) xs \<longleftrightarrow> xs = []"
  "in_range (weight_fn n ((lo, hi) # rs) f) xs \<longleftrightarrow>
     (\<exists>x zs. xs = x # zs \<and> lo \<le> x \<and> x \<le> hi \<and> in_range (weight_fn n rs f) zs)"
  by (auto simp: in_range_def list_all2_Cons2)

lemma entry_within0: "within_weight W (f []) r p \<Longrightarrow> entry_within W r p (weight_fn n [] f)"
  by (simp add: entry_within_def)

lemma entry_within1:
  "(\<And>x. lo \<le> x \<Longrightarrow> x \<le> hi \<Longrightarrow> within_weight W (f [x]) r p) \<Longrightarrow>
   entry_within W r p (weight_fn n [(lo, hi)] f)"
  by (auto simp: entry_within_def)

lemma entry_within2:
  "(\<And>x y. lo \<le> x \<Longrightarrow> x \<le> hi \<Longrightarrow> lo' \<le> y \<Longrightarrow> y \<le> hi' \<Longrightarrow> within_weight W (f [x, y]) r p) \<Longrightarrow>
   entry_within W r p (weight_fn n [(lo, hi), (lo', hi')] f)"
  by (auto simp: entry_within_def)

text \<open>
  The functions whose weight can exceed what a normal extrinsic may use: the teleport call, which
  the benchmark marks as unusable with a near-maximal weight, and, at the upper end of their ranges,
  the bulk migration of preimages, the dispatch of a whitelisted call and the fetching of a
  scheduled one.
\<close>

definition oversized_calls :: "string list" where
  "oversized_calls = [''pallet_preimage::ensure_updated'', ''pallet_xcm::teleport_assets'',
     ''pallet_whitelist::dispatch_whitelisted_call'', ''pallet_scheduler::service_task_fetched'']"

text \<open>The registry's functions, the oversized ones apart, stay within the two bounds.\<close>

definition registry_within :: "'w weight_api \<Rightarrow> nat \<Rightarrow> nat \<Rightarrow> 'w weight_entry list \<Rightarrow> bool" where
  "registry_within W r p es \<longleftrightarrow>
     list_all (\<lambda>e. fn_name e \<in> set oversized_calls \<or> entry_within W r p e) es"

definition registry_monotone :: "'w weight_api \<Rightarrow> 'w weight_entry list \<Rightarrow> bool" where
  "registry_monotone W es \<longleftrightarrow> list_all (entry_monotone W) es"

lemma registry_within_append [simp]:
  "registry_within W r p (es @ fs) \<longleftrightarrow> registry_within W r p es \<and> registry_within W r p fs"
  by (simp add: registry_within_def)

lemma registry_monotone_append [simp]:
  "registry_monotone W (es @ fs) \<longleftrightarrow> registry_monotone W es \<and> registry_monotone W fs"
  by (simp add: registry_monotone_def)

lemma registry_within_nil: "registry_within W r p []"
  by (simp add: registry_within_def)

lemma registry_within_cons:
  "n \<in> set oversized_calls \<or> entry_within W r p (weight_fn n rs f) \<Longrightarrow>
   registry_within W r p es \<Longrightarrow> registry_within W r p (weight_fn n rs f # es)"
  by (auto simp: registry_within_def)

lemma registry_monotone_nil: "registry_monotone W []"
  by (simp add: registry_monotone_def)

lemma registry_monotone_cons:
  "entry_monotone W e \<Longrightarrow> registry_monotone W es \<Longrightarrow> registry_monotone W (e # es)"
  by (simp add: registry_monotone_def)

lemma oversized_disj: "(\<not> n \<in> set oversized_calls \<Longrightarrow> Q) \<Longrightarrow> n \<in> set oversized_calls \<or> Q"
  by blast

lemmas fit_intros =
  registry_within_cons registry_within_nil oversized_disj
  entry_within0 entry_within1 entry_within2

lemmas fit_simps =
  oversized_calls_def list.set insert_iff simp_thms
  foldl.simps nth_Cons_0 nth_Cons_Suc One_nat_def

lemma entry_monotone0: "weight_le W (f []) (f []) \<Longrightarrow> entry_monotone W (weight_fn n [] f)"
  by (simp add: entry_monotone_def)

lemma entry_monotone1:
  "(\<And>x x'. x \<le> x' \<Longrightarrow> weight_le W (f [x]) (f [x'])) \<Longrightarrow>
   entry_monotone W (weight_fn n [r] f)"
  by (auto simp: entry_monotone_def list_all2_Cons2 length_Suc_conv)

lemma entry_monotone2:
  "(\<And>x x' y y'. x \<le> x' \<Longrightarrow> y \<le> y' \<Longrightarrow> weight_le W (f [x, y]) (f [x', y'])) \<Longrightarrow>
   entry_monotone W (weight_fn n [r, s] f)"
  by (auto simp: entry_monotone_def list_all2_Cons2 length_Suc_conv)

lemmas mono_intros =
  registry_monotone_cons registry_monotone_nil entry_monotone0 entry_monotone1 entry_monotone2

end
