(* ===== verification/Runtime_Constants.thy ===== *)
theory Runtime_Constants
  imports Frame_Weight
begin

text \<open>
  \<open>constants.rs\<close> of the two runtimes and the base weights of \<open>weights/\<close> that other parts
  read. The two \<open>constants.rs\<close> have the same text but for the existential deposit and the
  gas constants of the EVM template, so the common constants are stated once. A constant
  that depends on a cargo feature takes the features as its argument; one that is computed
  from the SDK's constants takes the weight interface. \<open>Perbill\<close> is a type of the SDK and a
  parameter, with the laws of the locale \<open>perbill_laws\<close>.
\<close>

section \<open>Perbill\<close>

record 'p perbill_api =
  from_percent :: "nat \<Rightarrow> 'p"
  from_rational :: "nat \<Rightarrow> nat \<Rightarrow> 'p"
  deconstruct :: "'p \<Rightarrow> nat"

locale perbill_laws =
  fixes P :: "'p perbill_api"
  assumes deconstruct_percent: "x \<le> 100 \<Longrightarrow> deconstruct P (from_percent P x) = x * 10000000"
    and deconstruct_rational:
      "0 < q \<Longrightarrow> p \<le> q \<Longrightarrow> deconstruct P (from_rational P p q) = p * 1000000000 div q"
begin

text \<open>A ratio is exact when the denominator divides the scaled numerator.\<close>

lemma rational_exact:
  assumes "0 < q" and "p \<le> q" and "p * 1000000000 = k * q"
  shows "deconstruct P (from_rational P p q) = k"
  using assms by (simp add: deconstruct_rational)

lemma percent_whole: "x \<le> 100 \<Longrightarrow> deconstruct P (from_percent P x) \<le> 1000000000"
  by (simp add: deconstruct_percent)

end

definition sp_perbill_api :: "nat perbill_api" where
  "sp_perbill_api = \<lparr>
     from_percent = (\<lambda>x. min x 100 * 10000000),
     from_rational = (\<lambda>p q. if q = 0 then 1000000000 else min p q * 1000000000 div q),
     deconstruct = (\<lambda>x. x)\<rparr>"

interpretation spp: perbill_laws sp_perbill_api
  by unfold_locales (simp_all add: sp_perbill_api_def)

text \<open>
  \<open>Perbill * Weight\<close>: the ratio of both parts, each rounded to a whole number, up or down.
\<close>

locale perbill_product =
  fixes P :: "'p perbill_api" and W :: "'w weight_api" and perbill_mul :: "'p \<Rightarrow> 'w \<Rightarrow> 'w"
  assumes ref_time_rounded:
      "deconstruct P p * ref_time W w < (ref_time W (perbill_mul p w) + 1) * 1000000000 \<and>
       ref_time W (perbill_mul p w) * 1000000000 < deconstruct P p * ref_time W w + 1000000000"
    and proof_size_rounded:
      "deconstruct P p * proof_size W w < (proof_size W (perbill_mul p w) + 1) * 1000000000 \<and>
       proof_size W (perbill_mul p w) * 1000000000 < deconstruct P p * proof_size W w + 1000000000"

definition sp_perbill_mul :: "nat \<Rightarrow> sp_weight \<Rightarrow> sp_weight" where
  "sp_perbill_mul p w = \<lparr>sp_ref_time = p * sp_ref_time w div 1000000000,
     sp_proof_size = p * sp_proof_size w div 1000000000\<rparr>"

lemma rounded_down:
  fixes x c :: nat
  assumes "0 < c"
  shows "x < (x div c + 1) * c" and "x div c * c < x + c"
  using div_mult_mod_eq [of x c] mod_less_divisor [OF assms, of x]
  unfolding add_mult_distrib by linarith+

interpretation spm: perbill_product sp_perbill_api "sp_weight_api pov" sp_perbill_mul
  by unfold_locales
    (simp_all add: sp_perbill_api_def sp_weight_api_def sp_perbill_mul_def
      rounded_down [of 1000000000, simplified])

section \<open>Currency\<close>

definition MICROCENTS :: u128 where [const_defs]:
  "MICROCENTS = 1000000"

definition MILLICENTS :: u128 where [const_defs]:
  "MILLICENTS = 1000000000"

definition CENTS :: u128 where [const_defs]:
  "CENTS = 1000 * MILLICENTS"

definition DOLLARS :: u128 where [const_defs]:
  "DOLLARS = 100 * CENTS"

definition GRAND :: u128 where [const_defs]:
  "GRAND = 1000 * DOLLARS"

definition evm_EXISTENTIAL_DEPOSIT :: "features \<Rightarrow> u128" where
  "evm_EXISTENTIAL_DEPOSIT F = (if runtime_benchmarks F then 1 else 0)"

definition generic_EXISTENTIAL_DEPOSIT :: u128 where
  "generic_EXISTENTIAL_DEPOSIT = MILLICENTS"

definition deposit :: "u32 \<Rightarrow> u32 \<Rightarrow> u128" where
  "deposit items bytes = ucast items * 15 * CENTS + ucast bytes * 6 * CENTS"

definition P_FACTOR :: nat where
  "P_FACTOR = 10"

definition Q_FACTOR :: nat where
  "Q_FACTOR = 100"

definition POLY_DEGREE :: nat where
  "POLY_DEGREE = 1"

section \<open>Version\<close>

text \<open>The API versions are generated with the runtime APIs and are an argument.\<close>

record 'v RuntimeVersion =
  spec_name :: string
  impl_name :: string
  authoring_version :: u32
  spec_version :: u32
  impl_version :: u32
  apis :: 'v
  transaction_version :: u32
  system_version :: u8

definition VERSION :: "'v \<Rightarrow> 'v RuntimeVersion" where
  "VERSION RUNTIME_API_VERSIONS = \<lparr>
     spec_name = ''template-parachain'',
     impl_name = ''template-parachain'',
     authoring_version = 1,
     spec_version = 1,
     impl_version = 0,
     apis = RUNTIME_API_VERSIONS,
     transaction_version = 1,
     system_version = 1\<rparr>"

text \<open>\<open>native_version\<close> of \<open>lib.rs\<close>: this version, and no other version it can author with.\<close>

record 'v NativeVersion =
  runtime_version :: "'v RuntimeVersion"
  can_author_with :: "u32 list"

definition native_version :: "'v \<Rightarrow> 'v NativeVersion" where
  "native_version RUNTIME_API_VERSIONS =
     \<lparr>runtime_version = VERSION RUNTIME_API_VERSIONS, can_author_with = []\<rparr>"

section \<open>Time\<close>

definition MILLISECS_PER_BLOCK :: "features \<Rightarrow> u64" where [const_defs]:
  "MILLISECS_PER_BLOCK F = (if async_backing F then 6000 else 12000)"

definition SLOT_DURATION :: "features \<Rightarrow> u64" where [const_defs]:
  "SLOT_DURATION F = MILLISECS_PER_BLOCK F"

definition MINUTES :: "features \<Rightarrow> u32" where [const_defs]:
  "MINUTES F = 60000 div ucast (MILLISECS_PER_BLOCK F)"

definition HOURS :: "features \<Rightarrow> u32" where [const_defs]:
  "HOURS F = MINUTES F * 60"

definition DAYS :: "features \<Rightarrow> u32" where [const_defs]:
  "DAYS F = HOURS F * 24"

section \<open>Block limits\<close>

definition AVERAGE_ON_INITIALIZE_RATIO :: "'p perbill_api \<Rightarrow> 'p" where
  "AVERAGE_ON_INITIALIZE_RATIO P = from_percent P 5"

definition NORMAL_DISPATCH_RATIO :: "'p perbill_api \<Rightarrow> 'p" where
  "NORMAL_DISPATCH_RATIO P = from_percent P 75"

definition WEIGHT_MILLISECS_PER_BLOCK :: u64 where
  "WEIGHT_MILLISECS_PER_BLOCK = 2000"

definition MAXIMUM_BLOCK_WEIGHT :: "features \<Rightarrow> 'w weight_api \<Rightarrow> 'w" where
  "MAXIMUM_BLOCK_WEIGHT F W = from_parts W
     (if async_backing F
      then u64_saturating_mul (WEIGHT_REF_TIME_PER_SECOND W) 2
      else u64_saturating_div (WEIGHT_REF_TIME_PER_SECOND W) 2)
     (MAX_POV_SIZE W)"

definition UNINCLUDED_SEGMENT_CAPACITY :: "features \<Rightarrow> nat" where
  "UNINCLUDED_SEGMENT_CAPACITY F = (if async_backing F then 3 else 1)"

definition BLOCK_PROCESSING_VELOCITY :: nat where
  "BLOCK_PROCESSING_VELOCITY = 1"

definition RELAY_CHAIN_SLOT_DURATION_MILLIS :: nat where
  "RELAY_CHAIN_SLOT_DURATION_MILLIS = 6000"

definition MAX_BLOCK_LENGTH :: u32 where
  "MAX_BLOCK_LENGTH = 5 * 1024 * 1024"

definition GAS_PER_SECOND :: nat where
  "GAS_PER_SECOND = 40000000"

definition WEIGHT_PER_GAS :: "'w weight_api \<Rightarrow> nat" where
  "WEIGHT_PER_GAS W = WEIGHT_REF_TIME_PER_SECOND W div GAS_PER_SECOND"

section \<open>Base weights\<close>

definition BlockExecutionWeight :: "'w weight_api \<Rightarrow> 'w" where
  "BlockExecutionWeight W =
     from_parts W (u64_saturating_mul (WEIGHT_REF_TIME_PER_NANOS W) 5000000) 0"

definition ExtrinsicBaseWeight :: "'w weight_api \<Rightarrow> 'w" where
  "ExtrinsicBaseWeight W =
     from_parts W (u64_saturating_mul (WEIGHT_REF_TIME_PER_NANOS W) 125000) 0"

definition RocksDbWeight :: "'w weight_api \<Rightarrow> RuntimeDbWeight" where
  "RocksDbWeight W = \<lparr>
     db_read = 25000 * WEIGHT_REF_TIME_PER_NANOS W,
     db_write = 100000 * WEIGHT_REF_TIME_PER_NANOS W\<rparr>"

definition ParityDbWeight :: "'w weight_api \<Rightarrow> RuntimeDbWeight" where
  "ParityDbWeight W = \<lparr>
     db_read = 8000 * WEIGHT_REF_TIME_PER_NANOS W,
     db_write = 50000 * WEIGHT_REF_TIME_PER_NANOS W\<rparr>"

section \<open>Values\<close>

lemma currency_values:
  "MILLICENTS = 1000000000" "CENTS = 1000000000000" "DOLLARS = 100000000000000"
  "GRAND = 100000000000000000"
  by (simp_all add: const_defs)

lemma MINUTES_value: "MINUTES F = (if async_backing F then 10 else 5)"
  by (simp add: const_defs)

context weight_laws
begin

lemma max_block_ref_time:
  "ref_time W (MAXIMUM_BLOCK_WEIGHT F W) =
     (if async_backing F then 2000000000000 else 500000000000)"
  by (simp add: MAXIMUM_BLOCK_WEIGHT_def components per_second u64_saturating_defs u64_MAX_def)

lemma max_block_proof_size: "proof_size W (MAXIMUM_BLOCK_WEIGHT F W) = MAX_POV_SIZE W"
  by (simp add: MAXIMUM_BLOCK_WEIGHT_def components)

lemma rocksdb_costs: "db_read (RocksDbWeight W) = 25000000" "db_write (RocksDbWeight W) = 100000000"
  by (simp_all add: RocksDbWeight_def per_nanos)

lemma extrinsic_base:
  "ref_time W (ExtrinsicBaseWeight W) = 125000000" "proof_size W (ExtrinsicBaseWeight W) = 0"
  by (simp_all add: ExtrinsicBaseWeight_def components per_nanos u64_saturating_defs u64_MAX_def)

lemma block_execution: "ref_time W (BlockExecutionWeight W) = 5000000000"
  by (simp add: BlockExecutionWeight_def components per_nanos u64_saturating_defs u64_MAX_def)

end

section \<open>Properties\<close>

text \<open>
  The price \<open>deposit\<close> never wraps. For every 32-bit count of items and bytes the 128-bit result is
  the mathematical price, 15 cents an item and 6 cents a byte.
\<close>

theorem deposit_exact:
  "unat (deposit items bytes) =
     unat items * 15 * unat CENTS + unat bytes * 6 * unat CENTS"
proof -
  have "unat items < 2 ^ 32" and "unat bytes < 2 ^ 32"
    using unsigned_less [of items] unsigned_less [of bytes] by simp_all
  then show ?thesis
    by (simp add: deposit_def currency_values unat_word_ariths unat_ucast_widen_32_128)
qed

text \<open>
  The block-count constants measure wall-clock time under either block time: a minute,
  an hour and a day of blocks take 60,000, 3,600,000 and 86,400,000 milliseconds at the
  slot duration the same build uses.
\<close>

theorem block_time_constants:
  "unat (MINUTES F) * unat (SLOT_DURATION F) = 60000 \<and>
   unat (HOURS F) * unat (SLOT_DURATION F) = 3600000 \<and>
   unat (DAYS F) * unat (SLOT_DURATION F) = 86400000"
  by (simp add: const_defs)

text \<open>
  The gas a block offers to normal transactions. Three quarters of the block's reference
  time, in units of \<open>WEIGHT_PER_GAS\<close>, is 15,000,000 gas, and four times as much with
  asynchronous backing, as the comment above \<open>GAS_PER_SECOND\<close> says.
\<close>

theorem block_gas_limit:
  assumes "weight_laws W" and "perbill_laws P"
  shows "ref_time W (MAXIMUM_BLOCK_WEIGHT F W) * deconstruct P (NORMAL_DISPATCH_RATIO P)
           div 1000000000 div WEIGHT_PER_GAS W =
         (if async_backing F then 60000000 else 15000000)"
proof -
  have "deconstruct P (NORMAL_DISPATCH_RATIO P) = 750000000"
    using assms(2) by (simp add: NORMAL_DISPATCH_RATIO_def perbill_laws.deconstruct_percent)
  moreover have "WEIGHT_PER_GAS W = 25000"
    using assms(1) by (simp add: WEIGHT_PER_GAS_def GAS_PER_SECOND_def weight_laws.per_second)
  ultimately show ?thesis
    using assms(1) by (simp add: weight_laws.max_block_ref_time)
qed

theorem block_gas_limit_witness:
  "ref_time sp_weight_5MiB (MAXIMUM_BLOCK_WEIGHT default_features sp_weight_5MiB) *
     deconstruct sp_perbill_api (NORMAL_DISPATCH_RATIO sp_perbill_api)
     div 1000000000 div WEIGHT_PER_GAS sp_weight_5MiB = 15000000"
  using block_gas_limit [OF sp.weight_laws_axioms spp.perbill_laws_axioms, of default_features]
  by simp

end
