(* ===== verification/Evm_Weights_System.thy ===== *)
theory Evm_Weights_System
  imports Runtime_Constants
begin

text \<open>
  The benchmarked weight functions of the evm template's runtime that \<open>SystemWeightFull\<close>
  installs: \<open>pallet_balances\<close>, \<open>pallet_multisig\<close>, \<open>cumulus_pallet_parachain_system\<close>, \<open>pallet_preimage\<close>, \<open>pallet_proxy\<close>, \<open>pallet_scheduler\<close>, \<open>pallet_timestamp\<close>, \<open>pallet_utility\<close>. Each function of a
  \<open>WeightInfo\<close> implementation is one definition over the weight interface and the runtime's
  \<open>DbWeight\<close>; each implementation is a registry of its functions with the component ranges
  the benchmark recorded. The lemmas bound every function over its whole range and show that
  it grows with its components.
\<close>

section \<open>pallet_balances\<close>

definition evm_pallet_balances_transfer_allow_death :: "'w weight_api \<Rightarrow> RuntimeDbWeight \<Rightarrow> 'w" where [weight_defs]:
  "evm_pallet_balances_transfer_allow_death W DbWeight =
     add_chain W (from_parts W 63189000 0)
     [from_parts W 0 3581,
      reads W DbWeight 1,
      writes W DbWeight 1]"

definition evm_pallet_balances_transfer_keep_alive :: "'w weight_api \<Rightarrow> RuntimeDbWeight \<Rightarrow> 'w" where [weight_defs]:
  "evm_pallet_balances_transfer_keep_alive W DbWeight =
     add_chain W (from_parts W 53612000 0)
     [from_parts W 0 3581,
      reads W DbWeight 1,
      writes W DbWeight 1]"

definition evm_pallet_balances_force_set_balance_creating :: "'w weight_api \<Rightarrow> RuntimeDbWeight \<Rightarrow> 'w" where [weight_defs]:
  "evm_pallet_balances_force_set_balance_creating W DbWeight =
     add_chain W (from_parts W 21126000 0)
     [from_parts W 0 3581,
      reads W DbWeight 1,
      writes W DbWeight 1]"

definition evm_pallet_balances_force_set_balance_killing :: "'w weight_api \<Rightarrow> RuntimeDbWeight \<Rightarrow> 'w" where [weight_defs]:
  "evm_pallet_balances_force_set_balance_killing W DbWeight =
     add_chain W (from_parts W 28755000 0)
     [from_parts W 0 3581,
      reads W DbWeight 1,
      writes W DbWeight 1]"

definition evm_pallet_balances_force_transfer :: "'w weight_api \<Rightarrow> RuntimeDbWeight \<Rightarrow> 'w" where [weight_defs]:
  "evm_pallet_balances_force_transfer W DbWeight =
     add_chain W (from_parts W 67063000 0)
     [from_parts W 0 6172,
      reads W DbWeight 2,
      writes W DbWeight 2]"

definition evm_pallet_balances_transfer_all :: "'w weight_api \<Rightarrow> RuntimeDbWeight \<Rightarrow> 'w" where [weight_defs]:
  "evm_pallet_balances_transfer_all W DbWeight =
     add_chain W (from_parts W 66876000 0)
     [from_parts W 0 3581,
      reads W DbWeight 1,
      writes W DbWeight 1]"

definition evm_pallet_balances_force_unreserve :: "'w weight_api \<Rightarrow> RuntimeDbWeight \<Rightarrow> 'w" where [weight_defs]:
  "evm_pallet_balances_force_unreserve W DbWeight =
     add_chain W (from_parts W 25216000 0)
     [from_parts W 0 3581,
      reads W DbWeight 1,
      writes W DbWeight 1]"

definition evm_pallet_balances_upgrade_accounts :: "'w weight_api \<Rightarrow> RuntimeDbWeight \<Rightarrow> nat \<Rightarrow> 'w" where [weight_defs]:
  "evm_pallet_balances_upgrade_accounts W DbWeight u =
     add_chain W (from_parts W 22690000 0)
     [from_parts W 0 990,
      saturating_mul W (from_parts W 17673400 0) u,
      reads W DbWeight (u64_saturating_mul 1 u),
      writes W DbWeight (u64_saturating_mul 1 u),
      saturating_mul W (from_parts W 0 2591) u]"

definition evm_pallet_balances_force_adjust_total_issuance :: "'w weight_api \<Rightarrow> RuntimeDbWeight \<Rightarrow> 'w" where [weight_defs]:
  "evm_pallet_balances_force_adjust_total_issuance W DbWeight =
     add_chain W (from_parts W 7995000 0)
     [from_parts W 0 0]"

definition evm_pallet_balances_burn_allow_death :: "'w weight_api \<Rightarrow> RuntimeDbWeight \<Rightarrow> 'w" where [weight_defs]:
  "evm_pallet_balances_burn_allow_death W DbWeight =
     add_chain W (from_parts W 38549000 0)
     [from_parts W 0 0]"

definition evm_pallet_balances_burn_keep_alive :: "'w weight_api \<Rightarrow> RuntimeDbWeight \<Rightarrow> 'w" where [weight_defs]:
  "evm_pallet_balances_burn_keep_alive W DbWeight =
     add_chain W (from_parts W 28727000 0)
     [from_parts W 0 0]"

definition evm_pallet_balances_WeightInfo :: "'w weight_api \<Rightarrow> RuntimeDbWeight \<Rightarrow> 'w weight_entry list" where
  "evm_pallet_balances_WeightInfo W DbWeight = [
     weight_fn ''pallet_balances::transfer_allow_death'' []
       (\<lambda>c. evm_pallet_balances_transfer_allow_death W DbWeight),
     weight_fn ''pallet_balances::transfer_keep_alive'' []
       (\<lambda>c. evm_pallet_balances_transfer_keep_alive W DbWeight),
     weight_fn ''pallet_balances::force_set_balance_creating'' []
       (\<lambda>c. evm_pallet_balances_force_set_balance_creating W DbWeight),
     weight_fn ''pallet_balances::force_set_balance_killing'' []
       (\<lambda>c. evm_pallet_balances_force_set_balance_killing W DbWeight),
     weight_fn ''pallet_balances::force_transfer'' []
       (\<lambda>c. evm_pallet_balances_force_transfer W DbWeight),
     weight_fn ''pallet_balances::transfer_all'' []
       (\<lambda>c. evm_pallet_balances_transfer_all W DbWeight),
     weight_fn ''pallet_balances::force_unreserve'' []
       (\<lambda>c. evm_pallet_balances_force_unreserve W DbWeight),
     weight_fn ''pallet_balances::upgrade_accounts'' [(1, 1000)]
       (\<lambda>c. evm_pallet_balances_upgrade_accounts W DbWeight (c ! 0)),
     weight_fn ''pallet_balances::force_adjust_total_issuance'' []
       (\<lambda>c. evm_pallet_balances_force_adjust_total_issuance W DbWeight),
     weight_fn ''pallet_balances::burn_allow_death'' []
       (\<lambda>c. evm_pallet_balances_burn_allow_death W DbWeight),
     weight_fn ''pallet_balances::burn_keep_alive'' []
       (\<lambda>c. evm_pallet_balances_burn_keep_alive W DbWeight)]"

section \<open>pallet_multisig\<close>

definition evm_pallet_multisig_as_multi_threshold_1 :: "'w weight_api \<Rightarrow> RuntimeDbWeight \<Rightarrow> nat \<Rightarrow> 'w" where [weight_defs]:
  "evm_pallet_multisig_as_multi_threshold_1 W DbWeight z =
     add_chain W (from_parts W 14912008 0)
     [from_parts W 0 0,
      saturating_mul W (from_parts W 540 0) z]"

definition evm_pallet_multisig_as_multi_create :: "'w weight_api \<Rightarrow> RuntimeDbWeight \<Rightarrow> nat \<Rightarrow> nat \<Rightarrow> 'w" where [weight_defs]:
  "evm_pallet_multisig_as_multi_create W DbWeight s z =
     add_chain W (from_parts W 42976039 0)
     [from_parts W 0 5587,
      saturating_mul W (from_parts W 129757 0) s,
      saturating_mul W (from_parts W 1439 0) z,
      reads W DbWeight 1,
      writes W DbWeight 1]"

definition evm_pallet_multisig_as_multi_approve :: "'w weight_api \<Rightarrow> RuntimeDbWeight \<Rightarrow> nat \<Rightarrow> nat \<Rightarrow> 'w" where [weight_defs]:
  "evm_pallet_multisig_as_multi_approve W DbWeight s z =
     add_chain W (from_parts W 22621718 0)
     [from_parts W 0 5587,
      saturating_mul W (from_parts W 109986 0) s,
      saturating_mul W (from_parts W 1409 0) z,
      reads W DbWeight 1,
      writes W DbWeight 1]"

definition evm_pallet_multisig_as_multi_complete :: "'w weight_api \<Rightarrow> RuntimeDbWeight \<Rightarrow> nat \<Rightarrow> nat \<Rightarrow> 'w" where [weight_defs]:
  "evm_pallet_multisig_as_multi_complete W DbWeight s z =
     add_chain W (from_parts W 45696228 0)
     [from_parts W 0 5587,
      saturating_mul W (from_parts W 161680 0) s,
      saturating_mul W (from_parts W 1471 0) z,
      reads W DbWeight 2,
      writes W DbWeight 2]"

definition evm_pallet_multisig_approve_as_multi_create :: "'w weight_api \<Rightarrow> RuntimeDbWeight \<Rightarrow> nat \<Rightarrow> 'w" where [weight_defs]:
  "evm_pallet_multisig_approve_as_multi_create W DbWeight s =
     add_chain W (from_parts W 41654965 0)
     [from_parts W 0 5587,
      saturating_mul W (from_parts W 130089 0) s,
      reads W DbWeight 1,
      writes W DbWeight 1]"

definition evm_pallet_multisig_approve_as_multi_approve :: "'w weight_api \<Rightarrow> RuntimeDbWeight \<Rightarrow> nat \<Rightarrow> 'w" where [weight_defs]:
  "evm_pallet_multisig_approve_as_multi_approve W DbWeight s =
     add_chain W (from_parts W 20758744 0)
     [from_parts W 0 5587,
      saturating_mul W (from_parts W 115357 0) s,
      reads W DbWeight 1,
      writes W DbWeight 1]"

definition evm_pallet_multisig_cancel_as_multi :: "'w weight_api \<Rightarrow> RuntimeDbWeight \<Rightarrow> nat \<Rightarrow> 'w" where [weight_defs]:
  "evm_pallet_multisig_cancel_as_multi W DbWeight s =
     add_chain W (from_parts W 41358952 0)
     [from_parts W 0 5587,
      saturating_mul W (from_parts W 119095 0) s,
      reads W DbWeight 1,
      writes W DbWeight 1]"

definition evm_pallet_multisig_poke_deposit :: "'w weight_api \<Rightarrow> RuntimeDbWeight \<Rightarrow> nat \<Rightarrow> 'w" where [weight_defs]:
  "evm_pallet_multisig_poke_deposit W DbWeight s =
     add_chain W (from_parts W 31338818 0)
     [from_parts W 0 6811,
      saturating_mul W (from_parts W 147032 0) s,
      reads W DbWeight 1,
      writes W DbWeight 1]"

definition evm_pallet_multisig_WeightInfo :: "'w weight_api \<Rightarrow> RuntimeDbWeight \<Rightarrow> 'w weight_entry list" where
  "evm_pallet_multisig_WeightInfo W DbWeight = [
     weight_fn ''pallet_multisig::as_multi_threshold_1'' [(0, 10000)]
       (\<lambda>c. evm_pallet_multisig_as_multi_threshold_1 W DbWeight (c ! 0)),
     weight_fn ''pallet_multisig::as_multi_create'' [(2, 100), (0, 10000)]
       (\<lambda>c. evm_pallet_multisig_as_multi_create W DbWeight (c ! 0) (c ! 1)),
     weight_fn ''pallet_multisig::as_multi_approve'' [(3, 100), (0, 10000)]
       (\<lambda>c. evm_pallet_multisig_as_multi_approve W DbWeight (c ! 0) (c ! 1)),
     weight_fn ''pallet_multisig::as_multi_complete'' [(2, 100), (0, 10000)]
       (\<lambda>c. evm_pallet_multisig_as_multi_complete W DbWeight (c ! 0) (c ! 1)),
     weight_fn ''pallet_multisig::approve_as_multi_create'' [(2, 100)]
       (\<lambda>c. evm_pallet_multisig_approve_as_multi_create W DbWeight (c ! 0)),
     weight_fn ''pallet_multisig::approve_as_multi_approve'' [(2, 100)]
       (\<lambda>c. evm_pallet_multisig_approve_as_multi_approve W DbWeight (c ! 0)),
     weight_fn ''pallet_multisig::cancel_as_multi'' [(2, 100)]
       (\<lambda>c. evm_pallet_multisig_cancel_as_multi W DbWeight (c ! 0)),
     weight_fn ''pallet_multisig::poke_deposit'' [(2, 100)]
       (\<lambda>c. evm_pallet_multisig_poke_deposit W DbWeight (c ! 0))]"

section \<open>cumulus_pallet_parachain_system\<close>

definition evm_cumulus_pallet_parachain_system_enqueue_inbound_downward_messages :: "'w weight_api \<Rightarrow> RuntimeDbWeight \<Rightarrow> nat \<Rightarrow> 'w" where [weight_defs]:
  "evm_cumulus_pallet_parachain_system_enqueue_inbound_downward_messages W DbWeight n =
     add_chain W (from_parts W 3763000 0)
     [from_parts W 0 3517,
      saturating_mul W (from_parts W 187328725 0) n,
      reads W DbWeight 3,
      writes W DbWeight 4,
      writes W DbWeight (u64_saturating_mul 1 n)]"

definition evm_cumulus_pallet_parachain_system_WeightInfo :: "'w weight_api \<Rightarrow> RuntimeDbWeight \<Rightarrow> 'w weight_entry list" where
  "evm_cumulus_pallet_parachain_system_WeightInfo W DbWeight = [
     weight_fn ''cumulus_pallet_parachain_system::enqueue_inbound_downward_messages'' [(0, 1000)]
       (\<lambda>c. evm_cumulus_pallet_parachain_system_enqueue_inbound_downward_messages W DbWeight (c ! 0))]"

section \<open>pallet_preimage\<close>

definition evm_pallet_preimage_note_preimage :: "'w weight_api \<Rightarrow> RuntimeDbWeight \<Rightarrow> nat \<Rightarrow> 'w" where [weight_defs]:
  "evm_pallet_preimage_note_preimage W DbWeight s =
     add_chain W (from_parts W 66334000 0)
     [from_parts W 0 3544,
      saturating_mul W (from_parts W 2497 0) s,
      reads W DbWeight 3,
      writes W DbWeight 3]"

definition evm_pallet_preimage_note_requested_preimage :: "'w weight_api \<Rightarrow> RuntimeDbWeight \<Rightarrow> nat \<Rightarrow> 'w" where [weight_defs]:
  "evm_pallet_preimage_note_requested_preimage W DbWeight s =
     add_chain W (from_parts W 19741000 0)
     [from_parts W 0 3544,
      saturating_mul W (from_parts W 2502 0) s,
      reads W DbWeight 2,
      writes W DbWeight 2]"

definition evm_pallet_preimage_note_no_deposit_preimage :: "'w weight_api \<Rightarrow> RuntimeDbWeight \<Rightarrow> nat \<Rightarrow> 'w" where [weight_defs]:
  "evm_pallet_preimage_note_no_deposit_preimage W DbWeight s =
     add_chain W (from_parts W 20189000 0)
     [from_parts W 0 3544,
      saturating_mul W (from_parts W 2493 0) s,
      reads W DbWeight 2,
      writes W DbWeight 2]"

definition evm_pallet_preimage_unnote_preimage :: "'w weight_api \<Rightarrow> RuntimeDbWeight \<Rightarrow> 'w" where [weight_defs]:
  "evm_pallet_preimage_unnote_preimage W DbWeight =
     add_chain W (from_parts W 78824000 0)
     [from_parts W 0 3544,
      reads W DbWeight 3,
      writes W DbWeight 3]"

definition evm_pallet_preimage_unnote_no_deposit_preimage :: "'w weight_api \<Rightarrow> RuntimeDbWeight \<Rightarrow> 'w" where [weight_defs]:
  "evm_pallet_preimage_unnote_no_deposit_preimage W DbWeight =
     add_chain W (from_parts W 48201000 0)
     [from_parts W 0 3544,
      reads W DbWeight 2,
      writes W DbWeight 2]"

definition evm_pallet_preimage_request_preimage :: "'w weight_api \<Rightarrow> RuntimeDbWeight \<Rightarrow> 'w" where [weight_defs]:
  "evm_pallet_preimage_request_preimage W DbWeight =
     add_chain W (from_parts W 33624000 0)
     [from_parts W 0 3544,
      reads W DbWeight 2,
      writes W DbWeight 1]"

definition evm_pallet_preimage_request_no_deposit_preimage :: "'w weight_api \<Rightarrow> RuntimeDbWeight \<Rightarrow> 'w" where [weight_defs]:
  "evm_pallet_preimage_request_no_deposit_preimage W DbWeight =
     add_chain W (from_parts W 26740000 0)
     [from_parts W 0 3544,
      reads W DbWeight 2,
      writes W DbWeight 1]"

definition evm_pallet_preimage_request_unnoted_preimage :: "'w weight_api \<Rightarrow> RuntimeDbWeight \<Rightarrow> 'w" where [weight_defs]:
  "evm_pallet_preimage_request_unnoted_preimage W DbWeight =
     add_chain W (from_parts W 22292000 0)
     [from_parts W 0 3544,
      reads W DbWeight 2,
      writes W DbWeight 1]"

definition evm_pallet_preimage_request_requested_preimage :: "'w weight_api \<Rightarrow> RuntimeDbWeight \<Rightarrow> 'w" where [weight_defs]:
  "evm_pallet_preimage_request_requested_preimage W DbWeight =
     add_chain W (from_parts W 14224000 0)
     [from_parts W 0 3544,
      reads W DbWeight 2,
      writes W DbWeight 1]"

definition evm_pallet_preimage_unrequest_preimage :: "'w weight_api \<Rightarrow> RuntimeDbWeight \<Rightarrow> 'w" where [weight_defs]:
  "evm_pallet_preimage_unrequest_preimage W DbWeight =
     add_chain W (from_parts W 32382000 0)
     [from_parts W 0 3544,
      reads W DbWeight 2,
      writes W DbWeight 2]"

definition evm_pallet_preimage_unrequest_unnoted_preimage :: "'w weight_api \<Rightarrow> RuntimeDbWeight \<Rightarrow> 'w" where [weight_defs]:
  "evm_pallet_preimage_unrequest_unnoted_preimage W DbWeight =
     add_chain W (from_parts W 15819000 0)
     [from_parts W 0 3544,
      reads W DbWeight 2,
      writes W DbWeight 1]"

definition evm_pallet_preimage_unrequest_multi_referenced_preimage :: "'w weight_api \<Rightarrow> RuntimeDbWeight \<Rightarrow> 'w" where [weight_defs]:
  "evm_pallet_preimage_unrequest_multi_referenced_preimage W DbWeight =
     add_chain W (from_parts W 14447000 0)
     [from_parts W 0 3544,
      reads W DbWeight 2,
      writes W DbWeight 1]"

definition evm_pallet_preimage_ensure_updated :: "'w weight_api \<Rightarrow> RuntimeDbWeight \<Rightarrow> nat \<Rightarrow> 'w" where [weight_defs]:
  "evm_pallet_preimage_ensure_updated W DbWeight n =
     add_chain W (from_parts W 75730000 0)
     [from_parts W 0 990,
      saturating_mul W (from_parts W 73334343 0) n,
      reads W DbWeight (u64_saturating_mul 3 n),
      writes W DbWeight (u64_saturating_mul 4 n),
      saturating_mul W (from_parts W 0 2591) n]"

definition evm_pallet_preimage_WeightInfo :: "'w weight_api \<Rightarrow> RuntimeDbWeight \<Rightarrow> 'w weight_entry list" where
  "evm_pallet_preimage_WeightInfo W DbWeight = [
     weight_fn ''pallet_preimage::note_preimage'' [(0, 4194304)]
       (\<lambda>c. evm_pallet_preimage_note_preimage W DbWeight (c ! 0)),
     weight_fn ''pallet_preimage::note_requested_preimage'' [(0, 4194304)]
       (\<lambda>c. evm_pallet_preimage_note_requested_preimage W DbWeight (c ! 0)),
     weight_fn ''pallet_preimage::note_no_deposit_preimage'' [(0, 4194304)]
       (\<lambda>c. evm_pallet_preimage_note_no_deposit_preimage W DbWeight (c ! 0)),
     weight_fn ''pallet_preimage::unnote_preimage'' []
       (\<lambda>c. evm_pallet_preimage_unnote_preimage W DbWeight),
     weight_fn ''pallet_preimage::unnote_no_deposit_preimage'' []
       (\<lambda>c. evm_pallet_preimage_unnote_no_deposit_preimage W DbWeight),
     weight_fn ''pallet_preimage::request_preimage'' []
       (\<lambda>c. evm_pallet_preimage_request_preimage W DbWeight),
     weight_fn ''pallet_preimage::request_no_deposit_preimage'' []
       (\<lambda>c. evm_pallet_preimage_request_no_deposit_preimage W DbWeight),
     weight_fn ''pallet_preimage::request_unnoted_preimage'' []
       (\<lambda>c. evm_pallet_preimage_request_unnoted_preimage W DbWeight),
     weight_fn ''pallet_preimage::request_requested_preimage'' []
       (\<lambda>c. evm_pallet_preimage_request_requested_preimage W DbWeight),
     weight_fn ''pallet_preimage::unrequest_preimage'' []
       (\<lambda>c. evm_pallet_preimage_unrequest_preimage W DbWeight),
     weight_fn ''pallet_preimage::unrequest_unnoted_preimage'' []
       (\<lambda>c. evm_pallet_preimage_unrequest_unnoted_preimage W DbWeight),
     weight_fn ''pallet_preimage::unrequest_multi_referenced_preimage'' []
       (\<lambda>c. evm_pallet_preimage_unrequest_multi_referenced_preimage W DbWeight),
     weight_fn ''pallet_preimage::ensure_updated'' [(1, 1024)]
       (\<lambda>c. evm_pallet_preimage_ensure_updated W DbWeight (c ! 0))]"

section \<open>pallet_proxy\<close>

definition evm_pallet_proxy_proxy :: "'w weight_api \<Rightarrow> RuntimeDbWeight \<Rightarrow> nat \<Rightarrow> 'w" where [weight_defs]:
  "evm_pallet_proxy_proxy W DbWeight p =
     add_chain W (from_parts W 17074088 0)
     [from_parts W 0 4310,
      saturating_mul W (from_parts W 39345 0) p,
      reads W DbWeight 1]"

definition evm_pallet_proxy_proxy_announced :: "'w weight_api \<Rightarrow> RuntimeDbWeight \<Rightarrow> nat \<Rightarrow> nat \<Rightarrow> 'w" where [weight_defs]:
  "evm_pallet_proxy_proxy_announced W DbWeight a p =
     add_chain W (from_parts W 44855544 0)
     [from_parts W 0 5302,
      saturating_mul W (from_parts W 197416 0) a,
      saturating_mul W (from_parts W 31306 0) p,
      reads W DbWeight 3,
      writes W DbWeight 2]"

definition evm_pallet_proxy_remove_announcement :: "'w weight_api \<Rightarrow> RuntimeDbWeight \<Rightarrow> nat \<Rightarrow> nat \<Rightarrow> 'w" where [weight_defs]:
  "evm_pallet_proxy_remove_announcement W DbWeight a p =
     add_chain W (from_parts W 31668668 0)
     [from_parts W 0 5302,
      saturating_mul W (from_parts W 193564 0) a,
      saturating_mul W (from_parts W 4705 0) p,
      reads W DbWeight 2,
      writes W DbWeight 2]"

definition evm_pallet_proxy_reject_announcement :: "'w weight_api \<Rightarrow> RuntimeDbWeight \<Rightarrow> nat \<Rightarrow> nat \<Rightarrow> 'w" where [weight_defs]:
  "evm_pallet_proxy_reject_announcement W DbWeight a p =
     add_chain W (from_parts W 31622605 0)
     [from_parts W 0 5302,
      saturating_mul W (from_parts W 188840 0) a,
      saturating_mul W (from_parts W 6966 0) p,
      reads W DbWeight 2,
      writes W DbWeight 2]"

definition evm_pallet_proxy_announce :: "'w weight_api \<Rightarrow> RuntimeDbWeight \<Rightarrow> nat \<Rightarrow> nat \<Rightarrow> 'w" where [weight_defs]:
  "evm_pallet_proxy_announce W DbWeight a p =
     add_chain W (from_parts W 40325236 0)
     [from_parts W 0 5302,
      saturating_mul W (from_parts W 198890 0) a,
      saturating_mul W (from_parts W 41350 0) p,
      reads W DbWeight 3,
      writes W DbWeight 2]"

definition evm_pallet_proxy_add_proxy :: "'w weight_api \<Rightarrow> RuntimeDbWeight \<Rightarrow> nat \<Rightarrow> 'w" where [weight_defs]:
  "evm_pallet_proxy_add_proxy W DbWeight p =
     add_chain W (from_parts W 31870039 0)
     [from_parts W 0 4310,
      saturating_mul W (from_parts W 35621 0) p,
      reads W DbWeight 1,
      writes W DbWeight 1]"

definition evm_pallet_proxy_remove_proxy :: "'w weight_api \<Rightarrow> RuntimeDbWeight \<Rightarrow> nat \<Rightarrow> 'w" where [weight_defs]:
  "evm_pallet_proxy_remove_proxy W DbWeight p =
     add_chain W (from_parts W 31985094 0)
     [from_parts W 0 4310,
      saturating_mul W (from_parts W 42697 0) p,
      reads W DbWeight 1,
      writes W DbWeight 1]"

definition evm_pallet_proxy_remove_proxies :: "'w weight_api \<Rightarrow> RuntimeDbWeight \<Rightarrow> nat \<Rightarrow> 'w" where [weight_defs]:
  "evm_pallet_proxy_remove_proxies W DbWeight p =
     add_chain W (from_parts W 28687639 0)
     [from_parts W 0 4310,
      saturating_mul W (from_parts W 33540 0) p,
      reads W DbWeight 1,
      writes W DbWeight 1]"

definition evm_pallet_proxy_create_pure :: "'w weight_api \<Rightarrow> RuntimeDbWeight \<Rightarrow> nat \<Rightarrow> 'w" where [weight_defs]:
  "evm_pallet_proxy_create_pure W DbWeight p =
     add_chain W (from_parts W 33926573 0)
     [from_parts W 0 4310,
      saturating_mul W (from_parts W 16721 0) p,
      reads W DbWeight 1,
      writes W DbWeight 1]"

definition evm_pallet_proxy_kill_pure :: "'w weight_api \<Rightarrow> RuntimeDbWeight \<Rightarrow> nat \<Rightarrow> 'w" where [weight_defs]:
  "evm_pallet_proxy_kill_pure W DbWeight p =
     add_chain W (from_parts W 29875461 0)
     [from_parts W 0 4310,
      saturating_mul W (from_parts W 29426 0) p,
      reads W DbWeight 1,
      writes W DbWeight 1]"

definition evm_pallet_proxy_poke_deposit :: "'w weight_api \<Rightarrow> RuntimeDbWeight \<Rightarrow> 'w" where [weight_defs]:
  "evm_pallet_proxy_poke_deposit W DbWeight =
     add_chain W (from_parts W 48694000 0)
     [from_parts W 0 5698,
      reads W DbWeight 3,
      writes W DbWeight 3]"

definition evm_pallet_proxy_WeightInfo :: "'w weight_api \<Rightarrow> RuntimeDbWeight \<Rightarrow> 'w weight_entry list" where
  "evm_pallet_proxy_WeightInfo W DbWeight = [
     weight_fn ''pallet_proxy::proxy'' [(1, 31)]
       (\<lambda>c. evm_pallet_proxy_proxy W DbWeight (c ! 0)),
     weight_fn ''pallet_proxy::proxy_announced'' [(0, 31), (1, 31)]
       (\<lambda>c. evm_pallet_proxy_proxy_announced W DbWeight (c ! 0) (c ! 1)),
     weight_fn ''pallet_proxy::remove_announcement'' [(0, 31), (1, 31)]
       (\<lambda>c. evm_pallet_proxy_remove_announcement W DbWeight (c ! 0) (c ! 1)),
     weight_fn ''pallet_proxy::reject_announcement'' [(0, 31), (1, 31)]
       (\<lambda>c. evm_pallet_proxy_reject_announcement W DbWeight (c ! 0) (c ! 1)),
     weight_fn ''pallet_proxy::announce'' [(0, 31), (1, 31)]
       (\<lambda>c. evm_pallet_proxy_announce W DbWeight (c ! 0) (c ! 1)),
     weight_fn ''pallet_proxy::add_proxy'' [(1, 31)]
       (\<lambda>c. evm_pallet_proxy_add_proxy W DbWeight (c ! 0)),
     weight_fn ''pallet_proxy::remove_proxy'' [(1, 31)]
       (\<lambda>c. evm_pallet_proxy_remove_proxy W DbWeight (c ! 0)),
     weight_fn ''pallet_proxy::remove_proxies'' [(1, 31)]
       (\<lambda>c. evm_pallet_proxy_remove_proxies W DbWeight (c ! 0)),
     weight_fn ''pallet_proxy::create_pure'' [(1, 31)]
       (\<lambda>c. evm_pallet_proxy_create_pure W DbWeight (c ! 0)),
     weight_fn ''pallet_proxy::kill_pure'' [(0, 30)]
       (\<lambda>c. evm_pallet_proxy_kill_pure W DbWeight (c ! 0)),
     weight_fn ''pallet_proxy::poke_deposit'' []
       (\<lambda>c. evm_pallet_proxy_poke_deposit W DbWeight)]"

section \<open>pallet_scheduler\<close>

definition evm_pallet_scheduler_service_agendas_base :: "'w weight_api \<Rightarrow> RuntimeDbWeight \<Rightarrow> 'w" where [weight_defs]:
  "evm_pallet_scheduler_service_agendas_base W DbWeight =
     add_chain W (from_parts W 4316000 0)
     [from_parts W 0 1489,
      reads W DbWeight 1,
      writes W DbWeight 1]"

definition evm_pallet_scheduler_service_agenda_base :: "'w weight_api \<Rightarrow> RuntimeDbWeight \<Rightarrow> nat \<Rightarrow> 'w" where [weight_defs]:
  "evm_pallet_scheduler_service_agenda_base W DbWeight s =
     add_chain W (from_parts W 8545493 0)
     [from_parts W 0 42428,
      saturating_mul W (from_parts W 452933 0) s,
      reads W DbWeight 1,
      writes W DbWeight 1]"

definition evm_pallet_scheduler_service_task_base :: "'w weight_api \<Rightarrow> RuntimeDbWeight \<Rightarrow> 'w" where [weight_defs]:
  "evm_pallet_scheduler_service_task_base W DbWeight =
     add_chain W (from_parts W 4540000 0)
     [from_parts W 0 0]"

definition evm_pallet_scheduler_service_task_fetched :: "'w weight_api \<Rightarrow> RuntimeDbWeight \<Rightarrow> nat \<Rightarrow> 'w" where [weight_defs]:
  "evm_pallet_scheduler_service_task_fetched W DbWeight s =
     add_chain W (from_parts W 24334000 0)
     [from_parts W 0 4197809,
      saturating_mul W (from_parts W 1242 0) s,
      reads W DbWeight 3,
      writes W DbWeight 2]"

definition evm_pallet_scheduler_service_task_named :: "'w weight_api \<Rightarrow> RuntimeDbWeight \<Rightarrow> 'w" where [weight_defs]:
  "evm_pallet_scheduler_service_task_named W DbWeight =
     add_chain W (from_parts W 6611000 0)
     [from_parts W 0 0,
      writes W DbWeight 1]"

definition evm_pallet_scheduler_service_task_periodic :: "'w weight_api \<Rightarrow> RuntimeDbWeight \<Rightarrow> 'w" where [weight_defs]:
  "evm_pallet_scheduler_service_task_periodic W DbWeight =
     add_chain W (from_parts W 4498000 0)
     [from_parts W 0 0]"

definition evm_pallet_scheduler_execute_dispatch_signed :: "'w weight_api \<Rightarrow> RuntimeDbWeight \<Rightarrow> 'w" where [weight_defs]:
  "evm_pallet_scheduler_execute_dispatch_signed W DbWeight =
     add_chain W (from_parts W 3088000 0)
     [from_parts W 0 0]"

definition evm_pallet_scheduler_execute_dispatch_unsigned :: "'w weight_api \<Rightarrow> RuntimeDbWeight \<Rightarrow> 'w" where [weight_defs]:
  "evm_pallet_scheduler_execute_dispatch_unsigned W DbWeight =
     add_chain W (from_parts W 3057000 0)
     [from_parts W 0 0]"

definition evm_pallet_scheduler_schedule :: "'w weight_api \<Rightarrow> RuntimeDbWeight \<Rightarrow> nat \<Rightarrow> 'w" where [weight_defs]:
  "evm_pallet_scheduler_schedule W DbWeight s =
     add_chain W (from_parts W 16900465 0)
     [from_parts W 0 42428,
      saturating_mul W (from_parts W 482559 0) s,
      reads W DbWeight 1,
      writes W DbWeight 1]"

definition evm_pallet_scheduler_cancel :: "'w weight_api \<Rightarrow> RuntimeDbWeight \<Rightarrow> nat \<Rightarrow> 'w" where [weight_defs]:
  "evm_pallet_scheduler_cancel W DbWeight s =
     add_chain W (from_parts W 20258706 0)
     [from_parts W 0 42428,
      saturating_mul W (from_parts W 723998 0) s,
      reads W DbWeight 1,
      writes W DbWeight 3]"

definition evm_pallet_scheduler_schedule_named :: "'w weight_api \<Rightarrow> RuntimeDbWeight \<Rightarrow> nat \<Rightarrow> 'w" where [weight_defs]:
  "evm_pallet_scheduler_schedule_named W DbWeight s =
     add_chain W (from_parts W 22784521 0)
     [from_parts W 0 42428,
      saturating_mul W (from_parts W 505990 0) s,
      reads W DbWeight 2,
      writes W DbWeight 2]"

definition evm_pallet_scheduler_cancel_named :: "'w weight_api \<Rightarrow> RuntimeDbWeight \<Rightarrow> nat \<Rightarrow> 'w" where [weight_defs]:
  "evm_pallet_scheduler_cancel_named W DbWeight s =
     add_chain W (from_parts W 24029398 0)
     [from_parts W 0 42428,
      saturating_mul W (from_parts W 756072 0) s,
      reads W DbWeight 2,
      writes W DbWeight 3]"

definition evm_pallet_scheduler_schedule_retry :: "'w weight_api \<Rightarrow> RuntimeDbWeight \<Rightarrow> nat \<Rightarrow> 'w" where [weight_defs]:
  "evm_pallet_scheduler_schedule_retry W DbWeight s =
     add_chain W (from_parts W 13470926 0)
     [from_parts W 0 42428,
      saturating_mul W (from_parts W 36449 0) s,
      reads W DbWeight 1,
      writes W DbWeight 2]"

definition evm_pallet_scheduler_set_retry :: "'w weight_api \<Rightarrow> RuntimeDbWeight \<Rightarrow> 'w" where [weight_defs]:
  "evm_pallet_scheduler_set_retry W DbWeight =
     add_chain W (from_parts W 33359000 0)
     [from_parts W 0 42428,
      reads W DbWeight 1,
      writes W DbWeight 1]"

definition evm_pallet_scheduler_set_retry_named :: "'w weight_api \<Rightarrow> RuntimeDbWeight \<Rightarrow> 'w" where [weight_defs]:
  "evm_pallet_scheduler_set_retry_named W DbWeight =
     add_chain W (from_parts W 40180000 0)
     [from_parts W 0 42428,
      reads W DbWeight 2,
      writes W DbWeight 1]"

definition evm_pallet_scheduler_cancel_retry :: "'w weight_api \<Rightarrow> RuntimeDbWeight \<Rightarrow> 'w" where [weight_defs]:
  "evm_pallet_scheduler_cancel_retry W DbWeight =
     add_chain W (from_parts W 31772000 0)
     [from_parts W 0 42428,
      reads W DbWeight 1,
      writes W DbWeight 1]"

definition evm_pallet_scheduler_cancel_retry_named :: "'w weight_api \<Rightarrow> RuntimeDbWeight \<Rightarrow> 'w" where [weight_defs]:
  "evm_pallet_scheduler_cancel_retry_named W DbWeight =
     add_chain W (from_parts W 39050000 0)
     [from_parts W 0 42428,
      reads W DbWeight 2,
      writes W DbWeight 1]"

definition evm_pallet_scheduler_WeightInfo :: "'w weight_api \<Rightarrow> RuntimeDbWeight \<Rightarrow> 'w weight_entry list" where
  "evm_pallet_scheduler_WeightInfo W DbWeight = [
     weight_fn ''pallet_scheduler::service_agendas_base'' []
       (\<lambda>c. evm_pallet_scheduler_service_agendas_base W DbWeight),
     weight_fn ''pallet_scheduler::service_agenda_base'' [(0, 50)]
       (\<lambda>c. evm_pallet_scheduler_service_agenda_base W DbWeight (c ! 0)),
     weight_fn ''pallet_scheduler::service_task_base'' []
       (\<lambda>c. evm_pallet_scheduler_service_task_base W DbWeight),
     weight_fn ''pallet_scheduler::service_task_fetched'' [(128, 4194304)]
       (\<lambda>c. evm_pallet_scheduler_service_task_fetched W DbWeight (c ! 0)),
     weight_fn ''pallet_scheduler::service_task_named'' []
       (\<lambda>c. evm_pallet_scheduler_service_task_named W DbWeight),
     weight_fn ''pallet_scheduler::service_task_periodic'' []
       (\<lambda>c. evm_pallet_scheduler_service_task_periodic W DbWeight),
     weight_fn ''pallet_scheduler::execute_dispatch_signed'' []
       (\<lambda>c. evm_pallet_scheduler_execute_dispatch_signed W DbWeight),
     weight_fn ''pallet_scheduler::execute_dispatch_unsigned'' []
       (\<lambda>c. evm_pallet_scheduler_execute_dispatch_unsigned W DbWeight),
     weight_fn ''pallet_scheduler::schedule'' [(0, 49)]
       (\<lambda>c. evm_pallet_scheduler_schedule W DbWeight (c ! 0)),
     weight_fn ''pallet_scheduler::cancel'' [(1, 50)]
       (\<lambda>c. evm_pallet_scheduler_cancel W DbWeight (c ! 0)),
     weight_fn ''pallet_scheduler::schedule_named'' [(0, 49)]
       (\<lambda>c. evm_pallet_scheduler_schedule_named W DbWeight (c ! 0)),
     weight_fn ''pallet_scheduler::cancel_named'' [(1, 50)]
       (\<lambda>c. evm_pallet_scheduler_cancel_named W DbWeight (c ! 0)),
     weight_fn ''pallet_scheduler::schedule_retry'' [(1, 50)]
       (\<lambda>c. evm_pallet_scheduler_schedule_retry W DbWeight (c ! 0)),
     weight_fn ''pallet_scheduler::set_retry'' []
       (\<lambda>c. evm_pallet_scheduler_set_retry W DbWeight),
     weight_fn ''pallet_scheduler::set_retry_named'' []
       (\<lambda>c. evm_pallet_scheduler_set_retry_named W DbWeight),
     weight_fn ''pallet_scheduler::cancel_retry'' []
       (\<lambda>c. evm_pallet_scheduler_cancel_retry W DbWeight),
     weight_fn ''pallet_scheduler::cancel_retry_named'' []
       (\<lambda>c. evm_pallet_scheduler_cancel_retry_named W DbWeight)]"

section \<open>pallet_timestamp\<close>

definition evm_pallet_timestamp_set :: "'w weight_api \<Rightarrow> RuntimeDbWeight \<Rightarrow> 'w" where [weight_defs]:
  "evm_pallet_timestamp_set W DbWeight =
     add_chain W (from_parts W 10105000 0)
     [from_parts W 0 1493,
      reads W DbWeight 2,
      writes W DbWeight 1]"

definition evm_pallet_timestamp_on_finalize :: "'w weight_api \<Rightarrow> RuntimeDbWeight \<Rightarrow> 'w" where [weight_defs]:
  "evm_pallet_timestamp_on_finalize W DbWeight =
     add_chain W (from_parts W 5051000 0)
     [from_parts W 0 0]"

definition evm_pallet_timestamp_WeightInfo :: "'w weight_api \<Rightarrow> RuntimeDbWeight \<Rightarrow> 'w weight_entry list" where
  "evm_pallet_timestamp_WeightInfo W DbWeight = [
     weight_fn ''pallet_timestamp::set'' []
       (\<lambda>c. evm_pallet_timestamp_set W DbWeight),
     weight_fn ''pallet_timestamp::on_finalize'' []
       (\<lambda>c. evm_pallet_timestamp_on_finalize W DbWeight)]"

section \<open>pallet_utility\<close>

definition evm_pallet_utility_batch :: "'w weight_api \<Rightarrow> RuntimeDbWeight \<Rightarrow> nat \<Rightarrow> 'w" where [weight_defs]:
  "evm_pallet_utility_batch W DbWeight c =
     add_chain W (from_parts W 10192893 0)
     [from_parts W 0 0,
      saturating_mul W (from_parts W 4782200 0) c]"

definition evm_pallet_utility_as_derivative :: "'w weight_api \<Rightarrow> RuntimeDbWeight \<Rightarrow> 'w" where [weight_defs]:
  "evm_pallet_utility_as_derivative W DbWeight =
     add_chain W (from_parts W 5966000 0)
     [from_parts W 0 0]"

definition evm_pallet_utility_batch_all :: "'w weight_api \<Rightarrow> RuntimeDbWeight \<Rightarrow> nat \<Rightarrow> 'w" where [weight_defs]:
  "evm_pallet_utility_batch_all W DbWeight c =
     add_chain W (from_parts W 4511937 0)
     [from_parts W 0 0,
      saturating_mul W (from_parts W 5179825 0) c]"

definition evm_pallet_utility_dispatch_as :: "'w weight_api \<Rightarrow> RuntimeDbWeight \<Rightarrow> 'w" where [weight_defs]:
  "evm_pallet_utility_dispatch_as W DbWeight =
     add_chain W (from_parts W 9324000 0)
     [from_parts W 0 0]"

definition evm_pallet_utility_force_batch :: "'w weight_api \<Rightarrow> RuntimeDbWeight \<Rightarrow> nat \<Rightarrow> 'w" where [weight_defs]:
  "evm_pallet_utility_force_batch W DbWeight c =
     add_chain W (from_parts W 8832749 0)
     [from_parts W 0 0,
      saturating_mul W (from_parts W 4814960 0) c]"

definition evm_pallet_utility_dispatch_as_fallible :: "'w weight_api \<Rightarrow> RuntimeDbWeight \<Rightarrow> 'w" where [weight_defs]:
  "evm_pallet_utility_dispatch_as_fallible W DbWeight =
     add_chain W (from_parts W 7202000 0)
     [from_parts W 0 0]"

definition evm_pallet_utility_if_else :: "'w weight_api \<Rightarrow> RuntimeDbWeight \<Rightarrow> 'w" where [weight_defs]:
  "evm_pallet_utility_if_else W DbWeight =
     add_chain W (from_parts W 8903000 0)
     [from_parts W 0 0]"

definition evm_pallet_utility_WeightInfo :: "'w weight_api \<Rightarrow> RuntimeDbWeight \<Rightarrow> 'w weight_entry list" where
  "evm_pallet_utility_WeightInfo W DbWeight = [
     weight_fn ''pallet_utility::batch'' [(0, 1000)]
       (\<lambda>c. evm_pallet_utility_batch W DbWeight (c ! 0)),
     weight_fn ''pallet_utility::as_derivative'' []
       (\<lambda>c. evm_pallet_utility_as_derivative W DbWeight),
     weight_fn ''pallet_utility::batch_all'' [(0, 1000)]
       (\<lambda>c. evm_pallet_utility_batch_all W DbWeight (c ! 0)),
     weight_fn ''pallet_utility::dispatch_as'' []
       (\<lambda>c. evm_pallet_utility_dispatch_as W DbWeight),
     weight_fn ''pallet_utility::force_batch'' [(0, 1000)]
       (\<lambda>c. evm_pallet_utility_force_batch W DbWeight (c ! 0)),
     weight_fn ''pallet_utility::dispatch_as_fallible'' []
       (\<lambda>c. evm_pallet_utility_dispatch_as_fallible W DbWeight),
     weight_fn ''pallet_utility::if_else'' []
       (\<lambda>c. evm_pallet_utility_if_else W DbWeight)]"

section \<open>The group as configured\<close>

definition evm_SystemWeightFull :: "'w weight_api \<Rightarrow> 'w weight_entry list" where
  "evm_SystemWeightFull W =
     evm_pallet_balances_WeightInfo W (RocksDbWeight W) @
     evm_pallet_multisig_WeightInfo W (RocksDbWeight W) @
     evm_cumulus_pallet_parachain_system_WeightInfo W (RocksDbWeight W) @
     evm_pallet_preimage_WeightInfo W (RocksDbWeight W) @
     evm_pallet_proxy_WeightInfo W (RocksDbWeight W) @
     evm_pallet_scheduler_WeightInfo W (RocksDbWeight W) @
     evm_pallet_timestamp_WeightInfo W (RocksDbWeight W) @
     evm_pallet_utility_WeightInfo W (RocksDbWeight W)"

section \<open>Bounds and monotonicity\<close>

context weight_laws
begin

lemma evm_System_within:
  "registry_within W 349875000000 3670016 (evm_SystemWeightFull W)"
  unfolding evm_SystemWeightFull_def evm_pallet_balances_WeightInfo_def evm_pallet_multisig_WeightInfo_def evm_cumulus_pallet_parachain_system_WeightInfo_def evm_pallet_preimage_WeightInfo_def evm_pallet_proxy_WeightInfo_def evm_pallet_scheduler_WeightInfo_def evm_pallet_timestamp_WeightInfo_def evm_pallet_utility_WeightInfo_def append.simps
  by (intro fit_intros; simp only: weight_defs fit_simps)
    (rule within_weaken, (assumption | rule fit_steps)+, simp add: rocksdb_costs, simp)+

lemma evm_System_monotone:
  "registry_monotone W (evm_SystemWeightFull W)"
  unfolding evm_SystemWeightFull_def evm_pallet_balances_WeightInfo_def evm_pallet_multisig_WeightInfo_def evm_cumulus_pallet_parachain_system_WeightInfo_def evm_pallet_preimage_WeightInfo_def evm_pallet_proxy_WeightInfo_def evm_pallet_scheduler_WeightInfo_def evm_pallet_timestamp_WeightInfo_def evm_pallet_utility_WeightInfo_def append.simps
  by (intro mono_intros; simp only: weight_defs fit_simps) (assumption | rule mono_steps)+

end

end
