(* ===== verification/Evm_Weights_Consensus.thy ===== *)
theory Evm_Weights_Consensus
  imports Runtime_Constants
begin

text \<open>
  The benchmarked weight functions of the evm template's runtime that \<open>ConsensusWeightFull\<close>
  installs: \<open>pallet_collator_selection\<close>, \<open>pallet_session\<close>. Each function of a
  \<open>WeightInfo\<close> implementation is one definition over the weight interface and the runtime's
  \<open>DbWeight\<close>; each implementation is a registry of its functions with the component ranges
  the benchmark recorded. The lemmas bound every function over its whole range and show that
  it grows with its components.
\<close>

section \<open>pallet_collator_selection\<close>

definition evm_pallet_collator_selection_set_invulnerables :: "'w weight_api \<Rightarrow> RuntimeDbWeight \<Rightarrow> nat \<Rightarrow> 'w" where [weight_defs]:
  "evm_pallet_collator_selection_set_invulnerables W DbWeight b =
     add_chain W (from_parts W 12376864 0)
     [from_parts W 0 1190,
      saturating_mul W (from_parts W 3823755 0) b,
      reads W DbWeight (u64_saturating_mul 1 b),
      writes W DbWeight 1,
      saturating_mul W (from_parts W 0 2540) b]"

definition evm_pallet_collator_selection_add_invulnerable :: "'w weight_api \<Rightarrow> RuntimeDbWeight \<Rightarrow> nat \<Rightarrow> nat \<Rightarrow> 'w" where [weight_defs]:
  "evm_pallet_collator_selection_add_invulnerable W DbWeight b c =
     add_chain W (from_parts W 56948692 0)
     [from_parts W 0 5087,
      saturating_mul W (from_parts W 152360 0) b,
      saturating_mul W (from_parts W 134711 0) c,
      reads W DbWeight 4,
      writes W DbWeight 3,
      saturating_mul W (from_parts W 0 32) b,
      saturating_mul W (from_parts W 0 39) c]"

definition evm_pallet_collator_selection_remove_invulnerable :: "'w weight_api \<Rightarrow> RuntimeDbWeight \<Rightarrow> nat \<Rightarrow> 'w" where [weight_defs]:
  "evm_pallet_collator_selection_remove_invulnerable W DbWeight b =
     add_chain W (from_parts W 15110637 0)
     [from_parts W 0 5087,
      saturating_mul W (from_parts W 196698 0) b,
      reads W DbWeight 2,
      writes W DbWeight 1]"

definition evm_pallet_collator_selection_set_desired_candidates :: "'w weight_api \<Rightarrow> RuntimeDbWeight \<Rightarrow> 'w" where [weight_defs]:
  "evm_pallet_collator_selection_set_desired_candidates W DbWeight =
     add_chain W (from_parts W 6978000 0)
     [from_parts W 0 0,
      writes W DbWeight 1]"

definition evm_pallet_collator_selection_set_candidacy_bond :: "'w weight_api \<Rightarrow> RuntimeDbWeight \<Rightarrow> nat \<Rightarrow> nat \<Rightarrow> 'w" where [weight_defs]:
  "evm_pallet_collator_selection_set_candidacy_bond W DbWeight c k =
     add_chain W (from_parts W 13830000 0)
     [from_parts W 0 6172,
      saturating_mul W (from_parts W 7796289 0) c,
      saturating_mul W (from_parts W 7458936 0) k,
      reads W DbWeight 2,
      writes W DbWeight 1,
      writes W DbWeight (u64_saturating_mul 1 c),
      writes W DbWeight (u64_saturating_mul 1 k),
      saturating_mul W (from_parts W 0 897) c,
      saturating_mul W (from_parts W 0 897) k]"

definition evm_pallet_collator_selection_update_bond :: "'w weight_api \<Rightarrow> RuntimeDbWeight \<Rightarrow> nat \<Rightarrow> 'w" where [weight_defs]:
  "evm_pallet_collator_selection_update_bond W DbWeight c =
     add_chain W (from_parts W 40089657 0)
     [from_parts W 0 5087,
      saturating_mul W (from_parts W 141386 0) c,
      reads W DbWeight 2,
      writes W DbWeight 1]"

definition evm_pallet_collator_selection_register_as_candidate :: "'w weight_api \<Rightarrow> RuntimeDbWeight \<Rightarrow> nat \<Rightarrow> 'w" where [weight_defs]:
  "evm_pallet_collator_selection_register_as_candidate W DbWeight c =
     add_chain W (from_parts W 53973938 0)
     [from_parts W 0 5087,
      saturating_mul W (from_parts W 158870 0) c,
      reads W DbWeight 4,
      writes W DbWeight 2,
      saturating_mul W (from_parts W 0 40) c]"

definition evm_pallet_collator_selection_take_candidate_slot :: "'w weight_api \<Rightarrow> RuntimeDbWeight \<Rightarrow> nat \<Rightarrow> 'w" where [weight_defs]:
  "evm_pallet_collator_selection_take_candidate_slot W DbWeight c =
     add_chain W (from_parts W 77314735 0)
     [from_parts W 0 5087,
      saturating_mul W (from_parts W 187872 0) c,
      reads W DbWeight 5,
      writes W DbWeight 4,
      saturating_mul W (from_parts W 0 40) c]"

definition evm_pallet_collator_selection_leave_intent :: "'w weight_api \<Rightarrow> RuntimeDbWeight \<Rightarrow> nat \<Rightarrow> 'w" where [weight_defs]:
  "evm_pallet_collator_selection_leave_intent W DbWeight c =
     add_chain W (from_parts W 44020453 0)
     [from_parts W 0 5087,
      saturating_mul W (from_parts W 142854 0) c,
      reads W DbWeight 2,
      writes W DbWeight 2]"

definition evm_pallet_collator_selection_note_author :: "'w weight_api \<Rightarrow> RuntimeDbWeight \<Rightarrow> 'w" where [weight_defs]:
  "evm_pallet_collator_selection_note_author W DbWeight =
     add_chain W (from_parts W 58627000 0)
     [from_parts W 0 6172,
      reads W DbWeight 2,
      writes W DbWeight 3]"

definition evm_pallet_collator_selection_new_session :: "'w weight_api \<Rightarrow> RuntimeDbWeight \<Rightarrow> nat \<Rightarrow> nat \<Rightarrow> 'w" where [weight_defs]:
  "evm_pallet_collator_selection_new_session W DbWeight r c =
     add_chain W (from_parts W 24160000 0)
     [from_parts W 0 5087,
      saturating_mul W (from_parts W 16962315 0) c,
      reads W DbWeight 4,
      reads W DbWeight (u64_saturating_mul 1 c),
      writes W DbWeight (u64_saturating_mul 1 c),
      saturating_mul W (from_parts W 0 2507) c,
      saturating_mul W (from_parts W 0 2591) r]"

definition evm_pallet_collator_selection_WeightInfo :: "'w weight_api \<Rightarrow> RuntimeDbWeight \<Rightarrow> 'w weight_entry list" where
  "evm_pallet_collator_selection_WeightInfo W DbWeight = [
     weight_fn ''pallet_collator_selection::set_invulnerables'' [(1, 20)]
       (\<lambda>c. evm_pallet_collator_selection_set_invulnerables W DbWeight (c ! 0)),
     weight_fn ''pallet_collator_selection::add_invulnerable'' [(1, 19), (1, 99)]
       (\<lambda>c. evm_pallet_collator_selection_add_invulnerable W DbWeight (c ! 0) (c ! 1)),
     weight_fn ''pallet_collator_selection::remove_invulnerable'' [(5, 20)]
       (\<lambda>c. evm_pallet_collator_selection_remove_invulnerable W DbWeight (c ! 0)),
     weight_fn ''pallet_collator_selection::set_desired_candidates'' []
       (\<lambda>c. evm_pallet_collator_selection_set_desired_candidates W DbWeight),
     weight_fn ''pallet_collator_selection::set_candidacy_bond'' [(0, 100), (0, 100)]
       (\<lambda>c. evm_pallet_collator_selection_set_candidacy_bond W DbWeight (c ! 0) (c ! 1)),
     weight_fn ''pallet_collator_selection::update_bond'' [(3, 100)]
       (\<lambda>c. evm_pallet_collator_selection_update_bond W DbWeight (c ! 0)),
     weight_fn ''pallet_collator_selection::register_as_candidate'' [(1, 99)]
       (\<lambda>c. evm_pallet_collator_selection_register_as_candidate W DbWeight (c ! 0)),
     weight_fn ''pallet_collator_selection::take_candidate_slot'' [(3, 100)]
       (\<lambda>c. evm_pallet_collator_selection_take_candidate_slot W DbWeight (c ! 0)),
     weight_fn ''pallet_collator_selection::leave_intent'' [(3, 100)]
       (\<lambda>c. evm_pallet_collator_selection_leave_intent W DbWeight (c ! 0)),
     weight_fn ''pallet_collator_selection::note_author'' []
       (\<lambda>c. evm_pallet_collator_selection_note_author W DbWeight),
     weight_fn ''pallet_collator_selection::new_session'' [(1, 100), (1, 100)]
       (\<lambda>c. evm_pallet_collator_selection_new_session W DbWeight (c ! 0) (c ! 1))]"

section \<open>pallet_session\<close>

definition evm_pallet_session_set_keys :: "'w weight_api \<Rightarrow> RuntimeDbWeight \<Rightarrow> 'w" where [weight_defs]:
  "evm_pallet_session_set_keys W DbWeight =
     add_chain W (from_parts W 20186000 0)
     [from_parts W 0 3718,
      reads W DbWeight 2,
      writes W DbWeight 2]"

definition evm_pallet_session_purge_keys :: "'w weight_api \<Rightarrow> RuntimeDbWeight \<Rightarrow> 'w" where [weight_defs]:
  "evm_pallet_session_purge_keys W DbWeight =
     add_chain W (from_parts W 14448000 0)
     [from_parts W 0 3727,
      reads W DbWeight 1,
      writes W DbWeight 2]"

definition evm_pallet_session_WeightInfo :: "'w weight_api \<Rightarrow> RuntimeDbWeight \<Rightarrow> 'w weight_entry list" where
  "evm_pallet_session_WeightInfo W DbWeight = [
     weight_fn ''pallet_session::set_keys'' []
       (\<lambda>c. evm_pallet_session_set_keys W DbWeight),
     weight_fn ''pallet_session::purge_keys'' []
       (\<lambda>c. evm_pallet_session_purge_keys W DbWeight)]"

section \<open>The group as configured\<close>

definition evm_ConsensusWeightFull :: "'w weight_api \<Rightarrow> 'w weight_entry list" where
  "evm_ConsensusWeightFull W =
     evm_pallet_collator_selection_WeightInfo W (RocksDbWeight W) @
     evm_pallet_session_WeightInfo W (RocksDbWeight W)"

section \<open>Bounds and monotonicity\<close>

context weight_laws
begin

lemma evm_Consensus_within:
  "registry_within W 349875000000 3670016 (evm_ConsensusWeightFull W)"
  unfolding evm_ConsensusWeightFull_def evm_pallet_collator_selection_WeightInfo_def evm_pallet_session_WeightInfo_def append.simps
  by (intro fit_intros; simp only: weight_defs fit_simps)
    (rule within_weaken, (assumption | rule fit_steps)+, simp add: rocksdb_costs, simp)+

lemma evm_Consensus_monotone:
  "registry_monotone W (evm_ConsensusWeightFull W)"
  unfolding evm_ConsensusWeightFull_def evm_pallet_collator_selection_WeightInfo_def evm_pallet_session_WeightInfo_def append.simps
  by (intro mono_intros; simp only: weight_defs fit_simps) (assumption | rule mono_steps)+

end

end
