(* ===== verification/Evm_Weights_Governance.thy ===== *)
theory Evm_Weights_Governance
  imports Runtime_Constants
begin

text \<open>
  The benchmarked weight functions of the evm template's runtime that \<open>GovernanceWeightFull\<close>
  installs: \<open>pallet_conviction_voting\<close>, \<open>pallet_referenda\<close>, \<open>pallet_sudo\<close>, \<open>pallet_treasury\<close>, \<open>pallet_whitelist\<close>. Each function of a
  \<open>WeightInfo\<close> implementation is one definition over the weight interface and the runtime's
  \<open>DbWeight\<close>; each implementation is a registry of its functions with the component ranges
  the benchmark recorded. The lemmas bound every function over its whole range and show that
  it grows with its components.
\<close>

section \<open>pallet_conviction_voting\<close>

definition evm_pallet_conviction_voting_vote_new :: "'w weight_api \<Rightarrow> RuntimeDbWeight \<Rightarrow> 'w" where [weight_defs]:
  "evm_pallet_conviction_voting_vote_new W DbWeight =
     add_chain W (from_parts W 182460000 0)
     [from_parts W 0 42428,
      reads W DbWeight 6,
      writes W DbWeight 5]"

definition evm_pallet_conviction_voting_vote_existing :: "'w weight_api \<Rightarrow> RuntimeDbWeight \<Rightarrow> 'w" where [weight_defs]:
  "evm_pallet_conviction_voting_vote_existing W DbWeight =
     add_chain W (from_parts W 215521000 0)
     [from_parts W 0 83866,
      reads W DbWeight 7,
      writes W DbWeight 7]"

definition evm_pallet_conviction_voting_remove_vote :: "'w weight_api \<Rightarrow> RuntimeDbWeight \<Rightarrow> 'w" where [weight_defs]:
  "evm_pallet_conviction_voting_remove_vote W DbWeight =
     add_chain W (from_parts W 157855000 0)
     [from_parts W 0 83866,
      reads W DbWeight 4,
      writes W DbWeight 5]"

definition evm_pallet_conviction_voting_remove_other_vote :: "'w weight_api \<Rightarrow> RuntimeDbWeight \<Rightarrow> 'w" where [weight_defs]:
  "evm_pallet_conviction_voting_remove_other_vote W DbWeight =
     add_chain W (from_parts W 84166000 0)
     [from_parts W 0 30694,
      reads W DbWeight 2,
      writes W DbWeight 1]"

definition evm_pallet_conviction_voting_delegate :: "'w weight_api \<Rightarrow> RuntimeDbWeight \<Rightarrow> nat \<Rightarrow> 'w" where [weight_defs]:
  "evm_pallet_conviction_voting_delegate W DbWeight r =
     add_chain W (from_parts W 1131281203 0)
     [from_parts W 0 83866,
      saturating_mul W (from_parts W 26429185 0) r,
      reads W DbWeight 7,
      reads W DbWeight (u64_saturating_mul 1 r),
      writes W DbWeight 45,
      writes W DbWeight (u64_saturating_mul 1 r),
      saturating_mul W (from_parts W 0 3387) r]"

definition evm_pallet_conviction_voting_undelegate :: "'w weight_api \<Rightarrow> RuntimeDbWeight \<Rightarrow> nat \<Rightarrow> 'w" where [weight_defs]:
  "evm_pallet_conviction_voting_undelegate W DbWeight r =
     add_chain W (from_parts W 1083508414 0)
     [from_parts W 0 83866,
      saturating_mul W (from_parts W 26373942 0) r,
      reads W DbWeight 4,
      reads W DbWeight (u64_saturating_mul 1 r),
      writes W DbWeight 43,
      writes W DbWeight (u64_saturating_mul 1 r),
      saturating_mul W (from_parts W 0 3387) r]"

definition evm_pallet_conviction_voting_unlock :: "'w weight_api \<Rightarrow> RuntimeDbWeight \<Rightarrow> 'w" where [weight_defs]:
  "evm_pallet_conviction_voting_unlock W DbWeight =
     add_chain W (from_parts W 126349000 0)
     [from_parts W 0 30694,
      reads W DbWeight 4,
      writes W DbWeight 3]"

definition evm_pallet_conviction_voting_WeightInfo :: "'w weight_api \<Rightarrow> RuntimeDbWeight \<Rightarrow> 'w weight_entry list" where
  "evm_pallet_conviction_voting_WeightInfo W DbWeight = [
     weight_fn ''pallet_conviction_voting::vote_new'' []
       (\<lambda>c. evm_pallet_conviction_voting_vote_new W DbWeight),
     weight_fn ''pallet_conviction_voting::vote_existing'' []
       (\<lambda>c. evm_pallet_conviction_voting_vote_existing W DbWeight),
     weight_fn ''pallet_conviction_voting::remove_vote'' []
       (\<lambda>c. evm_pallet_conviction_voting_remove_vote W DbWeight),
     weight_fn ''pallet_conviction_voting::remove_other_vote'' []
       (\<lambda>c. evm_pallet_conviction_voting_remove_other_vote W DbWeight),
     weight_fn ''pallet_conviction_voting::delegate'' [(0, 512)]
       (\<lambda>c. evm_pallet_conviction_voting_delegate W DbWeight (c ! 0)),
     weight_fn ''pallet_conviction_voting::undelegate'' [(0, 512)]
       (\<lambda>c. evm_pallet_conviction_voting_undelegate W DbWeight (c ! 0)),
     weight_fn ''pallet_conviction_voting::unlock'' []
       (\<lambda>c. evm_pallet_conviction_voting_unlock W DbWeight)]"

section \<open>pallet_referenda\<close>

definition evm_pallet_referenda_submit :: "'w weight_api \<Rightarrow> RuntimeDbWeight \<Rightarrow> 'w" where [weight_defs]:
  "evm_pallet_referenda_submit W DbWeight =
     add_chain W (from_parts W 47966000 0)
     [from_parts W 0 42428,
      reads W DbWeight 2,
      writes W DbWeight 3]"

definition evm_pallet_referenda_place_decision_deposit_preparing :: "'w weight_api \<Rightarrow> RuntimeDbWeight \<Rightarrow> 'w" where [weight_defs]:
  "evm_pallet_referenda_place_decision_deposit_preparing W DbWeight =
     add_chain W (from_parts W 62754000 0)
     [from_parts W 0 83866,
      reads W DbWeight 3,
      writes W DbWeight 4]"

definition evm_pallet_referenda_place_decision_deposit_queued :: "'w weight_api \<Rightarrow> RuntimeDbWeight \<Rightarrow> 'w" where [weight_defs]:
  "evm_pallet_referenda_place_decision_deposit_queued W DbWeight =
     add_chain W (from_parts W 72772000 0)
     [from_parts W 0 42428,
      reads W DbWeight 4,
      writes W DbWeight 4]"

definition evm_pallet_referenda_place_decision_deposit_not_queued :: "'w weight_api \<Rightarrow> RuntimeDbWeight \<Rightarrow> 'w" where [weight_defs]:
  "evm_pallet_referenda_place_decision_deposit_not_queued W DbWeight =
     add_chain W (from_parts W 72791000 0)
     [from_parts W 0 42428,
      reads W DbWeight 4,
      writes W DbWeight 4]"

definition evm_pallet_referenda_place_decision_deposit_passing :: "'w weight_api \<Rightarrow> RuntimeDbWeight \<Rightarrow> 'w" where [weight_defs]:
  "evm_pallet_referenda_place_decision_deposit_passing W DbWeight =
     add_chain W (from_parts W 73310000 0)
     [from_parts W 0 83866,
      reads W DbWeight 4,
      writes W DbWeight 5]"

definition evm_pallet_referenda_place_decision_deposit_failing :: "'w weight_api \<Rightarrow> RuntimeDbWeight \<Rightarrow> 'w" where [weight_defs]:
  "evm_pallet_referenda_place_decision_deposit_failing W DbWeight =
     add_chain W (from_parts W 71500000 0)
     [from_parts W 0 83866,
      reads W DbWeight 4,
      writes W DbWeight 5]"

definition evm_pallet_referenda_refund_decision_deposit :: "'w weight_api \<Rightarrow> RuntimeDbWeight \<Rightarrow> 'w" where [weight_defs]:
  "evm_pallet_referenda_refund_decision_deposit W DbWeight =
     add_chain W (from_parts W 37369000 0)
     [from_parts W 0 4377,
      reads W DbWeight 1,
      writes W DbWeight 1]"

definition evm_pallet_referenda_refund_submission_deposit :: "'w weight_api \<Rightarrow> RuntimeDbWeight \<Rightarrow> 'w" where [weight_defs]:
  "evm_pallet_referenda_refund_submission_deposit W DbWeight =
     add_chain W (from_parts W 37744000 0)
     [from_parts W 0 4377,
      reads W DbWeight 1,
      writes W DbWeight 1]"

definition evm_pallet_referenda_cancel :: "'w weight_api \<Rightarrow> RuntimeDbWeight \<Rightarrow> 'w" where [weight_defs]:
  "evm_pallet_referenda_cancel W DbWeight =
     add_chain W (from_parts W 42333000 0)
     [from_parts W 0 83866,
      reads W DbWeight 3,
      writes W DbWeight 4]"

definition evm_pallet_referenda_kill :: "'w weight_api \<Rightarrow> RuntimeDbWeight \<Rightarrow> 'w" where [weight_defs]:
  "evm_pallet_referenda_kill W DbWeight =
     add_chain W (from_parts W 124954000 0)
     [from_parts W 0 83866,
      reads W DbWeight 5,
      writes W DbWeight 5]"

definition evm_pallet_referenda_one_fewer_deciding_queue_empty :: "'w weight_api \<Rightarrow> RuntimeDbWeight \<Rightarrow> 'w" where [weight_defs]:
  "evm_pallet_referenda_one_fewer_deciding_queue_empty W DbWeight =
     add_chain W (from_parts W 13176000 0)
     [from_parts W 0 3876,
      reads W DbWeight 2,
      writes W DbWeight 1]"

definition evm_pallet_referenda_one_fewer_deciding_failing :: "'w weight_api \<Rightarrow> RuntimeDbWeight \<Rightarrow> 'w" where [weight_defs]:
  "evm_pallet_referenda_one_fewer_deciding_failing W DbWeight =
     add_chain W (from_parts W 45854000 0)
     [from_parts W 0 42428,
      reads W DbWeight 3,
      writes W DbWeight 3]"

definition evm_pallet_referenda_one_fewer_deciding_passing :: "'w weight_api \<Rightarrow> RuntimeDbWeight \<Rightarrow> 'w" where [weight_defs]:
  "evm_pallet_referenda_one_fewer_deciding_passing W DbWeight =
     add_chain W (from_parts W 49073000 0)
     [from_parts W 0 42428,
      reads W DbWeight 3,
      writes W DbWeight 3]"

definition evm_pallet_referenda_nudge_referendum_requeued_insertion :: "'w weight_api \<Rightarrow> RuntimeDbWeight \<Rightarrow> 'w" where [weight_defs]:
  "evm_pallet_referenda_nudge_referendum_requeued_insertion W DbWeight =
     add_chain W (from_parts W 21503000 0)
     [from_parts W 0 4377,
      reads W DbWeight 2,
      writes W DbWeight 1]"

definition evm_pallet_referenda_nudge_referendum_requeued_slide :: "'w weight_api \<Rightarrow> RuntimeDbWeight \<Rightarrow> 'w" where [weight_defs]:
  "evm_pallet_referenda_nudge_referendum_requeued_slide W DbWeight =
     add_chain W (from_parts W 21473000 0)
     [from_parts W 0 4377,
      reads W DbWeight 2,
      writes W DbWeight 1]"

definition evm_pallet_referenda_nudge_referendum_queued :: "'w weight_api \<Rightarrow> RuntimeDbWeight \<Rightarrow> 'w" where [weight_defs]:
  "evm_pallet_referenda_nudge_referendum_queued W DbWeight =
     add_chain W (from_parts W 27137000 0)
     [from_parts W 0 4377,
      reads W DbWeight 3,
      writes W DbWeight 2]"

definition evm_pallet_referenda_nudge_referendum_not_queued :: "'w weight_api \<Rightarrow> RuntimeDbWeight \<Rightarrow> 'w" where [weight_defs]:
  "evm_pallet_referenda_nudge_referendum_not_queued W DbWeight =
     add_chain W (from_parts W 26725000 0)
     [from_parts W 0 4377,
      reads W DbWeight 3,
      writes W DbWeight 2]"

definition evm_pallet_referenda_nudge_referendum_no_deposit :: "'w weight_api \<Rightarrow> RuntimeDbWeight \<Rightarrow> 'w" where [weight_defs]:
  "evm_pallet_referenda_nudge_referendum_no_deposit W DbWeight =
     add_chain W (from_parts W 27471000 0)
     [from_parts W 0 42428,
      reads W DbWeight 2,
      writes W DbWeight 2]"

definition evm_pallet_referenda_nudge_referendum_preparing :: "'w weight_api \<Rightarrow> RuntimeDbWeight \<Rightarrow> 'w" where [weight_defs]:
  "evm_pallet_referenda_nudge_referendum_preparing W DbWeight =
     add_chain W (from_parts W 27585000 0)
     [from_parts W 0 42428,
      reads W DbWeight 2,
      writes W DbWeight 2]"

definition evm_pallet_referenda_nudge_referendum_timed_out :: "'w weight_api \<Rightarrow> RuntimeDbWeight \<Rightarrow> 'w" where [weight_defs]:
  "evm_pallet_referenda_nudge_referendum_timed_out W DbWeight =
     add_chain W (from_parts W 18595000 0)
     [from_parts W 0 4377,
      reads W DbWeight 1,
      writes W DbWeight 1]"

definition evm_pallet_referenda_nudge_referendum_begin_deciding_failing :: "'w weight_api \<Rightarrow> RuntimeDbWeight \<Rightarrow> 'w" where [weight_defs]:
  "evm_pallet_referenda_nudge_referendum_begin_deciding_failing W DbWeight =
     add_chain W (from_parts W 37252000 0)
     [from_parts W 0 42428,
      reads W DbWeight 3,
      writes W DbWeight 3]"

definition evm_pallet_referenda_nudge_referendum_begin_deciding_passing :: "'w weight_api \<Rightarrow> RuntimeDbWeight \<Rightarrow> 'w" where [weight_defs]:
  "evm_pallet_referenda_nudge_referendum_begin_deciding_passing W DbWeight =
     add_chain W (from_parts W 39587000 0)
     [from_parts W 0 42428,
      reads W DbWeight 3,
      writes W DbWeight 3]"

definition evm_pallet_referenda_nudge_referendum_begin_confirming :: "'w weight_api \<Rightarrow> RuntimeDbWeight \<Rightarrow> 'w" where [weight_defs]:
  "evm_pallet_referenda_nudge_referendum_begin_confirming W DbWeight =
     add_chain W (from_parts W 31887000 0)
     [from_parts W 0 42428,
      reads W DbWeight 2,
      writes W DbWeight 2]"

definition evm_pallet_referenda_nudge_referendum_end_confirming :: "'w weight_api \<Rightarrow> RuntimeDbWeight \<Rightarrow> 'w" where [weight_defs]:
  "evm_pallet_referenda_nudge_referendum_end_confirming W DbWeight =
     add_chain W (from_parts W 32224000 0)
     [from_parts W 0 42428,
      reads W DbWeight 2,
      writes W DbWeight 2]"

definition evm_pallet_referenda_nudge_referendum_continue_not_confirming :: "'w weight_api \<Rightarrow> RuntimeDbWeight \<Rightarrow> 'w" where [weight_defs]:
  "evm_pallet_referenda_nudge_referendum_continue_not_confirming W DbWeight =
     add_chain W (from_parts W 30649000 0)
     [from_parts W 0 42428,
      reads W DbWeight 2,
      writes W DbWeight 2]"

definition evm_pallet_referenda_nudge_referendum_continue_confirming :: "'w weight_api \<Rightarrow> RuntimeDbWeight \<Rightarrow> 'w" where [weight_defs]:
  "evm_pallet_referenda_nudge_referendum_continue_confirming W DbWeight =
     add_chain W (from_parts W 29094000 0)
     [from_parts W 0 42428,
      reads W DbWeight 2,
      writes W DbWeight 2]"

definition evm_pallet_referenda_nudge_referendum_approved :: "'w weight_api \<Rightarrow> RuntimeDbWeight \<Rightarrow> 'w" where [weight_defs]:
  "evm_pallet_referenda_nudge_referendum_approved W DbWeight =
     add_chain W (from_parts W 45133000 0)
     [from_parts W 0 83866,
      reads W DbWeight 4,
      writes W DbWeight 4]"

definition evm_pallet_referenda_nudge_referendum_rejected :: "'w weight_api \<Rightarrow> RuntimeDbWeight \<Rightarrow> 'w" where [weight_defs]:
  "evm_pallet_referenda_nudge_referendum_rejected W DbWeight =
     add_chain W (from_parts W 31862000 0)
     [from_parts W 0 42428,
      reads W DbWeight 2,
      writes W DbWeight 2]"

definition evm_pallet_referenda_set_some_metadata :: "'w weight_api \<Rightarrow> RuntimeDbWeight \<Rightarrow> 'w" where [weight_defs]:
  "evm_pallet_referenda_set_some_metadata W DbWeight =
     add_chain W (from_parts W 26435000 0)
     [from_parts W 0 4377,
      reads W DbWeight 3,
      writes W DbWeight 1]"

definition evm_pallet_referenda_clear_metadata :: "'w weight_api \<Rightarrow> RuntimeDbWeight \<Rightarrow> 'w" where [weight_defs]:
  "evm_pallet_referenda_clear_metadata W DbWeight =
     add_chain W (from_parts W 21324000 0)
     [from_parts W 0 4377,
      reads W DbWeight 2,
      writes W DbWeight 1]"

definition evm_pallet_referenda_WeightInfo :: "'w weight_api \<Rightarrow> RuntimeDbWeight \<Rightarrow> 'w weight_entry list" where
  "evm_pallet_referenda_WeightInfo W DbWeight = [
     weight_fn ''pallet_referenda::submit'' []
       (\<lambda>c. evm_pallet_referenda_submit W DbWeight),
     weight_fn ''pallet_referenda::place_decision_deposit_preparing'' []
       (\<lambda>c. evm_pallet_referenda_place_decision_deposit_preparing W DbWeight),
     weight_fn ''pallet_referenda::place_decision_deposit_queued'' []
       (\<lambda>c. evm_pallet_referenda_place_decision_deposit_queued W DbWeight),
     weight_fn ''pallet_referenda::place_decision_deposit_not_queued'' []
       (\<lambda>c. evm_pallet_referenda_place_decision_deposit_not_queued W DbWeight),
     weight_fn ''pallet_referenda::place_decision_deposit_passing'' []
       (\<lambda>c. evm_pallet_referenda_place_decision_deposit_passing W DbWeight),
     weight_fn ''pallet_referenda::place_decision_deposit_failing'' []
       (\<lambda>c. evm_pallet_referenda_place_decision_deposit_failing W DbWeight),
     weight_fn ''pallet_referenda::refund_decision_deposit'' []
       (\<lambda>c. evm_pallet_referenda_refund_decision_deposit W DbWeight),
     weight_fn ''pallet_referenda::refund_submission_deposit'' []
       (\<lambda>c. evm_pallet_referenda_refund_submission_deposit W DbWeight),
     weight_fn ''pallet_referenda::cancel'' []
       (\<lambda>c. evm_pallet_referenda_cancel W DbWeight),
     weight_fn ''pallet_referenda::kill'' []
       (\<lambda>c. evm_pallet_referenda_kill W DbWeight),
     weight_fn ''pallet_referenda::one_fewer_deciding_queue_empty'' []
       (\<lambda>c. evm_pallet_referenda_one_fewer_deciding_queue_empty W DbWeight),
     weight_fn ''pallet_referenda::one_fewer_deciding_failing'' []
       (\<lambda>c. evm_pallet_referenda_one_fewer_deciding_failing W DbWeight),
     weight_fn ''pallet_referenda::one_fewer_deciding_passing'' []
       (\<lambda>c. evm_pallet_referenda_one_fewer_deciding_passing W DbWeight),
     weight_fn ''pallet_referenda::nudge_referendum_requeued_insertion'' []
       (\<lambda>c. evm_pallet_referenda_nudge_referendum_requeued_insertion W DbWeight),
     weight_fn ''pallet_referenda::nudge_referendum_requeued_slide'' []
       (\<lambda>c. evm_pallet_referenda_nudge_referendum_requeued_slide W DbWeight),
     weight_fn ''pallet_referenda::nudge_referendum_queued'' []
       (\<lambda>c. evm_pallet_referenda_nudge_referendum_queued W DbWeight),
     weight_fn ''pallet_referenda::nudge_referendum_not_queued'' []
       (\<lambda>c. evm_pallet_referenda_nudge_referendum_not_queued W DbWeight),
     weight_fn ''pallet_referenda::nudge_referendum_no_deposit'' []
       (\<lambda>c. evm_pallet_referenda_nudge_referendum_no_deposit W DbWeight),
     weight_fn ''pallet_referenda::nudge_referendum_preparing'' []
       (\<lambda>c. evm_pallet_referenda_nudge_referendum_preparing W DbWeight),
     weight_fn ''pallet_referenda::nudge_referendum_timed_out'' []
       (\<lambda>c. evm_pallet_referenda_nudge_referendum_timed_out W DbWeight),
     weight_fn ''pallet_referenda::nudge_referendum_begin_deciding_failing'' []
       (\<lambda>c. evm_pallet_referenda_nudge_referendum_begin_deciding_failing W DbWeight),
     weight_fn ''pallet_referenda::nudge_referendum_begin_deciding_passing'' []
       (\<lambda>c. evm_pallet_referenda_nudge_referendum_begin_deciding_passing W DbWeight),
     weight_fn ''pallet_referenda::nudge_referendum_begin_confirming'' []
       (\<lambda>c. evm_pallet_referenda_nudge_referendum_begin_confirming W DbWeight),
     weight_fn ''pallet_referenda::nudge_referendum_end_confirming'' []
       (\<lambda>c. evm_pallet_referenda_nudge_referendum_end_confirming W DbWeight),
     weight_fn ''pallet_referenda::nudge_referendum_continue_not_confirming'' []
       (\<lambda>c. evm_pallet_referenda_nudge_referendum_continue_not_confirming W DbWeight),
     weight_fn ''pallet_referenda::nudge_referendum_continue_confirming'' []
       (\<lambda>c. evm_pallet_referenda_nudge_referendum_continue_confirming W DbWeight),
     weight_fn ''pallet_referenda::nudge_referendum_approved'' []
       (\<lambda>c. evm_pallet_referenda_nudge_referendum_approved W DbWeight),
     weight_fn ''pallet_referenda::nudge_referendum_rejected'' []
       (\<lambda>c. evm_pallet_referenda_nudge_referendum_rejected W DbWeight),
     weight_fn ''pallet_referenda::set_some_metadata'' []
       (\<lambda>c. evm_pallet_referenda_set_some_metadata W DbWeight),
     weight_fn ''pallet_referenda::clear_metadata'' []
       (\<lambda>c. evm_pallet_referenda_clear_metadata W DbWeight)]"

section \<open>pallet_sudo\<close>

definition evm_pallet_sudo_set_key :: "'w weight_api \<Rightarrow> RuntimeDbWeight \<Rightarrow> 'w" where [weight_defs]:
  "evm_pallet_sudo_set_key W DbWeight =
     add_chain W (from_parts W 12451000 0)
     [from_parts W 0 1505,
      reads W DbWeight 1,
      writes W DbWeight 1]"

definition evm_pallet_sudo_sudo :: "'w weight_api \<Rightarrow> RuntimeDbWeight \<Rightarrow> 'w" where [weight_defs]:
  "evm_pallet_sudo_sudo W DbWeight =
     add_chain W (from_parts W 13840000 0)
     [from_parts W 0 1505,
      reads W DbWeight 1]"

definition evm_pallet_sudo_sudo_as :: "'w weight_api \<Rightarrow> RuntimeDbWeight \<Rightarrow> 'w" where [weight_defs]:
  "evm_pallet_sudo_sudo_as W DbWeight =
     add_chain W (from_parts W 14049000 0)
     [from_parts W 0 1505,
      reads W DbWeight 1]"

definition evm_pallet_sudo_remove_key :: "'w weight_api \<Rightarrow> RuntimeDbWeight \<Rightarrow> 'w" where [weight_defs]:
  "evm_pallet_sudo_remove_key W DbWeight =
     add_chain W (from_parts W 11338000 0)
     [from_parts W 0 1505,
      reads W DbWeight 1,
      writes W DbWeight 1]"

definition evm_pallet_sudo_check_only_sudo_account :: "'w weight_api \<Rightarrow> RuntimeDbWeight \<Rightarrow> 'w" where [weight_defs]:
  "evm_pallet_sudo_check_only_sudo_account W DbWeight =
     add_chain W (from_parts W 11411000 0)
     [from_parts W 0 1517,
      reads W DbWeight 1,
      writes W DbWeight 1]"

definition evm_pallet_sudo_WeightInfo :: "'w weight_api \<Rightarrow> RuntimeDbWeight \<Rightarrow> 'w weight_entry list" where
  "evm_pallet_sudo_WeightInfo W DbWeight = [
     weight_fn ''pallet_sudo::set_key'' []
       (\<lambda>c. evm_pallet_sudo_set_key W DbWeight),
     weight_fn ''pallet_sudo::sudo'' []
       (\<lambda>c. evm_pallet_sudo_sudo W DbWeight),
     weight_fn ''pallet_sudo::sudo_as'' []
       (\<lambda>c. evm_pallet_sudo_sudo_as W DbWeight),
     weight_fn ''pallet_sudo::remove_key'' []
       (\<lambda>c. evm_pallet_sudo_remove_key W DbWeight),
     weight_fn ''pallet_sudo::check_only_sudo_account'' []
       (\<lambda>c. evm_pallet_sudo_check_only_sudo_account W DbWeight)]"

section \<open>pallet_treasury\<close>

definition evm_pallet_treasury_spend_local :: "'w weight_api \<Rightarrow> RuntimeDbWeight \<Rightarrow> 'w" where [weight_defs]:
  "evm_pallet_treasury_spend_local W DbWeight =
     add_chain W (from_parts W 15857000 0)
     [from_parts W 0 1887,
      reads W DbWeight 2,
      writes W DbWeight 3]"

definition evm_pallet_treasury_remove_approval :: "'w weight_api \<Rightarrow> RuntimeDbWeight \<Rightarrow> 'w" where [weight_defs]:
  "evm_pallet_treasury_remove_approval W DbWeight =
     add_chain W (from_parts W 8811000 0)
     [from_parts W 0 1887,
      reads W DbWeight 1,
      writes W DbWeight 1]"

definition evm_pallet_treasury_on_initialize_proposals :: "'w weight_api \<Rightarrow> RuntimeDbWeight \<Rightarrow> nat \<Rightarrow> 'w" where [weight_defs]:
  "evm_pallet_treasury_on_initialize_proposals W DbWeight p =
     add_chain W (from_parts W 35867570 0)
     [from_parts W 0 3581,
      saturating_mul W (from_parts W 28130730 0) p,
      reads W DbWeight 3,
      reads W DbWeight (u64_saturating_mul 2 p),
      writes W DbWeight 3,
      writes W DbWeight (u64_saturating_mul 2 p),
      saturating_mul W (from_parts W 0 2591) p]"

definition evm_pallet_treasury_spend :: "'w weight_api \<Rightarrow> RuntimeDbWeight \<Rightarrow> 'w" where [weight_defs]:
  "evm_pallet_treasury_spend W DbWeight =
     add_chain W (from_parts W 18818000 0)
     [from_parts W 0 1489,
      reads W DbWeight 1,
      writes W DbWeight 2]"

definition evm_pallet_treasury_payout :: "'w weight_api \<Rightarrow> RuntimeDbWeight \<Rightarrow> 'w" where [weight_defs]:
  "evm_pallet_treasury_payout W DbWeight =
     add_chain W (from_parts W 60308000 0)
     [from_parts W 0 5318,
      reads W DbWeight 6,
      writes W DbWeight 5]"

definition evm_pallet_treasury_check_status :: "'w weight_api \<Rightarrow> RuntimeDbWeight \<Rightarrow> 'w" where [weight_defs]:
  "evm_pallet_treasury_check_status W DbWeight =
     add_chain W (from_parts W 29225000 0)
     [from_parts W 0 5318,
      reads W DbWeight 2,
      writes W DbWeight 2]"

definition evm_pallet_treasury_void_spend :: "'w weight_api \<Rightarrow> RuntimeDbWeight \<Rightarrow> 'w" where [weight_defs]:
  "evm_pallet_treasury_void_spend W DbWeight =
     add_chain W (from_parts W 17442000 0)
     [from_parts W 0 5318,
      reads W DbWeight 1,
      writes W DbWeight 1]"

definition evm_pallet_treasury_WeightInfo :: "'w weight_api \<Rightarrow> RuntimeDbWeight \<Rightarrow> 'w weight_entry list" where
  "evm_pallet_treasury_WeightInfo W DbWeight = [
     weight_fn ''pallet_treasury::spend_local'' []
       (\<lambda>c. evm_pallet_treasury_spend_local W DbWeight),
     weight_fn ''pallet_treasury::remove_approval'' []
       (\<lambda>c. evm_pallet_treasury_remove_approval W DbWeight),
     weight_fn ''pallet_treasury::on_initialize_proposals'' [(0, 99)]
       (\<lambda>c. evm_pallet_treasury_on_initialize_proposals W DbWeight (c ! 0)),
     weight_fn ''pallet_treasury::spend'' []
       (\<lambda>c. evm_pallet_treasury_spend W DbWeight),
     weight_fn ''pallet_treasury::payout'' []
       (\<lambda>c. evm_pallet_treasury_payout W DbWeight),
     weight_fn ''pallet_treasury::check_status'' []
       (\<lambda>c. evm_pallet_treasury_check_status W DbWeight),
     weight_fn ''pallet_treasury::void_spend'' []
       (\<lambda>c. evm_pallet_treasury_void_spend W DbWeight)]"

section \<open>pallet_whitelist\<close>

definition evm_pallet_whitelist_whitelist_call :: "'w weight_api \<Rightarrow> RuntimeDbWeight \<Rightarrow> 'w" where [weight_defs]:
  "evm_pallet_whitelist_whitelist_call W DbWeight =
     add_chain W (from_parts W 24243000 0)
     [from_parts W 0 3544,
      reads W DbWeight 3,
      writes W DbWeight 2]"

definition evm_pallet_whitelist_remove_whitelisted_call :: "'w weight_api \<Rightarrow> RuntimeDbWeight \<Rightarrow> 'w" where [weight_defs]:
  "evm_pallet_whitelist_remove_whitelisted_call W DbWeight =
     add_chain W (from_parts W 22342000 0)
     [from_parts W 0 3544,
      reads W DbWeight 3,
      writes W DbWeight 2]"

definition evm_pallet_whitelist_dispatch_whitelisted_call :: "'w weight_api \<Rightarrow> RuntimeDbWeight \<Rightarrow> nat \<Rightarrow> 'w" where [weight_defs]:
  "evm_pallet_whitelist_dispatch_whitelisted_call W DbWeight n =
     add_chain W (from_parts W 37282000 0)
     [from_parts W 0 3716,
      saturating_mul W (from_parts W 1378 0) n,
      reads W DbWeight 4,
      writes W DbWeight 3,
      saturating_mul W (from_parts W 0 1) n]"

definition evm_pallet_whitelist_dispatch_whitelisted_call_with_preimage :: "'w weight_api \<Rightarrow> RuntimeDbWeight \<Rightarrow> nat \<Rightarrow> 'w" where [weight_defs]:
  "evm_pallet_whitelist_dispatch_whitelisted_call_with_preimage W DbWeight n =
     add_chain W (from_parts W 27713058 0)
     [from_parts W 0 3544,
      saturating_mul W (from_parts W 1407 0) n,
      reads W DbWeight 3,
      writes W DbWeight 2]"

definition evm_pallet_whitelist_WeightInfo :: "'w weight_api \<Rightarrow> RuntimeDbWeight \<Rightarrow> 'w weight_entry list" where
  "evm_pallet_whitelist_WeightInfo W DbWeight = [
     weight_fn ''pallet_whitelist::whitelist_call'' []
       (\<lambda>c. evm_pallet_whitelist_whitelist_call W DbWeight),
     weight_fn ''pallet_whitelist::remove_whitelisted_call'' []
       (\<lambda>c. evm_pallet_whitelist_remove_whitelisted_call W DbWeight),
     weight_fn ''pallet_whitelist::dispatch_whitelisted_call'' [(1, 4194294)]
       (\<lambda>c. evm_pallet_whitelist_dispatch_whitelisted_call W DbWeight (c ! 0)),
     weight_fn ''pallet_whitelist::dispatch_whitelisted_call_with_preimage'' [(1, 10000)]
       (\<lambda>c. evm_pallet_whitelist_dispatch_whitelisted_call_with_preimage W DbWeight (c ! 0))]"

section \<open>The group as configured\<close>

definition evm_GovernanceWeightFull :: "'w weight_api \<Rightarrow> 'w weight_entry list" where
  "evm_GovernanceWeightFull W =
     evm_pallet_conviction_voting_WeightInfo W (RocksDbWeight W) @
     evm_pallet_referenda_WeightInfo W (RocksDbWeight W) @
     evm_pallet_sudo_WeightInfo W (RocksDbWeight W) @
     evm_pallet_treasury_WeightInfo W (RocksDbWeight W) @
     evm_pallet_whitelist_WeightInfo W (RocksDbWeight W)"

section \<open>Bounds and monotonicity\<close>

context weight_laws
begin

lemma evm_Governance_within:
  "registry_within W 349875000000 3670016 (evm_GovernanceWeightFull W)"
  unfolding evm_GovernanceWeightFull_def evm_pallet_conviction_voting_WeightInfo_def evm_pallet_referenda_WeightInfo_def evm_pallet_sudo_WeightInfo_def evm_pallet_treasury_WeightInfo_def evm_pallet_whitelist_WeightInfo_def append.simps
  by (intro fit_intros; simp only: weight_defs fit_simps)
    (rule within_weaken, (assumption | rule fit_steps)+, simp add: rocksdb_costs, simp)+

lemma evm_Governance_monotone:
  "registry_monotone W (evm_GovernanceWeightFull W)"
  unfolding evm_GovernanceWeightFull_def evm_pallet_conviction_voting_WeightInfo_def evm_pallet_referenda_WeightInfo_def evm_pallet_sudo_WeightInfo_def evm_pallet_treasury_WeightInfo_def evm_pallet_whitelist_WeightInfo_def append.simps
  by (intro mono_intros; simp only: weight_defs fit_simps) (assumption | rule mono_steps)+

end

end
