(* ===== verification/Evm_Weights_Xcm.thy ===== *)
theory Evm_Weights_Xcm
  imports Runtime_Constants
begin

text \<open>
  The benchmarked weight functions of the evm template's runtime that \<open>XcmWeightFull\<close>
  installs: \<open>pallet_message_queue\<close>, \<open>pallet_xcm\<close>, \<open>pallet_xcm_transactor\<close>, \<open>pallet_xcm_weight_trader\<close>, \<open>cumulus_pallet_xcmp_queue\<close>. Each function of a
  \<open>WeightInfo\<close> implementation is one definition over the weight interface and the runtime's
  \<open>DbWeight\<close>; each implementation is a registry of its functions with the component ranges
  the benchmark recorded. The lemmas bound every function over its whole range and show that
  it grows with its components.
\<close>

section \<open>pallet_message_queue\<close>

definition evm_pallet_message_queue_ready_ring_knit :: "'w weight_api \<Rightarrow> RuntimeDbWeight \<Rightarrow> 'w" where [weight_defs]:
  "evm_pallet_message_queue_ready_ring_knit W DbWeight =
     add_chain W (from_parts W 15877000 0)
     [from_parts W 0 6044,
      reads W DbWeight 3,
      writes W DbWeight 2]"

definition evm_pallet_message_queue_ready_ring_unknit :: "'w weight_api \<Rightarrow> RuntimeDbWeight \<Rightarrow> 'w" where [weight_defs]:
  "evm_pallet_message_queue_ready_ring_unknit W DbWeight =
     add_chain W (from_parts W 13942000 0)
     [from_parts W 0 6044,
      reads W DbWeight 3,
      writes W DbWeight 3]"

definition evm_pallet_message_queue_service_queue_base :: "'w weight_api \<Rightarrow> RuntimeDbWeight \<Rightarrow> 'w" where [weight_defs]:
  "evm_pallet_message_queue_service_queue_base W DbWeight =
     add_chain W (from_parts W 6103000 0)
     [from_parts W 0 3517,
      reads W DbWeight 1,
      writes W DbWeight 1]"

definition evm_pallet_message_queue_service_page_base_completion :: "'w weight_api \<Rightarrow> RuntimeDbWeight \<Rightarrow> 'w" where [weight_defs]:
  "evm_pallet_message_queue_service_page_base_completion W DbWeight =
     add_chain W (from_parts W 8425000 0)
     [from_parts W 0 69050,
      reads W DbWeight 1,
      writes W DbWeight 1]"

definition evm_pallet_message_queue_service_page_base_no_completion :: "'w weight_api \<Rightarrow> RuntimeDbWeight \<Rightarrow> 'w" where [weight_defs]:
  "evm_pallet_message_queue_service_page_base_no_completion W DbWeight =
     add_chain W (from_parts W 8474000 0)
     [from_parts W 0 69050,
      reads W DbWeight 1,
      writes W DbWeight 1]"

definition evm_pallet_message_queue_service_page_item :: "'w weight_api \<Rightarrow> RuntimeDbWeight \<Rightarrow> 'w" where [weight_defs]:
  "evm_pallet_message_queue_service_page_item W DbWeight =
     add_chain W (from_parts W 161469000 0)
     [from_parts W 0 0,
      writes W DbWeight 2]"

definition evm_pallet_message_queue_set_service_head :: "'w weight_api \<Rightarrow> RuntimeDbWeight \<Rightarrow> 'w" where [weight_defs]:
  "evm_pallet_message_queue_set_service_head W DbWeight =
     add_chain W (from_parts W 7582000 0)
     [from_parts W 0 3517,
      reads W DbWeight 1,
      writes W DbWeight 1]"

definition evm_pallet_message_queue_bump_service_head :: "'w weight_api \<Rightarrow> RuntimeDbWeight \<Rightarrow> 'w" where [weight_defs]:
  "evm_pallet_message_queue_bump_service_head W DbWeight =
     add_chain W (from_parts W 8744000 0)
     [from_parts W 0 3517,
      reads W DbWeight 2,
      writes W DbWeight 1]"

definition evm_pallet_message_queue_reap_page :: "'w weight_api \<Rightarrow> RuntimeDbWeight \<Rightarrow> 'w" where [weight_defs]:
  "evm_pallet_message_queue_reap_page W DbWeight =
     add_chain W (from_parts W 59796000 0)
     [from_parts W 0 69050,
      reads W DbWeight 2,
      writes W DbWeight 2]"

definition evm_pallet_message_queue_execute_overweight_page_removed :: "'w weight_api \<Rightarrow> RuntimeDbWeight \<Rightarrow> 'w" where [weight_defs]:
  "evm_pallet_message_queue_execute_overweight_page_removed W DbWeight =
     add_chain W (from_parts W 77590000 0)
     [from_parts W 0 69050,
      reads W DbWeight 2,
      writes W DbWeight 2]"

definition evm_pallet_message_queue_execute_overweight_page_updated :: "'w weight_api \<Rightarrow> RuntimeDbWeight \<Rightarrow> 'w" where [weight_defs]:
  "evm_pallet_message_queue_execute_overweight_page_updated W DbWeight =
     add_chain W (from_parts W 114128000 0)
     [from_parts W 0 69050,
      reads W DbWeight 2,
      writes W DbWeight 2]"

definition evm_pallet_message_queue_WeightInfo :: "'w weight_api \<Rightarrow> RuntimeDbWeight \<Rightarrow> 'w weight_entry list" where
  "evm_pallet_message_queue_WeightInfo W DbWeight = [
     weight_fn ''pallet_message_queue::ready_ring_knit'' []
       (\<lambda>c. evm_pallet_message_queue_ready_ring_knit W DbWeight),
     weight_fn ''pallet_message_queue::ready_ring_unknit'' []
       (\<lambda>c. evm_pallet_message_queue_ready_ring_unknit W DbWeight),
     weight_fn ''pallet_message_queue::service_queue_base'' []
       (\<lambda>c. evm_pallet_message_queue_service_queue_base W DbWeight),
     weight_fn ''pallet_message_queue::service_page_base_completion'' []
       (\<lambda>c. evm_pallet_message_queue_service_page_base_completion W DbWeight),
     weight_fn ''pallet_message_queue::service_page_base_no_completion'' []
       (\<lambda>c. evm_pallet_message_queue_service_page_base_no_completion W DbWeight),
     weight_fn ''pallet_message_queue::service_page_item'' []
       (\<lambda>c. evm_pallet_message_queue_service_page_item W DbWeight),
     weight_fn ''pallet_message_queue::set_service_head'' []
       (\<lambda>c. evm_pallet_message_queue_set_service_head W DbWeight),
     weight_fn ''pallet_message_queue::bump_service_head'' []
       (\<lambda>c. evm_pallet_message_queue_bump_service_head W DbWeight),
     weight_fn ''pallet_message_queue::reap_page'' []
       (\<lambda>c. evm_pallet_message_queue_reap_page W DbWeight),
     weight_fn ''pallet_message_queue::execute_overweight_page_removed'' []
       (\<lambda>c. evm_pallet_message_queue_execute_overweight_page_removed W DbWeight),
     weight_fn ''pallet_message_queue::execute_overweight_page_updated'' []
       (\<lambda>c. evm_pallet_message_queue_execute_overweight_page_updated W DbWeight)]"

section \<open>pallet_xcm\<close>

definition evm_pallet_xcm_add_authorized_alias :: "'w weight_api \<Rightarrow> RuntimeDbWeight \<Rightarrow> 'w" where [weight_defs]:
  "evm_pallet_xcm_add_authorized_alias W DbWeight =
     add_chain W (from_parts W 20317000 3963)
     [reads W DbWeight 1,
      writes W DbWeight 1]"

definition evm_pallet_xcm_remove_authorized_alias :: "'w weight_api \<Rightarrow> RuntimeDbWeight \<Rightarrow> 'w" where [weight_defs]:
  "evm_pallet_xcm_remove_authorized_alias W DbWeight =
     add_chain W (from_parts W 21481000 4002)
     [reads W DbWeight 1,
      writes W DbWeight 1]"

definition evm_pallet_xcm_send :: "'w weight_api \<Rightarrow> RuntimeDbWeight \<Rightarrow> 'w" where [weight_defs]:
  "evm_pallet_xcm_send W DbWeight =
     add_chain W (from_parts W 21418000 0)
     [from_parts W 0 1561,
      reads W DbWeight 2,
      writes W DbWeight 1]"

definition evm_pallet_xcm_teleport_assets :: "'w weight_api \<Rightarrow> RuntimeDbWeight \<Rightarrow> 'w" where [weight_defs]:
  "evm_pallet_xcm_teleport_assets W DbWeight =
     add_chain W (from_parts W 18446744073709551000 0)
     [from_parts W 0 0]"

definition evm_pallet_xcm_reserve_transfer_assets :: "'w weight_api \<Rightarrow> RuntimeDbWeight \<Rightarrow> 'w" where [weight_defs]:
  "evm_pallet_xcm_reserve_transfer_assets W DbWeight =
     add_chain W (from_parts W 206370000 0)
     [from_parts W 0 11378,
      reads W DbWeight 15,
      writes W DbWeight 10]"

definition evm_pallet_xcm_transfer_assets :: "'w weight_api \<Rightarrow> RuntimeDbWeight \<Rightarrow> 'w" where [weight_defs]:
  "evm_pallet_xcm_transfer_assets W DbWeight =
     add_chain W (from_parts W 115655000 0)
     [from_parts W 0 6184,
      reads W DbWeight 9,
      writes W DbWeight 5]"

definition evm_pallet_xcm_execute :: "'w weight_api \<Rightarrow> RuntimeDbWeight \<Rightarrow> 'w" where [weight_defs]:
  "evm_pallet_xcm_execute W DbWeight =
     add_chain W (from_parts W 11027000 0)
     [from_parts W 0 1485,
      reads W DbWeight 1]"

definition evm_pallet_xcm_force_xcm_version :: "'w weight_api \<Rightarrow> RuntimeDbWeight \<Rightarrow> 'w" where [weight_defs]:
  "evm_pallet_xcm_force_xcm_version W DbWeight =
     add_chain W (from_parts W 9999000 0)
     [from_parts W 0 0,
      writes W DbWeight 1]"

definition evm_pallet_xcm_force_default_xcm_version :: "'w weight_api \<Rightarrow> RuntimeDbWeight \<Rightarrow> 'w" where [weight_defs]:
  "evm_pallet_xcm_force_default_xcm_version W DbWeight =
     add_chain W (from_parts W 3121000 0)
     [from_parts W 0 0]"

definition evm_pallet_xcm_force_subscribe_version_notify :: "'w weight_api \<Rightarrow> RuntimeDbWeight \<Rightarrow> 'w" where [weight_defs]:
  "evm_pallet_xcm_force_subscribe_version_notify W DbWeight =
     add_chain W (from_parts W 30025000 0)
     [from_parts W 0 3541,
      reads W DbWeight 4,
      writes W DbWeight 4]"

definition evm_pallet_xcm_force_unsubscribe_version_notify :: "'w weight_api \<Rightarrow> RuntimeDbWeight \<Rightarrow> 'w" where [weight_defs]:
  "evm_pallet_xcm_force_unsubscribe_version_notify W DbWeight =
     add_chain W (from_parts W 28457000 0)
     [from_parts W 0 3635,
      reads W DbWeight 3,
      writes W DbWeight 3]"

definition evm_pallet_xcm_force_suspension :: "'w weight_api \<Rightarrow> RuntimeDbWeight \<Rightarrow> 'w" where [weight_defs]:
  "evm_pallet_xcm_force_suspension W DbWeight =
     add_chain W (from_parts W 3075000 0)
     [from_parts W 0 0,
      writes W DbWeight 1]"

definition evm_pallet_xcm_migrate_supported_version :: "'w weight_api \<Rightarrow> RuntimeDbWeight \<Rightarrow> 'w" where [weight_defs]:
  "evm_pallet_xcm_migrate_supported_version W DbWeight =
     add_chain W (from_parts W 22328000 0)
     [from_parts W 0 13388,
      reads W DbWeight 5,
      writes W DbWeight 2]"

definition evm_pallet_xcm_migrate_version_notifiers :: "'w weight_api \<Rightarrow> RuntimeDbWeight \<Rightarrow> 'w" where [weight_defs]:
  "evm_pallet_xcm_migrate_version_notifiers W DbWeight =
     add_chain W (from_parts W 22536000 0)
     [from_parts W 0 13392,
      reads W DbWeight 5,
      writes W DbWeight 2]"

definition evm_pallet_xcm_already_notified_target :: "'w weight_api \<Rightarrow> RuntimeDbWeight \<Rightarrow> 'w" where [weight_defs]:
  "evm_pallet_xcm_already_notified_target W DbWeight =
     add_chain W (from_parts W 24965000 0)
     [from_parts W 0 15916,
      reads W DbWeight 6]"

definition evm_pallet_xcm_notify_current_targets :: "'w weight_api \<Rightarrow> RuntimeDbWeight \<Rightarrow> 'w" where [weight_defs]:
  "evm_pallet_xcm_notify_current_targets W DbWeight =
     add_chain W (from_parts W 28206000 0)
     [from_parts W 0 6050,
      reads W DbWeight 4,
      writes W DbWeight 2]"

definition evm_pallet_xcm_notify_target_migration_fail :: "'w weight_api \<Rightarrow> RuntimeDbWeight \<Rightarrow> 'w" where [weight_defs]:
  "evm_pallet_xcm_notify_target_migration_fail W DbWeight =
     add_chain W (from_parts W 15353000 0)
     [from_parts W 0 10927,
      reads W DbWeight 4]"

definition evm_pallet_xcm_migrate_version_notify_targets :: "'w weight_api \<Rightarrow> RuntimeDbWeight \<Rightarrow> 'w" where [weight_defs]:
  "evm_pallet_xcm_migrate_version_notify_targets W DbWeight =
     add_chain W (from_parts W 22921000 0)
     [from_parts W 0 13399,
      reads W DbWeight 5,
      writes W DbWeight 2]"

definition evm_pallet_xcm_migrate_and_notify_old_targets :: "'w weight_api \<Rightarrow> RuntimeDbWeight \<Rightarrow> 'w" where [weight_defs]:
  "evm_pallet_xcm_migrate_and_notify_old_targets W DbWeight =
     add_chain W (from_parts W 39437000 0)
     [from_parts W 0 13475,
      reads W DbWeight 7,
      writes W DbWeight 3]"

definition evm_pallet_xcm_new_query :: "'w weight_api \<Rightarrow> RuntimeDbWeight \<Rightarrow> 'w" where [weight_defs]:
  "evm_pallet_xcm_new_query W DbWeight =
     add_chain W (from_parts W 3291000 0)
     [from_parts W 0 1485,
      reads W DbWeight 1,
      writes W DbWeight 2]"

definition evm_pallet_xcm_take_response :: "'w weight_api \<Rightarrow> RuntimeDbWeight \<Rightarrow> 'w" where [weight_defs]:
  "evm_pallet_xcm_take_response W DbWeight =
     add_chain W (from_parts W 32742000 0)
     [from_parts W 0 11041,
      reads W DbWeight 1,
      writes W DbWeight 1]"

definition evm_pallet_xcm_claim_assets :: "'w weight_api \<Rightarrow> RuntimeDbWeight \<Rightarrow> 'w" where [weight_defs]:
  "evm_pallet_xcm_claim_assets W DbWeight =
     add_chain W (from_parts W 63831000 0)
     [from_parts W 0 3866,
      reads W DbWeight 5,
      writes W DbWeight 3]"

definition evm_pallet_xcm_WeightInfo :: "'w weight_api \<Rightarrow> RuntimeDbWeight \<Rightarrow> 'w weight_entry list" where
  "evm_pallet_xcm_WeightInfo W DbWeight = [
     weight_fn ''pallet_xcm::add_authorized_alias'' []
       (\<lambda>c. evm_pallet_xcm_add_authorized_alias W DbWeight),
     weight_fn ''pallet_xcm::remove_authorized_alias'' []
       (\<lambda>c. evm_pallet_xcm_remove_authorized_alias W DbWeight),
     weight_fn ''pallet_xcm::send'' []
       (\<lambda>c. evm_pallet_xcm_send W DbWeight),
     weight_fn ''pallet_xcm::teleport_assets'' []
       (\<lambda>c. evm_pallet_xcm_teleport_assets W DbWeight),
     weight_fn ''pallet_xcm::reserve_transfer_assets'' []
       (\<lambda>c. evm_pallet_xcm_reserve_transfer_assets W DbWeight),
     weight_fn ''pallet_xcm::transfer_assets'' []
       (\<lambda>c. evm_pallet_xcm_transfer_assets W DbWeight),
     weight_fn ''pallet_xcm::execute'' []
       (\<lambda>c. evm_pallet_xcm_execute W DbWeight),
     weight_fn ''pallet_xcm::force_xcm_version'' []
       (\<lambda>c. evm_pallet_xcm_force_xcm_version W DbWeight),
     weight_fn ''pallet_xcm::force_default_xcm_version'' []
       (\<lambda>c. evm_pallet_xcm_force_default_xcm_version W DbWeight),
     weight_fn ''pallet_xcm::force_subscribe_version_notify'' []
       (\<lambda>c. evm_pallet_xcm_force_subscribe_version_notify W DbWeight),
     weight_fn ''pallet_xcm::force_unsubscribe_version_notify'' []
       (\<lambda>c. evm_pallet_xcm_force_unsubscribe_version_notify W DbWeight),
     weight_fn ''pallet_xcm::force_suspension'' []
       (\<lambda>c. evm_pallet_xcm_force_suspension W DbWeight),
     weight_fn ''pallet_xcm::migrate_supported_version'' []
       (\<lambda>c. evm_pallet_xcm_migrate_supported_version W DbWeight),
     weight_fn ''pallet_xcm::migrate_version_notifiers'' []
       (\<lambda>c. evm_pallet_xcm_migrate_version_notifiers W DbWeight),
     weight_fn ''pallet_xcm::already_notified_target'' []
       (\<lambda>c. evm_pallet_xcm_already_notified_target W DbWeight),
     weight_fn ''pallet_xcm::notify_current_targets'' []
       (\<lambda>c. evm_pallet_xcm_notify_current_targets W DbWeight),
     weight_fn ''pallet_xcm::notify_target_migration_fail'' []
       (\<lambda>c. evm_pallet_xcm_notify_target_migration_fail W DbWeight),
     weight_fn ''pallet_xcm::migrate_version_notify_targets'' []
       (\<lambda>c. evm_pallet_xcm_migrate_version_notify_targets W DbWeight),
     weight_fn ''pallet_xcm::migrate_and_notify_old_targets'' []
       (\<lambda>c. evm_pallet_xcm_migrate_and_notify_old_targets W DbWeight),
     weight_fn ''pallet_xcm::new_query'' []
       (\<lambda>c. evm_pallet_xcm_new_query W DbWeight),
     weight_fn ''pallet_xcm::take_response'' []
       (\<lambda>c. evm_pallet_xcm_take_response W DbWeight),
     weight_fn ''pallet_xcm::claim_assets'' []
       (\<lambda>c. evm_pallet_xcm_claim_assets W DbWeight)]"

section \<open>pallet_xcm_transactor\<close>

definition evm_pallet_xcm_transactor_register :: "'w weight_api \<Rightarrow> RuntimeDbWeight \<Rightarrow> 'w" where [weight_defs]:
  "evm_pallet_xcm_transactor_register W DbWeight =
     add_chain W (from_parts W 13922000 0)
     [from_parts W 0 3612,
      reads W DbWeight 1,
      writes W DbWeight 1]"

definition evm_pallet_xcm_transactor_deregister :: "'w weight_api \<Rightarrow> RuntimeDbWeight \<Rightarrow> 'w" where [weight_defs]:
  "evm_pallet_xcm_transactor_deregister W DbWeight =
     add_chain W (from_parts W 8499000 0)
     [from_parts W 0 0,
      writes W DbWeight 1]"

definition evm_pallet_xcm_transactor_set_transact_info :: "'w weight_api \<Rightarrow> RuntimeDbWeight \<Rightarrow> 'w" where [weight_defs]:
  "evm_pallet_xcm_transactor_set_transact_info W DbWeight =
     add_chain W (from_parts W 9867000 0)
     [from_parts W 0 0,
      writes W DbWeight 1]"

definition evm_pallet_xcm_transactor_remove_transact_info :: "'w weight_api \<Rightarrow> RuntimeDbWeight \<Rightarrow> 'w" where [weight_defs]:
  "evm_pallet_xcm_transactor_remove_transact_info W DbWeight =
     add_chain W (from_parts W 9388000 0)
     [from_parts W 0 0,
      writes W DbWeight 1]"

definition evm_pallet_xcm_transactor_set_fee_per_second :: "'w weight_api \<Rightarrow> RuntimeDbWeight \<Rightarrow> 'w" where [weight_defs]:
  "evm_pallet_xcm_transactor_set_fee_per_second W DbWeight =
     add_chain W (from_parts W 9200000 0)
     [from_parts W 0 0,
      writes W DbWeight 1]"

definition evm_pallet_xcm_transactor_transact_through_derivative :: "'w weight_api \<Rightarrow> RuntimeDbWeight \<Rightarrow> 'w" where [weight_defs]:
  "evm_pallet_xcm_transactor_transact_through_derivative W DbWeight =
     add_chain W (from_parts W 38023000 0)
     [from_parts W 0 4090,
      reads W DbWeight 8]"

definition evm_pallet_xcm_transactor_transact_through_sovereign :: "'w weight_api \<Rightarrow> RuntimeDbWeight \<Rightarrow> 'w" where [weight_defs]:
  "evm_pallet_xcm_transactor_transact_through_sovereign W DbWeight =
     add_chain W (from_parts W 32106000 0)
     [from_parts W 0 4024,
      reads W DbWeight 6]"

definition evm_pallet_xcm_transactor_transact_through_signed :: "'w weight_api \<Rightarrow> RuntimeDbWeight \<Rightarrow> 'w" where [weight_defs]:
  "evm_pallet_xcm_transactor_transact_through_signed W DbWeight =
     add_chain W (from_parts W 46849000 0)
     [from_parts W 0 3999,
      reads W DbWeight 6,
      writes W DbWeight 1]"

definition evm_pallet_xcm_transactor_hrmp_manage :: "'w weight_api \<Rightarrow> RuntimeDbWeight \<Rightarrow> 'w" where [weight_defs]:
  "evm_pallet_xcm_transactor_hrmp_manage W DbWeight =
     add_chain W (from_parts W 50518000 0)
     [from_parts W 0 4003,
      reads W DbWeight 7,
      writes W DbWeight 1]"

definition evm_pallet_xcm_transactor_WeightInfo :: "'w weight_api \<Rightarrow> RuntimeDbWeight \<Rightarrow> 'w weight_entry list" where
  "evm_pallet_xcm_transactor_WeightInfo W DbWeight = [
     weight_fn ''pallet_xcm_transactor::register'' []
       (\<lambda>c. evm_pallet_xcm_transactor_register W DbWeight),
     weight_fn ''pallet_xcm_transactor::deregister'' []
       (\<lambda>c. evm_pallet_xcm_transactor_deregister W DbWeight),
     weight_fn ''pallet_xcm_transactor::set_transact_info'' []
       (\<lambda>c. evm_pallet_xcm_transactor_set_transact_info W DbWeight),
     weight_fn ''pallet_xcm_transactor::remove_transact_info'' []
       (\<lambda>c. evm_pallet_xcm_transactor_remove_transact_info W DbWeight),
     weight_fn ''pallet_xcm_transactor::set_fee_per_second'' []
       (\<lambda>c. evm_pallet_xcm_transactor_set_fee_per_second W DbWeight),
     weight_fn ''pallet_xcm_transactor::transact_through_derivative'' []
       (\<lambda>c. evm_pallet_xcm_transactor_transact_through_derivative W DbWeight),
     weight_fn ''pallet_xcm_transactor::transact_through_sovereign'' []
       (\<lambda>c. evm_pallet_xcm_transactor_transact_through_sovereign W DbWeight),
     weight_fn ''pallet_xcm_transactor::transact_through_signed'' []
       (\<lambda>c. evm_pallet_xcm_transactor_transact_through_signed W DbWeight),
     weight_fn ''pallet_xcm_transactor::hrmp_manage'' []
       (\<lambda>c. evm_pallet_xcm_transactor_hrmp_manage W DbWeight)]"

section \<open>pallet_xcm_weight_trader\<close>

definition evm_pallet_xcm_weight_trader_add_asset :: "'w weight_api \<Rightarrow> RuntimeDbWeight \<Rightarrow> 'w" where [weight_defs]:
  "evm_pallet_xcm_weight_trader_add_asset W DbWeight =
     add_chain W (from_parts W 13611000 0)
     [from_parts W 0 4100,
      reads W DbWeight 1,
      writes W DbWeight 1]"

definition evm_pallet_xcm_weight_trader_edit_asset :: "'w weight_api \<Rightarrow> RuntimeDbWeight \<Rightarrow> 'w" where [weight_defs]:
  "evm_pallet_xcm_weight_trader_edit_asset W DbWeight =
     add_chain W (from_parts W 14875000 0)
     [from_parts W 0 4100,
      reads W DbWeight 1,
      writes W DbWeight 1]"

definition evm_pallet_xcm_weight_trader_resume_asset_support :: "'w weight_api \<Rightarrow> RuntimeDbWeight \<Rightarrow> 'w" where [weight_defs]:
  "evm_pallet_xcm_weight_trader_resume_asset_support W DbWeight =
     add_chain W (from_parts W 14758000 0)
     [from_parts W 0 4100,
      reads W DbWeight 1,
      writes W DbWeight 1]"

definition evm_pallet_xcm_weight_trader_pause_asset_support :: "'w weight_api \<Rightarrow> RuntimeDbWeight \<Rightarrow> 'w" where [weight_defs]:
  "evm_pallet_xcm_weight_trader_pause_asset_support W DbWeight =
     add_chain W (from_parts W 14840000 0)
     [from_parts W 0 4100,
      reads W DbWeight 1,
      writes W DbWeight 1]"

definition evm_pallet_xcm_weight_trader_remove_asset :: "'w weight_api \<Rightarrow> RuntimeDbWeight \<Rightarrow> 'w" where [weight_defs]:
  "evm_pallet_xcm_weight_trader_remove_asset W DbWeight =
     add_chain W (from_parts W 14378000 0)
     [from_parts W 0 4100,
      reads W DbWeight 1,
      writes W DbWeight 1]"

definition evm_pallet_xcm_weight_trader_WeightInfo :: "'w weight_api \<Rightarrow> RuntimeDbWeight \<Rightarrow> 'w weight_entry list" where
  "evm_pallet_xcm_weight_trader_WeightInfo W DbWeight = [
     weight_fn ''pallet_xcm_weight_trader::add_asset'' []
       (\<lambda>c. evm_pallet_xcm_weight_trader_add_asset W DbWeight),
     weight_fn ''pallet_xcm_weight_trader::edit_asset'' []
       (\<lambda>c. evm_pallet_xcm_weight_trader_edit_asset W DbWeight),
     weight_fn ''pallet_xcm_weight_trader::resume_asset_support'' []
       (\<lambda>c. evm_pallet_xcm_weight_trader_resume_asset_support W DbWeight),
     weight_fn ''pallet_xcm_weight_trader::pause_asset_support'' []
       (\<lambda>c. evm_pallet_xcm_weight_trader_pause_asset_support W DbWeight),
     weight_fn ''pallet_xcm_weight_trader::remove_asset'' []
       (\<lambda>c. evm_pallet_xcm_weight_trader_remove_asset W DbWeight)]"

section \<open>cumulus_pallet_xcmp_queue\<close>

definition evm_cumulus_pallet_xcmp_queue_set_config_with_u32 :: "'w weight_api \<Rightarrow> RuntimeDbWeight \<Rightarrow> 'w" where [weight_defs]:
  "evm_cumulus_pallet_xcmp_queue_set_config_with_u32 W DbWeight =
     add_chain W (from_parts W 6902000 0)
     [from_parts W 0 1497,
      reads W DbWeight 1,
      writes W DbWeight 1]"

definition evm_cumulus_pallet_xcmp_queue_enqueue_n_bytes_xcmp_message :: "'w weight_api \<Rightarrow> RuntimeDbWeight \<Rightarrow> nat \<Rightarrow> 'w" where [weight_defs]:
  "evm_cumulus_pallet_xcmp_queue_enqueue_n_bytes_xcmp_message W DbWeight n =
     add_chain W (from_parts W 9165318 0)
     [from_parts W 0 5487,
      saturating_mul W (from_parts W 943 0) n,
      reads W DbWeight 4,
      writes W DbWeight 3]"

definition evm_cumulus_pallet_xcmp_queue_enqueue_2_empty_xcmp_messages :: "'w weight_api \<Rightarrow> RuntimeDbWeight \<Rightarrow> 'w" where [weight_defs]:
  "evm_cumulus_pallet_xcmp_queue_enqueue_2_empty_xcmp_messages W DbWeight =
     add_chain W (from_parts W 17493000 0)
     [from_parts W 0 5487,
      reads W DbWeight 4,
      writes W DbWeight 3]"

definition evm_cumulus_pallet_xcmp_queue_suspend_channel :: "'w weight_api \<Rightarrow> RuntimeDbWeight \<Rightarrow> 'w" where [weight_defs]:
  "evm_cumulus_pallet_xcmp_queue_suspend_channel W DbWeight =
     add_chain W (from_parts W 4172000 0)
     [from_parts W 0 2767,
      reads W DbWeight 1,
      writes W DbWeight 1]"

definition evm_cumulus_pallet_xcmp_queue_resume_channel :: "'w weight_api \<Rightarrow> RuntimeDbWeight \<Rightarrow> 'w" where [weight_defs]:
  "evm_cumulus_pallet_xcmp_queue_resume_channel W DbWeight =
     add_chain W (from_parts W 5147000 0)
     [from_parts W 0 2767,
      reads W DbWeight 1,
      writes W DbWeight 1]"

definition evm_cumulus_pallet_xcmp_queue_take_first_concatenated_xcm :: "'w weight_api \<Rightarrow> RuntimeDbWeight \<Rightarrow> 'w" where [weight_defs]:
  "evm_cumulus_pallet_xcmp_queue_take_first_concatenated_xcm W DbWeight =
     add_chain W (from_parts W 9812000 0)
     [from_parts W 0 0]"

definition evm_cumulus_pallet_xcmp_queue_on_idle_good_msg :: "'w weight_api \<Rightarrow> RuntimeDbWeight \<Rightarrow> 'w" where [weight_defs]:
  "evm_cumulus_pallet_xcmp_queue_on_idle_good_msg W DbWeight =
     add_chain W (from_parts W 115934000 0)
     [from_parts W 0 69176,
      reads W DbWeight 6,
      writes W DbWeight 5]"

definition evm_cumulus_pallet_xcmp_queue_on_idle_large_msg :: "'w weight_api \<Rightarrow> RuntimeDbWeight \<Rightarrow> 'w" where [weight_defs]:
  "evm_cumulus_pallet_xcmp_queue_on_idle_large_msg W DbWeight =
     add_chain W (from_parts W 55958000 0)
     [from_parts W 0 69175,
      reads W DbWeight 2,
      writes W DbWeight 2]"

definition evm_cumulus_pallet_xcmp_queue_WeightInfo :: "'w weight_api \<Rightarrow> RuntimeDbWeight \<Rightarrow> 'w weight_entry list" where
  "evm_cumulus_pallet_xcmp_queue_WeightInfo W DbWeight = [
     weight_fn ''cumulus_pallet_xcmp_queue::set_config_with_u32'' []
       (\<lambda>c. evm_cumulus_pallet_xcmp_queue_set_config_with_u32 W DbWeight),
     weight_fn ''cumulus_pallet_xcmp_queue::enqueue_n_bytes_xcmp_message'' [(1, 105467)]
       (\<lambda>c. evm_cumulus_pallet_xcmp_queue_enqueue_n_bytes_xcmp_message W DbWeight (c ! 0)),
     weight_fn ''cumulus_pallet_xcmp_queue::enqueue_2_empty_xcmp_messages'' []
       (\<lambda>c. evm_cumulus_pallet_xcmp_queue_enqueue_2_empty_xcmp_messages W DbWeight),
     weight_fn ''cumulus_pallet_xcmp_queue::suspend_channel'' []
       (\<lambda>c. evm_cumulus_pallet_xcmp_queue_suspend_channel W DbWeight),
     weight_fn ''cumulus_pallet_xcmp_queue::resume_channel'' []
       (\<lambda>c. evm_cumulus_pallet_xcmp_queue_resume_channel W DbWeight),
     weight_fn ''cumulus_pallet_xcmp_queue::take_first_concatenated_xcm'' []
       (\<lambda>c. evm_cumulus_pallet_xcmp_queue_take_first_concatenated_xcm W DbWeight),
     weight_fn ''cumulus_pallet_xcmp_queue::on_idle_good_msg'' []
       (\<lambda>c. evm_cumulus_pallet_xcmp_queue_on_idle_good_msg W DbWeight),
     weight_fn ''cumulus_pallet_xcmp_queue::on_idle_large_msg'' []
       (\<lambda>c. evm_cumulus_pallet_xcmp_queue_on_idle_large_msg W DbWeight)]"

section \<open>The group as configured\<close>

definition evm_XcmWeightFull :: "'w weight_api \<Rightarrow> 'w weight_entry list" where
  "evm_XcmWeightFull W =
     evm_pallet_message_queue_WeightInfo W (RocksDbWeight W) @
     evm_pallet_xcm_WeightInfo W (RocksDbWeight W) @
     evm_pallet_xcm_transactor_WeightInfo W (RocksDbWeight W) @
     evm_pallet_xcm_weight_trader_WeightInfo W (RocksDbWeight W) @
     evm_cumulus_pallet_xcmp_queue_WeightInfo W (RocksDbWeight W)"

section \<open>Bounds and monotonicity\<close>

context weight_laws
begin

lemma evm_Xcm_within:
  "registry_within W 349875000000 3670016 (evm_XcmWeightFull W)"
  unfolding evm_XcmWeightFull_def evm_pallet_message_queue_WeightInfo_def evm_pallet_xcm_WeightInfo_def evm_pallet_xcm_transactor_WeightInfo_def evm_pallet_xcm_weight_trader_WeightInfo_def evm_cumulus_pallet_xcmp_queue_WeightInfo_def append.simps
  by (intro fit_intros; simp only: weight_defs fit_simps)
    (rule within_weaken, (assumption | rule fit_steps)+, simp add: rocksdb_costs, simp)+

lemma evm_Xcm_monotone:
  "registry_monotone W (evm_XcmWeightFull W)"
  unfolding evm_XcmWeightFull_def evm_pallet_message_queue_WeightInfo_def evm_pallet_xcm_WeightInfo_def evm_pallet_xcm_transactor_WeightInfo_def evm_pallet_xcm_weight_trader_WeightInfo_def evm_cumulus_pallet_xcmp_queue_WeightInfo_def append.simps
  by (intro mono_intros; simp only: weight_defs fit_simps) (assumption | rule mono_steps)+

end

end
