(* ===== verification/Evm_Weights_Evm.thy ===== *)
theory Evm_Weights_Evm
  imports Runtime_Constants
begin

text \<open>
  The benchmarked weight functions of the evm template's runtime that \<open>EvmWeightFull\<close>
  installs: \<open>pallet_evm\<close>. Each function of a
  \<open>WeightInfo\<close> implementation is one definition over the weight interface and the runtime's
  \<open>DbWeight\<close>; each implementation is a registry of its functions with the component ranges
  the benchmark recorded. The lemmas bound every function over its whole range and show that
  it grows with its components.
\<close>

section \<open>pallet_evm\<close>

definition evm_pallet_evm_withdraw :: "'w weight_api \<Rightarrow> RuntimeDbWeight \<Rightarrow> 'w" where [weight_defs]:
  "evm_pallet_evm_withdraw W DbWeight =
     add_chain W (from_parts W 2869000 0)
     [from_parts W 0 0]"

definition evm_pallet_evm_WeightInfo :: "'w weight_api \<Rightarrow> RuntimeDbWeight \<Rightarrow> 'w weight_entry list" where
  "evm_pallet_evm_WeightInfo W DbWeight = [
     weight_fn ''pallet_evm::withdraw'' []
       (\<lambda>c. evm_pallet_evm_withdraw W DbWeight)]"

section \<open>The group as configured\<close>

definition evm_EvmWeightFull :: "'w weight_api \<Rightarrow> 'w weight_entry list" where
  "evm_EvmWeightFull W =
     evm_pallet_evm_WeightInfo W (RocksDbWeight W)"

section \<open>Bounds and monotonicity\<close>

context weight_laws
begin

lemma evm_Evm_within:
  "registry_within W 349875000000 3670016 (evm_EvmWeightFull W)"
  unfolding evm_EvmWeightFull_def evm_pallet_evm_WeightInfo_def append.simps
  by (intro fit_intros; simp only: weight_defs fit_simps)
    (rule within_weaken, (assumption | rule fit_steps)+, simp add: rocksdb_costs, simp)+

lemma evm_Evm_monotone:
  "registry_monotone W (evm_EvmWeightFull W)"
  unfolding evm_EvmWeightFull_def evm_pallet_evm_WeightInfo_def append.simps
  by (intro mono_intros; simp only: weight_defs fit_simps) (assumption | rule mono_steps)+

end

end
