(* ===== verification/Generic_Weights_System.thy ===== *)
theory Generic_Weights_System
  imports Runtime_Constants
begin

text \<open>
  The benchmarked weight functions of the generic template's runtime that \<open>SystemWeightFull\<close>
  installs: \<open>pallet_balances\<close>, \<open>pallet_multisig\<close>, \<open>cumulus_pallet_parachain_system\<close>, \<open>pallet_preimage\<close>, \<open>pallet_proxy\<close>, \<open>pallet_scheduler\<close>, \<open>pallet_timestamp\<close>, \<open>pallet_utility\<close>. Each function of a
  \<open>WeightInfo\<close> implementation is one definition over the weight interface and the runtime's
  \<open>DbWeight\<close>; each implementation is a registry of its functions with the component ranges
  the benchmark recorded. The lemmas bound every function over its whole range and show that
  it grows with its components.
\<close>

section \<open>pallet_balances\<close>

definition generic_pallet_balances_transfer_allow_death :: "'w weight_api \<Rightarrow> RuntimeDbWeight \<Rightarrow> 'w" where [weight_defs]:
  "generic_pallet_balances_transfer_allow_death W DbWeight =
     add_chain W (from_parts W 65953000 0)
     [from_parts W 0 3593,
      reads W DbWeight 1,
      writes W DbWeight 1]"

definition generic_pallet_balances_transfer_keep_alive :: "'w weight_api \<Rightarrow> RuntimeDbWeight \<Rightarrow> 'w" where [weight_defs]:
  "generic_pallet_balances_transfer_keep_alive W DbWeight =
     add_chain W (from_parts W 51112000 0)
     [from_parts W 0 3593,
      reads W DbWeight 1,
      writes W DbWeight 1]"

definition generic_pallet_balances_force_set_balance_creating :: "'w weight_api \<Rightarrow> RuntimeDbWeight \<Rightarrow> 'w" where [weight_defs]:
  "generic_pallet_balances_force_set_balance_creating W DbWeight =
     add_chain W (from_parts W 19390000 0)
     [from_parts W 0 3593,
      reads W DbWeight 1,
      writes W DbWeight 1]"

definition generic_pallet_balances_force_set_balance_killing :: "'w weight_api \<Rightarrow> RuntimeDbWeight \<Rightarrow> 'w" where [weight_defs]:
  "generic_pallet_balances_force_set_balance_killing W DbWeight =
     add_chain W (from_parts W 26777000 0)
     [from_parts W 0 3593,
      reads W DbWeight 1,
      writes W DbWeight 1]"

definition generic_pallet_balances_force_transfer :: "'w weight_api \<Rightarrow> RuntimeDbWeight \<Rightarrow> 'w" where [weight_defs]:
  "generic_pallet_balances_force_transfer W DbWeight =
     add_chain W (from_parts W 67269000 0)
     [from_parts W 0 6196,
      reads W DbWeight 2,
      writes W DbWeight 2]"

definition generic_pallet_balances_transfer_all :: "'w weight_api \<Rightarrow> RuntimeDbWeight \<Rightarrow> 'w" where [weight_defs]:
  "generic_pallet_balances_transfer_all W DbWeight =
     add_chain W (from_parts W 63971000 0)
     [from_parts W 0 3593,
      reads W DbWeight 1,
      writes W DbWeight 1]"

definition generic_pallet_balances_force_unreserve :: "'w weight_api \<Rightarrow> RuntimeDbWeight \<Rightarrow> 'w" where [weight_defs]:
  "generic_pallet_balances_force_unreserve W DbWeight =
     add_chain W (from_parts W 23281000 0)
     [from_parts W 0 3593,
      reads W DbWeight 1,
      writes W DbWeight 1]"

definition generic_pallet_balances_upgrade_accounts :: "'w weight_api \<Rightarrow> RuntimeDbWeight \<Rightarrow> nat \<Rightarrow> 'w" where [weight_defs]:
  "generic_pallet_balances_upgrade_accounts W DbWeight u =
     add_chain W (from_parts W 21055000 0)
     [from_parts W 0 990,
      saturating_mul W (from_parts W 17832981 0) u,
      reads W DbWeight (u64_saturating_mul 1 u),
      writes W DbWeight (u64_saturating_mul 1 u),
      saturating_mul W (from_parts W 0 2603) u]"

definition generic_pallet_balances_force_adjust_total_issuance :: "'w weight_api \<Rightarrow> RuntimeDbWeight \<Rightarrow> 'w" where [weight_defs]:
  "generic_pallet_balances_force_adjust_total_issuance W DbWeight =
     add_chain W (from_parts W 8289000 0)
     [from_parts W 0 0]"

definition generic_pallet_balances_burn_allow_death :: "'w weight_api \<Rightarrow> RuntimeDbWeight \<Rightarrow> 'w" where [weight_defs]:
  "generic_pallet_balances_burn_allow_death W DbWeight =
     add_chain W (from_parts W 40547000 0)
     [from_parts W 0 0]"

definition generic_pallet_balances_burn_keep_alive :: "'w weight_api \<Rightarrow> RuntimeDbWeight \<Rightarrow> 'w" where [weight_defs]:
  "generic_pallet_balances_burn_keep_alive W DbWeight =
     add_chain W (from_parts W 27145000 0)
     [from_parts W 0 0]"

definition generic_pallet_balances_WeightInfo :: "'w weight_api \<Rightarrow> RuntimeDbWeight \<Rightarrow> 'w weight_entry list" where
  "generic_pallet_balances_WeightInfo W DbWeight = [
     weight_fn ''pallet_balances::transfer_allow_death'' []
       (\<lambda>c. generic_pallet_balances_transfer_allow_death W DbWeight),
     weight_fn ''pallet_balances::transfer_keep_alive'' []
       (\<lambda>c. generic_pallet_balances_transfer_keep_alive W DbWeight),
     weight_fn ''pallet_balances::force_set_balance_creating'' []
       (\<lambda>c. generic_pallet_balances_force_set_balance_creating W DbWeight),
     weight_fn ''pallet_balances::force_set_balance_killing'' []
       (\<lambda>c. generic_pallet_balances_force_set_balance_killing W DbWeight),
     weight_fn ''pallet_balances::force_transfer'' []
       (\<lambda>c. generic_pallet_balances_force_transfer W DbWeight),
     weight_fn ''pallet_balances::transfer_all'' []
       (\<lambda>c. generic_pallet_balances_transfer_all W DbWeight),
     weight_fn ''pallet_balances::force_unreserve'' []
       (\<lambda>c. generic_pallet_balances_force_unreserve W DbWeight),
     weight_fn ''pallet_balances::upgrade_accounts'' [(1, 1000)]
       (\<lambda>c. generic_pallet_balances_upgrade_accounts W DbWeight (c ! 0)),
     weight_fn ''pallet_balances::force_adjust_total_issuance'' []
       (\<lambda>c. generic_pallet_balances_force_adjust_total_issuance W DbWeight),
     weight_fn ''pallet_balances::burn_allow_death'' []
       (\<lambda>c. generic_pallet_balances_burn_allow_death W DbWeight),
     weight_fn ''pallet_balances::burn_keep_alive'' []
       (\<lambda>c. generic_pallet_balances_burn_keep_alive W DbWeight)]"

section \<open>pallet_multisig\<close>

definition generic_pallet_multisig_as_multi_threshold_1 :: "'w weight_api \<Rightarrow> RuntimeDbWeight \<Rightarrow> nat \<Rightarrow> 'w" where [weight_defs]:
  "generic_pallet_multisig_as_multi_threshold_1 W DbWeight z =
     add_chain W (from_parts W 15967177 0)
     [from_parts W 0 0,
      saturating_mul W (from_parts W 541 0) z]"

definition generic_pallet_multisig_as_multi_create :: "'w weight_api \<Rightarrow> RuntimeDbWeight \<Rightarrow> nat \<Rightarrow> nat \<Rightarrow> 'w" where [weight_defs]:
  "generic_pallet_multisig_as_multi_create W DbWeight s z =
     add_chain W (from_parts W 41324131 0)
     [from_parts W 0 6811,
      saturating_mul W (from_parts W 135847 0) s,
      saturating_mul W (from_parts W 1414 0) z,
      reads W DbWeight 1,
      writes W DbWeight 1]"

definition generic_pallet_multisig_as_multi_approve :: "'w weight_api \<Rightarrow> RuntimeDbWeight \<Rightarrow> nat \<Rightarrow> nat \<Rightarrow> 'w" where [weight_defs]:
  "generic_pallet_multisig_as_multi_approve W DbWeight s z =
     add_chain W (from_parts W 21885192 0)
     [from_parts W 0 6811,
      saturating_mul W (from_parts W 120285 0) s,
      saturating_mul W (from_parts W 1477 0) z,
      reads W DbWeight 1,
      writes W DbWeight 1]"

definition generic_pallet_multisig_as_multi_complete :: "'w weight_api \<Rightarrow> RuntimeDbWeight \<Rightarrow> nat \<Rightarrow> nat \<Rightarrow> 'w" where [weight_defs]:
  "generic_pallet_multisig_as_multi_complete W DbWeight s z =
     add_chain W (from_parts W 41788500 0)
     [from_parts W 0 6811,
      saturating_mul W (from_parts W 178085 0) s,
      saturating_mul W (from_parts W 1668 0) z,
      reads W DbWeight 2,
      writes W DbWeight 2]"

definition generic_pallet_multisig_approve_as_multi_create :: "'w weight_api \<Rightarrow> RuntimeDbWeight \<Rightarrow> nat \<Rightarrow> 'w" where [weight_defs]:
  "generic_pallet_multisig_approve_as_multi_create W DbWeight s =
     add_chain W (from_parts W 39405669 0)
     [from_parts W 0 6811,
      saturating_mul W (from_parts W 141818 0) s,
      reads W DbWeight 1,
      writes W DbWeight 1]"

definition generic_pallet_multisig_approve_as_multi_approve :: "'w weight_api \<Rightarrow> RuntimeDbWeight \<Rightarrow> nat \<Rightarrow> 'w" where [weight_defs]:
  "generic_pallet_multisig_approve_as_multi_approve W DbWeight s =
     add_chain W (from_parts W 20812985 0)
     [from_parts W 0 6811,
      saturating_mul W (from_parts W 119667 0) s,
      reads W DbWeight 1,
      writes W DbWeight 1]"

definition generic_pallet_multisig_cancel_as_multi :: "'w weight_api \<Rightarrow> RuntimeDbWeight \<Rightarrow> nat \<Rightarrow> 'w" where [weight_defs]:
  "generic_pallet_multisig_cancel_as_multi W DbWeight s =
     add_chain W (from_parts W 39421302 0)
     [from_parts W 0 6811,
      saturating_mul W (from_parts W 130453 0) s,
      reads W DbWeight 1,
      writes W DbWeight 1]"

definition generic_pallet_multisig_poke_deposit :: "'w weight_api \<Rightarrow> RuntimeDbWeight \<Rightarrow> nat \<Rightarrow> 'w" where [weight_defs]:
  "generic_pallet_multisig_poke_deposit W DbWeight s =
     add_chain W (from_parts W 31338818 0)
     [from_parts W 0 6811,
      saturating_mul W (from_parts W 147032 0) s,
      reads W DbWeight 1,
      writes W DbWeight 1]"

definition generic_pallet_multisig_WeightInfo :: "'w weight_api \<Rightarrow> RuntimeDbWeight \<Rightarrow> 'w weight_entry list" where
  "generic_pallet_multisig_WeightInfo W DbWeight = [
     weight_fn ''pallet_multisig::as_multi_threshold_1'' [(0, 10000)]
       (\<lambda>c. generic_pallet_multisig_as_multi_threshold_1 W DbWeight (c ! 0)),
     weight_fn ''pallet_multisig::as_multi_create'' [(2, 100), (0, 10000)]
       (\<lambda>c. generic_pallet_multisig_as_multi_create W DbWeight (c ! 0) (c ! 1)),
     weight_fn ''pallet_multisig::as_multi_approve'' [(3, 100), (0, 10000)]
       (\<lambda>c. generic_pallet_multisig_as_multi_approve W DbWeight (c ! 0) (c ! 1)),
     weight_fn ''pallet_multisig::as_multi_complete'' [(2, 100), (0, 10000)]
       (\<lambda>c. generic_pallet_multisig_as_multi_complete W DbWeight (c ! 0) (c ! 1)),
     weight_fn ''pallet_multisig::approve_as_multi_create'' [(2, 100)]
       (\<lambda>c. generic_pallet_multisig_approve_as_multi_create W DbWeight (c ! 0)),
     weight_fn ''pallet_multisig::approve_as_multi_approve'' [(2, 100)]
       (\<lambda>c. generic_pallet_multisig_approve_as_multi_approve W DbWeight (c ! 0)),
     weight_fn ''pallet_multisig::cancel_as_multi'' [(2, 100)]
       (\<lambda>c. generic_pallet_multisig_cancel_as_multi W DbWeight (c ! 0)),
     weight_fn ''pallet_multisig::poke_deposit'' [(2, 100)]
       (\<lambda>c. generic_pallet_multisig_poke_deposit W DbWeight (c ! 0))]"

section \<open>cumulus_pallet_parachain_system\<close>

definition generic_cumulus_pallet_parachain_system_enqueue_inbound_downward_messages :: "'w weight_api \<Rightarrow> RuntimeDbWeight \<Rightarrow> nat \<Rightarrow> 'w" where [weight_defs]:
  "generic_cumulus_pallet_parachain_system_enqueue_inbound_downward_messages W DbWeight n =
     add_chain W (from_parts W 2749000 0)
     [from_parts W 0 3517,
      saturating_mul W (from_parts W 190231983 0) n,
      reads W DbWeight 3,
      writes W DbWeight 4,
      writes W DbWeight (u64_saturating_mul 1 n)]"

definition generic_cumulus_pallet_parachain_system_WeightInfo :: "'w weight_api \<Rightarrow> RuntimeDbWeight \<Rightarrow> 'w weight_entry list" where
  "generic_cumulus_pallet_parachain_system_WeightInfo W DbWeight = [
     weight_fn ''cumulus_pallet_parachain_system::enqueue_inbound_downward_messages'' [(0, 1000)]
       (\<lambda>c. generic_cumulus_pallet_parachain_system_enqueue_inbound_downward_messages W DbWeight (c ! 0))]"

section \<open>pallet_preimage\<close>

definition generic_pallet_preimage_note_preimage :: "'w weight_api \<Rightarrow> RuntimeDbWeight \<Rightarrow> nat \<Rightarrow> 'w" where [weight_defs]:
  "generic_pallet_preimage_note_preimage W DbWeight s =
     add_chain W (from_parts W 62849000 0)
     [from_parts W 0 3556,
      saturating_mul W (from_parts W 2390 0) s,
      reads W DbWeight 3,
      writes W DbWeight 3]"

definition generic_pallet_preimage_note_requested_preimage :: "'w weight_api \<Rightarrow> RuntimeDbWeight \<Rightarrow> nat \<Rightarrow> 'w" where [weight_defs]:
  "generic_pallet_preimage_note_requested_preimage W DbWeight s =
     add_chain W (from_parts W 20611000 0)
     [from_parts W 0 3556,
      saturating_mul W (from_parts W 2398 0) s,
      reads W DbWeight 2,
      writes W DbWeight 2]"

definition generic_pallet_preimage_note_no_deposit_preimage :: "'w weight_api \<Rightarrow> RuntimeDbWeight \<Rightarrow> nat \<Rightarrow> 'w" where [weight_defs]:
  "generic_pallet_preimage_note_no_deposit_preimage W DbWeight s =
     add_chain W (from_parts W 19931000 0)
     [from_parts W 0 3556,
      saturating_mul W (from_parts W 2396 0) s,
      reads W DbWeight 2,
      writes W DbWeight 2]"

definition generic_pallet_preimage_unnote_preimage :: "'w weight_api \<Rightarrow> RuntimeDbWeight \<Rightarrow> 'w" where [weight_defs]:
  "generic_pallet_preimage_unnote_preimage W DbWeight =
     add_chain W (from_parts W 84144000 0)
     [from_parts W 0 3556,
      reads W DbWeight 3,
      writes W DbWeight 3]"

definition generic_pallet_preimage_unnote_no_deposit_preimage :: "'w weight_api \<Rightarrow> RuntimeDbWeight \<Rightarrow> 'w" where [weight_defs]:
  "generic_pallet_preimage_unnote_no_deposit_preimage W DbWeight =
     add_chain W (from_parts W 37905000 0)
     [from_parts W 0 3556,
      reads W DbWeight 2,
      writes W DbWeight 2]"

definition generic_pallet_preimage_request_preimage :: "'w weight_api \<Rightarrow> RuntimeDbWeight \<Rightarrow> 'w" where [weight_defs]:
  "generic_pallet_preimage_request_preimage W DbWeight =
     add_chain W (from_parts W 32609000 0)
     [from_parts W 0 3556,
      reads W DbWeight 2,
      writes W DbWeight 1]"

definition generic_pallet_preimage_request_no_deposit_preimage :: "'w weight_api \<Rightarrow> RuntimeDbWeight \<Rightarrow> 'w" where [weight_defs]:
  "generic_pallet_preimage_request_no_deposit_preimage W DbWeight =
     add_chain W (from_parts W 19047000 0)
     [from_parts W 0 3556,
      reads W DbWeight 2,
      writes W DbWeight 1]"

definition generic_pallet_preimage_request_unnoted_preimage :: "'w weight_api \<Rightarrow> RuntimeDbWeight \<Rightarrow> 'w" where [weight_defs]:
  "generic_pallet_preimage_request_unnoted_preimage W DbWeight =
     add_chain W (from_parts W 20336000 0)
     [from_parts W 0 3556,
      reads W DbWeight 2,
      writes W DbWeight 1]"

definition generic_pallet_preimage_request_requested_preimage :: "'w weight_api \<Rightarrow> RuntimeDbWeight \<Rightarrow> 'w" where [weight_defs]:
  "generic_pallet_preimage_request_requested_preimage W DbWeight =
     add_chain W (from_parts W 17149000 0)
     [from_parts W 0 3556,
      reads W DbWeight 2,
      writes W DbWeight 1]"

definition generic_pallet_preimage_unrequest_preimage :: "'w weight_api \<Rightarrow> RuntimeDbWeight \<Rightarrow> 'w" where [weight_defs]:
  "generic_pallet_preimage_unrequest_preimage W DbWeight =
     add_chain W (from_parts W 36548000 0)
     [from_parts W 0 3556,
      reads W DbWeight 2,
      writes W DbWeight 2]"

definition generic_pallet_preimage_unrequest_unnoted_preimage :: "'w weight_api \<Rightarrow> RuntimeDbWeight \<Rightarrow> 'w" where [weight_defs]:
  "generic_pallet_preimage_unrequest_unnoted_preimage W DbWeight =
     add_chain W (from_parts W 14881000 0)
     [from_parts W 0 3556,
      reads W DbWeight 2,
      writes W DbWeight 1]"

definition generic_pallet_preimage_unrequest_multi_referenced_preimage :: "'w weight_api \<Rightarrow> RuntimeDbWeight \<Rightarrow> 'w" where [weight_defs]:
  "generic_pallet_preimage_unrequest_multi_referenced_preimage W DbWeight =
     add_chain W (from_parts W 14506000 0)
     [from_parts W 0 3556,
      reads W DbWeight 2,
      writes W DbWeight 1]"

definition generic_pallet_preimage_ensure_updated :: "'w weight_api \<Rightarrow> RuntimeDbWeight \<Rightarrow> nat \<Rightarrow> 'w" where [weight_defs]:
  "generic_pallet_preimage_ensure_updated W DbWeight n =
     add_chain W (from_parts W 69058000 0)
     [from_parts W 0 990,
      saturating_mul W (from_parts W 66883691 0) n,
      reads W DbWeight (u64_saturating_mul 3 n),
      writes W DbWeight (u64_saturating_mul 4 n),
      saturating_mul W (from_parts W 0 2603) n]"

definition generic_pallet_preimage_WeightInfo :: "'w weight_api \<Rightarrow> RuntimeDbWeight \<Rightarrow> 'w weight_entry list" where
  "generic_pallet_preimage_WeightInfo W DbWeight = [
     weight_fn ''pallet_preimage::note_preimage'' [(0, 4194304)]
       (\<lambda>c. generic_pallet_preimage_note_preimage W DbWeight (c ! 0)),
     weight_fn ''pallet_preimage::note_requested_preimage'' [(0, 4194304)]
       (\<lambda>c. generic_pallet_preimage_note_requested_preimage W DbWeight (c ! 0)),
     weight_fn ''pallet_preimage::note_no_deposit_preimage'' [(0, 4194304)]
       (\<lambda>c. generic_pallet_preimage_note_no_deposit_preimage W DbWeight (c ! 0)),
     weight_fn ''pallet_preimage::unnote_preimage'' []
       (\<lambda>c. generic_pallet_preimage_unnote_preimage W DbWeight),
     weight_fn ''pallet_preimage::unnote_no_deposit_preimage'' []
       (\<lambda>c. generic_pallet_preimage_unnote_no_deposit_preimage W DbWeight),
     weight_fn ''pallet_preimage::request_preimage'' []
       (\<lambda>c. generic_pallet_preimage_request_preimage W DbWeight),
     weight_fn ''pallet_preimage::request_no_deposit_preimage'' []
       (\<lambda>c. generic_pallet_preimage_request_no_deposit_preimage W DbWeight),
     weight_fn ''pallet_preimage::request_unnoted_preimage'' []
       (\<lambda>c. generic_pallet_preimage_request_unnoted_preimage W DbWeight),
     weight_fn ''pallet_preimage::request_requested_preimage'' []
       (\<lambda>c. generic_pallet_preimage_request_requested_preimage W DbWeight),
     weight_fn ''pallet_preimage::unrequest_preimage'' []
       (\<lambda>c. generic_pallet_preimage_unrequest_preimage W DbWeight),
     weight_fn ''pallet_preimage::unrequest_unnoted_preimage'' []
       (\<lambda>c. generic_pallet_preimage_unrequest_unnoted_preimage W DbWeight),
     weight_fn ''pallet_preimage::unrequest_multi_referenced_preimage'' []
       (\<lambda>c. generic_pallet_preimage_unrequest_multi_referenced_preimage W DbWeight),
     weight_fn ''pallet_preimage::ensure_updated'' [(1, 1024)]
       (\<lambda>c. generic_pallet_preimage_ensure_updated W DbWeight (c ! 0))]"

section \<open>pallet_proxy\<close>

definition generic_pallet_proxy_proxy :: "'w weight_api \<Rightarrow> RuntimeDbWeight \<Rightarrow> nat \<Rightarrow> 'w" where [weight_defs]:
  "generic_pallet_proxy_proxy W DbWeight p =
     add_chain W (from_parts W 18382105 0)
     [from_parts W 0 4706,
      saturating_mul W (from_parts W 32742 0) p,
      reads W DbWeight 1]"

definition generic_pallet_proxy_proxy_announced :: "'w weight_api \<Rightarrow> RuntimeDbWeight \<Rightarrow> nat \<Rightarrow> nat \<Rightarrow> 'w" where [weight_defs]:
  "generic_pallet_proxy_proxy_announced W DbWeight a p =
     add_chain W (from_parts W 45222224 0)
     [from_parts W 0 5698,
      saturating_mul W (from_parts W 187731 0) a,
      saturating_mul W (from_parts W 40240 0) p,
      reads W DbWeight 3,
      writes W DbWeight 2]"

definition generic_pallet_proxy_remove_announcement :: "'w weight_api \<Rightarrow> RuntimeDbWeight \<Rightarrow> nat \<Rightarrow> nat \<Rightarrow> 'w" where [weight_defs]:
  "generic_pallet_proxy_remove_announcement W DbWeight a p =
     add_chain W (from_parts W 31660303 0)
     [from_parts W 0 5698,
      saturating_mul W (from_parts W 174819 0) a,
      saturating_mul W (from_parts W 4463 0) p,
      reads W DbWeight 2,
      writes W DbWeight 2]"

definition generic_pallet_proxy_reject_announcement :: "'w weight_api \<Rightarrow> RuntimeDbWeight \<Rightarrow> nat \<Rightarrow> nat \<Rightarrow> 'w" where [weight_defs]:
  "generic_pallet_proxy_reject_announcement W DbWeight a p =
     add_chain W (from_parts W 31308738 0)
     [from_parts W 0 5698,
      saturating_mul W (from_parts W 177478 0) a,
      saturating_mul W (from_parts W 9686 0) p,
      reads W DbWeight 2,
      writes W DbWeight 2]"

definition generic_pallet_proxy_announce :: "'w weight_api \<Rightarrow> RuntimeDbWeight \<Rightarrow> nat \<Rightarrow> nat \<Rightarrow> 'w" where [weight_defs]:
  "generic_pallet_proxy_announce W DbWeight a p =
     add_chain W (from_parts W 40742935 0)
     [from_parts W 0 5698,
      saturating_mul W (from_parts W 172168 0) a,
      saturating_mul W (from_parts W 36370 0) p,
      reads W DbWeight 3,
      writes W DbWeight 2]"

definition generic_pallet_proxy_add_proxy :: "'w weight_api \<Rightarrow> RuntimeDbWeight \<Rightarrow> nat \<Rightarrow> 'w" where [weight_defs]:
  "generic_pallet_proxy_add_proxy W DbWeight p =
     add_chain W (from_parts W 31261760 0)
     [from_parts W 0 4706,
      saturating_mul W (from_parts W 34851 0) p,
      reads W DbWeight 1,
      writes W DbWeight 1]"

definition generic_pallet_proxy_remove_proxy :: "'w weight_api \<Rightarrow> RuntimeDbWeight \<Rightarrow> nat \<Rightarrow> 'w" where [weight_defs]:
  "generic_pallet_proxy_remove_proxy W DbWeight p =
     add_chain W (from_parts W 31289171 0)
     [from_parts W 0 4706,
      saturating_mul W (from_parts W 52646 0) p,
      reads W DbWeight 1,
      writes W DbWeight 1]"

definition generic_pallet_proxy_remove_proxies :: "'w weight_api \<Rightarrow> RuntimeDbWeight \<Rightarrow> nat \<Rightarrow> 'w" where [weight_defs]:
  "generic_pallet_proxy_remove_proxies W DbWeight p =
     add_chain W (from_parts W 27860420 0)
     [from_parts W 0 4706,
      saturating_mul W (from_parts W 25140 0) p,
      reads W DbWeight 1,
      writes W DbWeight 1]"

definition generic_pallet_proxy_create_pure :: "'w weight_api \<Rightarrow> RuntimeDbWeight \<Rightarrow> nat \<Rightarrow> 'w" where [weight_defs]:
  "generic_pallet_proxy_create_pure W DbWeight p =
     add_chain W (from_parts W 32982226 0)
     [from_parts W 0 4706,
      saturating_mul W (from_parts W 11515 0) p,
      reads W DbWeight 1,
      writes W DbWeight 1]"

definition generic_pallet_proxy_kill_pure :: "'w weight_api \<Rightarrow> RuntimeDbWeight \<Rightarrow> nat \<Rightarrow> 'w" where [weight_defs]:
  "generic_pallet_proxy_kill_pure W DbWeight p =
     add_chain W (from_parts W 28684909 0)
     [from_parts W 0 4706,
      saturating_mul W (from_parts W 32780 0) p,
      reads W DbWeight 1,
      writes W DbWeight 1]"

definition generic_pallet_proxy_poke_deposit :: "'w weight_api \<Rightarrow> RuntimeDbWeight \<Rightarrow> 'w" where [weight_defs]:
  "generic_pallet_proxy_poke_deposit W DbWeight =
     add_chain W (from_parts W 48694000 0)
     [from_parts W 0 5698,
      reads W DbWeight 3,
      writes W DbWeight 3]"

definition generic_pallet_proxy_WeightInfo :: "'w weight_api \<Rightarrow> RuntimeDbWeight \<Rightarrow> 'w weight_entry list" where
  "generic_pallet_proxy_WeightInfo W DbWeight = [
     weight_fn ''pallet_proxy::proxy'' [(1, 31)]
       (\<lambda>c. generic_pallet_proxy_proxy W DbWeight (c ! 0)),
     weight_fn ''pallet_proxy::proxy_announced'' [(0, 31), (1, 31)]
       (\<lambda>c. generic_pallet_proxy_proxy_announced W DbWeight (c ! 0) (c ! 1)),
     weight_fn ''pallet_proxy::remove_announcement'' [(0, 31), (1, 31)]
       (\<lambda>c. generic_pallet_proxy_remove_announcement W DbWeight (c ! 0) (c ! 1)),
     weight_fn ''pallet_proxy::reject_announcement'' [(0, 31), (1, 31)]
       (\<lambda>c. generic_pallet_proxy_reject_announcement W DbWeight (c ! 0) (c ! 1)),
     weight_fn ''pallet_proxy::announce'' [(0, 31), (1, 31)]
       (\<lambda>c. generic_pallet_proxy_announce W DbWeight (c ! 0) (c ! 1)),
     weight_fn ''pallet_proxy::add_proxy'' [(1, 31)]
       (\<lambda>c. generic_pallet_proxy_add_proxy W DbWeight (c ! 0)),
     weight_fn ''pallet_proxy::remove_proxy'' [(1, 31)]
       (\<lambda>c. generic_pallet_proxy_remove_proxy W DbWeight (c ! 0)),
     weight_fn ''pallet_proxy::remove_proxies'' [(1, 31)]
       (\<lambda>c. generic_pallet_proxy_remove_proxies W DbWeight (c ! 0)),
     weight_fn ''pallet_proxy::create_pure'' [(1, 31)]
       (\<lambda>c. generic_pallet_proxy_create_pure W DbWeight (c ! 0)),
     weight_fn ''pallet_proxy::kill_pure'' [(0, 30)]
       (\<lambda>c. generic_pallet_proxy_kill_pure W DbWeight (c ! 0)),
     weight_fn ''pallet_proxy::poke_deposit'' []
       (\<lambda>c. generic_pallet_proxy_poke_deposit W DbWeight)]"

section \<open>pallet_scheduler\<close>

definition generic_pallet_scheduler_service_agendas_base :: "'w weight_api \<Rightarrow> RuntimeDbWeight \<Rightarrow> 'w" where [weight_defs]:
  "generic_pallet_scheduler_service_agendas_base W DbWeight =
     add_chain W (from_parts W 3339000 0)
     [from_parts W 0 1489,
      reads W DbWeight 1,
      writes W DbWeight 1]"

definition generic_pallet_scheduler_service_agenda_base :: "'w weight_api \<Rightarrow> RuntimeDbWeight \<Rightarrow> nat \<Rightarrow> 'w" where [weight_defs]:
  "generic_pallet_scheduler_service_agenda_base W DbWeight s =
     add_chain W (from_parts W 8191182 0)
     [from_parts W 0 42428,
      saturating_mul W (from_parts W 451306 0) s,
      reads W DbWeight 1,
      writes W DbWeight 1]"

definition generic_pallet_scheduler_service_task_base :: "'w weight_api \<Rightarrow> RuntimeDbWeight \<Rightarrow> 'w" where [weight_defs]:
  "generic_pallet_scheduler_service_task_base W DbWeight =
     add_chain W (from_parts W 4740000 0)
     [from_parts W 0 0]"

definition generic_pallet_scheduler_service_task_fetched :: "'w weight_api \<Rightarrow> RuntimeDbWeight \<Rightarrow> nat \<Rightarrow> 'w" where [weight_defs]:
  "generic_pallet_scheduler_service_task_fetched W DbWeight s =
     add_chain W (from_parts W 24090000 0)
     [from_parts W 0 4197809,
      saturating_mul W (from_parts W 1212 0) s,
      reads W DbWeight 3,
      writes W DbWeight 2]"

definition generic_pallet_scheduler_service_task_named :: "'w weight_api \<Rightarrow> RuntimeDbWeight \<Rightarrow> 'w" where [weight_defs]:
  "generic_pallet_scheduler_service_task_named W DbWeight =
     add_chain W (from_parts W 6928000 0)
     [from_parts W 0 0,
      writes W DbWeight 1]"

definition generic_pallet_scheduler_service_task_periodic :: "'w weight_api \<Rightarrow> RuntimeDbWeight \<Rightarrow> 'w" where [weight_defs]:
  "generic_pallet_scheduler_service_task_periodic W DbWeight =
     add_chain W (from_parts W 4767000 0)
     [from_parts W 0 0]"

definition generic_pallet_scheduler_execute_dispatch_signed :: "'w weight_api \<Rightarrow> RuntimeDbWeight \<Rightarrow> 'w" where [weight_defs]:
  "generic_pallet_scheduler_execute_dispatch_signed W DbWeight =
     add_chain W (from_parts W 3069000 0)
     [from_parts W 0 0]"

definition generic_pallet_scheduler_execute_dispatch_unsigned :: "'w weight_api \<Rightarrow> RuntimeDbWeight \<Rightarrow> 'w" where [weight_defs]:
  "generic_pallet_scheduler_execute_dispatch_unsigned W DbWeight =
     add_chain W (from_parts W 3084000 0)
     [from_parts W 0 0]"

definition generic_pallet_scheduler_schedule :: "'w weight_api \<Rightarrow> RuntimeDbWeight \<Rightarrow> nat \<Rightarrow> 'w" where [weight_defs]:
  "generic_pallet_scheduler_schedule W DbWeight s =
     add_chain W (from_parts W 16973094 0)
     [from_parts W 0 42428,
      saturating_mul W (from_parts W 493177 0) s,
      reads W DbWeight 1,
      writes W DbWeight 1]"

definition generic_pallet_scheduler_cancel :: "'w weight_api \<Rightarrow> RuntimeDbWeight \<Rightarrow> nat \<Rightarrow> 'w" where [weight_defs]:
  "generic_pallet_scheduler_cancel W DbWeight s =
     add_chain W (from_parts W 19812882 0)
     [from_parts W 0 42428,
      saturating_mul W (from_parts W 755529 0) s,
      reads W DbWeight 1,
      writes W DbWeight 3]"

definition generic_pallet_scheduler_schedule_named :: "'w weight_api \<Rightarrow> RuntimeDbWeight \<Rightarrow> nat \<Rightarrow> 'w" where [weight_defs]:
  "generic_pallet_scheduler_schedule_named W DbWeight s =
     add_chain W (from_parts W 22562199 0)
     [from_parts W 0 42428,
      saturating_mul W (from_parts W 523874 0) s,
      reads W DbWeight 2,
      writes W DbWeight 2]"

definition generic_pallet_scheduler_cancel_named :: "'w weight_api \<Rightarrow> RuntimeDbWeight \<Rightarrow> nat \<Rightarrow> 'w" where [weight_defs]:
  "generic_pallet_scheduler_cancel_named W DbWeight s =
     add_chain W (from_parts W 23696511 0)
     [from_parts W 0 42428,
      saturating_mul W (from_parts W 783985 0) s,
      reads W DbWeight 2,
      writes W DbWeight 3]"

definition generic_pallet_scheduler_schedule_retry :: "'w weight_api \<Rightarrow> RuntimeDbWeight \<Rightarrow> nat \<Rightarrow> 'w" where [weight_defs]:
  "generic_pallet_scheduler_schedule_retry W DbWeight s =
     add_chain W (from_parts W 12511716 0)
     [from_parts W 0 42428,
      saturating_mul W (from_parts W 33755 0) s,
      reads W DbWeight 1,
      writes W DbWeight 2]"

definition generic_pallet_scheduler_set_retry :: "'w weight_api \<Rightarrow> RuntimeDbWeight \<Rightarrow> 'w" where [weight_defs]:
  "generic_pallet_scheduler_set_retry W DbWeight =
     add_chain W (from_parts W 33944000 0)
     [from_parts W 0 42428,
      reads W DbWeight 1,
      writes W DbWeight 1]"

definition generic_pallet_scheduler_set_retry_named :: "'w weight_api \<Rightarrow> RuntimeDbWeight \<Rightarrow> 'w" where [weight_defs]:
  "generic_pallet_scheduler_set_retry_named W DbWeight =
     add_chain W (from_parts W 40926000 0)
     [from_parts W 0 42428,
      reads W DbWeight 2,
      writes W DbWeight 1]"

definition generic_pallet_scheduler_cancel_retry :: "'w weight_api \<Rightarrow> RuntimeDbWeight \<Rightarrow> 'w" where [weight_defs]:
  "generic_pallet_scheduler_cancel_retry W DbWeight =
     add_chain W (from_parts W 32418000 0)
     [from_parts W 0 42428,
      reads W DbWeight 1,
      writes W DbWeight 1]"

definition generic_pallet_scheduler_cancel_retry_named :: "'w weight_api \<Rightarrow> RuntimeDbWeight \<Rightarrow> 'w" where [weight_defs]:
  "generic_pallet_scheduler_cancel_retry_named W DbWeight =
     add_chain W (from_parts W 38892000 0)
     [from_parts W 0 42428,
      reads W DbWeight 2,
      writes W DbWeight 1]"

definition generic_pallet_scheduler_WeightInfo :: "'w weight_api \<Rightarrow> RuntimeDbWeight \<Rightarrow> 'w weight_entry list" where
  "generic_pallet_scheduler_WeightInfo W DbWeight = [
     weight_fn ''pallet_scheduler::service_agendas_base'' []
       (\<lambda>c. generic_pallet_scheduler_service_agendas_base W DbWeight),
     weight_fn ''pallet_scheduler::service_agenda_base'' [(0, 50)]
       (\<lambda>c. generic_pallet_scheduler_service_agenda_base W DbWeight (c ! 0)),
     weight_fn ''pallet_scheduler::service_task_base'' []
       (\<lambda>c. generic_pallet_scheduler_service_task_base W DbWeight),
     weight_fn ''pallet_scheduler::service_task_fetched'' [(128, 4194304)]
       (\<lambda>c. generic_pallet_scheduler_service_task_fetched W DbWeight (c ! 0)),
     weight_fn ''pallet_scheduler::service_task_named'' []
       (\<lambda>c. generic_pallet_scheduler_service_task_named W DbWeight),
     weight_fn ''pallet_scheduler::service_task_periodic'' []
       (\<lambda>c. generic_pallet_scheduler_service_task_periodic W DbWeight),
     weight_fn ''pallet_scheduler::execute_dispatch_signed'' []
       (\<lambda>c. generic_pallet_scheduler_execute_dispatch_signed W DbWeight),
     weight_fn ''pallet_scheduler::execute_dispatch_unsigned'' []
       (\<lambda>c. generic_pallet_scheduler_execute_dispatch_unsigned W DbWeight),
     weight_fn ''pallet_scheduler::schedule'' [(0, 49)]
       (\<lambda>c. generic_pallet_scheduler_schedule W DbWeight (c ! 0)),
     weight_fn ''pallet_scheduler::cancel'' [(1, 50)]
       (\<lambda>c. generic_pallet_scheduler_cancel W DbWeight (c ! 0)),
     weight_fn ''pallet_scheduler::schedule_named'' [(0, 49)]
       (\<lambda>c. generic_pallet_scheduler_schedule_named W DbWeight (c ! 0)),
     weight_fn ''pallet_scheduler::cancel_named'' [(1, 50)]
       (\<lambda>c. generic_pallet_scheduler_cancel_named W DbWeight (c ! 0)),
     weight_fn ''pallet_scheduler::schedule_retry'' [(1, 50)]
       (\<lambda>c. generic_pallet_scheduler_schedule_retry W DbWeight (c ! 0)),
     weight_fn ''pallet_scheduler::set_retry'' []
       (\<lambda>c. generic_pallet_scheduler_set_retry W DbWeight),
     weight_fn ''pallet_scheduler::set_retry_named'' []
       (\<lambda>c. generic_pallet_scheduler_set_retry_named W DbWeight),
     weight_fn ''pallet_scheduler::cancel_retry'' []
       (\<lambda>c. generic_pallet_scheduler_cancel_retry W DbWeight),
     weight_fn ''pallet_scheduler::cancel_retry_named'' []
       (\<lambda>c. generic_pallet_scheduler_cancel_retry_named W DbWeight)]"

section \<open>pallet_timestamp\<close>

definition generic_pallet_timestamp_set :: "'w weight_api \<Rightarrow> RuntimeDbWeight \<Rightarrow> 'w" where [weight_defs]:
  "generic_pallet_timestamp_set W DbWeight =
     add_chain W (from_parts W 10213000 0)
     [from_parts W 0 1493,
      reads W DbWeight 2,
      writes W DbWeight 1]"

definition generic_pallet_timestamp_on_finalize :: "'w weight_api \<Rightarrow> RuntimeDbWeight \<Rightarrow> 'w" where [weight_defs]:
  "generic_pallet_timestamp_on_finalize W DbWeight =
     add_chain W (from_parts W 3942000 0)
     [from_parts W 0 0]"

definition generic_pallet_timestamp_WeightInfo :: "'w weight_api \<Rightarrow> RuntimeDbWeight \<Rightarrow> 'w weight_entry list" where
  "generic_pallet_timestamp_WeightInfo W DbWeight = [
     weight_fn ''pallet_timestamp::set'' []
       (\<lambda>c. generic_pallet_timestamp_set W DbWeight),
     weight_fn ''pallet_timestamp::on_finalize'' []
       (\<lambda>c. generic_pallet_timestamp_on_finalize W DbWeight)]"

section \<open>pallet_utility\<close>

definition generic_pallet_utility_batch :: "'w weight_api \<Rightarrow> RuntimeDbWeight \<Rightarrow> nat \<Rightarrow> 'w" where [weight_defs]:
  "generic_pallet_utility_batch W DbWeight c =
     add_chain W (from_parts W 13014815 0)
     [from_parts W 0 0,
      saturating_mul W (from_parts W 5181580 0) c]"

definition generic_pallet_utility_as_derivative :: "'w weight_api \<Rightarrow> RuntimeDbWeight \<Rightarrow> 'w" where [weight_defs]:
  "generic_pallet_utility_as_derivative W DbWeight =
     add_chain W (from_parts W 6089000 0)
     [from_parts W 0 0]"

definition generic_pallet_utility_batch_all :: "'w weight_api \<Rightarrow> RuntimeDbWeight \<Rightarrow> nat \<Rightarrow> 'w" where [weight_defs]:
  "generic_pallet_utility_batch_all W DbWeight c =
     add_chain W (from_parts W 12700760 0)
     [from_parts W 0 0,
      saturating_mul W (from_parts W 5558247 0) c]"

definition generic_pallet_utility_dispatch_as :: "'w weight_api \<Rightarrow> RuntimeDbWeight \<Rightarrow> 'w" where [weight_defs]:
  "generic_pallet_utility_dispatch_as W DbWeight =
     add_chain W (from_parts W 9319000 0)
     [from_parts W 0 0]"

definition generic_pallet_utility_force_batch :: "'w weight_api \<Rightarrow> RuntimeDbWeight \<Rightarrow> nat \<Rightarrow> 'w" where [weight_defs]:
  "generic_pallet_utility_force_batch W DbWeight c =
     add_chain W (from_parts W 13983035 0)
     [from_parts W 0 0,
      saturating_mul W (from_parts W 5077442 0) c]"

definition generic_pallet_utility_dispatch_as_fallible :: "'w weight_api \<Rightarrow> RuntimeDbWeight \<Rightarrow> 'w" where [weight_defs]:
  "generic_pallet_utility_dispatch_as_fallible W DbWeight =
     add_chain W (from_parts W 7202000 0)
     [from_parts W 0 0]"

definition generic_pallet_utility_if_else :: "'w weight_api \<Rightarrow> RuntimeDbWeight \<Rightarrow> 'w" where [weight_defs]:
  "generic_pallet_utility_if_else W DbWeight =
     add_chain W (from_parts W 8903000 0)
     [from_parts W 0 0]"

definition generic_pallet_utility_WeightInfo :: "'w weight_api \<Rightarrow> RuntimeDbWeight \<Rightarrow> 'w weight_entry list" where
  "generic_pallet_utility_WeightInfo W DbWeight = [
     weight_fn ''pallet_utility::batch'' [(0, 1000)]
       (\<lambda>c. generic_pallet_utility_batch W DbWeight (c ! 0)),
     weight_fn ''pallet_utility::as_derivative'' []
       (\<lambda>c. generic_pallet_utility_as_derivative W DbWeight),
     weight_fn ''pallet_utility::batch_all'' [(0, 1000)]
       (\<lambda>c. generic_pallet_utility_batch_all W DbWeight (c ! 0)),
     weight_fn ''pallet_utility::dispatch_as'' []
       (\<lambda>c. generic_pallet_utility_dispatch_as W DbWeight),
     weight_fn ''pallet_utility::force_batch'' [(0, 1000)]
       (\<lambda>c. generic_pallet_utility_force_batch W DbWeight (c ! 0)),
     weight_fn ''pallet_utility::dispatch_as_fallible'' []
       (\<lambda>c. generic_pallet_utility_dispatch_as_fallible W DbWeight),
     weight_fn ''pallet_utility::if_else'' []
       (\<lambda>c. generic_pallet_utility_if_else W DbWeight)]"

section \<open>The group as configured\<close>

definition generic_SystemWeightFull :: "'w weight_api \<Rightarrow> 'w weight_entry list" where
  "generic_SystemWeightFull W =
     generic_pallet_balances_WeightInfo W (RocksDbWeight W) @
     generic_pallet_multisig_WeightInfo W (RocksDbWeight W) @
     generic_cumulus_pallet_parachain_system_WeightInfo W (RocksDbWeight W) @
     generic_pallet_preimage_WeightInfo W (RocksDbWeight W) @
     generic_pallet_proxy_WeightInfo W (RocksDbWeight W) @
     generic_pallet_scheduler_WeightInfo W (RocksDbWeight W) @
     generic_pallet_timestamp_WeightInfo W (RocksDbWeight W) @
     generic_pallet_utility_WeightInfo W (RocksDbWeight W)"

section \<open>Bounds and monotonicity\<close>

context weight_laws
begin

lemma generic_System_within:
  "registry_within W 349875000000 3670016 (generic_SystemWeightFull W)"
  unfolding generic_SystemWeightFull_def generic_pallet_balances_WeightInfo_def generic_pallet_multisig_WeightInfo_def generic_cumulus_pallet_parachain_system_WeightInfo_def generic_pallet_preimage_WeightInfo_def generic_pallet_proxy_WeightInfo_def generic_pallet_scheduler_WeightInfo_def generic_pallet_timestamp_WeightInfo_def generic_pallet_utility_WeightInfo_def append.simps
  by (intro fit_intros; simp only: weight_defs fit_simps)
    (rule within_weaken, (assumption | rule fit_steps)+, simp add: rocksdb_costs, simp)+

lemma generic_System_monotone:
  "registry_monotone W (generic_SystemWeightFull W)"
  unfolding generic_SystemWeightFull_def generic_pallet_balances_WeightInfo_def generic_pallet_multisig_WeightInfo_def generic_cumulus_pallet_parachain_system_WeightInfo_def generic_pallet_preimage_WeightInfo_def generic_pallet_proxy_WeightInfo_def generic_pallet_scheduler_WeightInfo_def generic_pallet_timestamp_WeightInfo_def generic_pallet_utility_WeightInfo_def append.simps
  by (intro mono_intros; simp only: weight_defs fit_simps) (assumption | rule mono_steps)+

end

end
