(* ===== verification/Generic_Weights_Assets.thy ===== *)
theory Generic_Weights_Assets
  imports Runtime_Constants
begin

text \<open>
  The benchmarked weight functions of the generic template's runtime that \<open>AssetsWeightFull\<close>
  installs: \<open>pallet_asset_manager\<close>, \<open>pallet_assets\<close>, \<open>pallet_transaction_payment\<close>. Each function of a
  \<open>WeightInfo\<close> implementation is one definition over the weight interface and the runtime's
  \<open>DbWeight\<close>; each implementation is a registry of its functions with the component ranges
  the benchmark recorded. The lemmas bound every function over its whole range and show that
  it grows with its components.
\<close>

section \<open>pallet_asset_manager\<close>

definition generic_pallet_asset_manager_register_foreign_asset :: "'w weight_api \<Rightarrow> RuntimeDbWeight \<Rightarrow> 'w" where [weight_defs]:
  "generic_pallet_asset_manager_register_foreign_asset W DbWeight =
     add_chain W (from_parts W 41824000 0)
     [from_parts W 0 3675,
      reads W DbWeight 4,
      writes W DbWeight 4]"

definition generic_pallet_asset_manager_change_existing_asset_type :: "'w weight_api \<Rightarrow> RuntimeDbWeight \<Rightarrow> 'w" where [weight_defs]:
  "generic_pallet_asset_manager_change_existing_asset_type W DbWeight =
     add_chain W (from_parts W 25957100 0)
     [from_parts W 0 3870,
      from_parts W 93865 0,
      reads W DbWeight 1,
      writes W DbWeight 3,
      from_parts W 0 5]"

definition generic_pallet_asset_manager_remove_existing_asset_type :: "'w weight_api \<Rightarrow> RuntimeDbWeight \<Rightarrow> 'w" where [weight_defs]:
  "generic_pallet_asset_manager_remove_existing_asset_type W DbWeight =
     add_chain W (from_parts W 23110928 0)
     [from_parts W 0 3870,
      from_parts W 89796 0,
      reads W DbWeight 1,
      writes W DbWeight 2,
      from_parts W 0 5]"

definition generic_pallet_asset_manager_WeightInfo :: "'w weight_api \<Rightarrow> RuntimeDbWeight \<Rightarrow> 'w weight_entry list" where
  "generic_pallet_asset_manager_WeightInfo W DbWeight = [
     weight_fn ''pallet_asset_manager::register_foreign_asset'' []
       (\<lambda>c. generic_pallet_asset_manager_register_foreign_asset W DbWeight),
     weight_fn ''pallet_asset_manager::change_existing_asset_type'' []
       (\<lambda>c. generic_pallet_asset_manager_change_existing_asset_type W DbWeight),
     weight_fn ''pallet_asset_manager::remove_existing_asset_type'' []
       (\<lambda>c. generic_pallet_asset_manager_remove_existing_asset_type W DbWeight)]"

section \<open>pallet_assets\<close>

definition generic_pallet_assets_create :: "'w weight_api \<Rightarrow> RuntimeDbWeight \<Rightarrow> 'w" where [weight_defs]:
  "generic_pallet_assets_create W DbWeight =
     add_chain W (from_parts W 34388000 0)
     [from_parts W 0 3675,
      reads W DbWeight 3,
      writes W DbWeight 2]"

definition generic_pallet_assets_force_create :: "'w weight_api \<Rightarrow> RuntimeDbWeight \<Rightarrow> 'w" where [weight_defs]:
  "generic_pallet_assets_force_create W DbWeight =
     add_chain W (from_parts W 12974000 0)
     [from_parts W 0 3675,
      reads W DbWeight 2,
      writes W DbWeight 1]"

definition generic_pallet_assets_start_destroy :: "'w weight_api \<Rightarrow> RuntimeDbWeight \<Rightarrow> 'w" where [weight_defs]:
  "generic_pallet_assets_start_destroy W DbWeight =
     add_chain W (from_parts W 14745000 0)
     [from_parts W 0 3675,
      reads W DbWeight 1,
      writes W DbWeight 1]"

definition generic_pallet_assets_destroy_accounts :: "'w weight_api \<Rightarrow> RuntimeDbWeight \<Rightarrow> nat \<Rightarrow> 'w" where [weight_defs]:
  "generic_pallet_assets_destroy_accounts W DbWeight c =
     add_chain W (from_parts W 18644000 0)
     [from_parts W 0 3675,
      saturating_mul W (from_parts W 16102841 0) c,
      reads W DbWeight 2,
      reads W DbWeight (u64_saturating_mul 2 c),
      writes W DbWeight 1,
      writes W DbWeight (u64_saturating_mul 2 c),
      saturating_mul W (from_parts W 0 2609) c]"

definition generic_pallet_assets_destroy_approvals :: "'w weight_api \<Rightarrow> RuntimeDbWeight \<Rightarrow> nat \<Rightarrow> 'w" where [weight_defs]:
  "generic_pallet_assets_destroy_approvals W DbWeight a =
     add_chain W (from_parts W 19596000 0)
     [from_parts W 0 3675,
      saturating_mul W (from_parts W 19538389 0) a,
      reads W DbWeight 2,
      reads W DbWeight (u64_saturating_mul 1 a),
      writes W DbWeight 1,
      writes W DbWeight (u64_saturating_mul 1 a),
      saturating_mul W (from_parts W 0 2623) a]"

definition generic_pallet_assets_finish_destroy :: "'w weight_api \<Rightarrow> RuntimeDbWeight \<Rightarrow> 'w" where [weight_defs]:
  "generic_pallet_assets_finish_destroy W DbWeight =
     add_chain W (from_parts W 16158000 0)
     [from_parts W 0 3675,
      reads W DbWeight 2,
      writes W DbWeight 1]"

definition generic_pallet_assets_mint :: "'w weight_api \<Rightarrow> RuntimeDbWeight \<Rightarrow> 'w" where [weight_defs]:
  "generic_pallet_assets_mint W DbWeight =
     add_chain W (from_parts W 28554000 0)
     [from_parts W 0 3675,
      reads W DbWeight 2,
      writes W DbWeight 2]"

definition generic_pallet_assets_burn :: "'w weight_api \<Rightarrow> RuntimeDbWeight \<Rightarrow> 'w" where [weight_defs]:
  "generic_pallet_assets_burn W DbWeight =
     add_chain W (from_parts W 38258000 0)
     [from_parts W 0 3675,
      reads W DbWeight 2,
      writes W DbWeight 2]"

definition generic_pallet_assets_transfer :: "'w weight_api \<Rightarrow> RuntimeDbWeight \<Rightarrow> 'w" where [weight_defs]:
  "generic_pallet_assets_transfer W DbWeight =
     add_chain W (from_parts W 53985000 0)
     [from_parts W 0 6208,
      reads W DbWeight 4,
      writes W DbWeight 4]"

definition generic_pallet_assets_transfer_keep_alive :: "'w weight_api \<Rightarrow> RuntimeDbWeight \<Rightarrow> 'w" where [weight_defs]:
  "generic_pallet_assets_transfer_keep_alive W DbWeight =
     add_chain W (from_parts W 48166000 0)
     [from_parts W 0 6208,
      reads W DbWeight 4,
      writes W DbWeight 4]"

definition generic_pallet_assets_force_transfer :: "'w weight_api \<Rightarrow> RuntimeDbWeight \<Rightarrow> 'w" where [weight_defs]:
  "generic_pallet_assets_force_transfer W DbWeight =
     add_chain W (from_parts W 53977000 0)
     [from_parts W 0 6208,
      reads W DbWeight 4,
      writes W DbWeight 4]"

definition generic_pallet_assets_freeze :: "'w weight_api \<Rightarrow> RuntimeDbWeight \<Rightarrow> 'w" where [weight_defs]:
  "generic_pallet_assets_freeze W DbWeight =
     add_chain W (from_parts W 19511000 0)
     [from_parts W 0 3675,
      reads W DbWeight 2,
      writes W DbWeight 1]"

definition generic_pallet_assets_thaw :: "'w weight_api \<Rightarrow> RuntimeDbWeight \<Rightarrow> 'w" where [weight_defs]:
  "generic_pallet_assets_thaw W DbWeight =
     add_chain W (from_parts W 19698000 0)
     [from_parts W 0 3675,
      reads W DbWeight 2,
      writes W DbWeight 1]"

definition generic_pallet_assets_freeze_asset :: "'w weight_api \<Rightarrow> RuntimeDbWeight \<Rightarrow> 'w" where [weight_defs]:
  "generic_pallet_assets_freeze_asset W DbWeight =
     add_chain W (from_parts W 14287000 0)
     [from_parts W 0 3675,
      reads W DbWeight 1,
      writes W DbWeight 1]"

definition generic_pallet_assets_thaw_asset :: "'w weight_api \<Rightarrow> RuntimeDbWeight \<Rightarrow> 'w" where [weight_defs]:
  "generic_pallet_assets_thaw_asset W DbWeight =
     add_chain W (from_parts W 14430000 0)
     [from_parts W 0 3675,
      reads W DbWeight 1,
      writes W DbWeight 1]"

definition generic_pallet_assets_transfer_ownership :: "'w weight_api \<Rightarrow> RuntimeDbWeight \<Rightarrow> 'w" where [weight_defs]:
  "generic_pallet_assets_transfer_ownership W DbWeight =
     add_chain W (from_parts W 16563000 0)
     [from_parts W 0 3675,
      reads W DbWeight 2,
      writes W DbWeight 1]"

definition generic_pallet_assets_set_team :: "'w weight_api \<Rightarrow> RuntimeDbWeight \<Rightarrow> 'w" where [weight_defs]:
  "generic_pallet_assets_set_team W DbWeight =
     add_chain W (from_parts W 14164000 0)
     [from_parts W 0 3675,
      reads W DbWeight 1,
      writes W DbWeight 1]"

definition generic_pallet_assets_set_metadata :: "'w weight_api \<Rightarrow> RuntimeDbWeight \<Rightarrow> nat \<Rightarrow> nat \<Rightarrow> 'w" where [weight_defs]:
  "generic_pallet_assets_set_metadata W DbWeight n s =
     add_chain W (from_parts W 35559596 0)
     [from_parts W 0 3675,
      saturating_mul W (from_parts W 9 0) n,
      saturating_mul W (from_parts W 1586 0) s,
      reads W DbWeight 2,
      writes W DbWeight 1]"

definition generic_pallet_assets_clear_metadata :: "'w weight_api \<Rightarrow> RuntimeDbWeight \<Rightarrow> 'w" where [weight_defs]:
  "generic_pallet_assets_clear_metadata W DbWeight =
     add_chain W (from_parts W 34600000 0)
     [from_parts W 0 3675,
      reads W DbWeight 2,
      writes W DbWeight 1]"

definition generic_pallet_assets_force_set_metadata :: "'w weight_api \<Rightarrow> RuntimeDbWeight \<Rightarrow> nat \<Rightarrow> nat \<Rightarrow> 'w" where [weight_defs]:
  "generic_pallet_assets_force_set_metadata W DbWeight n s =
     add_chain W (from_parts W 14792617 0)
     [from_parts W 0 3675,
      saturating_mul W (from_parts W 1420 0) n,
      saturating_mul W (from_parts W 29 0) s,
      reads W DbWeight 2,
      writes W DbWeight 1]"

definition generic_pallet_assets_force_clear_metadata :: "'w weight_api \<Rightarrow> RuntimeDbWeight \<Rightarrow> 'w" where [weight_defs]:
  "generic_pallet_assets_force_clear_metadata W DbWeight =
     add_chain W (from_parts W 33375000 0)
     [from_parts W 0 3675,
      reads W DbWeight 2,
      writes W DbWeight 1]"

definition generic_pallet_assets_force_asset_status :: "'w weight_api \<Rightarrow> RuntimeDbWeight \<Rightarrow> 'w" where [weight_defs]:
  "generic_pallet_assets_force_asset_status W DbWeight =
     add_chain W (from_parts W 13622000 0)
     [from_parts W 0 3675,
      reads W DbWeight 1,
      writes W DbWeight 1]"

definition generic_pallet_assets_approve_transfer :: "'w weight_api \<Rightarrow> RuntimeDbWeight \<Rightarrow> 'w" where [weight_defs]:
  "generic_pallet_assets_approve_transfer W DbWeight =
     add_chain W (from_parts W 39629000 0)
     [from_parts W 0 3675,
      reads W DbWeight 2,
      writes W DbWeight 2]"

definition generic_pallet_assets_transfer_approved :: "'w weight_api \<Rightarrow> RuntimeDbWeight \<Rightarrow> 'w" where [weight_defs]:
  "generic_pallet_assets_transfer_approved W DbWeight =
     add_chain W (from_parts W 78784000 0)
     [from_parts W 0 6208,
      reads W DbWeight 5,
      writes W DbWeight 5]"

definition generic_pallet_assets_cancel_approval :: "'w weight_api \<Rightarrow> RuntimeDbWeight \<Rightarrow> 'w" where [weight_defs]:
  "generic_pallet_assets_cancel_approval W DbWeight =
     add_chain W (from_parts W 41017000 0)
     [from_parts W 0 3675,
      reads W DbWeight 2,
      writes W DbWeight 2]"

definition generic_pallet_assets_force_cancel_approval :: "'w weight_api \<Rightarrow> RuntimeDbWeight \<Rightarrow> 'w" where [weight_defs]:
  "generic_pallet_assets_force_cancel_approval W DbWeight =
     add_chain W (from_parts W 41290000 0)
     [from_parts W 0 3675,
      reads W DbWeight 2,
      writes W DbWeight 2]"

definition generic_pallet_assets_set_min_balance :: "'w weight_api \<Rightarrow> RuntimeDbWeight \<Rightarrow> 'w" where [weight_defs]:
  "generic_pallet_assets_set_min_balance W DbWeight =
     add_chain W (from_parts W 14999000 0)
     [from_parts W 0 3675,
      reads W DbWeight 1,
      writes W DbWeight 1]"

definition generic_pallet_assets_touch :: "'w weight_api \<Rightarrow> RuntimeDbWeight \<Rightarrow> 'w" where [weight_defs]:
  "generic_pallet_assets_touch W DbWeight =
     add_chain W (from_parts W 41527000 0)
     [from_parts W 0 3675,
      reads W DbWeight 3,
      writes W DbWeight 3]"

definition generic_pallet_assets_touch_other :: "'w weight_api \<Rightarrow> RuntimeDbWeight \<Rightarrow> 'w" where [weight_defs]:
  "generic_pallet_assets_touch_other W DbWeight =
     add_chain W (from_parts W 39286000 0)
     [from_parts W 0 3675,
      reads W DbWeight 2,
      writes W DbWeight 2]"

definition generic_pallet_assets_refund :: "'w weight_api \<Rightarrow> RuntimeDbWeight \<Rightarrow> 'w" where [weight_defs]:
  "generic_pallet_assets_refund W DbWeight =
     add_chain W (from_parts W 38370000 0)
     [from_parts W 0 3675,
      reads W DbWeight 3,
      writes W DbWeight 3]"

definition generic_pallet_assets_refund_other :: "'w weight_api \<Rightarrow> RuntimeDbWeight \<Rightarrow> 'w" where [weight_defs]:
  "generic_pallet_assets_refund_other W DbWeight =
     add_chain W (from_parts W 35976000 0)
     [from_parts W 0 3675,
      reads W DbWeight 2,
      writes W DbWeight 2]"

definition generic_pallet_assets_block :: "'w weight_api \<Rightarrow> RuntimeDbWeight \<Rightarrow> 'w" where [weight_defs]:
  "generic_pallet_assets_block W DbWeight =
     add_chain W (from_parts W 19482000 0)
     [from_parts W 0 3675,
      reads W DbWeight 2,
      writes W DbWeight 1]"

definition generic_pallet_assets_transfer_all :: "'w weight_api \<Rightarrow> RuntimeDbWeight \<Rightarrow> 'w" where [weight_defs]:
  "generic_pallet_assets_transfer_all W DbWeight =
     add_chain W (from_parts W 19482000 0)
     [from_parts W 0 3675,
      reads W DbWeight 2,
      writes W DbWeight 1]"

definition generic_pallet_assets_WeightInfo :: "'w weight_api \<Rightarrow> RuntimeDbWeight \<Rightarrow> 'w weight_entry list" where
  "generic_pallet_assets_WeightInfo W DbWeight = [
     weight_fn ''pallet_assets::create'' []
       (\<lambda>c. generic_pallet_assets_create W DbWeight),
     weight_fn ''pallet_assets::force_create'' []
       (\<lambda>c. generic_pallet_assets_force_create W DbWeight),
     weight_fn ''pallet_assets::start_destroy'' []
       (\<lambda>c. generic_pallet_assets_start_destroy W DbWeight),
     weight_fn ''pallet_assets::destroy_accounts'' [(0, 1000)]
       (\<lambda>c. generic_pallet_assets_destroy_accounts W DbWeight (c ! 0)),
     weight_fn ''pallet_assets::destroy_approvals'' [(0, 1000)]
       (\<lambda>c. generic_pallet_assets_destroy_approvals W DbWeight (c ! 0)),
     weight_fn ''pallet_assets::finish_destroy'' []
       (\<lambda>c. generic_pallet_assets_finish_destroy W DbWeight),
     weight_fn ''pallet_assets::mint'' []
       (\<lambda>c. generic_pallet_assets_mint W DbWeight),
     weight_fn ''pallet_assets::burn'' []
       (\<lambda>c. generic_pallet_assets_burn W DbWeight),
     weight_fn ''pallet_assets::transfer'' []
       (\<lambda>c. generic_pallet_assets_transfer W DbWeight),
     weight_fn ''pallet_assets::transfer_keep_alive'' []
       (\<lambda>c. generic_pallet_assets_transfer_keep_alive W DbWeight),
     weight_fn ''pallet_assets::force_transfer'' []
       (\<lambda>c. generic_pallet_assets_force_transfer W DbWeight),
     weight_fn ''pallet_assets::freeze'' []
       (\<lambda>c. generic_pallet_assets_freeze W DbWeight),
     weight_fn ''pallet_assets::thaw'' []
       (\<lambda>c. generic_pallet_assets_thaw W DbWeight),
     weight_fn ''pallet_assets::freeze_asset'' []
       (\<lambda>c. generic_pallet_assets_freeze_asset W DbWeight),
     weight_fn ''pallet_assets::thaw_asset'' []
       (\<lambda>c. generic_pallet_assets_thaw_asset W DbWeight),
     weight_fn ''pallet_assets::transfer_ownership'' []
       (\<lambda>c. generic_pallet_assets_transfer_ownership W DbWeight),
     weight_fn ''pallet_assets::set_team'' []
       (\<lambda>c. generic_pallet_assets_set_team W DbWeight),
     weight_fn ''pallet_assets::set_metadata'' [(0, 50), (0, 50)]
       (\<lambda>c. generic_pallet_assets_set_metadata W DbWeight (c ! 0) (c ! 1)),
     weight_fn ''pallet_assets::clear_metadata'' []
       (\<lambda>c. generic_pallet_assets_clear_metadata W DbWeight),
     weight_fn ''pallet_assets::force_set_metadata'' [(0, 50), (0, 50)]
       (\<lambda>c. generic_pallet_assets_force_set_metadata W DbWeight (c ! 0) (c ! 1)),
     weight_fn ''pallet_assets::force_clear_metadata'' []
       (\<lambda>c. generic_pallet_assets_force_clear_metadata W DbWeight),
     weight_fn ''pallet_assets::force_asset_status'' []
       (\<lambda>c. generic_pallet_assets_force_asset_status W DbWeight),
     weight_fn ''pallet_assets::approve_transfer'' []
       (\<lambda>c. generic_pallet_assets_approve_transfer W DbWeight),
     weight_fn ''pallet_assets::transfer_approved'' []
       (\<lambda>c. generic_pallet_assets_transfer_approved W DbWeight),
     weight_fn ''pallet_assets::cancel_approval'' []
       (\<lambda>c. generic_pallet_assets_cancel_approval W DbWeight),
     weight_fn ''pallet_assets::force_cancel_approval'' []
       (\<lambda>c. generic_pallet_assets_force_cancel_approval W DbWeight),
     weight_fn ''pallet_assets::set_min_balance'' []
       (\<lambda>c. generic_pallet_assets_set_min_balance W DbWeight),
     weight_fn ''pallet_assets::touch'' []
       (\<lambda>c. generic_pallet_assets_touch W DbWeight),
     weight_fn ''pallet_assets::touch_other'' []
       (\<lambda>c. generic_pallet_assets_touch_other W DbWeight),
     weight_fn ''pallet_assets::refund'' []
       (\<lambda>c. generic_pallet_assets_refund W DbWeight),
     weight_fn ''pallet_assets::refund_other'' []
       (\<lambda>c. generic_pallet_assets_refund_other W DbWeight),
     weight_fn ''pallet_assets::block'' []
       (\<lambda>c. generic_pallet_assets_block W DbWeight),
     weight_fn ''pallet_assets::transfer_all'' []
       (\<lambda>c. generic_pallet_assets_transfer_all W DbWeight)]"

section \<open>pallet_transaction_payment\<close>

definition generic_pallet_transaction_payment_charge_transaction_payment :: "'w weight_api \<Rightarrow> RuntimeDbWeight \<Rightarrow> 'w" where [weight_defs]:
  "generic_pallet_transaction_payment_charge_transaction_payment W DbWeight =
     add_chain W (from_parts W 3942000 0)
     [from_parts W 0 0]"

definition generic_pallet_transaction_payment_WeightInfo :: "'w weight_api \<Rightarrow> RuntimeDbWeight \<Rightarrow> 'w weight_entry list" where
  "generic_pallet_transaction_payment_WeightInfo W DbWeight = [
     weight_fn ''pallet_transaction_payment::charge_transaction_payment'' []
       (\<lambda>c. generic_pallet_transaction_payment_charge_transaction_payment W DbWeight)]"

section \<open>The group as configured\<close>

definition generic_AssetsWeightFull :: "'w weight_api \<Rightarrow> 'w weight_entry list" where
  "generic_AssetsWeightFull W =
     generic_pallet_asset_manager_WeightInfo W (RocksDbWeight W) @
     generic_pallet_assets_WeightInfo W (RocksDbWeight W) @
     generic_pallet_transaction_payment_WeightInfo W (RocksDbWeight W)"

section \<open>Bounds and monotonicity\<close>

context weight_laws
begin

lemma generic_Assets_within:
  "registry_within W 349875000000 3670016 (generic_AssetsWeightFull W)"
  unfolding generic_AssetsWeightFull_def generic_pallet_asset_manager_WeightInfo_def generic_pallet_assets_WeightInfo_def generic_pallet_transaction_payment_WeightInfo_def append.simps
  by (intro fit_intros; simp only: weight_defs fit_simps)
    (rule within_weaken, (assumption | rule fit_steps)+, simp add: rocksdb_costs, simp)+

lemma generic_Assets_monotone:
  "registry_monotone W (generic_AssetsWeightFull W)"
  unfolding generic_AssetsWeightFull_def generic_pallet_asset_manager_WeightInfo_def generic_pallet_assets_WeightInfo_def generic_pallet_transaction_payment_WeightInfo_def append.simps
  by (intro mono_intros; simp only: weight_defs fit_simps) (assumption | rule mono_steps)+

end

end
