(* ===== verification/Generic_Weights_Governance.thy ===== *)
theory Generic_Weights_Governance
  imports Runtime_Constants
begin

text \<open>
  The benchmarked weight functions of the generic template's runtime that \<open>GovernanceWeightFull\<close>
  installs: \<open>pallet_conviction_voting\<close>, \<open>pallet_referenda\<close>, \<open>pallet_sudo\<close>, \<open>pallet_treasury\<close>, \<open>pallet_whitelist\<close>. Each function of a
  \<open>WeightInfo\<close> implementation is one definition over the weight interface and the runtime's
  \<open>DbWeight\<close>; each implementation is a registry of its functions with the component ranges
  the benchmark recorded. The lemmas bound every function over its whole range and show that
  it grows with its components.
\<close>

section \<open>pallet_conviction_voting\<close>

definition generic_pallet_conviction_voting_vote_new :: "'w weight_api \<Rightarrow> RuntimeDbWeight \<Rightarrow> 'w" where [weight_defs]:
  "generic_pallet_conviction_voting_vote_new W DbWeight =
     add_chain W (from_parts W 174394000 0)
     [from_parts W 0 42428,
      reads W DbWeight 6,
      writes W DbWeight 5]"

definition generic_pallet_conviction_voting_vote_existing :: "'w weight_api \<Rightarrow> RuntimeDbWeight \<Rightarrow> 'w" where [weight_defs]:
  "generic_pallet_conviction_voting_vote_existing W DbWeight =
     add_chain W (from_parts W 200316000 0)
     [from_parts W 0 83866,
      reads W DbWeight 7,
      writes W DbWeight 7]"

definition generic_pallet_conviction_voting_remove_vote :: "'w weight_api \<Rightarrow> RuntimeDbWeight \<Rightarrow> 'w" where [weight_defs]:
  "generic_pallet_conviction_voting_remove_vote W DbWeight =
     add_chain W (from_parts W 163726000 0)
     [from_parts W 0 83866,
      reads W DbWeight 4,
      writes W DbWeight 5]"

definition generic_pallet_conviction_voting_remove_other_vote :: "'w weight_api \<Rightarrow> RuntimeDbWeight \<Rightarrow> 'w" where [weight_defs]:
  "generic_pallet_conviction_voting_remove_other_vote W DbWeight =
     add_chain W (from_parts W 95710000 0)
     [from_parts W 0 30706,
      reads W DbWeight 2,
      writes W DbWeight 1]"

definition generic_pallet_conviction_voting_delegate :: "'w weight_api \<Rightarrow> RuntimeDbWeight \<Rightarrow> nat \<Rightarrow> 'w" where [weight_defs]:
  "generic_pallet_conviction_voting_delegate W DbWeight r =
     add_chain W (from_parts W 1167505265 0)
     [from_parts W 0 83866,
      saturating_mul W (from_parts W 26922900 0) r,
      reads W DbWeight 7,
      reads W DbWeight (u64_saturating_mul 1 r),
      writes W DbWeight 45,
      writes W DbWeight (u64_saturating_mul 1 r),
      saturating_mul W (from_parts W 0 3411) r]"

definition generic_pallet_conviction_voting_undelegate :: "'w weight_api \<Rightarrow> RuntimeDbWeight \<Rightarrow> nat \<Rightarrow> 'w" where [weight_defs]:
  "generic_pallet_conviction_voting_undelegate W DbWeight r =
     add_chain W (from_parts W 1113898263 0)
     [from_parts W 0 83866,
      saturating_mul W (from_parts W 27182216 0) r,
      reads W DbWeight 4,
      reads W DbWeight (u64_saturating_mul 1 r),
      writes W DbWeight 43,
      writes W DbWeight (u64_saturating_mul 1 r),
      saturating_mul W (from_parts W 0 3411) r]"

definition generic_pallet_conviction_voting_unlock :: "'w weight_api \<Rightarrow> RuntimeDbWeight \<Rightarrow> 'w" where [weight_defs]:
  "generic_pallet_conviction_voting_unlock W DbWeight =
     add_chain W (from_parts W 127212000 0)
     [from_parts W 0 30706,
      reads W DbWeight 4,
      writes W DbWeight 3]"

definition generic_pallet_conviction_voting_WeightInfo :: "'w weight_api \<Rightarrow> RuntimeDbWeight \<Rightarrow> 'w weight_entry list" where
  "generic_pallet_conviction_voting_WeightInfo W DbWeight = [
     weight_fn ''pallet_conviction_voting::vote_new'' []
       (\<lambda>c. generic_pallet_conviction_voting_vote_new W DbWeight),
     weight_fn ''pallet_conviction_voting::vote_existing'' []
       (\<lambda>c. generic_pallet_conviction_voting_vote_existing W DbWeight),
     weight_fn ''pallet_conviction_voting::remove_vote'' []
       (\<lambda>c. generic_pallet_conviction_voting_remove_vote W DbWeight),
     weight_fn ''pallet_conviction_voting::remove_other_vote'' []
       (\<lambda>c. generic_pallet_conviction_voting_remove_other_vote W DbWeight),
     weight_fn ''pallet_conviction_voting::delegate'' [(0, 512)]
       (\<lambda>c. generic_pallet_conviction_voting_delegate W DbWeight (c ! 0)),
     weight_fn ''pallet_conviction_voting::undelegate'' [(0, 512)]
       (\<lambda>c. generic_pallet_conviction_voting_undelegate W DbWeight (c ! 0)),
     weight_fn ''pallet_conviction_voting::unlock'' []
       (\<lambda>c. generic_pallet_conviction_voting_unlock W DbWeight)]"

section \<open>pallet_referenda\<close>

definition generic_pallet_referenda_submit :: "'w weight_api \<Rightarrow> RuntimeDbWeight \<Rightarrow> 'w" where [weight_defs]:
  "generic_pallet_referenda_submit W DbWeight =
     add_chain W (from_parts W 44950000 0)
     [from_parts W 0 42428,
      reads W DbWeight 2,
      writes W DbWeight 3]"

definition generic_pallet_referenda_place_decision_deposit_preparing :: "'w weight_api \<Rightarrow> RuntimeDbWeight \<Rightarrow> 'w" where [weight_defs]:
  "generic_pallet_referenda_place_decision_deposit_preparing W DbWeight =
     add_chain W (from_parts W 59836000 0)
     [from_parts W 0 83866,
      reads W DbWeight 3,
      writes W DbWeight 4]"

definition generic_pallet_referenda_place_decision_deposit_queued :: "'w weight_api \<Rightarrow> RuntimeDbWeight \<Rightarrow> 'w" where [weight_defs]:
  "generic_pallet_referenda_place_decision_deposit_queued W DbWeight =
     add_chain W (from_parts W 69213000 0)
     [from_parts W 0 42428,
      reads W DbWeight 4,
      writes W DbWeight 4]"

definition generic_pallet_referenda_place_decision_deposit_not_queued :: "'w weight_api \<Rightarrow> RuntimeDbWeight \<Rightarrow> 'w" where [weight_defs]:
  "generic_pallet_referenda_place_decision_deposit_not_queued W DbWeight =
     add_chain W (from_parts W 69683000 0)
     [from_parts W 0 42428,
      reads W DbWeight 4,
      writes W DbWeight 4]"

definition generic_pallet_referenda_place_decision_deposit_passing :: "'w weight_api \<Rightarrow> RuntimeDbWeight \<Rightarrow> 'w" where [weight_defs]:
  "generic_pallet_referenda_place_decision_deposit_passing W DbWeight =
     add_chain W (from_parts W 71788000 0)
     [from_parts W 0 83866,
      reads W DbWeight 4,
      writes W DbWeight 5]"

definition generic_pallet_referenda_place_decision_deposit_failing :: "'w weight_api \<Rightarrow> RuntimeDbWeight \<Rightarrow> 'w" where [weight_defs]:
  "generic_pallet_referenda_place_decision_deposit_failing W DbWeight =
     add_chain W (from_parts W 69341000 0)
     [from_parts W 0 83866,
      reads W DbWeight 4,
      writes W DbWeight 5]"

definition generic_pallet_referenda_refund_decision_deposit :: "'w weight_api \<Rightarrow> RuntimeDbWeight \<Rightarrow> 'w" where [weight_defs]:
  "generic_pallet_referenda_refund_decision_deposit W DbWeight =
     add_chain W (from_parts W 34884000 0)
     [from_parts W 0 4401,
      reads W DbWeight 1,
      writes W DbWeight 1]"

definition generic_pallet_referenda_refund_submission_deposit :: "'w weight_api \<Rightarrow> RuntimeDbWeight \<Rightarrow> 'w" where [weight_defs]:
  "generic_pallet_referenda_refund_submission_deposit W DbWeight =
     add_chain W (from_parts W 35118000 0)
     [from_parts W 0 4401,
      reads W DbWeight 1,
      writes W DbWeight 1]"

definition generic_pallet_referenda_cancel :: "'w weight_api \<Rightarrow> RuntimeDbWeight \<Rightarrow> 'w" where [weight_defs]:
  "generic_pallet_referenda_cancel W DbWeight =
     add_chain W (from_parts W 41198000 0)
     [from_parts W 0 83866,
      reads W DbWeight 3,
      writes W DbWeight 4]"

definition generic_pallet_referenda_kill :: "'w weight_api \<Rightarrow> RuntimeDbWeight \<Rightarrow> 'w" where [weight_defs]:
  "generic_pallet_referenda_kill W DbWeight =
     add_chain W (from_parts W 114478000 0)
     [from_parts W 0 83866,
      reads W DbWeight 5,
      writes W DbWeight 5]"

definition generic_pallet_referenda_one_fewer_deciding_queue_empty :: "'w weight_api \<Rightarrow> RuntimeDbWeight \<Rightarrow> 'w" where [weight_defs]:
  "generic_pallet_referenda_one_fewer_deciding_queue_empty W DbWeight =
     add_chain W (from_parts W 12227000 0)
     [from_parts W 0 3876,
      reads W DbWeight 2,
      writes W DbWeight 1]"

definition generic_pallet_referenda_one_fewer_deciding_failing :: "'w weight_api \<Rightarrow> RuntimeDbWeight \<Rightarrow> 'w" where [weight_defs]:
  "generic_pallet_referenda_one_fewer_deciding_failing W DbWeight =
     add_chain W (from_parts W 44213000 0)
     [from_parts W 0 42428,
      reads W DbWeight 3,
      writes W DbWeight 3]"

definition generic_pallet_referenda_one_fewer_deciding_passing :: "'w weight_api \<Rightarrow> RuntimeDbWeight \<Rightarrow> 'w" where [weight_defs]:
  "generic_pallet_referenda_one_fewer_deciding_passing W DbWeight =
     add_chain W (from_parts W 47864000 0)
     [from_parts W 0 42428,
      reads W DbWeight 3,
      writes W DbWeight 3]"

definition generic_pallet_referenda_nudge_referendum_requeued_insertion :: "'w weight_api \<Rightarrow> RuntimeDbWeight \<Rightarrow> 'w" where [weight_defs]:
  "generic_pallet_referenda_nudge_referendum_requeued_insertion W DbWeight =
     add_chain W (from_parts W 20404000 0)
     [from_parts W 0 4401,
      reads W DbWeight 2,
      writes W DbWeight 1]"

definition generic_pallet_referenda_nudge_referendum_requeued_slide :: "'w weight_api \<Rightarrow> RuntimeDbWeight \<Rightarrow> 'w" where [weight_defs]:
  "generic_pallet_referenda_nudge_referendum_requeued_slide W DbWeight =
     add_chain W (from_parts W 20226000 0)
     [from_parts W 0 4401,
      reads W DbWeight 2,
      writes W DbWeight 1]"

definition generic_pallet_referenda_nudge_referendum_queued :: "'w weight_api \<Rightarrow> RuntimeDbWeight \<Rightarrow> 'w" where [weight_defs]:
  "generic_pallet_referenda_nudge_referendum_queued W DbWeight =
     add_chain W (from_parts W 25230000 0)
     [from_parts W 0 4401,
      reads W DbWeight 3,
      writes W DbWeight 2]"

definition generic_pallet_referenda_nudge_referendum_not_queued :: "'w weight_api \<Rightarrow> RuntimeDbWeight \<Rightarrow> 'w" where [weight_defs]:
  "generic_pallet_referenda_nudge_referendum_not_queued W DbWeight =
     add_chain W (from_parts W 25436000 0)
     [from_parts W 0 4401,
      reads W DbWeight 3,
      writes W DbWeight 2]"

definition generic_pallet_referenda_nudge_referendum_no_deposit :: "'w weight_api \<Rightarrow> RuntimeDbWeight \<Rightarrow> 'w" where [weight_defs]:
  "generic_pallet_referenda_nudge_referendum_no_deposit W DbWeight =
     add_chain W (from_parts W 26355000 0)
     [from_parts W 0 42428,
      reads W DbWeight 2,
      writes W DbWeight 2]"

definition generic_pallet_referenda_nudge_referendum_preparing :: "'w weight_api \<Rightarrow> RuntimeDbWeight \<Rightarrow> 'w" where [weight_defs]:
  "generic_pallet_referenda_nudge_referendum_preparing W DbWeight =
     add_chain W (from_parts W 27101000 0)
     [from_parts W 0 42428,
      reads W DbWeight 2,
      writes W DbWeight 2]"

definition generic_pallet_referenda_nudge_referendum_timed_out :: "'w weight_api \<Rightarrow> RuntimeDbWeight \<Rightarrow> 'w" where [weight_defs]:
  "generic_pallet_referenda_nudge_referendum_timed_out W DbWeight =
     add_chain W (from_parts W 17654000 0)
     [from_parts W 0 4401,
      reads W DbWeight 1,
      writes W DbWeight 1]"

definition generic_pallet_referenda_nudge_referendum_begin_deciding_failing :: "'w weight_api \<Rightarrow> RuntimeDbWeight \<Rightarrow> 'w" where [weight_defs]:
  "generic_pallet_referenda_nudge_referendum_begin_deciding_failing W DbWeight =
     add_chain W (from_parts W 36452000 0)
     [from_parts W 0 42428,
      reads W DbWeight 3,
      writes W DbWeight 3]"

definition generic_pallet_referenda_nudge_referendum_begin_deciding_passing :: "'w weight_api \<Rightarrow> RuntimeDbWeight \<Rightarrow> 'w" where [weight_defs]:
  "generic_pallet_referenda_nudge_referendum_begin_deciding_passing W DbWeight =
     add_chain W (from_parts W 38340000 0)
     [from_parts W 0 42428,
      reads W DbWeight 3,
      writes W DbWeight 3]"

definition generic_pallet_referenda_nudge_referendum_begin_confirming :: "'w weight_api \<Rightarrow> RuntimeDbWeight \<Rightarrow> 'w" where [weight_defs]:
  "generic_pallet_referenda_nudge_referendum_begin_confirming W DbWeight =
     add_chain W (from_parts W 30938000 0)
     [from_parts W 0 42428,
      reads W DbWeight 2,
      writes W DbWeight 2]"

definition generic_pallet_referenda_nudge_referendum_end_confirming :: "'w weight_api \<Rightarrow> RuntimeDbWeight \<Rightarrow> 'w" where [weight_defs]:
  "generic_pallet_referenda_nudge_referendum_end_confirming W DbWeight =
     add_chain W (from_parts W 32012000 0)
     [from_parts W 0 42428,
      reads W DbWeight 2,
      writes W DbWeight 2]"

definition generic_pallet_referenda_nudge_referendum_continue_not_confirming :: "'w weight_api \<Rightarrow> RuntimeDbWeight \<Rightarrow> 'w" where [weight_defs]:
  "generic_pallet_referenda_nudge_referendum_continue_not_confirming W DbWeight =
     add_chain W (from_parts W 29849000 0)
     [from_parts W 0 42428,
      reads W DbWeight 2,
      writes W DbWeight 2]"

definition generic_pallet_referenda_nudge_referendum_continue_confirming :: "'w weight_api \<Rightarrow> RuntimeDbWeight \<Rightarrow> 'w" where [weight_defs]:
  "generic_pallet_referenda_nudge_referendum_continue_confirming W DbWeight =
     add_chain W (from_parts W 28413000 0)
     [from_parts W 0 42428,
      reads W DbWeight 2,
      writes W DbWeight 2]"

definition generic_pallet_referenda_nudge_referendum_approved :: "'w weight_api \<Rightarrow> RuntimeDbWeight \<Rightarrow> 'w" where [weight_defs]:
  "generic_pallet_referenda_nudge_referendum_approved W DbWeight =
     add_chain W (from_parts W 43887000 0)
     [from_parts W 0 83866,
      reads W DbWeight 4,
      writes W DbWeight 4]"

definition generic_pallet_referenda_nudge_referendum_rejected :: "'w weight_api \<Rightarrow> RuntimeDbWeight \<Rightarrow> 'w" where [weight_defs]:
  "generic_pallet_referenda_nudge_referendum_rejected W DbWeight =
     add_chain W (from_parts W 30947000 0)
     [from_parts W 0 42428,
      reads W DbWeight 2,
      writes W DbWeight 2]"

definition generic_pallet_referenda_set_some_metadata :: "'w weight_api \<Rightarrow> RuntimeDbWeight \<Rightarrow> 'w" where [weight_defs]:
  "generic_pallet_referenda_set_some_metadata W DbWeight =
     add_chain W (from_parts W 25451000 0)
     [from_parts W 0 4401,
      reads W DbWeight 3,
      writes W DbWeight 1]"

definition generic_pallet_referenda_clear_metadata :: "'w weight_api \<Rightarrow> RuntimeDbWeight \<Rightarrow> 'w" where [weight_defs]:
  "generic_pallet_referenda_clear_metadata W DbWeight =
     add_chain W (from_parts W 20755000 0)
     [from_parts W 0 4401,
      reads W DbWeight 2,
      writes W DbWeight 1]"

definition generic_pallet_referenda_WeightInfo :: "'w weight_api \<Rightarrow> RuntimeDbWeight \<Rightarrow> 'w weight_entry list" where
  "generic_pallet_referenda_WeightInfo W DbWeight = [
     weight_fn ''pallet_referenda::submit'' []
       (\<lambda>c. generic_pallet_referenda_submit W DbWeight),
     weight_fn ''pallet_referenda::place_decision_deposit_preparing'' []
       (\<lambda>c. generic_pallet_referenda_place_decision_deposit_preparing W DbWeight),
     weight_fn ''pallet_referenda::place_decision_deposit_queued'' []
       (\<lambda>c. generic_pallet_referenda_place_decision_deposit_queued W DbWeight),
     weight_fn ''pallet_referenda::place_decision_deposit_not_queued'' []
       (\<lambda>c. generic_pallet_referenda_place_decision_deposit_not_queued W DbWeight),
     weight_fn ''pallet_referenda::place_decision_deposit_passing'' []
       (\<lambda>c. generic_pallet_referenda_place_decision_deposit_passing W DbWeight),
     weight_fn ''pallet_referenda::place_decision_deposit_failing'' []
       (\<lambda>c. generic_pallet_referenda_place_decision_deposit_failing W DbWeight),
     weight_fn ''pallet_referenda::refund_decision_deposit'' []
       (\<lambda>c. generic_pallet_referenda_refund_decision_deposit W DbWeight),
     weight_fn ''pallet_referenda::refund_submission_deposit'' []
       (\<lambda>c. generic_pallet_referenda_refund_submission_deposit W DbWeight),
     weight_fn ''pallet_referenda::cancel'' []
       (\<lambda>c. generic_pallet_referenda_cancel W DbWeight),
     weight_fn ''pallet_referenda::kill'' []
       (\<lambda>c. generic_pallet_referenda_kill W DbWeight),
     weight_fn ''pallet_referenda::one_fewer_deciding_queue_empty'' []
       (\<lambda>c. generic_pallet_referenda_one_fewer_deciding_queue_empty W DbWeight),
     weight_fn ''pallet_referenda::one_fewer_deciding_failing'' []
       (\<lambda>c. generic_pallet_referenda_one_fewer_deciding_failing W DbWeight),
     weight_fn ''pallet_referenda::one_fewer_deciding_passing'' []
       (\<lambda>c. generic_pallet_referenda_one_fewer_deciding_passing W DbWeight),
     weight_fn ''pallet_referenda::nudge_referendum_requeued_insertion'' []
       (\<lambda>c. generic_pallet_referenda_nudge_referendum_requeued_insertion W DbWeight),
     weight_fn ''pallet_referenda::nudge_referendum_requeued_slide'' []
       (\<lambda>c. generic_pallet_referenda_nudge_referendum_requeued_slide W DbWeight),
     weight_fn ''pallet_referenda::nudge_referendum_queued'' []
       (\<lambda>c. generic_pallet_referenda_nudge_referendum_queued W DbWeight),
     weight_fn ''pallet_referenda::nudge_referendum_not_queued'' []
       (\<lambda>c. generic_pallet_referenda_nudge_referendum_not_queued W DbWeight),
     weight_fn ''pallet_referenda::nudge_referendum_no_deposit'' []
       (\<lambda>c. generic_pallet_referenda_nudge_referendum_no_deposit W DbWeight),
     weight_fn ''pallet_referenda::nudge_referendum_preparing'' []
       (\<lambda>c. generic_pallet_referenda_nudge_referendum_preparing W DbWeight),
     weight_fn ''pallet_referenda::nudge_referendum_timed_out'' []
       (\<lambda>c. generic_pallet_referenda_nudge_referendum_timed_out W DbWeight),
     weight_fn ''pallet_referenda::nudge_referendum_begin_deciding_failing'' []
       (\<lambda>c. generic_pallet_referenda_nudge_referendum_begin_deciding_failing W DbWeight),
     weight_fn ''pallet_referenda::nudge_referendum_begin_deciding_passing'' []
       (\<lambda>c. generic_pallet_referenda_nudge_referendum_begin_deciding_passing W DbWeight),
     weight_fn ''pallet_referenda::nudge_referendum_begin_confirming'' []
       (\<lambda>c. generic_pallet_referenda_nudge_referendum_begin_confirming W DbWeight),
     weight_fn ''pallet_referenda::nudge_referendum_end_confirming'' []
       (\<lambda>c. generic_pallet_referenda_nudge_referendum_end_confirming W DbWeight),
     weight_fn ''pallet_referenda::nudge_referendum_continue_not_confirming'' []
       (\<lambda>c. generic_pallet_referenda_nudge_referendum_continue_not_confirming W DbWeight),
     weight_fn ''pallet_referenda::nudge_referendum_continue_confirming'' []
       (\<lambda>c. generic_pallet_referenda_nudge_referendum_continue_confirming W DbWeight),
     weight_fn ''pallet_referenda::nudge_referendum_approved'' []
       (\<lambda>c. generic_pallet_referenda_nudge_referendum_approved W DbWeight),
     weight_fn ''pallet_referenda::nudge_referendum_rejected'' []
       (\<lambda>c. generic_pallet_referenda_nudge_referendum_rejected W DbWeight),
     weight_fn ''pallet_referenda::set_some_metadata'' []
       (\<lambda>c. generic_pallet_referenda_set_some_metadata W DbWeight),
     weight_fn ''pallet_referenda::clear_metadata'' []
       (\<lambda>c. generic_pallet_referenda_clear_metadata W DbWeight)]"

section \<open>pallet_sudo\<close>

definition generic_pallet_sudo_set_key :: "'w weight_api \<Rightarrow> RuntimeDbWeight \<Rightarrow> 'w" where [weight_defs]:
  "generic_pallet_sudo_set_key W DbWeight =
     add_chain W (from_parts W 12355000 0)
     [from_parts W 0 1517,
      reads W DbWeight 1,
      writes W DbWeight 1]"

definition generic_pallet_sudo_sudo :: "'w weight_api \<Rightarrow> RuntimeDbWeight \<Rightarrow> 'w" where [weight_defs]:
  "generic_pallet_sudo_sudo W DbWeight =
     add_chain W (from_parts W 13789000 0)
     [from_parts W 0 1517,
      reads W DbWeight 1]"

definition generic_pallet_sudo_sudo_as :: "'w weight_api \<Rightarrow> RuntimeDbWeight \<Rightarrow> 'w" where [weight_defs]:
  "generic_pallet_sudo_sudo_as W DbWeight =
     add_chain W (from_parts W 14064000 0)
     [from_parts W 0 1517,
      reads W DbWeight 1]"

definition generic_pallet_sudo_remove_key :: "'w weight_api \<Rightarrow> RuntimeDbWeight \<Rightarrow> 'w" where [weight_defs]:
  "generic_pallet_sudo_remove_key W DbWeight =
     add_chain W (from_parts W 11411000 0)
     [from_parts W 0 1517,
      reads W DbWeight 1,
      writes W DbWeight 1]"

definition generic_pallet_sudo_check_only_sudo_account :: "'w weight_api \<Rightarrow> RuntimeDbWeight \<Rightarrow> 'w" where [weight_defs]:
  "generic_pallet_sudo_check_only_sudo_account W DbWeight =
     add_chain W (from_parts W 11411000 0)
     [from_parts W 0 1517,
      reads W DbWeight 1,
      writes W DbWeight 1]"

definition generic_pallet_sudo_WeightInfo :: "'w weight_api \<Rightarrow> RuntimeDbWeight \<Rightarrow> 'w weight_entry list" where
  "generic_pallet_sudo_WeightInfo W DbWeight = [
     weight_fn ''pallet_sudo::set_key'' []
       (\<lambda>c. generic_pallet_sudo_set_key W DbWeight),
     weight_fn ''pallet_sudo::sudo'' []
       (\<lambda>c. generic_pallet_sudo_sudo W DbWeight),
     weight_fn ''pallet_sudo::sudo_as'' []
       (\<lambda>c. generic_pallet_sudo_sudo_as W DbWeight),
     weight_fn ''pallet_sudo::remove_key'' []
       (\<lambda>c. generic_pallet_sudo_remove_key W DbWeight),
     weight_fn ''pallet_sudo::check_only_sudo_account'' []
       (\<lambda>c. generic_pallet_sudo_check_only_sudo_account W DbWeight)]"

section \<open>pallet_treasury\<close>

definition generic_pallet_treasury_spend_local :: "'w weight_api \<Rightarrow> RuntimeDbWeight \<Rightarrow> 'w" where [weight_defs]:
  "generic_pallet_treasury_spend_local W DbWeight =
     add_chain W (from_parts W 14825000 0)
     [from_parts W 0 1887,
      reads W DbWeight 2,
      writes W DbWeight 3]"

definition generic_pallet_treasury_remove_approval :: "'w weight_api \<Rightarrow> RuntimeDbWeight \<Rightarrow> 'w" where [weight_defs]:
  "generic_pallet_treasury_remove_approval W DbWeight =
     add_chain W (from_parts W 7530000 0)
     [from_parts W 0 1887,
      reads W DbWeight 1,
      writes W DbWeight 1]"

definition generic_pallet_treasury_on_initialize_proposals :: "'w weight_api \<Rightarrow> RuntimeDbWeight \<Rightarrow> nat \<Rightarrow> 'w" where [weight_defs]:
  "generic_pallet_treasury_on_initialize_proposals W DbWeight p =
     add_chain W (from_parts W 32273927 0)
     [from_parts W 0 3593,
      saturating_mul W (from_parts W 28204042 0) p,
      reads W DbWeight 3,
      reads W DbWeight (u64_saturating_mul 2 p),
      writes W DbWeight 3,
      writes W DbWeight (u64_saturating_mul 2 p),
      saturating_mul W (from_parts W 0 2603) p]"

definition generic_pallet_treasury_spend :: "'w weight_api \<Rightarrow> RuntimeDbWeight \<Rightarrow> 'w" where [weight_defs]:
  "generic_pallet_treasury_spend W DbWeight =
     add_chain W (from_parts W 17722000 0)
     [from_parts W 0 1489,
      reads W DbWeight 1,
      writes W DbWeight 2]"

definition generic_pallet_treasury_payout :: "'w weight_api \<Rightarrow> RuntimeDbWeight \<Rightarrow> 'w" where [weight_defs]:
  "generic_pallet_treasury_payout W DbWeight =
     add_chain W (from_parts W 58836000 0)
     [from_parts W 0 5318,
      reads W DbWeight 6,
      writes W DbWeight 5]"

definition generic_pallet_treasury_check_status :: "'w weight_api \<Rightarrow> RuntimeDbWeight \<Rightarrow> 'w" where [weight_defs]:
  "generic_pallet_treasury_check_status W DbWeight =
     add_chain W (from_parts W 29674000 0)
     [from_parts W 0 5318,
      reads W DbWeight 2,
      writes W DbWeight 2]"

definition generic_pallet_treasury_void_spend :: "'w weight_api \<Rightarrow> RuntimeDbWeight \<Rightarrow> 'w" where [weight_defs]:
  "generic_pallet_treasury_void_spend W DbWeight =
     add_chain W (from_parts W 17059000 0)
     [from_parts W 0 5318,
      reads W DbWeight 1,
      writes W DbWeight 1]"

definition generic_pallet_treasury_WeightInfo :: "'w weight_api \<Rightarrow> RuntimeDbWeight \<Rightarrow> 'w weight_entry list" where
  "generic_pallet_treasury_WeightInfo W DbWeight = [
     weight_fn ''pallet_treasury::spend_local'' []
       (\<lambda>c. generic_pallet_treasury_spend_local W DbWeight),
     weight_fn ''pallet_treasury::remove_approval'' []
       (\<lambda>c. generic_pallet_treasury_remove_approval W DbWeight),
     weight_fn ''pallet_treasury::on_initialize_proposals'' [(0, 99)]
       (\<lambda>c. generic_pallet_treasury_on_initialize_proposals W DbWeight (c ! 0)),
     weight_fn ''pallet_treasury::spend'' []
       (\<lambda>c. generic_pallet_treasury_spend W DbWeight),
     weight_fn ''pallet_treasury::payout'' []
       (\<lambda>c. generic_pallet_treasury_payout W DbWeight),
     weight_fn ''pallet_treasury::check_status'' []
       (\<lambda>c. generic_pallet_treasury_check_status W DbWeight),
     weight_fn ''pallet_treasury::void_spend'' []
       (\<lambda>c. generic_pallet_treasury_void_spend W DbWeight)]"

section \<open>pallet_whitelist\<close>

definition generic_pallet_whitelist_whitelist_call :: "'w weight_api \<Rightarrow> RuntimeDbWeight \<Rightarrow> 'w" where [weight_defs]:
  "generic_pallet_whitelist_whitelist_call W DbWeight =
     add_chain W (from_parts W 24249000 0)
     [from_parts W 0 3556,
      reads W DbWeight 3,
      writes W DbWeight 2]"

definition generic_pallet_whitelist_remove_whitelisted_call :: "'w weight_api \<Rightarrow> RuntimeDbWeight \<Rightarrow> 'w" where [weight_defs]:
  "generic_pallet_whitelist_remove_whitelisted_call W DbWeight =
     add_chain W (from_parts W 22341000 0)
     [from_parts W 0 3556,
      reads W DbWeight 3,
      writes W DbWeight 2]"

definition generic_pallet_whitelist_dispatch_whitelisted_call :: "'w weight_api \<Rightarrow> RuntimeDbWeight \<Rightarrow> nat \<Rightarrow> 'w" where [weight_defs]:
  "generic_pallet_whitelist_dispatch_whitelisted_call W DbWeight n =
     add_chain W (from_parts W 37105000 0)
     [from_parts W 0 3716,
      saturating_mul W (from_parts W 1282 0) n,
      reads W DbWeight 4,
      writes W DbWeight 3,
      saturating_mul W (from_parts W 0 1) n]"

definition generic_pallet_whitelist_dispatch_whitelisted_call_with_preimage :: "'w weight_api \<Rightarrow> RuntimeDbWeight \<Rightarrow> nat \<Rightarrow> 'w" where [weight_defs]:
  "generic_pallet_whitelist_dispatch_whitelisted_call_with_preimage W DbWeight n =
     add_chain W (from_parts W 27922276 0)
     [from_parts W 0 3556,
      saturating_mul W (from_parts W 1405 0) n,
      reads W DbWeight 3,
      writes W DbWeight 2]"

definition generic_pallet_whitelist_WeightInfo :: "'w weight_api \<Rightarrow> RuntimeDbWeight \<Rightarrow> 'w weight_entry list" where
  "generic_pallet_whitelist_WeightInfo W DbWeight = [
     weight_fn ''pallet_whitelist::whitelist_call'' []
       (\<lambda>c. generic_pallet_whitelist_whitelist_call W DbWeight),
     weight_fn ''pallet_whitelist::remove_whitelisted_call'' []
       (\<lambda>c. generic_pallet_whitelist_remove_whitelisted_call W DbWeight),
     weight_fn ''pallet_whitelist::dispatch_whitelisted_call'' [(1, 4194294)]
       (\<lambda>c. generic_pallet_whitelist_dispatch_whitelisted_call W DbWeight (c ! 0)),
     weight_fn ''pallet_whitelist::dispatch_whitelisted_call_with_preimage'' [(1, 10000)]
       (\<lambda>c. generic_pallet_whitelist_dispatch_whitelisted_call_with_preimage W DbWeight (c ! 0))]"

section \<open>The group as configured\<close>

definition generic_GovernanceWeightFull :: "'w weight_api \<Rightarrow> 'w weight_entry list" where
  "generic_GovernanceWeightFull W =
     generic_pallet_conviction_voting_WeightInfo W (RocksDbWeight W) @
     generic_pallet_referenda_WeightInfo W (RocksDbWeight W) @
     generic_pallet_sudo_WeightInfo W (RocksDbWeight W) @
     generic_pallet_treasury_WeightInfo W (RocksDbWeight W) @
     generic_pallet_whitelist_WeightInfo W (RocksDbWeight W)"

section \<open>Bounds and monotonicity\<close>

context weight_laws
begin

lemma generic_Governance_within:
  "registry_within W 349875000000 3670016 (generic_GovernanceWeightFull W)"
  unfolding generic_GovernanceWeightFull_def generic_pallet_conviction_voting_WeightInfo_def generic_pallet_referenda_WeightInfo_def generic_pallet_sudo_WeightInfo_def generic_pallet_treasury_WeightInfo_def generic_pallet_whitelist_WeightInfo_def append.simps
  by (intro fit_intros; simp only: weight_defs fit_simps)
    (rule within_weaken, (assumption | rule fit_steps)+, simp add: rocksdb_costs, simp)+

lemma generic_Governance_monotone:
  "registry_monotone W (generic_GovernanceWeightFull W)"
  unfolding generic_GovernanceWeightFull_def generic_pallet_conviction_voting_WeightInfo_def generic_pallet_referenda_WeightInfo_def generic_pallet_sudo_WeightInfo_def generic_pallet_treasury_WeightInfo_def generic_pallet_whitelist_WeightInfo_def append.simps
  by (intro mono_intros; simp only: weight_defs fit_simps) (assumption | rule mono_steps)+

end

end
