(* ===== verification/Runtime_Weights.thy ===== *)
theory Runtime_Weights
  imports
    Evm_Weights_System Evm_Weights_Consensus Evm_Weights_Assets Evm_Weights_Governance
    Evm_Weights_Xcm Evm_Weights_Evm
    Generic_Weights_System Generic_Weights_Consensus Generic_Weights_Assets
    Generic_Weights_Governance Generic_Weights_Xcm
begin

text \<open>
  All weight functions of each runtime together, and what they mean for a block: every call
  fits into the share of the block that a normal extrinsic may use, weights grow with their
  components, and the two exceptions are characterised exactly.
\<close>

section \<open>The registries of the two runtimes\<close>

text \<open>
  The build without the \<open>tanssi\<close> feature; with it the consensus weights are replaced by
  weights of the SDK's pallets. A weight configured as \<open>()\<close> is the SDK's too.
\<close>

definition evm_weights :: "'w weight_api \<Rightarrow> 'w weight_entry list" where
  "evm_weights W =
     evm_SystemWeightFull W @ evm_ConsensusWeightFull W @ evm_AssetsWeightFull W @
     evm_GovernanceWeightFull W @ evm_XcmWeightFull W @ evm_EvmWeightFull W"

definition generic_weights :: "'w weight_api \<Rightarrow> 'w weight_entry list" where
  "generic_weights W =
     generic_SystemWeightFull W @ generic_ConsensusWeightFull W @ generic_AssetsWeightFull W @
     generic_GovernanceWeightFull W @ generic_XcmWeightFull W"

text \<open>
  What a normal extrinsic may use at most, in both dimensions of the weight: the share of normal
  dispatches less the share set aside for \<open>on_initialize\<close> (\<open>NORMAL_DISPATCH_RATIO\<close> and
  \<open>AVERAGE_ON_INITIALIZE_RATIO\<close> of \<open>constants.rs\<close>, with their comments), of which the base weight of an
  extrinsic is taken off. The product is exact; the arithmetic of \<open>Perbill\<close> rounds it to a whole number.
\<close>

definition normal_extrinsic_fits ::
  "features \<Rightarrow> 'p perbill_api \<Rightarrow> 'w weight_api \<Rightarrow> 'w \<Rightarrow> bool" where
  "normal_extrinsic_fits F P W w \<longleftrightarrow> (
     let max_block = MAXIMUM_BLOCK_WEIGHT F W; base = ExtrinsicBaseWeight W;
         share = deconstruct P (NORMAL_DISPATCH_RATIO P) - deconstruct P (AVERAGE_ON_INITIALIZE_RATIO P)
     in (ref_time W w + ref_time W base) * 1000000000 \<le> ref_time W max_block * share \<and>
        (proof_size W w + proof_size W base) * 1000000000 \<le> proof_size W max_block * share)"

lemma registry_withinD:
  "registry_within W r p es \<Longrightarrow> e \<in> set es \<Longrightarrow> fn_name e \<notin> set oversized_calls \<Longrightarrow>
   in_range e xs \<Longrightarrow> within_weight W (weight_of e xs) r p"
  by (auto simp: registry_within_def entry_within_def list_all_iff)

context weight_laws
begin

lemma evm_weights_within: "registry_within W 349875000000 3670016 (evm_weights W)"
  by (simp add: evm_weights_def evm_System_within evm_Consensus_within evm_Assets_within
      evm_Governance_within evm_Xcm_within evm_Evm_within)

lemma generic_weights_within: "registry_within W 349875000000 3670016 (generic_weights W)"
  by (simp add: generic_weights_def generic_System_within generic_Consensus_within
      generic_Assets_within generic_Governance_within generic_Xcm_within)

lemma evm_weights_monotone: "registry_monotone W (evm_weights W)"
  by (simp add: evm_weights_def evm_System_monotone evm_Consensus_monotone evm_Assets_monotone
      evm_Governance_monotone evm_Xcm_monotone evm_Evm_monotone)

lemma generic_weights_monotone: "registry_monotone W (generic_weights W)"
  by (simp add: generic_weights_def generic_System_monotone generic_Consensus_monotone
      generic_Assets_monotone generic_Governance_monotone generic_Xcm_monotone)

lemmas exact_weight = components rocksdb_costs u64_saturating_defs u64_MAX_def min_def

lemma ensure_updated_weight:
  assumes "n \<le> 1024"
  shows "ref_time W (evm_pallet_preimage_ensure_updated W (RocksDbWeight W) n) =
      75730000 + 548334343 * n"
    and "proof_size W (evm_pallet_preimage_ensure_updated W (RocksDbWeight W) n) = 990 + 2591 * n"
    and "ref_time W (generic_pallet_preimage_ensure_updated W (RocksDbWeight W) n) =
      69058000 + 541883691 * n"
    and "proof_size W (generic_pallet_preimage_ensure_updated W (RocksDbWeight W) n) = 990 + 2603 * n"
  using assms
  by (simp_all add: evm_pallet_preimage_ensure_updated_def generic_pallet_preimage_ensure_updated_def
      exact_weight)

lemma dispatch_whitelisted_weight:
  assumes "n \<le> 4194294"
  shows "ref_time W (evm_pallet_whitelist_dispatch_whitelisted_call W (RocksDbWeight W) n) =
      437282000 + 1378 * n"
    and "proof_size W (evm_pallet_whitelist_dispatch_whitelisted_call W (RocksDbWeight W) n) = 3716 + n"
    and "ref_time W (generic_pallet_whitelist_dispatch_whitelisted_call W (RocksDbWeight W) n) =
      437105000 + 1282 * n"
    and "proof_size W (generic_pallet_whitelist_dispatch_whitelisted_call W (RocksDbWeight W) n) =
      3716 + n"
  using assms
  by (simp_all add: evm_pallet_whitelist_dispatch_whitelisted_call_def
      generic_pallet_whitelist_dispatch_whitelisted_call_def exact_weight)

lemma service_task_fetched_weight:
  assumes "n \<le> 4194304"
  shows "ref_time W (evm_pallet_scheduler_service_task_fetched W (RocksDbWeight W) n) =
      299334000 + 1242 * n"
    and "proof_size W (evm_pallet_scheduler_service_task_fetched W (RocksDbWeight W) n) = 4197809"
    and "ref_time W (generic_pallet_scheduler_service_task_fetched W (RocksDbWeight W) n) =
      299090000 + 1212 * n"
    and "proof_size W (generic_pallet_scheduler_service_task_fetched W (RocksDbWeight W) n) = 4197809"
  using assms
  by (simp_all add: evm_pallet_scheduler_service_task_fetched_def
      generic_pallet_scheduler_service_task_fetched_def exact_weight)

lemma teleport_ref_time:
  "ref_time W (evm_pallet_xcm_teleport_assets W d) = 18446744073709551000"
  "ref_time W (generic_pallet_xcm_teleport_assets W d) = 18446744073709551000"
  by (simp_all add: evm_pallet_xcm_teleport_assets_def generic_pallet_xcm_teleport_assets_def
      components u64_saturating_defs u64_MAX_def)

end

lemma normal_extrinsic_fits_iff:
  assumes "weight_laws W" and "perbill_laws P"
  shows "normal_extrinsic_fits F P W w \<longleftrightarrow>
    ref_time W w \<le> (if async_backing F then 1399875000000 else 349875000000) \<and>
    10 * proof_size W w \<le> 7 * MAX_POV_SIZE W"
  using assms(2)
  by (auto simp: normal_extrinsic_fits_def weight_laws.max_block_ref_time [OF assms(1)]
      weight_laws.max_block_proof_size [OF assms(1)] weight_laws.extrinsic_base [OF assms(1)]
      NORMAL_DISPATCH_RATIO_def AVERAGE_ON_INITIALIZE_RATIO_def perbill_laws.deconstruct_percent)

lemma within_normal_extrinsic:
  assumes "weight_laws W" and "perbill_laws P" and "within_weight W w 349875000000 3670016"
  shows "normal_extrinsic_fits F P W w"
  using weight_laws.pov_size_lower [OF assms(1)] assms(3)
  by (auto simp: normal_extrinsic_fits_iff [OF assms(1,2)] within_weight_def)

lemma registry_monotoneD:
  "registry_monotone W es \<Longrightarrow> e \<in> set es \<Longrightarrow> list_all2 (\<le>) xs ys \<Longrightarrow>
   length ys = length (components_range e) \<Longrightarrow> weight_le W (weight_of e xs) (weight_of e ys)"
  by (auto simp: registry_monotone_def entry_monotone_def list_all_iff)

section \<open>Properties\<close>

text \<open>
  C1: every weight function of the EVM runtime, four named ones apart, fits what a normal
  extrinsic may use, over the whole benchmarked range of its components: reference time and proof
  size stay within 70 percent of the block, the normal share less the part kept for
  \<open>on_initialize\<close>, with the base weight of an extrinsic added.
\<close>

theorem evm_weights_fit_block:
  assumes "weight_laws W" and "perbill_laws P"
    and "e \<in> set (evm_weights W)" and "fn_name e \<notin> set oversized_calls"
    and "in_range e xs"
  shows "normal_extrinsic_fits F P W (weight_of e xs)"
  by (rule within_normal_extrinsic [OF assms(1,2)],
      rule registry_withinD [OF weight_laws.evm_weights_within [OF assms(1)] assms(3-5)])

theorem evm_weights_fit_block_witness:
  "normal_extrinsic_fits default_features sp_perbill_api sp_weight_5MiB
     (evm_pallet_assets_destroy_accounts sp_weight_5MiB (RocksDbWeight sp_weight_5MiB) 1000)"
proof -
  let ?e = "weight_fn ''pallet_assets::destroy_accounts'' [(0, 1000)]
    (\<lambda>c. evm_pallet_assets_destroy_accounts sp_weight_5MiB (RocksDbWeight sp_weight_5MiB) (c ! 0))"
  have "?e \<in> set (evm_weights sp_weight_5MiB)"
    by (simp add: evm_weights_def evm_AssetsWeightFull_def evm_pallet_assets_WeightInfo_def)
  moreover have "fn_name ?e \<notin> set oversized_calls" and "in_range ?e [1000]"
    by (simp_all add: oversized_calls_def)
  ultimately have "normal_extrinsic_fits default_features sp_perbill_api sp_weight_5MiB
      (weight_of ?e [1000])"
    by (rule evm_weights_fit_block [OF sp.weight_laws_axioms spp.perbill_laws_axioms])
  then show ?thesis
    by simp
qed

text \<open>
  C2: the same for the generic runtime's benchmarked weight functions.
\<close>

theorem generic_weights_fit_block:
  assumes "weight_laws W" and "perbill_laws P"
    and "e \<in> set (generic_weights W)" and "fn_name e \<notin> set oversized_calls"
    and "in_range e xs"
  shows "normal_extrinsic_fits F P W (weight_of e xs)"
  by (rule within_normal_extrinsic [OF assms(1,2)],
      rule registry_withinD [OF weight_laws.generic_weights_within [OF assms(1)] assms(3-5)])

theorem generic_weights_fit_block_witness:
  "normal_extrinsic_fits default_features sp_perbill_api sp_weight_5MiB
     (generic_pallet_collator_selection_set_candidacy_bond
        sp_weight_5MiB (RocksDbWeight sp_weight_5MiB) 100 7)"
proof -
  let ?e = "weight_fn ''pallet_collator_selection::set_candidacy_bond'' [(0, 100), (0, 100)]
    (\<lambda>c. generic_pallet_collator_selection_set_candidacy_bond
        sp_weight_5MiB (RocksDbWeight sp_weight_5MiB) (c ! 0) (c ! 1))"
  have "?e \<in> set (generic_weights sp_weight_5MiB)"
    by (simp add: generic_weights_def generic_ConsensusWeightFull_def
        generic_pallet_collator_selection_WeightInfo_def)
  moreover have "fn_name ?e \<notin> set oversized_calls" and "in_range ?e [100, 7]"
    by (simp_all add: oversized_calls_def)
  ultimately have "normal_extrinsic_fits default_features sp_perbill_api sp_weight_5MiB
      (weight_of ?e [100, 7])"
    by (rule generic_weights_fit_block [OF sp.weight_laws_axioms spp.perbill_laws_axioms])
  then show ?thesis
    by simp
qed

text \<open>
  Weights are monotone. For every weight function of either runtime a call with larger
  components never weighs less, in either dimension, so that a weight charged for upper
  bounds before dispatch covers the weight of the actual values.
\<close>

theorem weights_monotone:
  assumes "weight_laws W" and "e \<in> set (evm_weights W) \<union> set (generic_weights W)"
    and "list_all2 (\<le>) xs ys" and "length ys = length (components_range e)"
  shows "weight_le W (weight_of e xs) (weight_of e ys)"
proof -
  have "registry_monotone W (evm_weights W @ generic_weights W)"
    using assms(1)
    by (simp add: weight_laws.evm_weights_monotone weight_laws.generic_weights_monotone)
  moreover have "e \<in> set (evm_weights W @ generic_weights W)"
    using assms(2) by simp
  ultimately show ?thesis
    using assms(3,4) by (rule registry_monotoneD)
qed

theorem weights_monotone_witness:
  "weight_le sp_weight_5MiB
     (evm_pallet_assets_destroy_accounts sp_weight_5MiB (RocksDbWeight sp_weight_5MiB) 3)
     (evm_pallet_assets_destroy_accounts sp_weight_5MiB (RocksDbWeight sp_weight_5MiB) 1000)"
proof -
  let ?e = "weight_fn ''pallet_assets::destroy_accounts'' [(0, 1000)]
    (\<lambda>c. evm_pallet_assets_destroy_accounts sp_weight_5MiB (RocksDbWeight sp_weight_5MiB) (c ! 0))"
  have "?e \<in> set (evm_weights sp_weight_5MiB) \<union> set (generic_weights sp_weight_5MiB)"
    by (simp add: evm_weights_def evm_AssetsWeightFull_def evm_pallet_assets_WeightInfo_def)
  then have "weight_le sp_weight_5MiB (weight_of ?e [3]) (weight_of ?e [1000])"
    by (rule weights_monotone [OF sp.weight_laws_axioms]) simp_all
  then show ?thesis
    by simp
qed

text \<open>
  C30: the functions that do not fit over their whole range, exactly, in both runtimes. The bulk
  migration of preimages is benchmarked for up to 1024 hashes; in the plain build it fits
  exactly up to 637 hashes in the EVM runtime and 645 in the generic one, and always with asynchronous
  backing. The dispatch of a whitelisted call by its hash fits exactly as long as the call and 3,716
  bytes fit 70 percent of the proof of validity, with one of 5 MiB up to 3,666,300 bytes; fetching a
  scheduled call is charged 4,197,809 bytes of proof for every length, more than that share of a
  5 MiB proof. Teleporting assets is switched off through its weight: it exceeds every block.
\<close>

theorem oversized_calls_fit_iff:
  assumes "weight_laws W" and "perbill_laws P" and "n \<le> 1024" and "m \<le> 4194294" and "k \<le> 4194304"
  shows "(normal_extrinsic_fits F P W (evm_pallet_preimage_ensure_updated W (RocksDbWeight W) n)
      \<longleftrightarrow> async_backing F \<or> n \<le> 637) \<and>
    (normal_extrinsic_fits F P W (generic_pallet_preimage_ensure_updated W (RocksDbWeight W) n)
      \<longleftrightarrow> async_backing F \<or> n \<le> 645) \<and>
    (\<forall>w \<in> {evm_pallet_whitelist_dispatch_whitelisted_call W (RocksDbWeight W) m,
        generic_pallet_whitelist_dispatch_whitelisted_call W (RocksDbWeight W) m}.
      normal_extrinsic_fits F P W w \<longleftrightarrow> 10 * (3716 + m) \<le> 7 * MAX_POV_SIZE W) \<and>
    (\<forall>w \<in> {evm_pallet_scheduler_service_task_fetched W (RocksDbWeight W) k,
        generic_pallet_scheduler_service_task_fetched W (RocksDbWeight W) k}.
      normal_extrinsic_fits F P W w \<longleftrightarrow> 41978090 \<le> 7 * MAX_POV_SIZE W) \<and>
    \<not> normal_extrinsic_fits F P W (evm_pallet_xcm_teleport_assets W d) \<and>
    \<not> normal_extrinsic_fits F P W (generic_pallet_xcm_teleport_assets W d)"
proof -
  note fits = normal_extrinsic_fits_iff [OF assms(1,2)]
  have "10 * (990 + 2603 * n) \<le> 7 * MAX_POV_SIZE W"
    using weight_laws.pov_size_lower [OF assms(1)] assms(3) by simp
  then have updated: "normal_extrinsic_fits F P W (evm_pallet_preimage_ensure_updated W (RocksDbWeight W) n)
      \<longleftrightarrow> async_backing F \<or> n \<le> 637"
    "normal_extrinsic_fits F P W (generic_pallet_preimage_ensure_updated W (RocksDbWeight W) n)
      \<longleftrightarrow> async_backing F \<or> n \<le> 645"
    using assms(3) by (auto simp: fits weight_laws.ensure_updated_weight [OF assms(1,3)])
  have "437282000 + 1378 * m \<le> 349875000000" and "299334000 + 1242 * k \<le> 349875000000"
    using assms(4,5) by simp_all
  with updated show ?thesis
    by (auto simp: fits weight_laws.dispatch_whitelisted_weight [OF assms(1,4)]
        weight_laws.service_task_fetched_weight [OF assms(1,5)] weight_laws.teleport_ref_time [OF assms(1)])
qed

theorem oversized_calls_fit_iff_witness:
  "\<not> normal_extrinsic_fits default_features sp_perbill_api sp_weight_5MiB
     (evm_pallet_preimage_ensure_updated sp_weight_5MiB (RocksDbWeight sp_weight_5MiB) 1024) \<and>
   normal_extrinsic_fits default_features sp_perbill_api sp_weight_5MiB
     (evm_pallet_whitelist_dispatch_whitelisted_call sp_weight_5MiB (RocksDbWeight sp_weight_5MiB)
        3666300) \<and>
   \<not> normal_extrinsic_fits default_features sp_perbill_api sp_weight_5MiB
     (evm_pallet_whitelist_dispatch_whitelisted_call sp_weight_5MiB (RocksDbWeight sp_weight_5MiB)
        3666301)"
proof -
  have pov: "MAX_POV_SIZE sp_weight_5MiB = 5242880"
    by (simp add: sp_weight_api_def)
  note exact = oversized_calls_fit_iff [OF sp.weight_laws_axioms spp.perbill_laws_axioms,
      where F = default_features and n = 1024 and k = 0, unfolded pov]
  show ?thesis
    using exact [of 3666300] exact [of 3666301] by simp
qed

end
