(* ===== verification/Node_Service.thy ===== *)
theory Node_Service
  imports Runtime_Constants
begin

text \<open>
  \<open>node/src/service.rs\<close> of both nodes and \<open>node/src/eth.rs\<close>: how the parts of a node are built
  and started. The components that are built belong to the SDK and to Frontier; they are the
  fields of \<open>service_api\<close>, each with the arguments that the source chooses. What the model keeps
  is the order of the steps, every early return and panic, and the tasks that the code spawns
  itself, in a list that grows on the way.
\<close>

section \<open>Configuration\<close>

datatype HeapAllocStrategy = HeapStatic u32 | HeapDynamic "u32 option"

text \<open>The fields of the SDK's configuration that the code reads.\<close>

record 'spec Configuration =
  telemetry_endpoints :: "string list option"
  default_heap_pages :: "u64 option"
  is_authority :: bool
  offchain_worker_enabled :: bool
  conf_base_path :: string
  conf_chain_spec :: 'spec

datatype BackendType = BackendKeyValue | BackendSql

definition BackendType_default :: BackendType where
  "BackendType_default = BackendKeyValue"

record EthConfiguration =
  max_past_logs :: u32
  fee_history_limit :: u64
  enable_dev_signer :: bool
  target_gas_price :: u64
  execute_gas_limit_multiplier :: u64
  eth_log_block_cache :: nat
  eth_statuses_cache :: nat
  frontier_backend_type :: BackendType
  frontier_sql_backend_pool_size :: u32
  frontier_sql_backend_num_ops_timeout :: u32
  frontier_sql_backend_thread_count :: u32
  frontier_sql_backend_cache_size :: u64

text \<open>The values of a command line without options.\<close>

definition EthConfiguration_default :: EthConfiguration where
  "EthConfiguration_default = \<lparr>
     max_past_logs = 10000, fee_history_limit = 2048, enable_dev_signer = False,
     target_gas_price = 1, execute_gas_limit_multiplier = 10, eth_log_block_cache = 50,
     eth_statuses_cache = 50, frontier_backend_type = BackendType_default,
     frontier_sql_backend_pool_size = 100, frontier_sql_backend_num_ops_timeout = 10000000,
     frontier_sql_backend_thread_count = 4, frontier_sql_backend_cache_size = 209715200\<rparr>"

section \<open>Tasks and failures\<close>

record task =
  essential :: bool
  blocking :: bool
  task_name :: string

datatype 'e abort = Panicked rust_panic | Failed 'e

text \<open>\<open>r?\<close>, and \<open>opt.expect(msg)\<close>.\<close>

definition try_result :: "'e + 'a \<Rightarrow> 'e abort + 'a" where
  "try_result r = map_sum Failed id r"

definition expect :: "string \<Rightarrow> 'a option \<Rightarrow> 'e abort + 'a" where
  "expect msg a = (case a of Some x \<Rightarrow> Inr x | None \<Rightarrow> Inl (Panicked (ExpectFailed msg)))"

lemma try_result_Inr [simp]: "try_result r = Inr a \<longleftrightarrow> r = Inr a"
  by (cases r) (simp_all add: try_result_def)

lemma expect_Inr [simp]: "expect msg a = Inr x \<longleftrightarrow> a = Some x"
  by (cases a) (simp_all add: expect_def)

section \<open>The SDK's constructors\<close>

record SqlConfig =
  sql_path :: string
  create_if_missing :: bool
  thread_count :: u32
  cache_size :: u64
  pool_size :: u32
  num_ops_timeout :: "u32 option"

datatype DARecoveryProfile = CollatorProfile | FullNodeProfile

text \<open>
  Clients \<open>'c\<close>, backends \<open>'b\<close>, import queues \<open>'q\<close>, transaction pools \<open>'p\<close>, Frontier databases
  \<open>'d\<close>, networks \<open>'n\<close>, relay-chain interfaces \<open>'r\<close>, collator keys \<open>'k\<close>, hardware benchmarks \<open>'w\<close>
  and errors \<open>'e\<close>. \<open>new_full_parts_record_import\<close> takes the telemetry flag, the two heap strategies and the
  flag to record imports; \<open>sql_backend_new\<close> and \<open>nimbus_import_queue\<close> give \<open>None\<close> where the source panics.
\<close>

record ('spec, 'c, 'b, 'q, 'p, 'd, 'n, 'r, 'k, 'w, 'e) service_api =
  prepare_node_config :: "'spec Configuration \<Rightarrow> 'spec Configuration"
  telemetry_worker_new :: "nat \<Rightarrow> 'e + unit"
  DEFAULT_HEAP_ALLOC_STRATEGY :: HeapAllocStrategy
  new_full_parts_record_import ::
    "'spec Configuration \<Rightarrow> bool \<Rightarrow> HeapAllocStrategy \<Rightarrow> HeapAllocStrategy \<Rightarrow> bool \<Rightarrow> 'e + 'c \<times> 'b"
  transaction_pool_new :: "'c \<Rightarrow> bool \<Rightarrow> 'p"
  nimbus_import_queue :: "'c \<Rightarrow> 'b \<Rightarrow> 'q option"
  fully_verifying_import_queue :: "'c \<Rightarrow> 'b \<Rightarrow> bool \<Rightarrow> 'q"
  config_dir :: "string \<Rightarrow> 'spec \<Rightarrow> string"
  kv_backend_open :: "'c \<Rightarrow> 'spec Configuration \<Rightarrow> string \<Rightarrow> 'e + 'd"
  create_dir_all :: "string \<Rightarrow> bool"
  sql_backend_new :: "SqlConfig \<Rightarrow> 'd option"
  build_relay_chain_interface ::
    "'spec Configuration \<Rightarrow> 'spec Configuration \<Rightarrow> bool \<Rightarrow> 'w option \<Rightarrow> 'e + 'r \<times> 'k option"
  aura_slot_duration :: "'c \<Rightarrow> 'e + u64"
  build_network :: "'spec Configuration \<Rightarrow> 'c \<Rightarrow> 'p \<Rightarrow> u32 \<Rightarrow> 'r \<Rightarrow> 'q \<Rightarrow> 'e + 'n"
  offchain_workers_new :: "'c \<Rightarrow> 'b \<Rightarrow> 'p \<Rightarrow> 'n \<Rightarrow> bool \<Rightarrow> bool \<Rightarrow> 'e + unit"
  spawn_tasks :: "'spec Configuration \<Rightarrow> 'c \<Rightarrow> 'p \<Rightarrow> 'n \<Rightarrow> 'e + unit"
  check_hardware :: "'w \<Rightarrow> bool"
  overseer_handle :: "'r \<Rightarrow> 'e + unit"
  start_relay_chain_tasks :: "'c \<Rightarrow> u32 \<Rightarrow> 'r \<Rightarrow> DARecoveryProfile \<Rightarrow> nat \<Rightarrow> 'e + unit"

section \<open>The partial components\<close>

datatype 'd FrontierBackend = FrontierKeyValue 'd | FrontierSql 'd

text \<open>\<open>pc_telemetry\<close> tells whether there is a telemetry; \<open>pc_tasks\<close> are the tasks spawned so far.\<close>

record ('c, 'b, 'q, 'p) PartialComponents =
  pc_client :: 'c
  pc_backend :: 'b
  pc_import_queue :: 'q
  pc_transaction_pool :: 'p
  pc_telemetry :: bool
  pc_tasks :: "task list"

definition telemetry_of ::
  "('spec, 'c, 'b, 'q, 'p, 'd, 'n, 'r, 'k, 'w, 'e) service_api \<Rightarrow> 'spec Configuration \<Rightarrow>
   'e abort + bool" where
  "telemetry_of S config =
     (case telemetry_endpoints config of
        Some endpoints \<Rightarrow>
          if endpoints = [] then Inr False
          else result_bind (try_result (telemetry_worker_new S 16)) (\<lambda>_. Inr True)
      | None \<Rightarrow> Inr False)"

text \<open>\<open>h as _\<close> turns the 64-bit number of pages into a 32-bit one.\<close>

definition heap_pages ::
  "('spec, 'c, 'b, 'q, 'p, 'd, 'n, 'r, 'k, 'w, 'e) service_api \<Rightarrow> 'spec Configuration \<Rightarrow>
   HeapAllocStrategy" where
  "heap_pages S config =
     (case default_heap_pages config of
        None \<Rightarrow> DEFAULT_HEAP_ALLOC_STRATEGY S
      | Some h \<Rightarrow> HeapStatic (ucast h))"

text \<open>The queue checks the seals of blocks; its inherents are the timestamp alone.\<close>

definition build_import_queue ::
  "('spec, 'c, 'b, 'q, 'p, 'd, 'n, 'r, 'k, 'w, 'e) service_api \<Rightarrow> 'c \<Rightarrow> 'b \<Rightarrow> bool \<Rightarrow>
   'e abort + 'q" where
  "build_import_queue S client backend telemetry =
     Inr (fully_verifying_import_queue S client backend telemetry)"

definition import_queue_of ::
  "('spec, 'c, 'b, 'q, 'p, 'd, 'n, 'r, 'k, 'w, 'e) service_api \<Rightarrow> features \<Rightarrow> 'c \<Rightarrow> 'b \<Rightarrow> bool \<Rightarrow>
   'e abort + 'q" where
  "import_queue_of S F client backend telemetry =
     (if tanssi F then expect ''function never fails'' (nimbus_import_queue S client backend)
      else build_import_queue S client backend telemetry)"

text \<open>\<open>new_partial\<close> of the generic node, which is also the first part of the EVM node's.\<close>

definition generic_new_partial ::
  "('spec, 'c, 'b, 'q, 'p, 'd, 'n, 'r, 'k, 'w, 'e) service_api \<Rightarrow> features \<Rightarrow>
   'spec Configuration \<Rightarrow> 'e abort + ('c, 'b, 'q, 'p) PartialComponents" where
  "generic_new_partial S F config =
     result_bind (telemetry_of S config) (\<lambda>telemetry.
     let heap = heap_pages S config in
     result_bind (try_result (new_full_parts_record_import S config telemetry heap heap True))
       (\<lambda>(client, backend).
     let tasks = (if telemetry
                  then [\<lparr>essential = False, blocking = False, task_name = ''telemetry''\<rparr>] else []);
         pool = transaction_pool_new S client (is_authority config) in
     result_bind (import_queue_of S F client backend telemetry) (\<lambda>queue.
     Inr \<lparr>pc_client = client, pc_backend = backend, pc_import_queue = queue,
          pc_transaction_pool = pool, pc_telemetry = telemetry, pc_tasks = tasks\<rparr>)))"

definition db_config_dir ::
  "('spec, 'c, 'b, 'q, 'p, 'd, 'n, 'r, 'k, 'w, 'e) service_api \<Rightarrow> 'spec Configuration \<Rightarrow> string" where
  "db_config_dir S config = config_dir S (conf_base_path config) (conf_chain_spec config)"

definition sql_config :: "EthConfiguration \<Rightarrow> string \<Rightarrow> SqlConfig" where
  "sql_config eth db_path = \<lparr>
     sql_path = path_join (path_join ''sqlite:///'' db_path) ''frontier.db3'',
     create_if_missing = True,
     thread_count = frontier_sql_backend_thread_count eth,
     cache_size = frontier_sql_backend_cache_size eth,
     pool_size = frontier_sql_backend_pool_size eth,
     num_ops_timeout =
       (if frontier_sql_backend_num_ops_timeout eth = 0 then None
        else Some (frontier_sql_backend_num_ops_timeout eth))\<rparr>"

definition frontier_backend_of ::
  "('spec, 'c, 'b, 'q, 'p, 'd, 'n, 'r, 'k, 'w, 'e) service_api \<Rightarrow> 'spec Configuration \<Rightarrow>
   EthConfiguration \<Rightarrow> 'c \<Rightarrow> 'e abort + 'd FrontierBackend" where
  "frontier_backend_of S config eth client =
     (case frontier_backend_type eth of
        BackendKeyValue \<Rightarrow>
          result_bind (try_result (kv_backend_open S client config (db_config_dir S config)))
            (\<lambda>d. Inr (FrontierKeyValue d))
      | BackendSql \<Rightarrow>
          let db_path = path_join (db_config_dir S config) ''sql'' in
          if create_dir_all S db_path
          then result_bind
                 (expect ''failed creating sql backend'' (sql_backend_new S (sql_config eth db_path)))
                 (\<lambda>d. Inr (FrontierSql d))
          else Inl (Panicked (ExpectFailed ''failed creating sql db directory'')))"

definition evm_new_partial ::
  "('spec, 'c, 'b, 'q, 'p, 'd, 'n, 'r, 'k, 'w, 'e) service_api \<Rightarrow> features \<Rightarrow>
   'spec Configuration \<Rightarrow> EthConfiguration \<Rightarrow>
   'e abort + ('c, 'b, 'q, 'p) PartialComponents \<times> 'd FrontierBackend" where
  "evm_new_partial S F config eth =
     result_bind (generic_new_partial S F config) (\<lambda>params.
     result_bind (frontier_backend_of S config eth (pc_client params)) (\<lambda>frontier.
     Inr (params, frontier)))"

section \<open>Consensus and the tasks of Frontier\<close>

text \<open>Of the parameters of the collator, the ones that the code chooses itself.\<close>

record 'k consensus_params =
  lookahead :: bool
  collator_key_param :: 'k
  para_id_param :: u32
  relay_slot_secs :: nat
  authoring_duration_ms :: nat

definition start_consensus ::
  "features \<Rightarrow> 'k \<Rightarrow> u32 \<Rightarrow> nat \<Rightarrow> task list \<Rightarrow> 'k consensus_params \<times> task list" where
  "start_consensus F key pid slot tasks =
     (\<lparr>lookahead = async_backing F, collator_key_param = key, para_id_param = pid,
       relay_slot_secs = slot, authoring_duration_ms = (if async_backing F then 1500 else 500)\<rparr>,
      tasks @ [\<lparr>essential = True, blocking = False, task_name = ''aura''\<rparr>])"

text \<open>\<open>new_frontier_partial\<close>: an empty pool of filters and an empty cache with its limit.\<close>

record FrontierPartialComponents =
  filter_pool :: "(nat \<rightharpoonup> bytes) option"
  fee_history_cache :: "u64 \<rightharpoonup> bytes"
  fee_history_cache_limit :: u64

definition new_frontier_partial :: "EthConfiguration \<Rightarrow> 'e abort + FrontierPartialComponents" where
  "new_frontier_partial eth = Inr \<lparr>
     filter_pool = Some Map.empty, fee_history_cache = Map.empty,
     fee_history_cache_limit = fee_history_limit eth\<rparr>"

definition spawn_frontier_tasks ::
  "'d FrontierBackend \<Rightarrow> (nat \<rightharpoonup> bytes) option \<Rightarrow> task list \<Rightarrow> task list" where
  "spawn_frontier_tasks backend pool tasks = (
     let tasks = tasks @
           [case backend of
              FrontierKeyValue _ \<Rightarrow>
                \<lparr>essential = True, blocking = False, task_name = ''frontier-mapping-sync-worker''\<rparr>
            | FrontierSql _ \<Rightarrow>
                \<lparr>essential = True, blocking = True, task_name = ''frontier-mapping-sync-worker''\<rparr>];
         tasks = (case pool of
             Some _ \<Rightarrow> tasks @
               [\<lparr>essential = True, blocking = False, task_name = ''frontier-filter-pool''\<rparr>]
           | None \<Rightarrow> tasks)
     in tasks @ [\<lparr>essential = True, blocking = False, task_name = ''frontier-fee-history''\<rparr>])"

section \<open>Starting a node\<close>

record ('c, 'k) running_node =
  node_client :: 'c
  node_tasks :: "task list"
  hardware_warning :: bool
  recovery_profile :: DARecoveryProfile
  consensus :: "'k consensus_params option"

definition offchain_tasks ::
  "('spec, 'c, 'b, 'q, 'p, 'd, 'n, 'r, 'k, 'w, 'e) service_api \<Rightarrow> 'spec Configuration \<Rightarrow>
   ('c, 'b, 'q, 'p) PartialComponents \<Rightarrow> 'n \<Rightarrow> task list \<Rightarrow> 'e abort + task list" where
  "offchain_tasks S config params network tasks =
     (if offchain_worker_enabled config
      then result_bind
             (try_result (offchain_workers_new S (pc_client params) (pc_backend params)
                (pc_transaction_pool params) network (is_authority config) False))
             (\<lambda>_. Inr (tasks @
               [\<lparr>essential = False, blocking = False, task_name = ''offchain-workers-runner''\<rparr>]))
      else Inr tasks)"

text \<open>A benchmark of the hardware: the warning, and the report to the telemetry.\<close>

definition hwbench_tasks ::
  "('spec, 'c, 'b, 'q, 'p, 'd, 'n, 'r, 'k, 'w, 'e) service_api \<Rightarrow> bool \<Rightarrow> bool \<Rightarrow> 'w option \<Rightarrow>
   task list \<Rightarrow> bool \<times> task list" where
  "hwbench_tasks S validator telemetry hwbench tasks =
     (case hwbench of
        Some hw \<Rightarrow>
          (\<not> check_hardware S hw \<and> validator,
           if telemetry
           then tasks @ [\<lparr>essential = False, blocking = False, task_name = ''telemetry_hwbench''\<rparr>]
           else tasks)
      | None \<Rightarrow> (False, tasks))"

definition recovery_profile_of :: "bool \<Rightarrow> DARecoveryProfile" where
  "recovery_profile_of validator = (if validator then CollatorProfile else FullNodeProfile)"

definition relay_chain_slot_duration :: nat where
  "relay_chain_slot_duration = 6"

text \<open>The end of both functions: a collator starts the consensus, unless \<open>tanssi\<close> provides it.\<close>

definition consensus_step ::
  "features \<Rightarrow> bool \<Rightarrow> 'k option \<Rightarrow> u32 \<Rightarrow> task list \<Rightarrow>
   'e abort + 'k consensus_params option \<times> task list" where
  "consensus_step F validator collator_key pid tasks =
     (if \<not> tanssi F \<and> validator
      then result_bind (expect ''Command line arguments do not allow this. qed'' collator_key)
             (\<lambda>key. case start_consensus F key pid relay_chain_slot_duration tasks of
                (params, tasks) \<Rightarrow> Inr (Some params, tasks))
      else Inr (None, tasks))"

text \<open>The second half of the start: from the spawning of the common tasks on.\<close>

definition generic_start_tasks where
  "generic_start_tasks S F config params network relay collator_key pid hwbench tasks = (
     let validator = is_authority config; client = pc_client params in
     result_bind (try_result (spawn_tasks S config client (pc_transaction_pool params) network))
       (\<lambda>_.
     let (warning, tasks) = hwbench_tasks S validator (pc_telemetry params) hwbench tasks in
     result_bind (try_result (overseer_handle S relay)) (\<lambda>_.
     result_bind (try_result (start_relay_chain_tasks S client pid relay
       (recovery_profile_of validator) relay_chain_slot_duration)) (\<lambda>_.
     result_bind (consensus_step F validator collator_key pid tasks) (\<lambda>(cons, tasks).
     Inr \<lparr>node_client = client, node_tasks = tasks, hardware_warning = warning,
          recovery_profile = recovery_profile_of validator, consensus = cons\<rparr>)))))"

definition generic_start_node_impl ::
  "('spec, 'c, 'b, 'q, 'p, 'd, 'n, 'r, 'k, 'w, 'e) service_api \<Rightarrow> features \<Rightarrow>
   'spec Configuration \<Rightarrow> 'spec Configuration \<Rightarrow> u32 \<Rightarrow> 'w option \<Rightarrow>
   'e abort + ('c, 'k) running_node" where
  "generic_start_node_impl S F parachain_config polkadot_config pid hwbench = (
     let config = prepare_node_config S parachain_config in
     result_bind (generic_new_partial S F config) (\<lambda>params.
     result_bind (try_result (build_relay_chain_interface S polkadot_config config
       (pc_telemetry params) hwbench)) (\<lambda>(relay, collator_key).
     result_bind (try_result (build_network S config (pc_client params)
       (pc_transaction_pool params) pid relay (pc_import_queue params))) (\<lambda>network.
     result_bind (offchain_tasks S config params network (pc_tasks params)) (\<lambda>tasks.
     generic_start_tasks S F config params network relay collator_key pid hwbench tasks)))))"

text \<open>The entry point of the service.\<close>

definition generic_start_parachain_node where
  "generic_start_parachain_node S F parachain_config polkadot_config pid hwbench =
     generic_start_node_impl S F parachain_config polkadot_config pid hwbench"

definition evm_start_tasks where
  "evm_start_tasks S F config params frontier_backend frontier network relay collator_key pid hwbench tasks = (
     let validator = is_authority config; client = pc_client params in
     result_bind (try_result (spawn_tasks S config client (pc_transaction_pool params) network))
       (\<lambda>_.
     let (warning, tasks) = hwbench_tasks S validator (pc_telemetry params) hwbench tasks in
     result_bind (try_result (overseer_handle S relay)) (\<lambda>_.
     result_bind (try_result (start_relay_chain_tasks S client pid relay
       (recovery_profile_of validator) relay_chain_slot_duration)) (\<lambda>_.
     let tasks = spawn_frontier_tasks frontier_backend (filter_pool frontier) tasks in
     result_bind (consensus_step F validator collator_key pid tasks) (\<lambda>(cons, tasks).
     Inr \<lparr>node_client = client, node_tasks = tasks, hardware_warning = warning,
          recovery_profile = recovery_profile_of validator, consensus = cons\<rparr>)))))"

definition evm_start_node_impl ::
  "('spec, 'c, 'b, 'q, 'p, 'd, 'n, 'r, 'k, 'w, 'e) service_api \<Rightarrow> features \<Rightarrow>
   'spec Configuration \<Rightarrow> 'spec Configuration \<Rightarrow> EthConfiguration \<Rightarrow> u32 \<Rightarrow> 'w option \<Rightarrow>
   'e abort + ('c, 'k) running_node" where
  "evm_start_node_impl S F parachain_config polkadot_config eth pid hwbench = (
     let config = prepare_node_config S parachain_config in
     result_bind (evm_new_partial S F config eth) (\<lambda>(params, frontier_backend).
     result_bind (new_frontier_partial eth) (\<lambda>frontier.
     result_bind (try_result (build_relay_chain_interface S polkadot_config config
       (pc_telemetry params) hwbench)) (\<lambda>(relay, collator_key).
     result_bind (if tanssi F then Inr None
                  else result_bind (try_result (aura_slot_duration S (pc_client params)))
                    (\<lambda>d. Inr (Some d)))
       (\<lambda>slot_duration.
     result_bind (try_result (build_network S config (pc_client params)
       (pc_transaction_pool params) pid relay (pc_import_queue params))) (\<lambda>network.
     result_bind (offchain_tasks S config params network (pc_tasks params)) (\<lambda>tasks.
     evm_start_tasks S F config params frontier_backend frontier network relay collator_key pid
       hwbench tasks)))))))"

definition evm_start_parachain_node where
  "evm_start_parachain_node S F parachain_config polkadot_config eth pid hwbench =
     evm_start_node_impl S F parachain_config polkadot_config eth pid hwbench"

section \<open>Which tasks a node runs\<close>

text \<open>The names of the tasks, from the configuration alone.\<close>

definition reports_telemetry :: "'spec Configuration \<Rightarrow> bool" where
  "reports_telemetry config \<longleftrightarrow>
     (case telemetry_endpoints config of Some es \<Rightarrow> es \<noteq> [] | None \<Rightarrow> False)"

definition collates :: "features \<Rightarrow> 'spec Configuration \<Rightarrow> bool" where
  "collates F config \<longleftrightarrow> is_authority config \<and> \<not> tanssi F"

definition common_tasks :: "'spec Configuration \<Rightarrow> 'w option \<Rightarrow> string list" where
  "common_tasks config hwbench =
     (if reports_telemetry config then [''telemetry''] else []) @
     (if offchain_worker_enabled config then [''offchain-workers-runner''] else []) @
     (if reports_telemetry config \<and> hwbench \<noteq> None then [''telemetry_hwbench''] else [])"

definition frontier_task_names :: "string list" where
  "frontier_task_names =
     [''frontier-mapping-sync-worker'', ''frontier-filter-pool'', ''frontier-fee-history'']"

definition consensus_task :: "features \<Rightarrow> 'spec Configuration \<Rightarrow> string list" where
  "consensus_task F config = (if collates F config then [''aura''] else [])"

lemma telemetry_of_Inr: "telemetry_of S config = Inr t \<Longrightarrow> t = reports_telemetry config"
  by (auto simp: telemetry_of_def reports_telemetry_def bind_Inr_iff split: option.splits if_splits)

lemma new_partial_tasks:
  assumes "generic_new_partial S F config = Inr params"
  shows "pc_telemetry params = reports_telemetry config"
    and "map task_name (pc_tasks params) =
      (if reports_telemetry config then [''telemetry''] else [])"
  using assms telemetry_of_Inr [of S config]
  by (auto simp: generic_new_partial_def bind_Inr_iff Let_def split: prod.splits)

lemma offchain_tasks_names:
  "offchain_tasks S config params network tasks = Inr tasks' \<Longrightarrow>
   map task_name tasks' = map task_name tasks @
     (if offchain_worker_enabled config then [''offchain-workers-runner''] else [])"
  by (auto simp: offchain_tasks_def bind_Inr_iff split: if_splits)

lemma hwbench_tasks_names:
  "map task_name (snd (hwbench_tasks S v t hwbench tasks)) = map task_name tasks @
     (if t \<and> hwbench \<noteq> None then [''telemetry_hwbench''] else [])"
  by (simp add: hwbench_tasks_def split: option.split)

lemma frontier_tasks_names:
  "map task_name (spawn_frontier_tasks backend (Some pool) tasks) =
     map task_name tasks @ frontier_task_names"
  by (simp add: spawn_frontier_tasks_def frontier_task_names_def split: FrontierBackend.split)

lemma consensus_step_Inr:
  assumes "consensus_step F (is_authority config) key pid tasks = Inr (cons, tasks')"
  shows "map task_name tasks' = map task_name tasks @ consensus_task F config"
    and "map_option collator_key_param cons = (if collates F config then key else None)"
    and "collates F config \<longleftrightarrow> cons \<noteq> None"
  using assms
  by (auto simp: consensus_step_def start_consensus_def consensus_task_def collates_def
      bind_Inr_iff split: if_splits)

section \<open>A started node\<close>

text \<open>A node whose components are all trivial.\<close>

definition demo_service ::
  "nat option \<Rightarrow> ('spec, unit, unit, unit, unit, unit, unit, unit, nat, unit, unit) service_api" where
  "demo_service key = \<lparr>
     prepare_node_config = id, telemetry_worker_new = (\<lambda>_. Inr ()),
     DEFAULT_HEAP_ALLOC_STRATEGY = HeapStatic 2048,
     new_full_parts_record_import = (\<lambda>_ _ _ _ _. Inr ((), ())),
     transaction_pool_new = (\<lambda>_ _. ()), nimbus_import_queue = (\<lambda>_ _. Some ()),
     fully_verifying_import_queue = (\<lambda>_ _ _. ()), config_dir = (\<lambda>p _. p),
     kv_backend_open = (\<lambda>_ _ _. Inr ()), create_dir_all = (\<lambda>_. True),
     sql_backend_new = (\<lambda>_. Some ()),
     build_relay_chain_interface = (\<lambda>_ _ _ _. Inr ((), key)),
     aura_slot_duration = (\<lambda>_. Inr 12000), build_network = (\<lambda>_ _ _ _ _ _. Inr ()),
     offchain_workers_new = (\<lambda>_ _ _ _ _ _. Inr ()), spawn_tasks = (\<lambda>_ _ _ _. Inr ()),
     check_hardware = (\<lambda>_. True), overseer_handle = (\<lambda>_. Inr ()),
     start_relay_chain_tasks = (\<lambda>_ _ _ _ _. Inr ())\<rparr>"

lemma demo_service_prepare [simp]: "prepare_node_config (demo_service key) config = config"
  by (simp add: demo_service_def)

definition demo_config :: "bool \<Rightarrow> unit Configuration" where
  "demo_config authority = \<lparr>telemetry_endpoints = Some [''wss''], default_heap_pages = None,
     is_authority = authority, offchain_worker_enabled = True, conf_base_path = ''/data'',
     conf_chain_spec = ()\<rparr>"


text \<open>What a started node looks like, for a configuration and the tasks in front of the consensus.\<close>

definition node_as_configured ::
  "features \<Rightarrow> 'spec Configuration \<Rightarrow> string list \<Rightarrow> ('c, 'k) running_node \<Rightarrow> bool" where
  "node_as_configured F config names n \<longleftrightarrow>
     map task_name (node_tasks n) = names @ consensus_task F config \<and>
     (consensus n \<noteq> None \<longleftrightarrow> collates F config) \<and>
     (recovery_profile n = CollatorProfile \<longleftrightarrow> is_authority config)"

lemma configured_end:
  assumes "consensus_step F (is_authority config) key pid tasks = Inr (cons, tasks')"
    and "map task_name tasks = names"
  shows "node_as_configured F config names \<lparr>node_client = c, node_tasks = tasks',
    hardware_warning = w, recovery_profile = recovery_profile_of (is_authority config),
    consensus = cons\<rparr>"
  using consensus_step_Inr [OF assms(1)] assms(2)
  by (simp add: node_as_configured_def recovery_profile_of_def)

lemma common_tasks_names:
  assumes "generic_new_partial S F config = Inr params"
    and "offchain_tasks S config params net (pc_tasks params) = Inr ts"
  shows "map task_name (snd (hwbench_tasks S v (pc_telemetry params) hw ts)) =
    common_tasks config hw"
  using new_partial_tasks [OF assms(1)] offchain_tasks_names [OF assms(2)]
  by (simp add: common_tasks_def hwbench_tasks_names)

lemma generic_node_configured:
  assumes "generic_start_node_impl S F pc rc pid hw = Inr n"
  shows "node_as_configured F (prepare_node_config S pc)
    (common_tasks (prepare_node_config S pc) hw) n"
  using assms
  by (auto simp: generic_start_node_impl_def generic_start_tasks_def Let_def bind_Inr_iff case_prod_beta
      intro!: configured_end common_tasks_names)

lemma evm_node_configured:
  assumes "evm_start_node_impl S F pc rc eth pid hw = Inr n"
  shows "node_as_configured F (prepare_node_config S pc)
    (common_tasks (prepare_node_config S pc) hw @ frontier_task_names) n"
  using assms
  by (auto simp: evm_start_node_impl_def evm_start_tasks_def evm_new_partial_def new_frontier_partial_def Let_def
      bind_Inr_iff frontier_tasks_names case_prod_beta
      intro!: configured_end common_tasks_names)

section \<open>Properties\<close>

text \<open>
  C22: what runs in a node. A node that starts has spawned exactly the tasks its configuration
  asks for, in this order: telemetry, off-chain workers, the report of the hardware benchmark,
  in the EVM node the three tasks of Frontier, and last the consensus. The consensus runs
  exactly in collators of builds without \<open>tanssi\<close>, and the node recovers blocks as a collator
  exactly when it is an authority.
\<close>

theorem node_tasks_exact:
  "(generic_start_node_impl S F pc rc pid hw = Inr n \<longrightarrow>
     node_as_configured F (prepare_node_config S pc)
       (common_tasks (prepare_node_config S pc) hw) n) \<and>
   (evm_start_node_impl S F pc rc eth pid hw = Inr n \<longrightarrow>
     node_as_configured F (prepare_node_config S pc)
       (common_tasks (prepare_node_config S pc) hw @ frontier_task_names) n)"
  using generic_node_configured evm_node_configured by blast

theorem node_tasks_exact_witness:
  "\<exists>n. evm_start_node_impl (demo_service (Some 7)) default_features (demo_config True)
      (demo_config True) EthConfiguration_default 2000 None = Inr n \<and>
     map task_name (node_tasks n) = [''telemetry'', ''offchain-workers-runner'',
       ''frontier-mapping-sync-worker'', ''frontier-filter-pool'', ''frontier-fee-history'', ''aura'']"
proof -
  let ?run = "evm_start_node_impl (demo_service (Some 7)) default_features (demo_config True)
      (demo_config True) EthConfiguration_default 2000 None"
  obtain n where n: "?run = Inr n"
    by (simp add: demo_service_def demo_config_def default_features_def evm_start_node_impl_def
        evm_new_partial_def generic_new_partial_def telemetry_of_def import_queue_of_def
        build_import_queue_def frontier_backend_of_def EthConfiguration_default_def
        BackendType_default_def new_frontier_partial_def offchain_tasks_def evm_start_tasks_def
        consensus_step_def start_consensus_def hwbench_tasks_def try_result_def expect_def Let_def)
  then have "node_as_configured default_features
      (prepare_node_config (demo_service (Some 7)) (demo_config True))
      (common_tasks (prepare_node_config (demo_service (Some 7)) (demo_config True))
        (None :: unit option) @ frontier_task_names) n"
    using node_tasks_exact by blast
  then have "map task_name (node_tasks n) = [''telemetry'', ''offchain-workers-runner'',
       ''frontier-mapping-sync-worker'', ''frontier-filter-pool'', ''frontier-fee-history'', ''aura'']"
    by (simp add: node_as_configured_def common_tasks_def reports_telemetry_def
        frontier_task_names_def consensus_task_def collates_def demo_config_def)
  with n show ?thesis
    by (intro exI conjI)
qed

end
