(* ===== verification/Node_Rpc.thy ===== *)
theory Node_Rpc
  imports Node_Service
begin

text \<open>
  The RPC extensions of the nodes: \<open>node/src/rpc/\<close> of the EVM node and \<open>node/src/rpc.rs\<close> of the
  generic one. The extensions are modules of the RPC library that are merged one after the
  other; a merge fails when a method name is registered already. The modules are parameters,
  made from the arguments that the source chooses; \<open>rpc_laws\<close> states what a merge does.
\<close>

section \<open>Modules\<close>

text \<open>
  The modules \<open>'m\<close> of clients \<open>'c\<close> and pools \<open>'p\<close>. \<open>eth_rpc\<close> takes the signers, the limit of the fee
  history, the gas multiplier and the authority flag; \<open>eth_filter_rpc\<close> the pool of filters, the
  number of filters it may store and the number of past logs; \<open>net_rpc\<close> whether the peer count is hexadecimal.
\<close>

datatype eth_signer = EthDevSigner

record ('c, 'p, 'm, 'e) rpc_api =
  rpc_new :: 'm
  rpc_merge :: "'m \<Rightarrow> 'm \<Rightarrow> 'e + 'm"
  system_rpc :: "'c \<Rightarrow> 'p \<Rightarrow> 'm"
  transaction_payment_rpc :: "'c \<Rightarrow> 'm"
  eth_rpc :: "'c \<Rightarrow> 'p \<Rightarrow> eth_signer list \<Rightarrow> u64 \<Rightarrow> u64 \<Rightarrow> bool \<Rightarrow> 'm"
  eth_filter_rpc :: "'c \<Rightarrow> 'p \<Rightarrow> (nat \<rightharpoonup> bytes) \<Rightarrow> nat \<Rightarrow> u32 \<Rightarrow> 'm"
  eth_pubsub_rpc :: "'c \<Rightarrow> 'p \<Rightarrow> 'm"
  net_rpc :: "'c \<Rightarrow> bool \<Rightarrow> 'm"
  web3_rpc :: "'c \<Rightarrow> 'm"
  debug_rpc :: "'c \<Rightarrow> 'm"
  txpool_rpc :: "'c \<Rightarrow> 'p \<Rightarrow> 'm"

text \<open>The fields of \<open>EthDeps\<close> that decide something.\<close>

record ('c, 'p) EthDeps =
  dep_client :: 'c
  dep_pool :: 'p
  dep_is_authority :: bool
  dep_enable_dev_signer :: bool
  dep_filter_pool :: "(nat \<rightharpoonup> bytes) option"
  dep_max_past_logs :: u32
  dep_fee_history_cache_limit :: u64
  dep_execute_gas_limit_multiplier :: u64

text \<open>What the RPC builder of \<open>service.rs\<close> puts into them.\<close>

definition eth_deps ::
  "EthConfiguration \<Rightarrow> FrontierPartialComponents \<Rightarrow> bool \<Rightarrow> 'c \<Rightarrow> 'p \<Rightarrow> ('c, 'p) EthDeps" where
  "eth_deps config frontier validator client pool = \<lparr>
     dep_client = client, dep_pool = pool, dep_is_authority = validator,
     dep_enable_dev_signer = enable_dev_signer config,
     dep_filter_pool = filter_pool frontier,
     dep_max_past_logs = max_past_logs config,
     dep_fee_history_cache_limit = fee_history_cache_limit frontier,
     dep_execute_gas_limit_multiplier = execute_gas_limit_multiplier config\<rparr>"

text \<open>\<open>txpool\<close> is the cargo feature of that name.\<close>

definition create_eth ::
  "('c, 'p, 'm, 'e) rpc_api \<Rightarrow> bool \<Rightarrow> 'm \<Rightarrow> ('c, 'p) EthDeps \<Rightarrow> 'e + 'm" where
  "create_eth R txpool io deps = (
     let client = dep_client deps; pool = dep_pool deps;
         signers = (if dep_enable_dev_signer deps then [EthDevSigner] else []) in
     result_bind (rpc_merge R io (eth_rpc R client pool signers
       (dep_fee_history_cache_limit deps) (dep_execute_gas_limit_multiplier deps)
       (dep_is_authority deps))) (\<lambda>io.
     result_bind (case dep_filter_pool deps of
         Some filters \<Rightarrow>
           rpc_merge R io (eth_filter_rpc R client pool filters 500 (dep_max_past_logs deps))
       | None \<Rightarrow> Inr io) (\<lambda>io.
     result_bind (rpc_merge R io (eth_pubsub_rpc R client pool)) (\<lambda>io.
     result_bind (rpc_merge R io (net_rpc R client True)) (\<lambda>io.
     result_bind (rpc_merge R io (web3_rpc R client)) (\<lambda>io.
     result_bind (rpc_merge R io (debug_rpc R client)) (\<lambda>io.
     if txpool then rpc_merge R io (txpool_rpc R client pool) else Inr io)))))))"

definition generic_create_full :: "('c, 'p, 'm, 'e) rpc_api \<Rightarrow> 'c \<Rightarrow> 'p \<Rightarrow> 'e + 'm" where
  "generic_create_full R client pool =
     result_bind (rpc_merge R (rpc_new R) (system_rpc R client pool)) (\<lambda>module.
       rpc_merge R module (transaction_payment_rpc R client))"

definition evm_create_full ::
  "('c, 'p, 'm, 'e) rpc_api \<Rightarrow> bool \<Rightarrow> 'c \<Rightarrow> 'p \<Rightarrow> ('c, 'p) EthDeps \<Rightarrow> 'e + 'm" where
  "evm_create_full R txpool client pool eth =
     result_bind (rpc_merge R (rpc_new R) (system_rpc R client pool)) (\<lambda>module.
     result_bind (rpc_merge R module (transaction_payment_rpc R client)) (\<lambda>module.
     create_eth R txpool module eth))"

section \<open>The variant for container chains\<close>

text \<open>
  With the \<open>tanssi\<close> feature \<open>tanssi_rpc/\<close> takes the place of \<open>rpc/\<close>: the pending block is built
  with mocked inherents for a fixed authority. The provider of the mocked authorities, the proof
  builder and the clock belong to other packages.
\<close>

record 'a mock_authorities_noting =
  current_para_block :: u32
  relay_offset :: u32
  relay_blocks_per_para_block :: u32
  orchestrator_para_id :: u32
  container_para_id :: u32
  mock_authorities :: "'a list"

record ('root, 'proof) parachain_inherent_data =
  relay_parent_number :: u32
  relay_parent_storage_root :: 'root
  relay_chain_state :: 'proof
  downward_messages :: "bytes list"
  horizontal_messages :: "bytes list"

record ('a, 'kv, 'root, 'proof, 'ts) tanssi_api =
  get_aura_id_from_seed :: "string \<Rightarrow> 'a"
  get_key_values :: "'a mock_authorities_noting \<Rightarrow> 'kv"
  into_state_root_and_proof :: "'kv \<Rightarrow> 'root \<times> 'proof"
  from_system_time :: 'ts

definition tanssi_authorities :: "('a, 'kv, 'root, 'proof, 'ts) tanssi_api \<Rightarrow> 'a list" where
  "tanssi_authorities T = [get_aura_id_from_seed T ''alice'']"

definition tanssi_pending_inherents ::
  "('a, 'kv, 'root, 'proof, 'ts) tanssi_api \<Rightarrow>
   'ts \<times> ('root, 'proof) parachain_inherent_data \<times> 'a mock_authorities_noting" where
  "tanssi_pending_inherents T = (
     let mocked = \<lparr>current_para_block = 1000, relay_offset = 1000, relay_blocks_per_para_block = 2,
           orchestrator_para_id = 1000, container_para_id = 2000,
           mock_authorities = tanssi_authorities T\<rparr>;
         (storage_root, proof) = into_state_root_and_proof T (get_key_values T mocked)
     in (from_system_time T,
         \<lparr>relay_parent_number = of_nat u32_MAX, relay_parent_storage_root = storage_root,
          relay_chain_state = proof, downward_messages = [], horizontal_messages = []\<rparr>,
         mocked))"

text \<open>
  The Ethereum module is made from the pending inherents, the slot duration and the authorities
  in addition; the other modules are the same.
\<close>

definition tanssi_create_eth ::
  "('c, 'p, 'm, 'e) rpc_api \<Rightarrow> ('a, 'kv, 'root, 'proof, 'ts) tanssi_api \<Rightarrow>
   ('ts \<times> ('root, 'proof) parachain_inherent_data \<times> 'a mock_authorities_noting \<Rightarrow> u64 \<Rightarrow> 'a list \<Rightarrow>
    'c \<Rightarrow> 'p \<Rightarrow> eth_signer list \<Rightarrow> u64 \<Rightarrow> u64 \<Rightarrow> bool \<Rightarrow> 'm) \<Rightarrow>
   features \<Rightarrow> bool \<Rightarrow> 'm \<Rightarrow> ('c, 'p) EthDeps \<Rightarrow> 'e + 'm" where
  "tanssi_create_eth R T tanssi_eth_rpc F txpool io deps = (
     let client = dep_client deps; pool = dep_pool deps;
         pending = tanssi_pending_inherents T;
         signers = (if dep_enable_dev_signer deps then [EthDevSigner] else []) in
     result_bind (rpc_merge R io (tanssi_eth_rpc pending (SLOT_DURATION F) (tanssi_authorities T)
       client pool signers (dep_fee_history_cache_limit deps)
       (dep_execute_gas_limit_multiplier deps) (dep_is_authority deps))) (\<lambda>io.
     result_bind (case dep_filter_pool deps of
         Some filters \<Rightarrow>
           rpc_merge R io (eth_filter_rpc R client pool filters 500 (dep_max_past_logs deps))
       | None \<Rightarrow> Inr io) (\<lambda>io.
     result_bind (rpc_merge R io (eth_pubsub_rpc R client pool)) (\<lambda>io.
     result_bind (rpc_merge R io (net_rpc R client True)) (\<lambda>io.
     result_bind (rpc_merge R io (web3_rpc R client)) (\<lambda>io.
     result_bind (rpc_merge R io (debug_rpc R client)) (\<lambda>io.
     if txpool then rpc_merge R io (txpool_rpc R client pool) else Inr io)))))))"

definition tanssi_create_full ::
  "('c, 'p, 'm, 'e) rpc_api \<Rightarrow> ('a, 'kv, 'root, 'proof, 'ts) tanssi_api \<Rightarrow>
   ('ts \<times> ('root, 'proof) parachain_inherent_data \<times> 'a mock_authorities_noting \<Rightarrow> u64 \<Rightarrow> 'a list \<Rightarrow>
    'c \<Rightarrow> 'p \<Rightarrow> eth_signer list \<Rightarrow> u64 \<Rightarrow> u64 \<Rightarrow> bool \<Rightarrow> 'm) \<Rightarrow>
   features \<Rightarrow> bool \<Rightarrow> 'c \<Rightarrow> 'p \<Rightarrow> ('c, 'p) EthDeps \<Rightarrow> 'e + 'm" where
  "tanssi_create_full R T tanssi_eth_rpc F txpool client pool eth =
     result_bind (rpc_merge R (rpc_new R) (system_rpc R client pool)) (\<lambda>module.
     result_bind (rpc_merge R module (transaction_payment_rpc R client)) (\<lambda>module.
     tanssi_create_eth R T tanssi_eth_rpc F txpool module eth))"

text \<open>The variant is the plain construction over modules with the mocked Ethereum module.\<close>

lemma tanssi_create_full_eq:
  "tanssi_create_full R T tanssi_eth_rpc F txpool client pool eth =
     evm_create_full (R\<lparr>eth_rpc :=
       tanssi_eth_rpc (tanssi_pending_inherents T) (SLOT_DURATION F) (tanssi_authorities T)\<rparr>)
       txpool client pool eth"
  by (cases "dep_filter_pool eth"; cases txpool)
    (simp_all add: tanssi_create_full_def evm_create_full_def tanssi_create_eth_def create_eth_def
      Let_def)

section \<open>Merging\<close>

fun merge_all :: "('c, 'p, 'm, 'e) rpc_api \<Rightarrow> 'm \<Rightarrow> 'm list \<Rightarrow> 'e + 'm" where
  "merge_all R m [] = Inr m"
| "merge_all R m (k # ks) = result_bind (rpc_merge R m k) (\<lambda>m. merge_all R m ks)"

lemma merge_last: "merge_all R m [k] = rpc_merge R m k"
  by (cases "rpc_merge R m k") simp_all

text \<open>\<open>names\<close> are the methods of a module.\<close>

locale rpc_laws =
  fixes R :: "('c, 'p, 'm, 'e) rpc_api"
    and names :: "'m \<Rightarrow> string set"
  assumes new_empty: "names (rpc_new R) = {}"
    and merge_names: "rpc_merge R m k = Inr u \<Longrightarrow> names u = names m \<union> names k"
    and merge_ok_iff: "(\<exists>u. rpc_merge R m k = Inr u) \<longleftrightarrow> names m \<inter> names k = {}"
begin

lemma merge_all_names:
  "merge_all R m ks = Inr u \<Longrightarrow> names u = names m \<union> \<Union> (names ` set ks)"
  by (induction ks arbitrary: m) (auto simp: bind_Inr_iff dest: merge_names)

lemma merge_all_ok_iff:
  "(\<exists>u. merge_all R m ks = Inr u) \<longleftrightarrow>
     (\<forall>k \<in> set ks. names m \<inter> names k = {}) \<and>
     sorted_wrt (\<lambda>j k. names j \<inter> names k = {}) ks"
proof (induction ks arbitrary: m)
  case (Cons k ks)
  show ?case
  proof (cases "\<exists>u. rpc_merge R m k = Inr u")
    case True
    then obtain u where u: "rpc_merge R m k = Inr u"
      by blast
    have "names u = names m \<union> names k" and "names m \<inter> names k = {}"
      using merge_names [OF u] merge_ok_iff [of m k] True by blast+
    then show ?thesis
      using Cons.IH [of u] by (auto simp: u)
  next
    case False
    then show ?thesis
      using merge_ok_iff [of m k] by (auto simp: bind_Inr_iff)
  qed
qed simp

end

section \<open>The modules of a node\<close>

definition common_modules :: "('c, 'p, 'm, 'e) rpc_api \<Rightarrow> 'c \<Rightarrow> 'p \<Rightarrow> 'm list" where
  "common_modules R client pool = [system_rpc R client pool, transaction_payment_rpc R client]"

definition eth_modules :: "('c, 'p, 'm, 'e) rpc_api \<Rightarrow> bool \<Rightarrow> ('c, 'p) EthDeps \<Rightarrow> 'm list" where
  "eth_modules R txpool deps = (
     let client = dep_client deps; pool = dep_pool deps in
     [eth_rpc R client pool (if dep_enable_dev_signer deps then [EthDevSigner] else [])
        (dep_fee_history_cache_limit deps) (dep_execute_gas_limit_multiplier deps)
        (dep_is_authority deps)] @
     (case dep_filter_pool deps of
        Some filters \<Rightarrow> [eth_filter_rpc R client pool filters 500 (dep_max_past_logs deps)]
      | None \<Rightarrow> []) @
     [eth_pubsub_rpc R client pool, net_rpc R client True, web3_rpc R client, debug_rpc R client] @
     (if txpool then [txpool_rpc R client pool] else []))"

lemma bind_assoc: "result_bind (result_bind r f) g = result_bind r (\<lambda>x. result_bind (f x) g)"
  by (cases r) simp_all

lemma merge_all_append:
  "merge_all R m (ks @ ls) = result_bind (merge_all R m ks) (\<lambda>u. merge_all R u ls)"
  by (induction ks arbitrary: m) (simp_all add: bind_assoc)

lemma bind_Inr_right: "result_bind r Inr = r"
  by (cases r) simp_all

lemma create_eth_merges: "create_eth R txpool io deps = merge_all R io (eth_modules R txpool deps)"
  by (cases "dep_filter_pool deps"; cases txpool)
    (simp_all add: create_eth_def eth_modules_def Let_def bind_Inr_right)

lemma generic_create_full_merges:
  "generic_create_full R client pool = merge_all R (rpc_new R) (common_modules R client pool)"
  by (simp add: generic_create_full_def common_modules_def bind_Inr_right)

lemma evm_create_full_merges:
  "evm_create_full R txpool client pool eth =
     merge_all R (rpc_new R) (common_modules R client pool @ eth_modules R txpool eth)"
  by (simp add: evm_create_full_def common_modules_def create_eth_merges)

text \<open>Modules as lists of names, in the registry's order.\<close>

definition names_api :: "(unit, unit, string set, unit) rpc_api" where
  "names_api = \<lparr>
     rpc_new = {}, rpc_merge = (\<lambda>m k. if m \<inter> k = {} then Inr (m \<union> k) else Inl ()),
     system_rpc = (\<lambda>_ _. {''system_accountNextIndex''}),
     transaction_payment_rpc = (\<lambda>_. {''payment_queryInfo''}),
     eth_rpc = (\<lambda>_ _ _ _ _ _. {''eth_call''}), eth_filter_rpc = (\<lambda>_ _ _ _ _. {''eth_newFilter''}),
     eth_pubsub_rpc = (\<lambda>_ _. {''eth_subscribe''}), net_rpc = (\<lambda>_ _. {''net_version''}),
     web3_rpc = (\<lambda>_. {''web3_sha3''}), debug_rpc = (\<lambda>_. {''debug_getRawBlock''}),
     txpool_rpc = (\<lambda>_ _. {''txpool_status''})\<rparr>"

interpretation names: rpc_laws names_api "\<lambda>m. m"
  by unfold_locales (simp_all add: names_api_def split: if_splits)

section \<open>Properties\<close>



text \<open>
  The node of a container chain offers the same methods as the plain one, whenever the Ethereum
  module has the same ones with mocked inherents as without.
\<close>

theorem tanssi_same_methods:
  assumes "rpc_laws R names"
    and "\<And>p d a c q s l g v. names (tanssi_eth_rpc p d a c q s l g v) = names (eth_rpc R c q s l g v)"
    and "tanssi_create_full R T tanssi_eth_rpc F txpool client pool deps = Inr u"
  shows "\<exists>v. evm_create_full R txpool client pool deps = Inr v \<and> names v = names u"
proof -
  let ?E = "tanssi_eth_rpc (tanssi_pending_inherents T) (SLOT_DURATION F) (tanssi_authorities T)"
  let ?R = "R\<lparr>eth_rpc := ?E\<rparr>"
  have laws: "rpc_laws ?R names"
    using assms(1) by (simp add: rpc_laws_def)
  have run: "evm_create_full ?R txpool client pool deps = Inr u"
    using assms(3) by (simp add: tanssi_create_full_eq)
  have common: "common_modules ?R client pool = common_modules R client pool"
    by (simp add: common_modules_def)
  have eth: "map names (eth_modules ?R txpool deps) = map names (eth_modules R txpool deps)"
    by (simp add: eth_modules_def Let_def assms(2) split: option.split)
  have pairwise: "sorted_wrt (\<lambda>j k. names j \<inter> names k = {}) ks \<longleftrightarrow>
      sorted_wrt (\<lambda>j k. j \<inter> k = {}) (map names ks)" for ks
    by (simp add: sorted_wrt_map)
  have ok: "\<exists>v. evm_create_full R txpool client pool deps = Inr v"
    using run unfolding evm_create_full_merges rpc_laws.merge_all_ok_iff [OF assms(1)]
    using rpc_laws.merge_all_ok_iff [OF laws, of "rpc_new R"
        "common_modules R client pool @ eth_modules ?R txpool deps"]
    by (auto simp: rpc_laws.new_empty [OF assms(1)] common pairwise eth)
  then obtain v where v: "evm_create_full R txpool client pool deps = Inr v"
    by blast
  have "names u = \<Union> (set (map names (common_modules R client pool @ eth_modules ?R txpool deps)))"
    using rpc_laws.merge_all_names [OF laws run [unfolded evm_create_full_merges]]
    by (simp add: common rpc_laws.new_empty [OF assms(1)])
  moreover have "names v = \<Union> (set (map names (common_modules R client pool @ eth_modules R txpool deps)))"
    using rpc_laws.merge_all_names [OF assms(1) v [unfolded evm_create_full_merges]]
    by (simp add: rpc_laws.new_empty [OF assms(1)])
  ultimately show ?thesis
    using v eth by (metis map_append)
qed

end
