(* ===== verification/Asset_Config.thy ===== *)
theory Asset_Config
  imports Runtime_Constants
begin

text \<open>
  \<open>configs/asset_config.rs\<close> of the two runtimes: the conversion between accounts and asset
  identifiers under the foreign-asset prefix, the identifier of an asset given by its
  location, and the registrar that creates and destroys foreign assets in the assets pallet.
  The EVM template has 20-byte accounts and 128-bit identifiers, the generic one 32-byte
  accounts and 32-bit identifiers; the code is the same up to these sizes, so both
  implementations are instances of the locale \<open>account_asset_conversion\<close>, the contract of the
  trait \<open>AccountIdAssetIdConversion\<close>. SCALE encoding, the runtime's hash function and the
  pallets are parameters.
\<close>

section \<open>Accounts and asset identifiers\<close>

definition evm_FOREIGN_ASSET_PRECOMPILE_ADDRESS_PREFIX :: bytes where
  "evm_FOREIGN_ASSET_PRECOMPILE_ADDRESS_PREFIX = replicate 4 255"

definition evm_account_to_asset_id :: "bytes \<Rightarrow> rust_panic + (bytes \<times> u128) option" where
  "evm_account_to_asset_id account =
     result_bind (split_at account 4) (\<lambda>(prefix_part, id_part).
       if prefix_part = evm_FOREIGN_ASSET_PRECOMPILE_ADDRESS_PREFIX
       then result_bind (copy_from_slice 16 id_part)
              (\<lambda>data. Inr (Some (prefix_part, from_be_bytes data)))
       else Inr None)"

definition evm_asset_id_to_account :: "bytes \<Rightarrow> u128 \<Rightarrow> rust_panic + bytes" where
  "evm_asset_id_to_account prefix asset_id =
     result_bind (slice_copy (replicate 20 0) 0 4 prefix)
       (\<lambda>data. slice_copy data 4 20 (to_be_bytes 16 asset_id))"

definition generic_FOREIGN_ASSET_PRECOMPILE_ADDRESS_PREFIX :: bytes where
  "generic_FOREIGN_ASSET_PRECOMPILE_ADDRESS_PREFIX = replicate 28 255"

definition generic_account_to_asset_id :: "bytes \<Rightarrow> rust_panic + (bytes \<times> u32) option" where
  "generic_account_to_asset_id account =
     result_bind (split_at account 28) (\<lambda>(prefix_part, id_part).
       if prefix_part = generic_FOREIGN_ASSET_PRECOMPILE_ADDRESS_PREFIX
       then result_bind (copy_from_slice 4 id_part)
              (\<lambda>data. Inr (Some (prefix_part, from_be_bytes data)))
       else Inr None)"

definition generic_asset_id_to_account :: "bytes \<Rightarrow> u32 \<Rightarrow> rust_panic + bytes" where
  "generic_asset_id_to_account prefix asset_id =
     result_bind (slice_copy (replicate 32 0) 0 28 prefix)
       (\<lambda>data. slice_copy data 28 32 (to_be_bytes 4 asset_id))"

text \<open>The contract: an account is the prefix followed by the big-endian identifier.\<close>

locale account_asset_conversion =
  fixes prefix_len id_len :: nat
    and PREFIX :: bytes
    and account_to_asset_id :: "bytes \<Rightarrow> rust_panic + (bytes \<times> 'i::len word) option"
    and asset_id_to_account :: "bytes \<Rightarrow> 'i word \<Rightarrow> rust_panic + bytes"
  assumes prefix_length: "length PREFIX = prefix_len"
    and id_length: "LENGTH('i) = 8 * id_len"
    and to_asset: "length account = prefix_len + id_len \<Longrightarrow>
      account_to_asset_id account =
        Inr (if take prefix_len account = PREFIX
             then Some (PREFIX, from_be_bytes (drop prefix_len account)) else None)"
    and to_account: "asset_id_to_account prefix i =
      (if length prefix = prefix_len then Inr (prefix @ to_be_bytes id_len i)
       else Inl (CopyLengthMismatch prefix_len (length prefix)))"
begin

lemma asset_account_roundtrip:
  "result_bind (asset_id_to_account PREFIX i) account_to_asset_id = Inr (Some (PREFIX, i))"
  by (simp add: to_account to_asset prefix_length from_be_to_be [OF id_length])

lemma account_asset_roundtrip:
  assumes "length account = prefix_len + id_len"
    and "account_to_asset_id account = Inr (Some (prefix, i))"
  shows "asset_id_to_account prefix i = Inr account"
proof -
  from assms have prefix: "take prefix_len account = PREFIX" "prefix = PREFIX"
    and i: "i = from_be_bytes (drop prefix_len account)"
    by (auto simp: to_asset split: if_splits)
  have "length (drop prefix_len account) = id_len"
    using assms(1) by simp
  then have "to_be_bytes id_len i = drop prefix_len account"
    using to_be_from_be [where bs = "drop prefix_len account" and 'n = 'i] id_length i by simp
  then show ?thesis
    using prefix prefix_length by (metis append_take_drop_id to_account)
qed

lemma account_of_other_prefix:
  assumes "length prefix = prefix_len" and "prefix \<noteq> PREFIX"
  shows "result_bind (asset_id_to_account prefix i) account_to_asset_id = Inr None"
  using assms by (simp add: to_account to_asset)

lemma asset_account_inject:
  assumes "asset_id_to_account p i = Inr a" and "asset_id_to_account q j = Inr a"
  shows "p = q \<and> i = j"
proof -
  from assms have "length p = prefix_len" "length q = prefix_len"
    and "p @ to_be_bytes id_len i = q @ to_be_bytes id_len j"
    by (auto simp: to_account split: if_splits)
  then have "p = q" and eq: "to_be_bytes id_len i = to_be_bytes id_len j"
    by simp_all
  moreover have "i = j"
    using eq from_be_to_be [OF id_length] by metis
  ultimately show ?thesis
    by simp
qed

lemma account_length: "asset_id_to_account p i = Inr a \<Longrightarrow> length a = prefix_len + id_len"
  by (auto simp: to_account split: if_splits)

end

lemma slice_copy_tail [simp]:
  assumes "length xs = m" and "length src = n" and "hi = m + n" and "length ys = n"
  shows "slice_copy (xs @ ys) m hi src = Inr (xs @ src)"
  using assms by (simp add: slice_copy_def copy_from_slice_def)

lemma slice_copy_head:
  assumes "hi \<le> length data"
  shows "slice_copy data 0 hi src =
    (if length src = hi then Inr (src @ drop hi data)
     else Inl (CopyLengthMismatch hi (length src)))"
  using assms by (simp add: slice_copy_def copy_from_slice_def)

interpretation evm_conv: account_asset_conversion 4 16
  evm_FOREIGN_ASSET_PRECOMPILE_ADDRESS_PREFIX evm_account_to_asset_id evm_asset_id_to_account
  by unfold_locales
    (simp_all add: evm_FOREIGN_ASSET_PRECOMPILE_ADDRESS_PREFIX_def evm_account_to_asset_id_def
      evm_asset_id_to_account_def split_at_def slice_copy_head copy_from_slice_def)

interpretation generic_conv: account_asset_conversion 28 4
  generic_FOREIGN_ASSET_PRECOMPILE_ADDRESS_PREFIX generic_account_to_asset_id
  generic_asset_id_to_account
  by unfold_locales
    (simp_all add: generic_FOREIGN_ASSET_PRECOMPILE_ADDRESS_PREFIX_def
      generic_account_to_asset_id_def generic_asset_id_to_account_def split_at_def
      slice_copy_head copy_from_slice_def)

section \<open>The identifier of an asset\<close>

text \<open>
  \<open>AssetType\<close> over the type \<open>'l\<close> of XCM version 4 locations. \<open>encode\<close> is the SCALE encoding
  of a location, \<open>hash\<close> the runtime's \<open>Hashing::hash\<close>, of which the first bytes are kept.
\<close>

datatype 'l AssetType = Xcm 'l

definition AssetType_default :: "'l \<Rightarrow> 'l AssetType" where
  "AssetType_default here = Xcm here"

definition AssetType_from :: "'l \<Rightarrow> 'l AssetType" where
  "AssetType_from location = Xcm location"

text \<open>\<open>try_into\<close> converts a location of the latest version to version 4, where it can.\<close>

definition AssetType_try_from :: "('latest \<Rightarrow> 'l option) \<Rightarrow> 'latest \<Rightarrow> unit + 'l AssetType" where
  "AssetType_try_from try_into location =
     (case try_into location of Some l \<Rightarrow> Inr (Xcm l) | None \<Rightarrow> Inl ())"

fun AssetType_into_location :: "'l AssetType \<Rightarrow> 'l option" where
  "AssetType_into_location (Xcm location) = Some location"

fun evm_AssetType_into_id ::
  "('l \<Rightarrow> bytes) \<Rightarrow> (bytes \<Rightarrow> bytes) \<Rightarrow> 'l AssetType \<Rightarrow> rust_panic + u128" where
  "evm_AssetType_into_id encode hash (Xcm i) =
     result_bind (slice_to (hash (encode i)) 16) (\<lambda>src.
       result_bind (copy_from_slice 16 src) (\<lambda>result. Inr (from_le_bytes result)))"

fun generic_AssetType_into_id ::
  "('l \<Rightarrow> bytes) \<Rightarrow> (bytes \<Rightarrow> bytes) \<Rightarrow> 'l AssetType \<Rightarrow> rust_panic + u32" where
  "generic_AssetType_into_id encode hash (Xcm i) =
     result_bind (slice_to (hash (encode i)) 4) (\<lambda>src.
       result_bind (copy_from_slice 4 src) (\<lambda>result. Inr (from_le_bytes result)))"

text \<open>A hash of 32 bytes is long enough for either identifier.\<close>

locale hash_256 =
  fixes hash :: "bytes \<Rightarrow> bytes"
  assumes hash_length: "length (hash b) = 32"
begin

lemma evm_id_total:
  "evm_AssetType_into_id encode hash (Xcm l) = Inr (from_le_bytes (take 16 (hash (encode l))))"
  by (simp add: slice_to_def copy_from_slice_def hash_length)

lemma generic_id_total:
  "generic_AssetType_into_id encode hash (Xcm l) = Inr (from_le_bytes (take 4 (hash (encode l))))"
  by (simp add: slice_to_def copy_from_slice_def hash_length)

lemma evm_id_collides_iff:
  "evm_AssetType_into_id encode hash (Xcm l) = evm_AssetType_into_id encode hash (Xcm m) \<longleftrightarrow>
     take 16 (hash (encode l)) = take 16 (hash (encode m))"
  by (simp only: evm_id_total sum.inject) (rule from_le_inject; simp add: hash_length)

lemma generic_id_collides_iff:
  "generic_AssetType_into_id encode hash (Xcm l) = generic_AssetType_into_id encode hash (Xcm m) \<longleftrightarrow>
     take 4 (hash (encode l)) = take 4 (hash (encode m))"
  by (simp only: generic_id_total sum.inject) (rule from_le_inject; simp add: hash_length)

end

text \<open>A function with 32-byte results, for the witnesses: the input cut or padded to 32 bytes.\<close>

definition pad_hash :: "bytes \<Rightarrow> bytes" where
  "pad_hash b = take 32 (b @ replicate 32 0)"

interpretation padh: hash_256 pad_hash
  by unfold_locales (simp add: pad_hash_def)

section \<open>The registrar\<close>

record AssetRegistrarMetadata =
  asset_name :: bytes
  asset_symbol :: bytes
  decimals :: u8
  is_frozen :: bool

text \<open>
  The calls the registrar makes. A pallet call changes the storage in place and may fail
  after having changed it, so it returns the result together with the storage it leaves.
  \<open>storage_layer\<close> is what \<open>#[transactional]\<close> wraps around a function.
\<close>

type_synonym ('s, 'e) dispatch = "'s \<Rightarrow> ('e + unit) \<times> 's"

record ('s, 'e, 'o, 'i, 'p, 'a, 'k, 'w) assets_api =
  root_origin :: 'o
  id_parameter :: "'i \<Rightarrow> 'p"
  asset_manager_account :: 'a
  lookup_id :: "'a \<Rightarrow> 'k"
  force_create :: "'o \<Rightarrow> 'p \<Rightarrow> 'k \<Rightarrow> bool \<Rightarrow> u128 \<Rightarrow> ('s, 'e) dispatch"
  force_set_metadata :: "'o \<Rightarrow> 'p \<Rightarrow> bytes \<Rightarrow> bytes \<Rightarrow> u8 \<Rightarrow> bool \<Rightarrow> ('s, 'e) dispatch"
  start_destroy :: "'o \<Rightarrow> 'p \<Rightarrow> ('s, 'e) dispatch"
  start_destroy_call_weight :: "'p \<Rightarrow> 'w"
  storage_layer :: "('s, 'e) dispatch \<Rightarrow> ('s, 'e) dispatch"

text \<open>\<open>a?; b\<close> on dispatches: an error returns with the storage as it is then.\<close>

definition dispatch_then :: "('s, 'e) dispatch \<Rightarrow> ('s, 'e) dispatch \<Rightarrow> ('s, 'e) dispatch" where
  "dispatch_then a b s = (case a s of (Inl e, s') \<Rightarrow> (Inl e, s') | (Inr _, s') \<Rightarrow> b s')"

text \<open>
  The owner is the asset manager's account: as it is in the EVM template, wrapped into
  \<open>MultiAddress::Id\<close> (\<open>lookup_id\<close>) in the generic one.
\<close>

definition evm_create_foreign_asset ::
  "('s, 'e, 'o, 'i, 'p, 'a, 'a, 'w) assets_api \<Rightarrow> 'i \<Rightarrow> u128 \<Rightarrow> AssetRegistrarMetadata \<Rightarrow> bool \<Rightarrow>
   ('s, 'e) dispatch" where
  "evm_create_foreign_asset A asset min_balance metadata is_sufficient =
     storage_layer A (dispatch_then
       (force_create A (root_origin A) (id_parameter A asset) (asset_manager_account A)
          is_sufficient min_balance)
       (force_set_metadata A (root_origin A) (id_parameter A asset) (asset_name metadata)
          (asset_symbol metadata) (decimals metadata) (is_frozen metadata)))"

definition generic_create_foreign_asset ::
  "('s, 'e, 'o, 'i, 'p, 'a, 'k, 'w) assets_api \<Rightarrow> 'i \<Rightarrow> u128 \<Rightarrow> AssetRegistrarMetadata \<Rightarrow> bool \<Rightarrow>
   ('s, 'e) dispatch" where
  "generic_create_foreign_asset A asset min_balance metadata is_sufficient =
     storage_layer A (dispatch_then
       (force_create A (root_origin A) (id_parameter A asset)
          (lookup_id A (asset_manager_account A)) is_sufficient min_balance)
       (force_set_metadata A (root_origin A) (id_parameter A asset) (asset_name metadata)
          (asset_symbol metadata) (decimals metadata) (is_frozen metadata)))"

definition destroy_foreign_asset ::
  "('s, 'e, 'o, 'i, 'p, 'a, 'k, 'w) assets_api \<Rightarrow> 'i \<Rightarrow> ('s, 'e) dispatch" where
  "destroy_foreign_asset A asset =
     storage_layer A (start_destroy A (root_origin A) (id_parameter A asset))"

definition destroy_asset_dispatch_info_weight ::
  "('s, 'e, 'o, 'i, 'p, 'a, 'k, 'w) assets_api \<Rightarrow> 'i \<Rightarrow> 'w" where
  "destroy_asset_dispatch_info_weight A asset = start_destroy_call_weight A (id_parameter A asset)"

text \<open>
  A storage layer commits the storage of a dispatch that succeeds and discards that of one
  that fails; it may also refuse to open, when too many layers are nested.
\<close>

locale storage_layer_laws =
  fixes layer :: "('s, 'e) dispatch \<Rightarrow> ('s, 'e) dispatch"
  assumes layer_ok: "layer f s = (Inr (), t) \<Longrightarrow> f s = (Inr (), t)"
    and layer_err: "layer f s = (Inl e, t) \<Longrightarrow> t = s"
begin

lemma layered_sequence:
  "case layer (dispatch_then a b) s of
     (Inl _, t) \<Rightarrow> t = s
   | (Inr _, t) \<Rightarrow> (\<exists>u. a s = (Inr (), u) \<and> b u = (Inr (), t))"
proof (cases "layer (dispatch_then a b) s")
  case (Pair r t)
  show ?thesis
  proof (cases r)
    case (Inl e)
    then show ?thesis
      using layer_err Pair by simp
  next
    case (Inr u)
    then have "dispatch_then a b s = (Inr (), t)"
      using layer_ok Pair by simp
    then show ?thesis
      using Inr Pair by (auto simp: dispatch_then_def split: prod.splits sum.splits)
  qed
qed

lemma layered_single:
  "case layer a s of (Inl _, t) \<Rightarrow> t = s | (Inr _, t) \<Rightarrow> a s = (Inr (), t)"
proof (cases "layer a s")
  case (Pair r t)
  then show ?thesis
    using layer_ok [of a s] layer_err [of a s] by (cases r) simp_all
qed

end

definition rollback_layer :: "('s, 'e) dispatch \<Rightarrow> ('s, 'e) dispatch" where
  "rollback_layer f s = (case f s of (Inl e, _) \<Rightarrow> (Inl e, s) | (Inr u, t) \<Rightarrow> (Inr u, t))"

interpretation rollback: storage_layer_laws rollback_layer
proof
  show "f s = (Inr (), t)" if "rollback_layer f s = (Inr (), t)" for f s t
    using that by (cases "f s"; cases "fst (f s)") (simp_all add: rollback_layer_def)
  show "t = s" if "rollback_layer f s = (Inl e, t)" for f s e t
    using that by (cases "f s"; cases "fst (f s)") (simp_all add: rollback_layer_def)
qed

text \<open>
  A store of assets with the calls as the assets pallet documents them: creation fails for a
  used identifier, metadata needs an existing asset, and only a live one can be destroyed.
  \<open>cap\<close> bounds the metadata's length.
\<close>

datatype asset_error = AssetInUse | AssetUnknown | MetadataTooLong

record stored_asset =
  owner :: nat
  sufficient :: bool
  metadata_set :: bool
  live :: bool

type_synonym asset_store = "nat \<Rightarrow> stored_asset option"

definition store_api ::
  "nat \<Rightarrow> (asset_store, asset_error, unit, nat, nat, nat, nat, nat) assets_api" where
  "store_api cap = \<lparr>
     root_origin = (), id_parameter = (\<lambda>i. i), asset_manager_account = 1, lookup_id = (\<lambda>a. a),
     force_create = (\<lambda>_ i who suff _ s. (case s i of
         Some _ \<Rightarrow> (Inl AssetInUse, s)
       | None \<Rightarrow> (Inr (), s(i \<mapsto> \<lparr>owner = who, sufficient = suff, metadata_set = False,
                               live = True\<rparr>)))),
     force_set_metadata = (\<lambda>_ i nm _ _ _ s. (case s i of
         None \<Rightarrow> (Inl AssetUnknown, s)
       | Some a \<Rightarrow> if cap < length nm then (Inl MetadataTooLong, s)
                   else (Inr (), s(i \<mapsto> a\<lparr>metadata_set := True\<rparr>)))),
     start_destroy = (\<lambda>_ i s. (case s i of
         None \<Rightarrow> (Inl AssetUnknown, s)
       | Some a \<Rightarrow> (Inr (), s(i \<mapsto> a\<lparr>live := False\<rparr>)))),
     start_destroy_call_weight = (\<lambda>_. 0),
     storage_layer = rollback_layer\<rparr>"

lemma store_api_layer: "storage_layer_laws (storage_layer (store_api cap))"
  by (simp add: store_api_def rollback.storage_layer_laws_axioms)

section \<open>The operator account\<close>

text \<open>\<open>RootOperatorAccountId\<close> of \<open>configs/mod.rs\<close>.\<close>

definition evm_RootOperatorAccountId :: bytes where
  "evm_RootOperatorAccountId = replicate 20 255"

definition generic_RootOperatorAccountId :: bytes where
  "generic_RootOperatorAccountId = replicate 32 255"

section \<open>Properties\<close>

text \<open>
  C9: in the EVM runtime asset identifiers and prefixed accounts correspond. Every 128-bit
  identifier survives the trip through its account; a 20-byte account that yields an
  identifier is rebuilt from it byte for byte; a 20-byte account never makes the conversion
  panic; and a prefix whose length is not four does.
\<close>

theorem evm_account_asset_roundtrip:
  "result_bind (evm_asset_id_to_account evm_FOREIGN_ASSET_PRECOMPILE_ADDRESS_PREFIX i)
     evm_account_to_asset_id = Inr (Some (evm_FOREIGN_ASSET_PRECOMPILE_ADDRESS_PREFIX, i)) \<and>
   (length account = 20 \<longrightarrow>
     (case evm_account_to_asset_id account of
        Inl _ \<Rightarrow> False
      | Inr None \<Rightarrow> take 4 account \<noteq> replicate 4 255
      | Inr (Some (p, j)) \<Rightarrow> evm_asset_id_to_account p j = Inr account)) \<and>
   ((\<exists>e. evm_asset_id_to_account p i = Inl e) \<longleftrightarrow> length p \<noteq> 4)"
proof (intro conjI impI)
  assume len: "length account = 20"
  show "case evm_account_to_asset_id account of
        Inl _ \<Rightarrow> False
      | Inr None \<Rightarrow> take 4 account \<noteq> replicate 4 255
      | Inr (Some (p, j)) \<Rightarrow> evm_asset_id_to_account p j = Inr account"
    using evm_conv.account_asset_roundtrip [of account] len
    by (auto simp: evm_conv.to_asset evm_FOREIGN_ASSET_PRECOMPILE_ADDRESS_PREFIX_def)
qed (rule evm_conv.asset_account_roundtrip, simp add: evm_conv.to_account)

theorem evm_account_asset_roundtrip_witness:
  "\<not> isl (evm_account_to_asset_id (replicate 4 255 @ replicate 15 0 @ [7])) \<and>
   length (replicate 4 (255 :: byte) @ replicate 15 0 @ [7]) = 20"
  using evm_account_asset_roundtrip
    [THEN conjunct2, THEN conjunct1, of "replicate 4 255 @ replicate 15 0 @ [7]"]
  by (auto split: sum.splits)

text \<open>
  C32: the same correspondence in the generic runtime, between 32-bit identifiers and 32-byte
  accounts that start with twenty-eight bytes 255.
\<close>

theorem generic_account_asset_roundtrip:
  "result_bind (generic_asset_id_to_account generic_FOREIGN_ASSET_PRECOMPILE_ADDRESS_PREFIX i)
     generic_account_to_asset_id =
     Inr (Some (generic_FOREIGN_ASSET_PRECOMPILE_ADDRESS_PREFIX, i)) \<and>
   (length account = 32 \<longrightarrow>
     (case generic_account_to_asset_id account of
        Inl _ \<Rightarrow> False
      | Inr None \<Rightarrow> take 28 account \<noteq> replicate 28 255
      | Inr (Some (p, j)) \<Rightarrow> generic_asset_id_to_account p j = Inr account)) \<and>
   ((\<exists>e. generic_asset_id_to_account p i = Inl e) \<longleftrightarrow> length p \<noteq> 28)"
proof (intro conjI impI)
  assume len: "length account = 32"
  show "case generic_account_to_asset_id account of
        Inl _ \<Rightarrow> False
      | Inr None \<Rightarrow> take 28 account \<noteq> replicate 28 255
      | Inr (Some (p, j)) \<Rightarrow> generic_asset_id_to_account p j = Inr account"
    using generic_conv.account_asset_roundtrip [of account] len
    by (auto simp: generic_conv.to_asset generic_FOREIGN_ASSET_PRECOMPILE_ADDRESS_PREFIX_def)
qed (rule generic_conv.asset_account_roundtrip, simp add: generic_conv.to_account)

theorem generic_account_asset_roundtrip_witness:
  "\<not> isl (generic_account_to_asset_id (replicate 28 255 @ [0, 0, 0, 7])) \<and>
   length (replicate 28 (255 :: byte) @ [0, 0, 0, 7]) = 32"
  using generic_account_asset_roundtrip
    [THEN conjunct2, THEN conjunct1, of "replicate 28 255 @ [0, 0, 0, 7]"]
  by (auto split: sum.splits)

text \<open>
  C27: an asset's identifier is computed without panic from any 32-byte hash, and two
  locations share an identifier exactly when the kept bytes of their hashes agree: sixteen
  bytes in the EVM runtime, four in the generic one.
\<close>

theorem asset_id_collision_iff:
  assumes "hash_256 hash"
  shows "(\<exists>i. evm_AssetType_into_id encode hash t = Inr i) \<and>
    (\<exists>i. generic_AssetType_into_id encode hash t = Inr i) \<and>
    (evm_AssetType_into_id encode hash (AssetType_from l) =
       evm_AssetType_into_id encode hash (AssetType_from m) \<longleftrightarrow>
     take 16 (hash (encode l)) = take 16 (hash (encode m))) \<and>
    (generic_AssetType_into_id encode hash (AssetType_from l) =
       generic_AssetType_into_id encode hash (AssetType_from m) \<longleftrightarrow>
     take 4 (hash (encode l)) = take 4 (hash (encode m)))"
  unfolding AssetType_from_def
  by (intro conjI hash_256.evm_id_collides_iff [OF assms] hash_256.generic_id_collides_iff [OF assms];
      cases t; simp only: hash_256.evm_id_total [OF assms] hash_256.generic_id_total [OF assms];
      blast)

theorem asset_id_collision_iff_witness:
  "generic_AssetType_into_id (\<lambda>l. l) pad_hash (AssetType_from [1, 2, 3, 4, 5]) =
     generic_AssetType_into_id (\<lambda>l. l) pad_hash (AssetType_from [1, 2, 3, 4, 6]) \<and>
   evm_AssetType_into_id (\<lambda>l. l) pad_hash (AssetType_from [1, 2, 3, 4, 5]) \<noteq>
     evm_AssetType_into_id (\<lambda>l. l) pad_hash (AssetType_from [1, 2, 3, 4, 6])"
proof -
  have "take 4 (pad_hash [1, 2, 3, 4, 5]) = take 4 (pad_hash [1, 2, 3, 4, 6])"
    and "take 16 (pad_hash [1, 2, 3, 4, 5]) \<noteq> take 16 (pad_hash [1, 2, 3, 4, 6])"
    by (simp_all add: pad_hash_def)
  then show ?thesis
    using asset_id_collision_iff [OF padh.hash_256_axioms, of "\<lambda>l. l"] by blast
qed

text \<open>
  Creating a foreign asset is atomic in both runtimes. When the call succeeds, the asset
  was created first, owned by the asset manager, and its metadata was set in the storage that
  left; when it fails, at whichever step, the storage is as it was before.
\<close>

theorem create_foreign_asset_atomic:
  fixes A :: "('s, 'e, 'o, 'i, 'p, 'a, 'a, 'w) assets_api"
    and B :: "('s, 'e, 'o, 'i, 'p, 'a, 'k, 'w) assets_api"
  assumes "storage_layer_laws (storage_layer A)" and "storage_layer_laws (storage_layer B)"
  shows "(case evm_create_foreign_asset A asset bal md suff s of
       (Inl _, t) \<Rightarrow> t = s
     | (Inr _, t) \<Rightarrow> (\<exists>u.
         force_create A (root_origin A) (id_parameter A asset) (asset_manager_account A)
           suff bal s = (Inr (), u) \<and>
         force_set_metadata A (root_origin A) (id_parameter A asset) (asset_name md)
           (asset_symbol md) (decimals md) (is_frozen md) u = (Inr (), t))) \<and>
    (case generic_create_foreign_asset B asset bal md suff s of
       (Inl _, t) \<Rightarrow> t = s
     | (Inr _, t) \<Rightarrow> (\<exists>u.
         force_create B (root_origin B) (id_parameter B asset)
           (lookup_id B (asset_manager_account B)) suff bal s = (Inr (), u) \<and>
         force_set_metadata B (root_origin B) (id_parameter B asset) (asset_name md)
           (asset_symbol md) (decimals md) (is_frozen md) u = (Inr (), t)))"
  unfolding evm_create_foreign_asset_def generic_create_foreign_asset_def
  using storage_layer_laws.layered_sequence [OF assms(1)]
    storage_layer_laws.layered_sequence [OF assms(2)]
  by (rule conjI)

theorem create_foreign_asset_atomic_witness:
  "\<exists>e. evm_create_foreign_asset (store_api 3) 5 1
      \<lparr>asset_name = [1, 2, 3, 4], asset_symbol = [], decimals = 6, is_frozen = False\<rparr> True
      Map.empty = (Inl e, Map.empty)"
proof -
  let ?md = "\<lparr>asset_name = [1, 2, 3, 4], asset_symbol = [], decimals = 6, is_frozen = False\<rparr>"
  let ?r = "evm_create_foreign_asset (store_api 3) 5 1 ?md True Map.empty"
  have err: "fst ?r = Inl MetadataTooLong"
    by (simp add: evm_create_foreign_asset_def store_api_def rollback_layer_def
        dispatch_then_def)
  moreover have "snd ?r = Map.empty"
    using create_foreign_asset_atomic [OF store_api_layer [of 3] store_api_layer [of 3],
        where asset = 5 and bal = 1 and md = ?md and suff = True and s = Map.empty,
        THEN conjunct1] err
    by (cases ?r) simp
  ultimately show ?thesis
    by (metis prod.collapse)
qed

text \<open>
  Destroying a foreign asset is atomic, and it is the root's \<open>start_destroy\<close> of that very
  asset and nothing else.
\<close>

theorem destroy_foreign_asset_atomic:
  assumes "storage_layer_laws (storage_layer A)"
  shows "case destroy_foreign_asset A asset s of
      (Inl _, t) \<Rightarrow> t = s
    | (Inr _, t) \<Rightarrow> start_destroy A (root_origin A) (id_parameter A asset) s = (Inr (), t)"
  unfolding destroy_foreign_asset_def by (rule storage_layer_laws.layered_single [OF assms])

theorem destroy_foreign_asset_atomic_witness:
  "snd (destroy_foreign_asset (store_api 3) 5 Map.empty) = Map.empty"
proof -
  let ?r = "destroy_foreign_asset (store_api 3) 5 Map.empty"
  have "fst ?r = Inl AssetUnknown"
    by (simp add: destroy_foreign_asset_def store_api_def rollback_layer_def)
  then show ?thesis
    using destroy_foreign_asset_atomic [OF store_api_layer [of 3], where asset = 5 and s = Map.empty]
    by (cases ?r) simp
qed

text \<open>
  The operator account of either runtime is the account of a foreign asset: it converts
  to the largest asset identifier, and that identifier's account is the operator's.
\<close>

theorem root_operator_is_asset_account:
  "evm_account_to_asset_id evm_RootOperatorAccountId =
     Inr (Some (evm_FOREIGN_ASSET_PRECOMPILE_ADDRESS_PREFIX, - 1)) \<and>
   evm_asset_id_to_account evm_FOREIGN_ASSET_PRECOMPILE_ADDRESS_PREFIX (- 1) =
     Inr evm_RootOperatorAccountId \<and>
   generic_account_to_asset_id generic_RootOperatorAccountId =
     Inr (Some (generic_FOREIGN_ASSET_PRECOMPILE_ADDRESS_PREFIX, - 1)) \<and>
   generic_asset_id_to_account generic_FOREIGN_ASSET_PRECOMPILE_ADDRESS_PREFIX (- 1) =
     Inr generic_RootOperatorAccountId"
proof (intro conjI)
  show evm: "evm_account_to_asset_id evm_RootOperatorAccountId =
      Inr (Some (evm_FOREIGN_ASSET_PRECOMPILE_ADDRESS_PREFIX, - 1))"
    by (simp add: evm_conv.to_asset evm_RootOperatorAccountId_def
        evm_FOREIGN_ASSET_PRECOMPILE_ADDRESS_PREFIX_def from_be_ones)
  show "evm_asset_id_to_account evm_FOREIGN_ASSET_PRECOMPILE_ADDRESS_PREFIX (- 1) =
      Inr evm_RootOperatorAccountId"
    by (rule evm_conv.account_asset_roundtrip [OF _ evm])
      (simp add: evm_RootOperatorAccountId_def)
  show generic: "generic_account_to_asset_id generic_RootOperatorAccountId =
      Inr (Some (generic_FOREIGN_ASSET_PRECOMPILE_ADDRESS_PREFIX, - 1))"
    by (simp add: generic_conv.to_asset generic_RootOperatorAccountId_def
        generic_FOREIGN_ASSET_PRECOMPILE_ADDRESS_PREFIX_def from_be_ones)
  show "generic_asset_id_to_account generic_FOREIGN_ASSET_PRECOMPILE_ADDRESS_PREFIX (- 1) =
      Inr generic_RootOperatorAccountId"
    by (rule generic_conv.account_asset_roundtrip [OF _ generic])
      (simp add: generic_RootOperatorAccountId_def)
qed

end
