(* ===== verification/Evm_Precompiles.thy ===== *)
theory Evm_Precompiles
  imports Asset_Config
begin

text \<open>
  \<open>precompiles.rs\<close> of the EVM template: the set of precompiled contracts, their addresses and
  the dispatch of a call to them. \<open>H160::from_low_u64_be\<close> and the contracts themselves belong
  to other packages: the first is the parameter of the locale \<open>h160_laws\<close>, the contracts are
  the fields of \<open>precompile_impls\<close>.
\<close>

section \<open>The precompile set\<close>

text \<open>A call handle carries the address of the code that runs; an implementation uses it up.\<close>

record ('h, 'r) precompile_impls =
  code_address :: "'h \<Rightarrow> bytes"
  ECRecover :: "'h \<Rightarrow> 'r \<times> 'h"
  Sha256 :: "'h \<Rightarrow> 'r \<times> 'h"
  Ripemd160 :: "'h \<Rightarrow> 'r \<times> 'h"
  Identity :: "'h \<Rightarrow> 'r \<times> 'h"
  Modexp :: "'h \<Rightarrow> 'r \<times> 'h"
  Sha3FIPS256 :: "'h \<Rightarrow> 'r \<times> 'h"
  ECRecoverPublicKey :: "'h \<Rightarrow> 'r \<times> 'h"

record IsPrecompileResult =
  is_precompile_answer :: bool
  extra_cost :: nat

definition precompile_hash :: "(u64 \<Rightarrow> bytes) \<Rightarrow> u64 \<Rightarrow> bytes" where
  "precompile_hash from_low_u64_be a = from_low_u64_be a"

definition used_addresses :: "(u64 \<Rightarrow> bytes) \<Rightarrow> bytes list" where
  "used_addresses h = (let hash = precompile_hash h in
     [hash 1, hash 2, hash 3, hash 4, hash 5, hash 1024, hash 1025])"

definition precompile_execute ::
  "(u64 \<Rightarrow> bytes) \<Rightarrow> ('h, 'r) precompile_impls \<Rightarrow> 'h \<Rightarrow> ('r \<times> 'h) option" where
  "precompile_execute h P handle = (
     let hash = precompile_hash h; a = code_address P handle in
     if a = hash 1 then Some (ECRecover P handle)
     else if a = hash 2 then Some (Sha256 P handle)
     else if a = hash 3 then Some (Ripemd160 P handle)
     else if a = hash 4 then Some (Identity P handle)
     else if a = hash 5 then Some (Modexp P handle)
     else if a = hash 1024 then Some (Sha3FIPS256 P handle)
     else if a = hash 1025 then Some (ECRecoverPublicKey P handle)
     else None)"

definition is_precompile :: "(u64 \<Rightarrow> bytes) \<Rightarrow> bytes \<Rightarrow> u64 \<Rightarrow> IsPrecompileResult" where
  "is_precompile h address gas =
     \<lparr>is_precompile_answer = address \<in> set (used_addresses h), extra_cost = 0\<rparr>"

section \<open>What the set relies on\<close>

text \<open>The number fills the low eight bytes of the address, most significant first.\<close>

locale h160_laws =
  fixes from_low_u64_be :: "u64 \<Rightarrow> bytes"
  assumes low_bytes: "from_low_u64_be a = replicate 12 0 @ to_be_bytes 8 a"
begin

lemma hash_eq: "precompile_hash from_low_u64_be a = replicate 12 0 @ to_be_bytes 8 a"
  by (simp add: precompile_hash_def low_bytes)

lemma hash_inject:
  "precompile_hash from_low_u64_be a = precompile_hash from_low_u64_be b \<longleftrightarrow> a = b"
proof -
  have "from_be_bytes (to_be_bytes 8 c) = c" for c :: u64
    by (rule from_be_to_be) simp
  then show ?thesis
    unfolding hash_eq by (metis same_append_eq)
qed

lemma hash_not_asset: "evm_account_to_asset_id (precompile_hash from_low_u64_be a) = Inr None"
  by (simp add: evm_conv.to_asset hash_eq evm_FOREIGN_ASSET_PRECOMPILE_ADDRESS_PREFIX_def)

lemma used_iff:
  "a \<in> set (used_addresses from_low_u64_be) \<longleftrightarrow>
     (\<exists>n \<in> {1, 2, 3, 4, 5, 1024, 1025}. a = precompile_hash from_low_u64_be n)"
  by (auto simp: used_addresses_def Let_def)

end

definition low_u64_address :: "u64 \<Rightarrow> bytes" where
  "low_u64_address a = replicate 12 0 @ to_be_bytes 8 a"

interpretation h160: h160_laws low_u64_address
  by unfold_locales (simp add: low_u64_address_def)

section \<open>Properties\<close>

lemma answer_iff_executes:
  "is_precompile_answer (is_precompile h (code_address P handle) gas) \<longleftrightarrow>
     precompile_execute h P handle \<noteq> None"
  by (auto simp: is_precompile_def precompile_execute_def used_addresses_def Let_def)



text \<open>
  Precompiled contracts and foreign assets do not overlap: no address of the set lies in
  the foreign-asset range, and no asset's account is a precompile.
\<close>

theorem precompiles_not_assets:
  assumes "h160_laws h"
  shows "(\<forall>a \<in> set (used_addresses h). evm_account_to_asset_id a = Inr None) \<and>
    (\<forall>i account. evm_asset_id_to_account evm_FOREIGN_ASSET_PRECOMPILE_ADDRESS_PREFIX i =
        Inr account \<longrightarrow>
      \<not> is_precompile_answer (is_precompile h account gas))"
proof -
  have used: "\<forall>a \<in> set (used_addresses h). evm_account_to_asset_id a = Inr None"
    by (auto simp: h160_laws.used_iff [OF assms] h160_laws.hash_not_asset [OF assms])
  moreover have "evm_account_to_asset_id account =
      Inr (Some (evm_FOREIGN_ASSET_PRECOMPILE_ADDRESS_PREFIX, i))"
    if "evm_asset_id_to_account evm_FOREIGN_ASSET_PRECOMPILE_ADDRESS_PREFIX i = Inr account"
    for i account
    using evm_conv.asset_account_roundtrip [of i] that by simp
  ultimately show ?thesis
    by (fastforce simp: is_precompile_def)
qed

theorem precompiles_not_assets_witness:
  "evm_account_to_asset_id (low_u64_address 1025) = Inr None"
proof -
  have "low_u64_address 1025 \<in> set (used_addresses low_u64_address)"
    by (simp add: used_addresses_def precompile_hash_def Let_def)
  then show ?thesis
    using precompiles_not_assets [OF h160.h160_laws_axioms] by blast
qed

end
