(* ===== verification/Node_Contracts.thy ===== *)
theory Node_Contracts
  imports Runtime_Constants
begin

text \<open>
  \<open>node/src/contracts/\<close> of the EVM template: the contracts that the chain specification puts
  into the genesis state. The file system, the JSON parser and the hex decoder are
  parameters, and so are the bytes of the built-in contract (\<open>ENTRYPOINT_BYTECODE\<close>, a literal
  of 16,650 bytes).
\<close>

section \<open>Contracts\<close>

text \<open>The ABI is parsed but never used; its type stays open.\<close>

record 'abi HardhatContract =
  hardhat_abi :: "'abi list"
  hardhat_bytecode :: bytes

record ForgeBytecode =
  bytecode_object :: bytes

record 'abi ForgeContract =
  forge_abi :: "'abi list"
  forge_bytecode :: ForgeBytecode

datatype 'abi Contract = Hardhat "'abi HardhatContract" | Forge "'abi ForgeContract"

fun Contract_bytecode :: "'abi Contract \<Rightarrow> bytes" where
  "Contract_bytecode (Hardhat c) = hardhat_bytecode c"
| "Contract_bytecode (Forge c) = bytecode_object (forge_bytecode c)"

record ContractMetadata =
  metadata_address :: bytes
  metadata_filename :: string

datatype ('io, 'js) ContractParsingError = MetadataReadError 'io | MetadataParseError 'js

datatype ContractsPath = ContractsNone | ContractsDefault | ContractsSome string

definition ContractsPath_default :: ContractsPath where
  "ContractsPath_default = ContractsDefault"

section \<open>Parsing\<close>

text \<open>
  \<open>&s[2..]\<close> on a string given by its UTF-8 bytes: the index must lie inside the string and not
  in the middle of a character. \<open>deserialize\<close> yields the string or the deserializer's error.
\<close>

definition is_char_boundary :: "bytes \<Rightarrow> nat \<Rightarrow> bool" where
  "is_char_boundary s i \<longleftrightarrow>
     i = length s \<or> i < length s \<and> \<not> (128 \<le> s ! i \<and> s ! i < 192)"

definition str_from :: "bytes \<Rightarrow> nat \<Rightarrow> rust_panic + bytes" where
  "str_from s i = (if is_char_boundary s i then Inr (drop i s) else Inl (NotACharBoundary i))"

definition deserialize_bytecode ::
  "(bytes \<Rightarrow> 'e + bytes) \<Rightarrow> 'e + bytes \<Rightarrow> rust_panic + ('e + bytes)" where
  "deserialize_bytecode decode deserialized =
     (case deserialized of
        Inl e \<Rightarrow> Inr (Inl e)
      | Inr s \<Rightarrow> result_bind (str_from s 2) (\<lambda>digits. Inr (decode digits)))"

text \<open>
  Files are read and parsed by the standard library and \<open>serde_json\<close>. The parser of contracts is
  derived; it calls the function that is given for the byte code, and a panic of that function is
  a panic of the parser. \<open>from_str\<close> is \<open>H160::from_str\<close>.
\<close>

record ('f, 'io, 'js, 'abi) contracts_api =
  open_file :: "string \<Rightarrow> 'io + 'f"
  parse_metadata :: "'f \<Rightarrow> 'js + ContractMetadata list"
  parse_contract :: "('js + bytes \<Rightarrow> rust_panic + ('js + bytes)) \<Rightarrow> 'f \<Rightarrow>
    rust_panic + ('js + 'abi Contract)"
  hex_decode :: "bytes \<Rightarrow> 'js + bytes"
  from_str :: "string \<Rightarrow> bytes option"
  ENTRYPOINT_BYTECODE :: bytes

definition entrypoint_address ::
  "('f, 'io, 'js, 'abi) contracts_api \<Rightarrow> rust_panic + bytes" where
  "entrypoint_address A =
     (case from_str A ''0x81ead4918134AE386dbd04346216E20AB8F822C4'' of
        Some a \<Rightarrow> Inr a
      | None \<Rightarrow> Inl (ExpectFailed ''Correct H160 address, must not panic''))"

definition entrypoint_contract :: "('f, 'io, 'js, 'abi) contracts_api \<Rightarrow> 'abi Contract" where
  "entrypoint_contract A = Hardhat \<lparr>hardhat_abi = [], hardhat_bytecode = ENTRYPOINT_BYTECODE A\<rparr>"

definition read_contract ::
  "('f, 'io, 'js, 'abi) contracts_api \<Rightarrow> 'f \<Rightarrow> rust_panic + ('js + 'abi Contract)" where
  "read_contract A = parse_contract A (deserialize_bytecode (hex_decode A))"

text \<open>The body of the loop: a file that cannot be opened or parsed is skipped; a panic ends it.\<close>

fun load_contracts ::
  "('f, 'io, 'js, 'abi) contracts_api \<Rightarrow> string \<Rightarrow> ContractMetadata list \<Rightarrow>
   (bytes \<rightharpoonup> 'abi Contract) \<Rightarrow> rust_panic + (bytes \<rightharpoonup> 'abi Contract)" where
  "load_contracts A path [] res = Inr res"
| "load_contracts A path (metadata # metadatas) res =
     (case open_file A (path_join path (metadata_filename metadata)) of
        Inl _ \<Rightarrow> load_contracts A path metadatas res
      | Inr contract_file \<Rightarrow>
          result_bind (read_contract A contract_file) (\<lambda>parsed.
          case parsed of
            Inl _ \<Rightarrow> load_contracts A path metadatas res
          | Inr contract \<Rightarrow>
              load_contracts A path metadatas (res(metadata_address metadata \<mapsto> contract))))"

definition parse_contracts ::
  "('f, 'io, 'js, 'abi) contracts_api \<Rightarrow> ContractsPath \<Rightarrow>
   rust_panic + (('io, 'js) ContractParsingError + (bytes \<rightharpoonup> 'abi Contract))" where
  "parse_contracts A path = (
     case path of
       ContractsNone \<Rightarrow> Inr (Inr Map.empty)
     | ContractsDefault \<Rightarrow>
         result_bind (entrypoint_address A) (\<lambda>a. Inr (Inr [a \<mapsto> entrypoint_contract A]))
     | ContractsSome path \<Rightarrow> (
         case open_file A (path_join path ''contracts.json'') of
           Inl e \<Rightarrow> Inr (Inl (MetadataReadError e))
         | Inr metadata_file \<Rightarrow> (
             case parse_metadata A metadata_file of
               Inl e \<Rightarrow> Inr (Inl (MetadataParseError e))
             | Inr metadatas \<Rightarrow>
                 result_bind (load_contracts A path metadatas Map.empty) (\<lambda>res. Inr (Inr res)))))"

section \<open>Facts\<close>

text \<open>What one entry of the metadata contributes, and the panic it causes.\<close>

definition loads ::
  "('f, 'io, 'js, 'abi) contracts_api \<Rightarrow> string \<Rightarrow> ContractMetadata \<Rightarrow> (bytes \<times> 'abi Contract) option" where
  "loads A path metadata =
     (case open_file A (path_join path (metadata_filename metadata)) of
        Inr f \<Rightarrow> (case read_contract A f of
            Inr (Inr contract) \<Rightarrow> Some (metadata_address metadata, contract)
          | _ \<Rightarrow> None)
      | Inl _ \<Rightarrow> None)"

definition panics ::
  "('f, 'io, 'js, 'abi) contracts_api \<Rightarrow> string \<Rightarrow> ContractMetadata \<Rightarrow> rust_panic option" where
  "panics A path metadata =
     (case open_file A (path_join path (metadata_filename metadata)) of
        Inr f \<Rightarrow> (case read_contract A f of Inl p \<Rightarrow> Some p | Inr _ \<Rightarrow> None)
      | Inl _ \<Rightarrow> None)"

lemma load_contracts_step:
  "load_contracts A path (m # ms) res =
     (case panics A path m of
        Some p \<Rightarrow> Inl p
      | None \<Rightarrow> load_contracts A path ms
          (case loads A path m of None \<Rightarrow> res | Some (a, c) \<Rightarrow> res(a \<mapsto> c)))"
  by (auto simp: loads_def panics_def split: sum.split)

lemma load_contracts_eq:
  "load_contracts A path metadatas res =
     (case List.map_filter (panics A path) metadatas of
        p # _ \<Rightarrow> Inl p
      | [] \<Rightarrow> Inr (res ++ map_of (rev (List.map_filter (loads A path) metadatas))))"
proof (induction metadatas arbitrary: res)
  case (Cons m ms)
  show ?case
    by (cases "panics A path m"; cases "loads A path m")
      (auto simp: load_contracts_step Cons.IH List.map_filter_def map_add_assoc
        simp del: load_contracts.simps split: list.split)
qed (simp add: List.map_filter_def)

text \<open>A file system whose only file is an empty \<open>contracts.json\<close>.\<close>

definition demo_contracts_api :: "(string, unit, unit, unit) contracts_api" where
  "demo_contracts_api = \<lparr>
     open_file = (\<lambda>p. if p = ''d/contracts.json'' then Inr p else Inl ()),
     parse_metadata = (\<lambda>_. Inr []),
     parse_contract = (\<lambda>_ _. Inr (Inl ())),
     hex_decode = Inr,
     from_str = (\<lambda>_. Some [1]),
     ENTRYPOINT_BYTECODE = [96]\<rparr>"

section \<open>Properties\<close>

text \<open>
  What a contracts directory gives. Parsing reports an error only for the directory's
  \<open>contracts.json\<close>, and panics exactly when the byte code of a listed file makes it; otherwise the
  contracts are exactly those of the listed files that open and parse, under their listed addresses,
  the last one for an address that is listed twice. The built-in choice is the entry point
  alone, and no choice is the empty set.
\<close>

theorem parse_contracts_result:
  "parse_contracts A ContractsNone = Inr (Inr Map.empty) \<and>
   (\<forall>a. entrypoint_address A = Inr a \<longrightarrow>
      parse_contracts A ContractsPath_default = Inr (Inr [a \<mapsto> entrypoint_contract A])) \<and>
   parse_contracts A (ContractsSome path) = (
     case open_file A (path_join path ''contracts.json'') of
       Inl e \<Rightarrow> Inr (Inl (MetadataReadError e))
     | Inr f \<Rightarrow> (case parse_metadata A f of
           Inl e \<Rightarrow> Inr (Inl (MetadataParseError e))
         | Inr metadatas \<Rightarrow> (case List.map_filter (panics A path) metadatas of
               p # _ \<Rightarrow> Inl p
             | [] \<Rightarrow> Inr (Inr (map_of (rev (List.map_filter (loads A path) metadatas)))))))"
  by (simp add: parse_contracts_def ContractsPath_default_def load_contracts_eq
      split: sum.split list.split)

theorem parse_contracts_result_witness:
  "parse_contracts demo_contracts_api ContractsPath_default =
     Inr (Inr [[1] \<mapsto> entrypoint_contract demo_contracts_api])"
proof -
  have "entrypoint_address demo_contracts_api = Inr [1]"
    by (simp add: entrypoint_address_def demo_contracts_api_def)
  then show ?thesis
    using parse_contracts_result by blast
qed

text \<open>
  The two characters in front of a contract's byte code are dropped whatever they are,
  and a string too short to have them, or one whose second index lies inside a character,
  stops the node instead of being reported as an error.
\<close>

theorem bytecode_prefix_unchecked:
  "(length p = 2 \<and> (s = [] \<or> \<not> (128 \<le> hd s \<and> hd s < 192)) \<longrightarrow>
      deserialize_bytecode hex (Inr (p @ s)) = Inr (hex s)) \<and>
   ((\<exists>e. deserialize_bytecode hex (Inr t) = Inl e) \<longleftrightarrow>
      length t < 2 \<or> 2 < length t \<and> 128 \<le> t ! 2 \<and> t ! 2 < 192)"
  by (auto simp: deserialize_bytecode_def str_from_def is_char_boundary_def nth_append hd_conv_nth)

theorem bytecode_prefix_unchecked_witness:
  "deserialize_bytecode (Inr :: bytes \<Rightarrow> unit + bytes) (Inr ([88, 88] @ [54, 48])) =
     Inr (Inr [54, 48]) \<and>
   (\<exists>e. deserialize_bytecode (Inr :: bytes \<Rightarrow> unit + bytes) (Inr [48]) = Inl e)"
  using bytecode_prefix_unchecked [of "[88, 88]" "[54, 48]" "Inr :: bytes \<Rightarrow> unit + bytes" "[48]"]
  by simp

end
