(* ===== verification/Xcm_Location.thy ===== *)
theory Xcm_Location
  imports Runtime_Constants
begin

text \<open>
  The XCM vocabulary of the runtimes' configurations: locations, junctions and assets, with
  the constructors the sources build or match, and the library functions they call on them.
  The functions belong to the XCM library and are the fields of \<open>xcm_api\<close>; the locale
  \<open>xcm_laws\<close> states what they document. The interpretation \<open>xl\<close> is a direct
  implementation on lists of junctions.
\<close>

section \<open>Locations and assets\<close>

datatype body_id = Executive | OtherBody nat

text \<open>\<open>OtherJunction\<close> stands for the variants that no source of the runtimes names.\<close>

datatype junction =
    Parachain u32
  | AccountId32 "nat option" bytes
  | AccountKey20 "nat option" bytes
  | PalletInstance u8
  | Plurality body_id nat
  | GlobalConsensus nat
  | OtherJunction bytes

record Location =
  parents :: u8
  interior :: "junction list"

abbreviation loc :: "u8 \<Rightarrow> junction list \<Rightarrow> Location" where
  "loc p js \<equiv> \<lparr>parents = p, interior = js\<rparr>"

abbreviation Location_here :: Location where
  "Location_here \<equiv> loc 0 []"

abbreviation Location_parent :: Location where
  "Location_parent \<equiv> loc 1 []"

datatype fungibility = Fungible u128 | NonFungible nat

record Asset =
  asset_id :: Location
  fungible :: fungibility

section \<open>The library's functions\<close>

record xcm_api =
  first_interior :: "Location \<Rightarrow> junction option"
  chain_location :: "Location \<Rightarrow> Location"
  split_global :: "junction list \<Rightarrow> unit + (nat \<times> junction list)"
  push_interior :: "Location \<Rightarrow> junction \<Rightarrow> (junction + unit) \<times> Location"

text \<open>The junctions that name a chain.\<close>

fun names_chain :: "junction \<Rightarrow> bool" where
  "names_chain (Parachain _) = True"
| "names_chain (GlobalConsensus _) = True"
| "names_chain _ = False"

text \<open>
  \<open>chain_location\<close> cuts a location after its last junction that names a chain; a location
  holds at most eight junctions.
\<close>

locale xcm_laws =
  fixes X :: xcm_api
  assumes first_Here: "first_interior X (loc p []) = None"
    and first_Cons: "first_interior X (loc p (j # js)) = Some j"
    and chain_parents: "parents (chain_location X l) = parents l"
    and chain_prefix: "\<exists>rest. interior l = interior (chain_location X l) @ rest \<and>
      (\<forall>j \<in> set rest. \<not> names_chain j)"
    and chain_ends: "interior (chain_location X l) \<noteq> [] \<Longrightarrow>
      names_chain (last (interior (chain_location X l)))"
    and split_global_ok: "\<not> isl (split_global X js) \<longleftrightarrow>
      (\<exists>n rest. js = GlobalConsensus n # rest)"
    and push_ok: "length (interior l) < 8 \<Longrightarrow>
      push_interior X l j = (Inr (), l\<lparr>interior := interior l @ [j]\<rparr>)"
    and push_full: "8 \<le> length (interior l) \<Longrightarrow> push_interior X l j = (Inl j, l)"
begin

lemma first_interior_eq:
  "first_interior X l = (case interior l of [] \<Rightarrow> None | j # js \<Rightarrow> Some j)"
  using first_Here [of "parents l"] first_Cons [of "parents l"]
  by (cases l) (auto split: list.split)

text \<open>The chain part is determined by its law.\<close>

lemma chain_interior_unique:
  assumes "interior l = front @ rest" and "\<forall>j \<in> set rest. \<not> names_chain j"
    and "front = [] \<or> names_chain (last front)"
  shows "interior (chain_location X l) = front"
proof -
  let ?c = "interior (chain_location X l)"
  obtain rest' where l: "interior l = ?c @ rest'" and rest': "\<forall>j \<in> set rest'. \<not> names_chain j"
    using chain_prefix by blast
  have ends: "?c = [] \<or> names_chain (last ?c)"
    using chain_ends by blast
  have "?c @ rest' = front @ rest"
    using l assms(1) by simp
  then obtain us where "?c = front @ us \<and> us @ rest' = rest \<or> ?c @ us = front \<and> rest' = us @ rest"
    by (auto simp: append_eq_append_conv2)
  then show ?thesis
    using ends assms(2,3) rest' by (cases us rule: rev_cases) auto
qed

lemma chain_location_unique:
  assumes "interior l = front @ rest" and "\<forall>j \<in> set rest. \<not> names_chain j"
    and "front = [] \<or> names_chain (last front)"
  shows "chain_location X l = loc (parents l) front"
  using chain_interior_unique [OF assms] chain_parents [of l]
  by (cases "chain_location X l") simp

end

section \<open>A direct implementation\<close>

definition drop_tail :: "junction list \<Rightarrow> junction list" where
  "drop_tail js = rev (dropWhile (\<lambda>j. \<not> names_chain j) (rev js))"

lemma drop_tail_prefix:
  "\<exists>rest. js = drop_tail js @ rest \<and> (\<forall>j \<in> set rest. \<not> names_chain j)"
proof -
  have "js = drop_tail js @ rev (takeWhile (\<lambda>j. \<not> names_chain j) (rev js))"
    unfolding drop_tail_def
    by (metis rev_append rev_rev_ident takeWhile_dropWhile_id)
  moreover have "\<forall>j \<in> set (rev (takeWhile (\<lambda>j. \<not> names_chain j) (rev js))). \<not> names_chain j"
    by (auto dest: set_takeWhileD)
  ultimately show ?thesis
    by blast
qed

lemma drop_tail_ends: "drop_tail js \<noteq> [] \<Longrightarrow> names_chain (last (drop_tail js))"
  unfolding drop_tail_def
  by (metis (no_types) hd_dropWhile last_rev rev.simps(1) rev_rev_ident)

definition list_xcm_api :: xcm_api where
  "list_xcm_api = \<lparr>
     first_interior = (\<lambda>l. case interior l of [] \<Rightarrow> None | j # js \<Rightarrow> Some j),
     chain_location = (\<lambda>l. l\<lparr>interior := drop_tail (interior l)\<rparr>),
     split_global = (\<lambda>js. case js of GlobalConsensus n # rest \<Rightarrow> Inr (n, rest) | _ \<Rightarrow> Inl ()),
     push_interior = (\<lambda>l j. if length (interior l) < 8
       then (Inr (), l\<lparr>interior := interior l @ [j]\<rparr>) else (Inl j, l))\<rparr>"

interpretation xl: xcm_laws list_xcm_api
  by unfold_locales
    (auto simp: list_xcm_api_def drop_tail_prefix drop_tail_ends
      split: list.splits junction.splits)

end
