(* ===== verification/Xcm_Reserves.thy ===== *)
theory Xcm_Reserves
  imports Xcm_Location
begin

text \<open>
  The part of \<open>configs/xcm_config.rs\<close> that decides which chain holds an asset in reserve: the
  reserve providers that outgoing transfers consult (\<open>ReserveProviders\<close>) and the filter that
  incoming reserve transfers must pass (\<open>Reserves\<close>). Both templates have the same text here.
  \<open>Case\<close> and \<open>MultiNativeAsset\<close> are library filters; the locale \<open>reserve_filters\<close> states what
  they document.
\<close>

section \<open>Locations of other chains\<close>

definition AssetHubLocation :: Location where
  "AssetHubLocation = loc 1 [Parachain 1000]"

definition RelayLocation :: Location where
  "RelayLocation = Location_parent"

text \<open>\<open>RelayLocationFilter\<close>: every fungible asset with the relay chain's location as its id.\<close>

datatype asset_filter = WildAllOfFungible Location

definition RelayLocationFilter :: asset_filter where
  "RelayLocationFilter = WildAllOfFungible RelayLocation"

definition RelayChainNativeAssetFromAssetHub :: "asset_filter \<times> Location" where
  "RelayChainNativeAssetFromAssetHub = (RelayLocationFilter, AssetHubLocation)"

text \<open>\<open>parachain_id\<close> is the storage value of the parachain-info pallet.\<close>

definition SelfLocationAbsolute :: "u32 \<Rightarrow> Location" where
  "SelfLocationAbsolute parachain_id = loc 1 [Parachain parachain_id]"

definition SelfLocation :: Location where
  "SelfLocation = Location_here"

section \<open>The reserve providers\<close>

definition DOTReserveProvider_reserve :: "Asset \<Rightarrow> Location option" where
  "DOTReserveProvider_reserve asset = (
     let location = asset_id asset; dot_here = loc 1 []; dot_asset_hub = AssetHubLocation
     in if location = dot_here then Some dot_asset_hub else None)"

definition BridgedAssetReserveProvider_reserve :: "xcm_api \<Rightarrow> Asset \<Rightarrow> Location option" where
  "BridgedAssetReserveProvider_reserve X asset = (
     let location = asset_id asset; asset_hub_reserve = AssetHubLocation
     in if parents location > 1 \<and> \<not> isl (split_global X (interior location))
        then Some asset_hub_reserve else None)"

definition RelativeReserveProvider_reserve :: "xcm_api \<Rightarrow> Asset \<Rightarrow> Location option" where
  "RelativeReserveProvider_reserve X asset = (
     let location = asset_id asset
     in if parents location = 0 \<and>
          \<not> (case first_interior X location of Some (Parachain _) \<Rightarrow> True | _ \<Rightarrow> False)
        then Some Location_here else Some (chain_location X location))"

definition AbsoluteAndRelativeReserve_reserve ::
  "xcm_api \<Rightarrow> Location \<Rightarrow> Asset \<Rightarrow> Location option" where
  "AbsoluteAndRelativeReserve_reserve X absolute asset =
     map_option (\<lambda>relative_reserve.
         if relative_reserve = absolute then Location_here else relative_reserve)
       (RelativeReserveProvider_reserve X asset)"

definition ReserveProviders_reserve :: "xcm_api \<Rightarrow> u32 \<Rightarrow> Asset \<Rightarrow> Location option" where
  "ReserveProviders_reserve X parachain_id asset =
     or_else
       (or_else (DOTReserveProvider_reserve asset) (BridgedAssetReserveProvider_reserve X asset))
       (AbsoluteAndRelativeReserve_reserve X (SelfLocationAbsolute parachain_id) asset)"

section \<open>The reserve filter\<close>

definition IsBridgedConcreteAssetFrom_contains :: "Location \<Rightarrow> Asset \<Rightarrow> Location \<Rightarrow> bool" where
  "IsBridgedConcreteAssetFrom_contains origin_loc asset origin \<longleftrightarrow>
     origin_loc = origin \<and>
     parents (asset_id asset) = 2 \<and>
     (case fungible asset of Fungible _ \<Rightarrow> True | NonFungible _ \<Rightarrow> False)"

text \<open>The library filters \<open>Case<T>\<close> and \<open>MultiNativeAsset<R>\<close>.\<close>

record filter_api =
  case_contains :: "asset_filter \<times> Location \<Rightarrow> Asset \<Rightarrow> Location \<Rightarrow> bool"
  multi_native_contains :: "(Asset \<Rightarrow> Location option) \<Rightarrow> Asset \<Rightarrow> Location \<Rightarrow> bool"

text \<open>A tuple of filters accepts what one of its members accepts.\<close>

definition Reserves_contains ::
  "filter_api \<Rightarrow> xcm_api \<Rightarrow> u32 \<Rightarrow> Asset \<Rightarrow> Location \<Rightarrow> bool" where
  "Reserves_contains L X parachain_id asset origin \<longleftrightarrow>
     IsBridgedConcreteAssetFrom_contains AssetHubLocation asset origin \<or>
     case_contains L RelayChainNativeAssetFromAssetHub asset origin \<or>
     multi_native_contains L
       (AbsoluteAndRelativeReserve_reserve X (SelfLocationAbsolute parachain_id)) asset origin"

definition is_fungible :: "Asset \<Rightarrow> bool" where
  "is_fungible asset \<longleftrightarrow> (case fungible asset of Fungible _ \<Rightarrow> True | NonFungible _ \<Rightarrow> False)"

locale reserve_filters =
  fixes L :: filter_api
  assumes case_iff: "case_contains L (WildAllOfFungible l, o0) asset origin \<longleftrightarrow>
      asset_id asset = l \<and> is_fungible asset \<and> origin = o0"
    and native_iff: "multi_native_contains L reserve asset origin \<longleftrightarrow> reserve asset = Some origin"

definition list_filter_api :: filter_api where
  "list_filter_api = \<lparr>
     case_contains = (\<lambda>c asset origin. case c of (WildAllOfFungible l, o0) \<Rightarrow>
       asset_id asset = l \<and> is_fungible asset \<and> origin = o0),
     multi_native_contains = (\<lambda>reserve asset origin. reserve asset = Some origin)\<rparr>"

interpretation lf: reserve_filters list_filter_api
  by unfold_locales (simp_all add: list_filter_api_def)

section \<open>Facts\<close>

lemma IsBridged_iff:
  "IsBridgedConcreteAssetFrom_contains l asset origin \<longleftrightarrow>
     origin = l \<and> parents (asset_id asset) = 2 \<and> is_fungible asset"
  by (auto simp: IsBridgedConcreteAssetFrom_contains_def is_fungible_def)

text \<open>An asset of another consensus system: more than one parent and a global first junction.\<close>

definition bridged :: "Location \<Rightarrow> bool" where
  "bridged l \<longleftrightarrow> parents l > 1 \<and> (\<exists>n rest. interior l = GlobalConsensus n # rest)"

context xcm_laws
begin

lemma bridged_reserve:
  "BridgedAssetReserveProvider_reserve X asset =
     (if bridged (asset_id asset) then Some AssetHubLocation else None)"
  by (simp add: BridgedAssetReserveProvider_reserve_def bridged_def split_global_ok Let_def)

lemma own_reserve:
  "AbsoluteAndRelativeReserve_reserve X absolute asset = Some (
     let l = asset_id asset; c = chain_location X l in
     if parents l = 0 \<and> (\<forall>n rest. interior l \<noteq> Parachain n # rest) \<or> c = absolute
     then Location_here else c)"
  by (auto simp: AbsoluteAndRelativeReserve_reserve_def RelativeReserveProvider_reserve_def
      first_interior_eq Let_def split: list.splits junction.splits)

lemma reserve_providers_eq:
  "ReserveProviders_reserve X pid asset =
     (if asset_id asset = loc 1 [] \<or> bridged (asset_id asset) then Some AssetHubLocation
      else AbsoluteAndRelativeReserve_reserve X (SelfLocationAbsolute pid) asset)"
  by (simp add: ReserveProviders_reserve_def DOTReserveProvider_reserve_def bridged_reserve)

lemma chain_of_child:
  "\<forall>j \<in> set rest. \<not> names_chain j \<Longrightarrow>
   chain_location X (loc p (Parachain n # rest)) = loc p [Parachain n]"
  using chain_location_unique [of "loc p (Parachain n # rest)" "[Parachain n]" rest] by simp

lemma chain_is_child_iff:
  "chain_location X l = loc p [Parachain n] \<longleftrightarrow>
     (\<exists>rest. l = loc p (Parachain n # rest) \<and> (\<forall>j \<in> set rest. \<not> names_chain j))"
proof
  assume eq: "chain_location X l = loc p [Parachain n]"
  obtain rest where "interior l = interior (chain_location X l) @ rest"
    and rest: "\<forall>j \<in> set rest. \<not> names_chain j"
    using chain_prefix by blast
  then have "interior l = Parachain n # rest" and "parents l = p"
    using eq chain_parents [of l] by simp_all
  then have "l = loc p (Parachain n # rest)"
    by (cases l) simp
  with rest show "\<exists>rest. l = loc p (Parachain n # rest) \<and> (\<forall>j \<in> set rest. \<not> names_chain j)"
    by blast
qed (auto simp: chain_of_child)

lemma chain_of_relay: "chain_location X (loc p []) = loc p []"
  using chain_location_unique [of "loc p []" "[]" "[]"] by simp

end

lemma Reserves_iff:
  assumes "reserve_filters L"
  shows "Reserves_contains L X pid asset origin \<longleftrightarrow>
    origin = AssetHubLocation \<and> is_fungible asset \<and>
      (parents (asset_id asset) = 2 \<or> asset_id asset = loc 1 []) \<or>
    AbsoluteAndRelativeReserve_reserve X (SelfLocationAbsolute pid) asset = Some origin"
  by (auto simp: Reserves_contains_def IsBridged_iff RelayChainNativeAssetFromAssetHub_def
      RelayLocationFilter_def RelayLocation_def reserve_filters.case_iff [OF assms]
      reserve_filters.native_iff [OF assms])

section \<open>Properties\<close>

text \<open>
  C33: every asset has a reserve, and it is a chain. \<open>ReserveProviders\<close> never gives up, and
  what it names is this chain, the relay chain or a location that ends in a parachain or a
  consensus system, never an account or a pallet inside one. The relay chain's token and the
  assets of other consensus systems are held on Asset Hub.
\<close>

theorem reserve_is_a_chain:
  assumes "xcm_laws X"
  shows "\<exists>r. ReserveProviders_reserve X pid asset = Some r \<and>
    (interior r = [] \<or> names_chain (last (interior r))) \<and>
    (asset_id asset = loc 1 [] \<or> bridged (asset_id asset) \<longrightarrow> r = AssetHubLocation)"
  using xcm_laws.chain_ends [OF assms, of "asset_id asset"]
  by (auto simp: xcm_laws.reserve_providers_eq [OF assms] xcm_laws.own_reserve [OF assms]
      Let_def AssetHubLocation_def)

theorem reserve_is_a_chain_witness:
  "ReserveProviders_reserve list_xcm_api 2000
     \<lparr>asset_id = loc 2 [GlobalConsensus 1, AccountKey20 None []], fungible = Fungible 5\<rparr> =
   Some AssetHubLocation"
proof -
  let ?a = "\<lparr>asset_id = loc 2 [GlobalConsensus 1, AccountKey20 None []], fungible = Fungible 5\<rparr>"
  have "bridged (asset_id ?a)"
    by (simp add: bridged_def)
  then show ?thesis
    using reserve_is_a_chain [OF xl.xcm_laws_axioms, of 2000 ?a] by blast
qed

text \<open>
  This chain is the reserve of its own assets in both of their forms, the relative one
  (no parents, no parachain first) and the absolute one (one parent, this parachain, then
  junctions inside it).
\<close>

theorem own_assets_reserved_here:
  assumes "xcm_laws X"
    and "(\<exists>js. asset_id asset = loc 0 js \<and> (\<forall>n rest. js \<noteq> Parachain n # rest)) \<or>
      (\<exists>js. asset_id asset = loc 1 (Parachain pid # js) \<and> (\<forall>j \<in> set js. \<not> names_chain j))"
  shows "ReserveProviders_reserve X pid asset = Some Location_here"
  using assms(2)
proof (elim disjE exE conjE)
  fix js
  assume "asset_id asset = loc 1 (Parachain pid # js)" and "\<forall>j \<in> set js. \<not> names_chain j"
  then show ?thesis
    using xcm_laws.chain_of_child [OF assms(1), of js 1 pid]
    by (simp add: xcm_laws.reserve_providers_eq [OF assms(1)] xcm_laws.own_reserve [OF assms(1)]
        bridged_def SelfLocationAbsolute_def Let_def)
qed (simp add: xcm_laws.reserve_providers_eq [OF assms(1)] xcm_laws.own_reserve [OF assms(1)]
    bridged_def Let_def)

theorem own_assets_reserved_here_witness:
  "ReserveProviders_reserve list_xcm_api 2000
     \<lparr>asset_id = loc 1 [Parachain 2000, PalletInstance 10], fungible = Fungible 5\<rparr> =
   Some Location_here"
  by (rule own_assets_reserved_here [OF xl.xcm_laws_axioms]) simp

text \<open>
  C11: whom the chain trusts as a reserve. A sibling parachain other than Asset Hub is accepted
  as the reserve of exactly the assets located under it, and this chain's own parachain
  location is accepted for none.
\<close>

theorem sibling_trusted_for_own_assets:
  assumes "xcm_laws X" and "reserve_filters L" and "n \<noteq> 1000"
  shows "Reserves_contains L X pid asset (loc 1 [Parachain n]) \<longleftrightarrow>
    n \<noteq> pid \<and>
    (\<exists>rest. asset_id asset = loc 1 (Parachain n # rest) \<and> (\<forall>j \<in> set rest. \<not> names_chain j))"
proof -
  have "loc 1 [Parachain n] \<noteq> AssetHubLocation"
    using assms(3) by (simp add: AssetHubLocation_def)
  moreover have "AbsoluteAndRelativeReserve_reserve X (SelfLocationAbsolute pid) asset =
      Some (loc 1 [Parachain n]) \<longleftrightarrow>
      n \<noteq> pid \<and> chain_location X (asset_id asset) = loc 1 [Parachain n]"
    using xcm_laws.chain_parents [OF assms(1), of "asset_id asset"]
    by (auto simp: xcm_laws.own_reserve [OF assms(1)] Let_def SelfLocationAbsolute_def)
  ultimately show ?thesis
    by (simp add: Reserves_iff [OF assms(2)] xcm_laws.chain_is_child_iff [OF assms(1)])
qed

theorem sibling_trusted_for_own_assets_witness:
  "\<not> Reserves_contains list_filter_api list_xcm_api 2000
     \<lparr>asset_id = loc 1 [Parachain 3000], fungible = Fungible 5\<rparr> (loc 1 [Parachain 2001])"
  by (subst sibling_trusted_for_own_assets [OF xl.xcm_laws_axioms lf.reserve_filters_axioms])
    simp_all

text \<open>
  C7: where outgoing and incoming transfers agree. The reserve that \<open>ReserveProviders\<close> picks
  for an asset is accepted by \<open>Reserves\<close> for it, except for a relay-chain asset that is not
  fungible, and for a bridged asset that is not fungible or has more than two parents.
\<close>

theorem chosen_reserve_trusted_iff:
  assumes "xcm_laws X" and "reserve_filters L"
    and "ReserveProviders_reserve X pid asset = Some r"
  shows "Reserves_contains L X pid asset r \<longleftrightarrow>
    (asset_id asset = loc 1 [] \<longrightarrow> is_fungible asset) \<and>
    (bridged (asset_id asset) \<longrightarrow> is_fungible asset \<and> parents (asset_id asset) = 2)"
proof (cases "asset_id asset = loc 1 [] \<or> bridged (asset_id asset)")
  case True
  then have "AbsoluteAndRelativeReserve_reserve X (SelfLocationAbsolute pid) asset \<noteq>
      Some AssetHubLocation"
    using xcm_laws.chain_parents [OF assms(1), of "asset_id asset"]
      xcm_laws.chain_of_relay [OF assms(1)]
    by (auto simp: xcm_laws.own_reserve [OF assms(1)] Let_def AssetHubLocation_def bridged_def)
  moreover have "r = AssetHubLocation"
    using True assms(3) by (auto simp: xcm_laws.reserve_providers_eq [OF assms(1)])
  ultimately show ?thesis
    using True by (auto simp: Reserves_iff [OF assms(2)] bridged_def)
next
  case False
  then show ?thesis
    using assms(3)
    by (auto simp: Reserves_iff [OF assms(2)] xcm_laws.reserve_providers_eq [OF assms(1)])
qed

theorem chosen_reserve_trusted_iff_witness:
  "ReserveProviders_reserve list_xcm_api 2000
     \<lparr>asset_id = loc 3 [GlobalConsensus 1], fungible = Fungible 5\<rparr> = Some AssetHubLocation \<and>
   \<not> Reserves_contains list_filter_api list_xcm_api 2000
     \<lparr>asset_id = loc 3 [GlobalConsensus 1], fungible = Fungible 5\<rparr> AssetHubLocation"
proof -
  let ?a = "\<lparr>asset_id = loc 3 [GlobalConsensus 1], fungible = Fungible 5\<rparr>"
  have "ReserveProviders_reserve list_xcm_api 2000 ?a = Some AssetHubLocation"
    by (simp add: xl.reserve_providers_eq bridged_def)
  moreover have "bridged (asset_id ?a) \<and> parents (asset_id ?a) \<noteq> 2"
    by (simp add: bridged_def)
  ultimately show ?thesis
    using chosen_reserve_trusted_iff [OF xl.xcm_laws_axioms lf.reserve_filters_axioms] by blast
qed

end
