(* ===== verification/Genesis.thy ===== *)
theory Genesis
  imports Evm_Precompiles Node_Contracts Xcm_Reserves
begin

text \<open>
  The genesis states: \<open>genesis_config_presets.rs\<close> of the two runtimes and the chain
  specifications of the two nodes (\<open>chain_spec.rs\<close>). The JSON that is built there is a record
  with one field per pallet entry, \<open>None\<close> where the entry is absent. Key derivation, the
  keyring and the XCM version belong to the SDK and are the fields of \<open>keys_api\<close>.
\<close>

section \<open>The genesis configuration\<close>

record GenesisAccount =
  ga_nonce :: nat
  ga_balance :: nat
  ga_storage :: "(bytes \<times> bytes) list"
  ga_code :: bytes

record 'k genesis_config =
  g_balances :: "(bytes \<times> nat) list"
  g_parachain_id :: u32
  g_collator_selection :: "(bytes list \<times> nat) option"
  g_session_keys :: "(bytes \<times> bytes \<times> 'k) list option"
  g_evm_chain_id :: "nat option"
  g_evm_accounts :: "(bytes \<rightharpoonup> GenesisAccount) option"
  g_safe_xcm_version :: u32
  g_sudo_key :: bytes

record ('e, 'k) keys_api =
  ecdsa_from_string :: "string \<Rightarrow> 'e option"
  aura_from_string :: "string \<Rightarrow> 'k option"
  sr25519_from_string :: "string \<Rightarrow> 'e option"
  into_account :: "'e \<Rightarrow> bytes"
  keyring_account :: "string \<Rightarrow> bytes"
  keyring_public :: "string \<Rightarrow> 'k"
  well_known :: "string list"
  XCM_VERSION :: u32

definition PARACHAIN_ID :: u32 where
  "PARACHAIN_ID = 1000"

text \<open>\<open>Pair::from_string("//seed", None).expect(..).public()\<close> for one kind of key.\<close>

definition get_from_seed :: "(string \<Rightarrow> 'p option) \<Rightarrow> string \<Rightarrow> rust_panic + 'p" where
  "get_from_seed from_string seed =
     (case from_string (''//'' @ seed) of
        Some p \<Rightarrow> Inr p
      | None \<Rightarrow> Inl (ExpectFailed ''static values are valid; qed''))"

definition get_account_id_from_seed ::
  "('e, 'k) keys_api \<Rightarrow> (string \<Rightarrow> 'e option) \<Rightarrow> string \<Rightarrow> rust_panic + bytes" where
  "get_account_id_from_seed K from_string seed =
     result_bind (get_from_seed from_string seed) (\<lambda>p. Inr (into_account K p))"

definition get_collator_keys_from_seed :: "('e, 'k) keys_api \<Rightarrow> string \<Rightarrow> rust_panic + 'k" where
  "get_collator_keys_from_seed K seed = get_from_seed (aura_from_string K) seed"

definition template_session_keys :: "'k \<Rightarrow> 'k" where
  "template_session_keys keys = keys"

section \<open>Presets of the runtimes\<close>

text \<open>
  \<open>testnet_genesis\<close> of the presets; \<open>ed\<close> is the runtime's existential deposit. The generic
  runtime has a variant without collators for \<open>tanssi\<close>, the EVM runtime does not.
\<close>

definition evm_preset_testnet_genesis ::
  "features \<Rightarrow> ('e, 'k) keys_api \<Rightarrow> (bytes \<times> 'k) list \<Rightarrow> bytes list \<Rightarrow> bytes \<Rightarrow> u32 \<Rightarrow>
   'k genesis_config" where
  "evm_preset_testnet_genesis F K invulnerables endowed_accounts root i = \<lparr>
     g_balances = map (\<lambda>k. (k, 2 ^ 60)) endowed_accounts,
     g_parachain_id = i,
     g_collator_selection =
       Some (map fst invulnerables, unat (evm_EXISTENTIAL_DEPOSIT F * 16)),
     g_session_keys =
       Some (map (\<lambda>(acc, aura). (acc, acc, template_session_keys aura)) invulnerables),
     g_evm_chain_id = None,
     g_evm_accounts = None,
     g_safe_xcm_version = XCM_VERSION K,
     g_sudo_key = root\<rparr>"

definition preset_testnet_genesis ::
  "features \<Rightarrow> ('e, 'k) keys_api \<Rightarrow> u128 \<Rightarrow> (bytes \<times> 'k) list \<Rightarrow> bytes list \<Rightarrow> bytes \<Rightarrow> u32 \<Rightarrow>
   'k genesis_config" where
  "preset_testnet_genesis F K ed invulnerables endowed_accounts root i = \<lparr>
     g_balances = map (\<lambda>k. (k, 2 ^ 60)) endowed_accounts,
     g_parachain_id = i,
     g_collator_selection =
       (if tanssi F then None else Some (map fst invulnerables, unat (ed * 16))),
     g_session_keys =
       (if tanssi F then None
        else Some (map (\<lambda>(acc, aura). (acc, acc, template_session_keys aura)) invulnerables)),
     g_evm_chain_id = None,
     g_evm_accounts = None,
     g_safe_xcm_version = XCM_VERSION K,
     g_sudo_key = root\<rparr>"

definition evm_dev_account :: "160 word \<Rightarrow> bytes" where
  "evm_dev_account w = to_be_bytes 20 w"

definition evm_endowed_accounts :: "bytes list" where
  "evm_endowed_accounts = map evm_dev_account
    [0xf24FF3a9CF04c71Dbc94D0b566f7A27B94566cac,
     0x3Cd0A705a2DC65e5b1E1205896BaA2be8A07c6e0,
     0x798d4Ba9baf0064Ec19eB4F0a1a45785ae9D6DFc,
     0x773539d4Ac0e786233D90A233654ccEE26a613D9,
     0xFf64d3F6efE2317EE2807d223a0Bdc4c0c49dfDB]"

definition evm_root :: bytes where
  "evm_root = evm_dev_account 0xf24FF3a9CF04c71Dbc94D0b566f7A27B94566cac"

definition evm_collators :: "('e, 'k) keys_api \<Rightarrow> rust_panic + (bytes \<times> 'k) list" where
  "evm_collators K =
     result_bind (get_account_id_from_seed K (ecdsa_from_string K) ''Alice'') (\<lambda>alice.
     result_bind (get_collator_keys_from_seed K ''Alice'') (\<lambda>alice_aura.
     result_bind (get_account_id_from_seed K (ecdsa_from_string K) ''Bob'') (\<lambda>bob.
     result_bind (get_collator_keys_from_seed K ''Bob'') (\<lambda>bob_aura.
     Inr [(alice, alice_aura), (bob, bob_aura)]))))"

definition evm_local_testnet_genesis ::
  "features \<Rightarrow> ('e, 'k) keys_api \<Rightarrow> rust_panic + 'k genesis_config" where
  "evm_local_testnet_genesis F K =
     result_bind (evm_collators K) (\<lambda>invulnerables.
       Inr (evm_preset_testnet_genesis F K invulnerables evm_endowed_accounts evm_root
              PARACHAIN_ID))"

definition evm_development_config_genesis ::
  "features \<Rightarrow> ('e, 'k) keys_api \<Rightarrow> rust_panic + 'k genesis_config" where
  "evm_development_config_genesis F K = evm_local_testnet_genesis F K"

definition generic_local_testnet_genesis ::
  "features \<Rightarrow> ('e, 'k) keys_api \<Rightarrow> rust_panic + 'k genesis_config" where
  "generic_local_testnet_genesis F K = Inr (
     preset_testnet_genesis F K generic_EXISTENTIAL_DEPOSIT
       [(keyring_account K ''Alice'', keyring_public K ''Alice''),
        (keyring_account K ''Bob'', keyring_public K ''Bob'')]
       (map (keyring_account K) (well_known K))
       (keyring_account K ''Alice'') PARACHAIN_ID)"

definition generic_development_config_genesis ::
  "features \<Rightarrow> ('e, 'k) keys_api \<Rightarrow> rust_panic + 'k genesis_config" where
  "generic_development_config_genesis F K = Inr (
     preset_testnet_genesis F K generic_EXISTENTIAL_DEPOSIT
       [(keyring_account K ''Alice'', keyring_public K ''Alice''),
        (keyring_account K ''Bob'', keyring_public K ''Bob'')]
       (map (keyring_account K) (well_known K))
       (keyring_account K ''Alice'') PARACHAIN_ID)"

text \<open>
  \<open>get_preset\<close> of either runtime, with the two names of the genesis-builder interface and the
  JSON printer as arguments.
\<close>

definition get_preset ::
  "string \<Rightarrow> string \<Rightarrow> ('g \<Rightarrow> bytes) \<Rightarrow> rust_panic + 'g \<Rightarrow> rust_panic + 'g \<Rightarrow> string \<Rightarrow>
   rust_panic + bytes option" where
  "get_preset LOCAL_TESTNET DEV to_string local_testnet development i =
     (if i = LOCAL_TESTNET then result_bind local_testnet (\<lambda>patch. Inr (Some (to_string patch)))
      else if i = DEV then result_bind development (\<lambda>patch. Inr (Some (to_string patch)))
      else Inr None)"

definition preset_names :: "string \<Rightarrow> string \<Rightarrow> string list" where
  "preset_names LOCAL_TESTNET DEV = [DEV, LOCAL_TESTNET]"

section \<open>Chain specifications of the nodes\<close>

text \<open>\<open>PUSH1 0 PUSH1 0 REVERT\<close>.\<close>

definition revert_code :: bytes where
  "revert_code = [0x60, 0x00, 0x60, 0x00, 0xFD]"

definition genesis_account :: "bytes \<Rightarrow> GenesisAccount" where
  "genesis_account code = \<lparr>ga_nonce = 0, ga_balance = 0, ga_storage = [], ga_code = code\<rparr>"

text \<open>
  The contracts, then the precompiles, collected into one map: a later entry replaces an
  earlier one at its address.
\<close>

definition evm_genesis_accounts ::
  "(u64 \<Rightarrow> bytes) \<Rightarrow> (bytes \<rightharpoonup> 'abi Contract) \<Rightarrow> (bytes \<rightharpoonup> GenesisAccount)" where
  "evm_genesis_accounts h contracts =
     (\<lambda>address. map_option (\<lambda>c. genesis_account (Contract_bytecode c)) (contracts address)) ++
     map_of (rev (map (\<lambda>addr. (addr, genesis_account revert_code)) (used_addresses h)))"

text \<open>An error of \<open>parse_contracts\<close> is logged, and no contract is installed.\<close>

definition evm_testnet_genesis ::
  "features \<Rightarrow> ('e, 'k) keys_api \<Rightarrow> (u64 \<Rightarrow> bytes) \<Rightarrow> ('f, 'io, 'js, 'abi) contracts_api \<Rightarrow>
   (bytes \<times> 'k) list \<Rightarrow> bytes list \<Rightarrow> bytes \<Rightarrow> u32 \<Rightarrow> ContractsPath \<Rightarrow>
   rust_panic + 'k genesis_config" where
  "evm_testnet_genesis F K h A invulnerables endowed_accounts root i contracts_path =
     result_bind (parse_contracts A contracts_path) (\<lambda>parsed.
       let contracts = (case parsed of Inl _ \<Rightarrow> Map.empty | Inr m \<Rightarrow> m);
           endowed =
             (if runtime_benchmarks F
              then endowed_accounts @
                [evm_dev_account 0x1000000000000000000000000000000000000001]
              else endowed_accounts)
       in Inr \<lparr>
         g_balances = map (\<lambda>k. (k, 2 ^ 60)) endowed,
         g_parachain_id = i,
         g_collator_selection =
           (if tanssi F then None else Some (map fst invulnerables, 1000000000 * 16)),
         g_session_keys =
           (if tanssi F then None
            else Some (map (\<lambda>(acc, aura). (acc, acc, template_session_keys aura)) invulnerables)),
         g_evm_chain_id = Some 9999,
         g_evm_accounts = Some (evm_genesis_accounts h contracts),
         g_safe_xcm_version = XCM_VERSION K,
         g_sudo_key = root\<rparr>)"

definition generic_testnet_genesis ::
  "features \<Rightarrow> ('e, 'k) keys_api \<Rightarrow> (bytes \<times> 'k) list \<Rightarrow> bytes list \<Rightarrow> bytes \<Rightarrow> u32 \<Rightarrow>
   'k genesis_config" where
  "generic_testnet_genesis F K invulnerables endowed_accounts root i = \<lparr>
     g_balances = map (\<lambda>k. (k, 2 ^ 60)) endowed_accounts,
     g_parachain_id = i,
     g_collator_selection =
       (if tanssi F then None
        else Some (map fst invulnerables, unat (generic_EXISTENTIAL_DEPOSIT * 16))),
     g_session_keys =
       (if tanssi F then None
        else Some (map (\<lambda>(acc, aura). (acc, acc, template_session_keys aura)) invulnerables)),
     g_evm_chain_id = None,
     g_evm_accounts = None,
     g_safe_xcm_version = XCM_VERSION K,
     g_sudo_key = root\<rparr>"

text \<open>The extension of the chain specification names the parachain too.\<close>

record Extensions =
  relay_chain :: string
  para_id :: u32

definition spec_extensions :: Extensions where
  "spec_extensions = \<lparr>relay_chain = ''paseo-local'', para_id = 1000\<rparr>"

text \<open>The genesis patch of \<open>development_config\<close> and \<open>local_testnet_config\<close>, which is the same.\<close>

definition evm_spec_genesis ::
  "features \<Rightarrow> ('e, 'k) keys_api \<Rightarrow> (u64 \<Rightarrow> bytes) \<Rightarrow> ('f, 'io, 'js, 'abi) contracts_api \<Rightarrow>
   ContractsPath \<Rightarrow> rust_panic + 'k genesis_config" where
  "evm_spec_genesis F K h A contracts_path =
     result_bind (if tanssi F then Inr [] else evm_collators K) (\<lambda>invulnerables.
       evm_testnet_genesis F K h A invulnerables evm_endowed_accounts evm_root 1000
         contracts_path)"

fun accounts_from_seeds :: "('e, 'k) keys_api \<Rightarrow> string list \<Rightarrow> rust_panic + bytes list" where
  "accounts_from_seeds K [] = Inr []"
| "accounts_from_seeds K (seed # seeds) =
     result_bind (get_account_id_from_seed K (sr25519_from_string K) seed) (\<lambda>a.
     result_bind (accounts_from_seeds K seeds) (\<lambda>as. Inr (a # as)))"

definition generic_collators :: "('e, 'k) keys_api \<Rightarrow> rust_panic + (bytes \<times> 'k) list" where
  "generic_collators K =
     result_bind (get_account_id_from_seed K (sr25519_from_string K) ''Alice'') (\<lambda>alice.
     result_bind (get_collator_keys_from_seed K ''Alice'') (\<lambda>alice_aura.
     result_bind (get_account_id_from_seed K (sr25519_from_string K) ''Bob'') (\<lambda>bob.
     result_bind (get_collator_keys_from_seed K ''Bob'') (\<lambda>bob_aura.
     Inr [(alice, alice_aura), (bob, bob_aura)]))))"

definition generic_spec_genesis ::
  "features \<Rightarrow> ('e, 'k) keys_api \<Rightarrow> rust_panic + 'k genesis_config" where
  "generic_spec_genesis F K =
     result_bind (if tanssi F then Inr [] else generic_collators K) (\<lambda>invulnerables.
     result_bind (accounts_from_seeds K
       [''Alice'', ''Bob'', ''Charlie'', ''Dave'', ''Eve'', ''Ferdie'', ''Alice//stash'',
        ''Bob//stash'', ''Charlie//stash'', ''Dave//stash'', ''Eve//stash'', ''Ferdie//stash''])
       (\<lambda>endowed_accounts.
     result_bind (get_account_id_from_seed K (sr25519_from_string K) ''Alice'') (\<lambda>root.
       Inr (generic_testnet_genesis F K invulnerables endowed_accounts root 1000))))"

section \<open>Consistency\<close>

text \<open>
  Every collator has its session keys under its own account, in the same order, and only the
  collators have; the accounts are endowed equally, and the root account is one of them.
\<close>

definition genesis_consistent :: "'k genesis_config \<Rightarrow> bool" where
  "genesis_consistent g \<longleftrightarrow>
     (case (g_collator_selection g, g_session_keys g) of
        (Some (invulnerables, _), Some keys) \<Rightarrow>
          map fst keys = invulnerables \<and> map (fst \<circ> snd) keys = invulnerables
      | (None, None) \<Rightarrow> True
      | _ \<Rightarrow> False) \<and>
     sum_list (map snd (g_balances g)) = length (g_balances g) * 2 ^ 60 \<and>
     g_sudo_key g \<in> fst ` set (g_balances g) \<and>
     g_parachain_id g = para_id spec_extensions"

lemma sum_list_const: "sum_list (map (snd \<circ> (\<lambda>k. (k, c :: nat))) xs) = length xs * c"
  by (induction xs) simp_all

lemma session_keys_of:
  "map fst (map (\<lambda>(acc, aura). (acc, acc, template_session_keys aura)) ks) = map fst ks"
  "map (fst \<circ> snd) (map (\<lambda>(acc, aura). (acc, acc, template_session_keys aura)) ks) = map fst ks"
  by (auto simp: comp_def split: prod.split)

lemma evm_root_endowed: "evm_root \<in> set evm_endowed_accounts"
  by (simp add: evm_root_def evm_endowed_accounts_def)

lemma generic_root_endowed:
  assumes "accounts_from_seeds K (seed # seeds) = Inr as"
    and "get_account_id_from_seed K (sr25519_from_string K) seed = Inr root"
  shows "root \<in> set as"
  using assms by (cases "accounts_from_seeds K seeds") auto

lemmas consistency_simps =
  genesis_consistent_def session_keys_of sum_list_const spec_extensions_def

lemma evm_spec_consistent:
  "evm_spec_genesis F K h A path = Inr g \<Longrightarrow> genesis_consistent g"
  by (auto simp: evm_spec_genesis_def evm_testnet_genesis_def result_bind_def Let_def
      consistency_simps image_image evm_root_endowed split: sum.splits if_splits)

lemma generic_spec_consistent:
  assumes "generic_spec_genesis F K = Inr g"
  shows "genesis_consistent g"
proof -
  from assms obtain ks endowed root where
    endowed: "accounts_from_seeds K
       [''Alice'', ''Bob'', ''Charlie'', ''Dave'', ''Eve'', ''Ferdie'', ''Alice//stash'',
        ''Bob//stash'', ''Charlie//stash'', ''Dave//stash'', ''Eve//stash'', ''Ferdie//stash''] =
        Inr endowed"
    and root: "get_account_id_from_seed K (sr25519_from_string K) ''Alice'' = Inr root"
    and g: "g = generic_testnet_genesis F K ks endowed root 1000"
    unfolding generic_spec_genesis_def result_bind_def by (auto split: sum.splits)
  have "root \<in> set endowed"
    by (rule generic_root_endowed [OF endowed root])
  then show ?thesis
    by (auto simp: g generic_testnet_genesis_def consistency_simps image_image)
qed

section \<open>Properties\<close>

text \<open>
  C38: the code at genesis. Every precompile address carries the reverting stub, whatever the
  contracts directory says about it; every other address carries the byte code of its
  contract, and no other account has code.
\<close>

theorem genesis_evm_code:
  "map_option ga_code (evm_genesis_accounts h contracts a) =
     (if is_precompile_answer (is_precompile h a 0) then Some revert_code
      else map_option Contract_bytecode (contracts a))"
proof -
  have "map_of (rev (map (\<lambda>addr. (addr, genesis_account revert_code)) (used_addresses h))) a =
      (if a \<in> set (used_addresses h) then Some (genesis_account revert_code) else None)"
    by (simp add: rev_map map_of_map_restrict restrict_map_def flip: map_of_map)
  then show ?thesis
    by (auto simp: evm_genesis_accounts_def map_add_def is_precompile_def genesis_account_def
        map_option_case split: option.split)
qed

text \<open>
  The genesis states of both nodes are consistent whenever they can be built: each collator
  has its session keys, the endowments are equal, the root account is endowed, and the
  parachain identifier is the one the chain specification announces.
\<close>

theorem spec_genesis_consistent:
  "(evm_spec_genesis F K h A path = Inr g \<longrightarrow> genesis_consistent g) \<and>
   (generic_spec_genesis F K = Inr g \<longrightarrow> genesis_consistent g)"
  using evm_spec_consistent generic_spec_consistent by blast

definition demo_keys :: "(string, string) keys_api" where
  "demo_keys = \<lparr>
     ecdsa_from_string = Some, aura_from_string = Some, sr25519_from_string = Some,
     into_account = (\<lambda>seed. [of_nat (length seed)]),
     keyring_account = (\<lambda>name. [of_nat (length name)]), keyring_public = (\<lambda>name. name),
     well_known = [''Alice'', ''Bob''], XCM_VERSION = 5\<rparr>"

theorem spec_genesis_consistent_witness:
  "\<exists>g. generic_spec_genesis default_features demo_keys = Inr g \<and> genesis_consistent g"
proof -
  have "\<exists>g. generic_spec_genesis default_features demo_keys = Inr g"
    by (simp add: generic_spec_genesis_def generic_collators_def get_account_id_from_seed_def
        get_collator_keys_from_seed_def get_from_seed_def demo_keys_def)
  then show ?thesis
    using spec_genesis_consistent by blast
qed

text \<open>
  The presets that a runtime lists are exactly those it builds, if their keys can be
  derived.
\<close>

theorem preset_names_complete:
  assumes "local = Inr l" and "development = Inr d"
  shows "(\<exists>patch. get_preset LOCAL DEV to_string local development i = Inr (Some patch)) \<longleftrightarrow>
    i \<in> set (preset_names LOCAL DEV)"
  using assms by (simp add: get_preset_def preset_names_def)

text \<open>
  The two genesis states of the EVM template disagree on the candidacy bond: the runtime's
  preset asks for nothing in the plain build, the node's chain specification for
  16,000,000,000.
\<close>

theorem evm_candidacy_bonds_differ:
  assumes "evm_local_testnet_genesis default_features K = Inr p"
    and "evm_spec_genesis default_features K h A path = Inr g"
  shows "map_option snd (g_collator_selection p) = Some 0 \<and>
    map_option snd (g_collator_selection g) = Some 16000000000"
  using assms
  by (auto simp: evm_local_testnet_genesis_def evm_preset_testnet_genesis_def evm_spec_genesis_def
      evm_testnet_genesis_def evm_EXISTENTIAL_DEPOSIT_def result_bind_def Let_def
      split: sum.splits)

text \<open>
  The built-in genesis states give this chain the parachain identifier of Asset Hub: its
  own absolute location is Asset Hub's, so that the reserve it picks for the relay chain's
  token is itself.
\<close>

theorem preset_id_is_asset_hub:
  assumes "xcm_laws X"
  shows "SelfLocationAbsolute PARACHAIN_ID = AssetHubLocation \<and>
    SelfLocationAbsolute (para_id spec_extensions) = AssetHubLocation \<and>
    ReserveProviders_reserve X PARACHAIN_ID \<lparr>asset_id = RelayLocation, fungible = f\<rparr> =
      Some (SelfLocationAbsolute PARACHAIN_ID)"
  by (simp add: SelfLocationAbsolute_def PARACHAIN_ID_def AssetHubLocation_def
      spec_extensions_def RelayLocation_def xcm_laws.reserve_providers_eq [OF assms])

theorem preset_id_is_asset_hub_witness:
  "ReserveProviders_reserve list_xcm_api PARACHAIN_ID
     \<lparr>asset_id = RelayLocation, fungible = Fungible 1\<rparr> = Some (SelfLocationAbsolute PARACHAIN_ID)"
  using preset_id_is_asset_hub [OF xl.xcm_laws_axioms] by blast

end
