(* ===== verification/Contract_Abi.thy ===== *)
theory Contract_Abi
  imports Genesis
begin

text \<open>
  \<open>node/src/contracts/abi.rs\<close>: the items of a contract's ABI, which are read together with the
  contract and not used afterwards. Reading is done by code that \<open>serde\<close> derives from the types
  and their attributes; it is the parameter \<open>parse_contract\<close> of \<open>contracts_api\<close>, here over JSON
  values, with the laws of the locale \<open>abi_laws\<close>. Since a contract is read as a whole, the
  declared kinds of items decide which contracts reach the genesis state.
\<close>

section \<open>The items of an ABI\<close>

datatype StateMutability = Pure | View | Nonpayable | Payable

datatype Input =
  Input (input_name: string) (input_type: string) (input_components: "Input list option")
    (input_indexed: "bool option")

record Error =
  error_name :: string
  error_inputs :: "Input list"

record Receive =
  receive_state_mutability :: StateMutability

record Event =
  event_name :: string
  event_inputs :: "Input list"
  event_anonymous :: bool

record Function =
  function_name :: string
  function_inputs :: "Input list"
  function_outputs :: "Input list"
  function_state_mutability :: StateMutability

datatype AbiItem =
    AbiError Error
  | AbiFunction Function
  | AbiConstructor
  | AbiEvent Event
  | AbiReceive Receive
  | AbiDefault Function

text \<open>
  The names that the attributes give to the variants: the tag \<open>"type"\<close> of an item and the value of
  \<open>"stateMutability"\<close>, both with \<open>rename_all = "lowercase"\<close>.
\<close>

fun AbiItem_tag :: "AbiItem \<Rightarrow> string" where
  "AbiItem_tag (AbiError _) = ''error''"
| "AbiItem_tag (AbiFunction _) = ''function''"
| "AbiItem_tag AbiConstructor = ''constructor''"
| "AbiItem_tag (AbiEvent _) = ''event''"
| "AbiItem_tag (AbiReceive _) = ''receive''"
| "AbiItem_tag (AbiDefault _) = ''default''"

fun StateMutability_name :: "StateMutability \<Rightarrow> string" where
  "StateMutability_name Pure = ''pure''"
| "StateMutability_name View = ''view''"
| "StateMutability_name Nonpayable = ''nonpayable''"
| "StateMutability_name Payable = ''payable''"

definition AbiItem_tags :: "string list" where
  "AbiItem_tags = [''error'', ''function'', ''constructor'', ''event'', ''receive'', ''default'']"

lemma AbiItem_tag_known: "AbiItem_tag i \<in> set AbiItem_tags"
  by (cases i) (simp_all add: AbiItem_tags_def)

lemma StateMutability_name_inject:
  "StateMutability_name a = StateMutability_name b \<Longrightarrow> a = b"
  by (cases a; cases b) simp_all

section \<open>Reading an ABI\<close>

datatype json =
    JNull
  | JBool bool
  | JNumber int
  | JString string
  | JArray "json list"
  | JObject "(string \<times> json) list"

fun Contract_abi :: "'abi Contract \<Rightarrow> 'abi list" where
  "Contract_abi (Hardhat c) = hardhat_abi c"
| "Contract_abi (Forge c) = forge_abi c"

text \<open>
  What \<open>serde\<close> documents: an internally tagged item is read as the variant its tag names, and the
  \<open>abi\<close> of a contract of either form is read item by item.
\<close>

locale abi_laws =
  fixes A :: "(json, 'io, 'js, AbiItem) contracts_api"
    and item :: "json \<Rightarrow> 'js + AbiItem"
  assumes tagged:
      "item (JObject fs) = Inr i \<Longrightarrow> map_of fs ''type'' = Some (JString t) \<Longrightarrow> t = AbiItem_tag i"
    and items:
      "parse_contract A code (JObject fs) = Inr (Inr c) \<Longrightarrow> map_of fs ''abi'' = Some (JArray js) \<Longrightarrow>
       list_all2 (\<lambda>j i. item j = Inr i) js (Contract_abi c)"
begin

lemma unknown_tag_unread:
  assumes "map_of fs ''type'' = Some (JString t)" and "t \<notin> set AbiItem_tags"
  shows "item (JObject fs) \<noteq> Inr i"
  using tagged [OF _ assms(1)] assms(2) AbiItem_tag_known by metis

lemma unknown_kind_unread:
  assumes "map_of fs ''abi'' = Some (JArray js)" and "JObject es \<in> set js"
    and "map_of es ''type'' = Some (JString t)" and "t \<notin> set AbiItem_tags"
  shows "read_contract A (JObject fs) \<noteq> Inr (Inr c)"
proof
  assume "read_contract A (JObject fs) = Inr (Inr c)"
  then have "list_all2 (\<lambda>j i. item j = Inr i) js (Contract_abi c)"
    unfolding read_contract_def by (rule items [OF _ assms(1)])
  then obtain i where "item (JObject es) = Inr i"
    using assms(2) by (auto simp: list_all2_conv_all_nth in_set_conv_nth)
  then show False
    using unknown_tag_unread [OF assms(3,4)] by blast
qed

end

text \<open>A file that is listed and holds a contract whose ABI has an item of the kind \<open>t\<close>.\<close>

fun json_fields :: "json \<Rightarrow> (string \<times> json) list" where
  "json_fields (JObject fs) = fs"
| "json_fields _ = []"

fun json_items :: "json option \<Rightarrow> json list" where
  "json_items (Some (JArray js)) = js"
| "json_items _ = []"

definition has_kind :: "string \<Rightarrow> json \<Rightarrow> bool" where
  "has_kind t j \<longleftrightarrow>
     list_ex (\<lambda>e. map_of (json_fields e) ''type'' = Some (JString t))
       (json_items (map_of (json_fields j) ''abi''))"

lemma json_fieldsE:
  assumes "map_of (json_fields j) k = Some v"
  obtains fs where "j = JObject fs" and "map_of fs k = Some v"
  using assms by (cases j) auto

lemma json_itemsE:
  assumes "e \<in> set (json_items v)"
  obtains js where "v = Some (JArray js)" and "e \<in> set js"
  using assms by (cases v rule: json_items.cases) auto

lemma has_kindE:
  assumes "has_kind t j"
  obtains fs js es where "j = JObject fs" and "map_of fs ''abi'' = Some (JArray js)"
    and "JObject es \<in> set js" and "map_of es ''type'' = Some (JString t)"
  using assms by (auto simp: has_kind_def list_ex_iff elim!: json_itemsE json_fieldsE)

section \<open>A reader of ABIs\<close>

text \<open>Items with a tag and a name, and contracts in the form of Hardhat without byte code.\<close>

definition plain_mutability :: "json option \<Rightarrow> StateMutability option" where
  "plain_mutability v =
     (case v of
        Some (JString s) \<Rightarrow> find (\<lambda>m. StateMutability_name m = s) [Pure, View, Nonpayable, Payable]
      | _ \<Rightarrow> None)"

definition plain_name :: "json option \<Rightarrow> string option" where
  "plain_name v = (case v of Some (JString s) \<Rightarrow> Some s | _ \<Rightarrow> None)"

definition plain_function :: "(string \<times> json) list \<Rightarrow> Function option" where
  "plain_function fs =
     Option.bind (plain_name (map_of fs ''name'')) (\<lambda>n.
     Option.bind (plain_mutability (map_of fs ''stateMutability'')) (\<lambda>m.
     Some \<lparr>function_name = n, function_inputs = [], function_outputs = [],
       function_state_mutability = m\<rparr>))"

definition plain_item :: "json \<Rightarrow> unit + AbiItem" where
  "plain_item j =
     (case j of
        JObject fs \<Rightarrow>
          (case (case plain_name (map_of fs ''type'') of
             Some t \<Rightarrow>
               if t = ''constructor'' then Some AbiConstructor
               else if t = ''function'' then map_option AbiFunction (plain_function fs)
               else if t = ''default'' then map_option AbiDefault (plain_function fs)
               else if t = ''receive'' then map_option
                 (\<lambda>m. AbiReceive \<lparr>receive_state_mutability = m\<rparr>)
                 (plain_mutability (map_of fs ''stateMutability''))
               else if t = ''error'' then map_option
                 (\<lambda>n. AbiError \<lparr>error_name = n, error_inputs = []\<rparr>) (plain_name (map_of fs ''name''))
               else if t = ''event'' then map_option
                 (\<lambda>n. AbiEvent \<lparr>event_name = n, event_inputs = [], event_anonymous = False\<rparr>)
                 (plain_name (map_of fs ''name''))
               else None
           | None \<Rightarrow> None) of Some i \<Rightarrow> Inr i | None \<Rightarrow> Inl ())
      | _ \<Rightarrow> Inl ())"

fun plain_items :: "json list \<Rightarrow> unit + AbiItem list" where
  "plain_items [] = Inr []"
| "plain_items (j # js) =
     result_bind (plain_item j) (\<lambda>i. result_bind (plain_items js) (\<lambda>is. Inr (i # is)))"

lemma plain_items_all2: "plain_items js = Inr is \<Longrightarrow> list_all2 (\<lambda>j i. plain_item j = Inr i) js is"
  by (induction js arbitrary: "is") (auto simp: result_bind_def split: sum.splits)

definition plain_contract :: "json \<Rightarrow> unit + AbiItem Contract" where
  "plain_contract j =
     (case j of
        JObject fs \<Rightarrow> (
          case map_of fs ''abi'' of
            Some (JArray js) \<Rightarrow> result_bind (plain_items js) (\<lambda>is.
              Inr (Hardhat \<lparr>hardhat_abi = is, hardhat_bytecode = []\<rparr>))
          | _ \<Rightarrow> Inl ())
      | _ \<Rightarrow> Inl ())"

text \<open>A directory that lists one contract, \<open>Proxy.json\<close>, for the address \<open>[7]\<close>.\<close>

definition proxy_directory :: "json \<Rightarrow> (json, unit, unit, AbiItem) contracts_api" where
  "proxy_directory proxy = \<lparr>
     open_file = (\<lambda>p. if p = ''d/contracts.json'' then Inr JNull
       else if p = ''d/Proxy.json'' then Inr proxy else Inl ()),
     parse_metadata = (\<lambda>_. Inr [\<lparr>metadata_address = [7], metadata_filename = ''Proxy.json''\<rparr>]),
     parse_contract = (\<lambda>code j. Inr (plain_contract j)),
     hex_decode = (\<lambda>_. Inl ()),
     from_str = (\<lambda>_. Some [1]),
     ENTRYPOINT_BYTECODE = [96]\<rparr>"

interpretation plain_abi: abi_laws "proxy_directory proxy" plain_item
proof unfold_locales
  fix fs i t
  assume "plain_item (JObject fs) = Inr i" and "map_of fs ''type'' = Some (JString t)"
  then show "t = AbiItem_tag i"
    by (auto simp: plain_item_def plain_name_def split: option.splits if_splits)
next
  fix code fs c js
  assume "parse_contract (proxy_directory proxy) code (JObject fs) = Inr (Inr c)"
    and "map_of fs ''abi'' = Some (JArray js)"
  then show "list_all2 (\<lambda>j i. plain_item j = Inr i) js (Contract_abi c)"
    by (auto simp: proxy_directory_def plain_contract_def result_bind_def
        dest: plain_items_all2 split: sum.splits)
qed

lemma proxy_directory_never_panics: "panics (proxy_directory proxy) path m = None"
  by (simp add: panics_def read_contract_def proxy_directory_def split: sum.split)

section \<open>Properties\<close>

text \<open>
  C28: a contract whose ABI has an item of a kind that is not declared never reaches the
  genesis state. The kinds are \<open>error\<close>, \<open>function\<close>, \<open>constructor\<close>, \<open>event\<close>, \<open>receive\<close> and
  \<open>default\<close>. When every file that is listed for an address has an item of another kind, the
  directory is read without an error, unless the byte code of a listed file makes the node panic, and
  the contract is left out: unless the address is a precompile, it has no account at genesis. One such kind is \<open>fallback\<close>, the kind that the
  Solidity compiler writes for the fallback function of, for example, every proxy contract.
\<close>

theorem unknown_kind_left_out:
  assumes "abi_laws A item" and "t \<notin> set AbiItem_tags"
    and "open_file A (path_join path ''contracts.json'') = Inr f"
    and "parse_metadata A f = Inr metadatas"
    and "\<forall>m \<in> set metadatas. metadata_address m = a \<longrightarrow>
      (\<exists>j. open_file A (path_join path (metadata_filename m)) = Inr j \<and> has_kind t j)"
  shows "''fallback'' \<notin> set AbiItem_tags \<and>
    (if \<exists>m \<in> set metadatas. panics A path m \<noteq> None
     then \<exists>p. parse_contracts A (ContractsSome path) = Inl p
     else \<exists>contracts. parse_contracts A (ContractsSome path) = Inr (Inr contracts) \<and>
       contracts a = None \<and>
       (a \<notin> set (used_addresses h) \<longrightarrow> evm_genesis_accounts h contracts a = None))"
proof -
  have "loads A path m = None" if "m \<in> set metadatas" and "metadata_address m = a" for m
  proof -
    obtain j where "open_file A (path_join path (metadata_filename m)) = Inr j" and "has_kind t j"
      using assms(5) \<open>m \<in> set metadatas\<close> \<open>metadata_address m = a\<close> by blast
    then show ?thesis
      using abi_laws.unknown_kind_unread [OF assms(1) _ _ _ assms(2)]
      by (auto simp: loads_def elim!: has_kindE split: sum.splits)
  qed
  moreover have "fst p = metadata_address m" if "loads A path m = Some p" for m p
    using that by (auto simp: loads_def split: sum.splits)
  ultimately have "a \<notin> fst ` set (List.map_filter (loads A path) metadatas)"
    by (force simp: List.map_filter_def)
  then have none: "map_of (rev (List.map_filter (loads A path) metadatas)) a = None"
    by (simp add: map_of_eq_None_iff)
  have "parse_contracts A (ContractsSome path) =
      (case List.map_filter (panics A path) metadatas of
         p # _ \<Rightarrow> Inl p
       | [] \<Rightarrow> Inr (Inr (map_of (rev (List.map_filter (loads A path) metadatas)))))"
    using assms(3,4) by (simp add: parse_contracts_def load_contracts_eq split: list.split)
  moreover have "List.map_filter (panics A path) metadatas = [] \<longleftrightarrow>
      \<not> (\<exists>m \<in> set metadatas. panics A path m \<noteq> None)"
    by (auto simp: List.map_filter_def filter_empty_conv)
  moreover have "evm_genesis_accounts h contracts a = None"
    if "contracts a = None" and "a \<notin> set (used_addresses h)" for contracts :: "bytes \<rightharpoonup> AbiItem Contract"
    using that by (auto simp: evm_genesis_accounts_def map_add_None map_of_eq_None_iff image_image)
  ultimately show ?thesis
    using none by (auto simp: AbiItem_tags_def split: list.splits)
qed

theorem unknown_kind_left_out_witness:
  "(let proxy = JObject [(''abi'', JArray [JObject [(''type'', JString ''constructor'')],
       JObject [(''type'', JString ''fallback''), (''stateMutability'', JString ''payable'')]])]
    in \<exists>contracts. parse_contracts (proxy_directory proxy) (ContractsSome ''d'') = Inr (Inr contracts) \<and>
         contracts [7] = None)"
proof -
  let ?p = "JObject [(''abi'', JArray [JObject [(''type'', JString ''constructor'')],
    JObject [(''type'', JString ''fallback''), (''stateMutability'', JString ''payable'')]])]"
  have "\<forall>m \<in> set [\<lparr>metadata_address = [7], metadata_filename = ''Proxy.json''\<rparr>].
      metadata_address m = [7] \<longrightarrow>
      (\<exists>j. open_file (proxy_directory ?p) (path_join ''d'' (metadata_filename m)) = Inr j \<and>
        has_kind ''fallback'' j)"
    by (simp add: proxy_directory_def path_join_def has_kind_def)
  from unknown_kind_left_out [OF plain_abi.abi_laws_axioms _ _ _ this, of JNull "\<lambda>_. [0]"]
  show ?thesis
    by (auto simp: proxy_directory_never_panics)
      (auto simp: proxy_directory_def path_join_def AbiItem_tags_def)
qed

end
