(* ===== verification/Governance_Origins.thy ===== *)
theory Governance_Origins
  imports Runtime_Constants
begin

text \<open>
  \<open>configs/governance/origins.rs\<close> (the same text in both templates): the custom origins of
  the governance pallet and the origin filters the macros \<open>decl_unit_ensures\<close> and
  \<open>decl_ensure\<close> declare for them. The origin type \<open>O\<close> of the filters is generic with
  \<open>Into<Result<Origin, O>> + From<Origin>\<close>; these two conversions are generated by the SDK
  and are the parameter \<open>origin_conv\<close>.
\<close>

section \<open>The origins\<close>

datatype Origin =
    Treasurer
  | ReferendumCanceller
  | ReferendumKiller
  | SmallTipper
  | BigTipper
  | SmallSpender
  | MediumSpender
  | BigSpender
  | WhitelistedCaller

instantiation Origin :: finite
begin

instance
proof
  have "(UNIV :: Origin set) = {Treasurer, ReferendumCanceller, ReferendumKiller, SmallTipper,
      BigTipper, SmallSpender, MediumSpender, BigSpender, WhitelistedCaller}"
    using Origin.exhaust by auto
  then show "finite (UNIV :: Origin set)"
    by (metis finite.emptyI finite.insertI)
qed

end

text \<open>The conversions \<open>Into<Result<Origin, O>>\<close> and \<open>From<Origin>\<close> of the generic origin.\<close>

record 'o origin_conv =
  into_origin :: "'o \<Rightarrow> 'o + Origin"
  from_origin :: "Origin \<Rightarrow> 'o"

section \<open>The origin filters\<close>

text \<open>\<open>decl_unit_ensures\<close>: the filter that accepts the one origin of its name.\<close>

definition unit_try_origin :: "'o origin_conv \<Rightarrow> Origin \<Rightarrow> 'o \<Rightarrow> 'o + unit" where
  "unit_try_origin C name o0 =
     result_bind (into_origin C o0)
       (\<lambda>r. if r = name then Inr () else Inl (from_origin C r))"

definition unit_try_successful_origin :: "'o origin_conv \<Rightarrow> Origin \<Rightarrow> unit + 'o" where
  "unit_try_successful_origin C name = Inr (from_origin C name)"

text \<open>The four instances of the macro.\<close>

definition unit_ensures :: "Origin list" where
  "unit_ensures = [Treasurer, ReferendumCanceller, ReferendumKiller, WhitelistedCaller]"

text \<open>
  \<open>decl_ensure\<close>: the items of the declaration, an origin with what it yields, matched from
  the first to the last.
\<close>

definition ensure_try_origin ::
  "(Origin \<times> 'a) list \<Rightarrow> 'o origin_conv \<Rightarrow> 'o \<Rightarrow> 'o + 'a" where
  "ensure_try_origin items C o0 =
     result_bind (into_origin C o0)
       (\<lambda>r. case map_of items r of Some v \<Rightarrow> Inr v | None \<Rightarrow> Inl (from_origin C r))"

text \<open>Each item rebinds the result, so the last one stands.\<close>

definition ensure_try_successful_origin ::
  "(Origin \<times> 'a) list \<Rightarrow> 'o origin_conv \<Rightarrow> unit + 'o" where
  "ensure_try_successful_origin items C =
     foldl (\<lambda>_ item. Inr (from_origin C (fst item))) (Inl ()) items"

definition Spender :: "(Origin \<times> u128) list" where
  "Spender =
    [(SmallTipper, 250 * 3 * CENTS),
     (BigTipper, GRAND),
     (SmallSpender, 10 * GRAND),
     (MediumSpender, 100 * GRAND),
     (BigSpender, 1000 * GRAND),
     (Treasurer, 10000 * GRAND)]"

abbreviation Spender_try_origin :: "'o origin_conv \<Rightarrow> 'o \<Rightarrow> 'o + u128" where
  "Spender_try_origin \<equiv> ensure_try_origin Spender"

section \<open>What the filters rely on\<close>

text \<open>
  \<open>From<Origin>\<close> builds an origin that \<open>Into\<close> reads back, and \<open>Into\<close> hands back an origin
  of another pallet as it was.
\<close>

locale origin_laws =
  fixes C :: "'o origin_conv"
  assumes into_from: "into_origin C (from_origin C r) = Inr r"
    and into_error: "into_origin C o0 = Inl e \<Longrightarrow> e = o0"
begin

lemma unit_accepts_iff:
  "unit_try_origin C name o0 = Inr () \<longleftrightarrow> into_origin C o0 = Inr name"
  by (auto simp: unit_try_origin_def result_bind_def split: sum.splits)

lemma unit_error_transparent:
  "unit_try_origin C name o0 = Inl e \<Longrightarrow> into_origin C e = into_origin C o0"
  by (auto simp: unit_try_origin_def result_bind_def into_from
      dest: into_error split: sum.splits if_splits)

lemma unit_successful:
  "unit_try_successful_origin C name = Inr o0 \<Longrightarrow> unit_try_origin C name o0 = Inr ()"
  by (auto simp: unit_try_successful_origin_def unit_accepts_iff into_from)

lemma ensure_accepts_iff:
  "ensure_try_origin items C o0 = Inr v \<longleftrightarrow>
     (\<exists>r. into_origin C o0 = Inr r \<and> map_of items r = Some v)"
  by (auto simp: ensure_try_origin_def result_bind_def split: sum.splits option.splits)

lemma ensure_error_transparent:
  "ensure_try_origin items C o0 = Inl e \<Longrightarrow> into_origin C e = into_origin C o0"
  by (auto simp: ensure_try_origin_def result_bind_def into_from
      dest: into_error split: sum.splits option.splits)

lemma ensure_successful_last:
  "items \<noteq> [] \<Longrightarrow> ensure_try_successful_origin items C = Inr (from_origin C (fst (last items)))"
  by (induction items rule: rev_induct) (simp_all add: ensure_try_successful_origin_def)

end

text \<open>
  The origin the SDK generates for a runtime, as far as this pallet sees it: the pallet's own
  origins and those of every other pallet.
\<close>

datatype 'x runtime_origin = CustomOrigin Origin | OtherOrigin 'x

definition runtime_conv :: "'x runtime_origin origin_conv" where
  "runtime_conv = \<lparr>
     into_origin = (\<lambda>o0. case o0 of CustomOrigin r \<Rightarrow> Inr r | OtherOrigin x \<Rightarrow> Inl o0),
     from_origin = CustomOrigin\<rparr>"

interpretation rto: origin_laws runtime_conv
  by unfold_locales (auto simp: runtime_conv_def split: runtime_origin.splits)

lemma runtime_conv_simps [simp]:
  "into_origin runtime_conv (CustomOrigin r) = Inr r"
  "into_origin runtime_conv (OtherOrigin x) = Inl (OtherOrigin x)"
  "from_origin runtime_conv r = CustomOrigin r"
  by (simp_all add: runtime_conv_def)

section \<open>The spending limits\<close>

lemma Spender_lookup:
  "map_of Spender r = (case r of
     SmallTipper \<Rightarrow> Some 750000000000000
   | BigTipper \<Rightarrow> Some 100000000000000000
   | SmallSpender \<Rightarrow> Some 1000000000000000000
   | MediumSpender \<Rightarrow> Some 10000000000000000000
   | BigSpender \<Rightarrow> Some 100000000000000000000
   | Treasurer \<Rightarrow> Some 1000000000000000000000
   | _ \<Rightarrow> None)"
  by (cases r) (simp_all add: Spender_def currency_values)

lemma Spender_limit_max: "map_of Spender r = Some v \<Longrightarrow> v \<le> 1000000000000000000000"
  by (cases r) (auto simp: Spender_lookup)

context origin_laws
begin

lemma Spender_successful: "ensure_try_successful_origin Spender C = Inr (from_origin C Treasurer)"
  using ensure_successful_last [of Spender] by (simp add: Spender_def)

lemma Spender_of_custom:
  "Spender_try_origin C (from_origin C r) =
     (case map_of Spender r of Some v \<Rightarrow> Inr v | None \<Rightarrow> Inl (from_origin C r))"
  by (simp add: ensure_try_origin_def into_from)

end

section \<open>Properties\<close>

text \<open>
  C34: the spending filter grants exactly the six spending origins their limits and nothing to
  any other origin. It accepts with amount \<open>v\<close> precisely when the origin is a custom origin
  whose limit is \<open>v\<close>; the limits, in units of the native token's smallest denomination, are
  the exact products of the declaration, none of which wraps at 128 bits.
\<close>

theorem Spender_grants_exactly:
  assumes "origin_laws C"
  shows "Spender_try_origin C o0 = Inr v \<longleftrightarrow>
    (\<exists>r. into_origin C o0 = Inr r \<and>
      (r, unat v) \<in> {(SmallTipper, 750 * 10 ^ 12), (BigTipper, 10 ^ 17),
        (SmallSpender, 10 * 10 ^ 17), (MediumSpender, 100 * 10 ^ 17),
        (BigSpender, 1000 * 10 ^ 17), (Treasurer, 10000 * 10 ^ 17)})"
proof -
  have "map_of Spender r = Some v \<longleftrightarrow>
      (r, unat v) \<in> {(SmallTipper, 750 * 10 ^ 12), (BigTipper, 10 ^ 17),
        (SmallSpender, 10 * 10 ^ 17), (MediumSpender, 100 * 10 ^ 17),
        (BigSpender, 1000 * 10 ^ 17), (Treasurer, 10000 * 10 ^ 17)}" for r
    by (cases r) (auto simp: Spender_lookup word_unat_eq_iff)
  then show ?thesis
    by (simp add: origin_laws.ensure_accepts_iff [OF assms])
qed

theorem Spender_grants_exactly_witness:
  "Spender_try_origin runtime_conv (CustomOrigin MediumSpender :: unit runtime_origin) =
     Inr 10000000000000000000"
  by (subst Spender_grants_exactly [OF rto.origin_laws_axioms]) simp

text \<open>
  C35: the four unit filters are exact and mutually exclusive, and a rejection loses nothing.
  Among the declared filters exactly the one of the origin's own name accepts it, and when a
  unit filter or the spending filter rejects, the error carries an origin that reads back as
  the one that was passed, so that a chain of filters tries the next one on the same origin.
\<close>

theorem ensure_filters_exact:
  assumes "origin_laws C"
  shows "filter (\<lambda>name. unit_try_origin C name o0 = Inr ()) unit_ensures =
      (case into_origin C o0 of
         Inl _ \<Rightarrow> []
       | Inr r \<Rightarrow> if r \<in> set unit_ensures then [r] else []) \<and>
    (case unit_try_origin C name o0 of
       Inl e \<Rightarrow> into_origin C e = into_origin C o0 \<and> into_origin C o0 \<noteq> Inr name
     | Inr _ \<Rightarrow> into_origin C o0 = Inr name) \<and>
    (case Spender_try_origin C o0 of
       Inl e \<Rightarrow> into_origin C e = into_origin C o0
     | Inr v \<Rightarrow> (\<exists>r. into_origin C o0 = Inr r \<and> map_of Spender r = Some v))"
    (is "?filters \<and> ?unit \<and> ?spender")
proof (intro conjI)
  note laws = origin_laws.unit_accepts_iff [OF assms] origin_laws.ensure_accepts_iff [OF assms]
    origin_laws.unit_error_transparent [OF assms] origin_laws.ensure_error_transparent [OF assms]
  show ?filters
    by (auto simp: laws unit_ensures_def split: sum.splits)
  show ?unit
    using laws(1) [of name o0] laws(3) [of name o0] by (auto split: sum.splits)
  show ?spender
    using laws(2) [of Spender o0] laws(4) [of Spender o0] by (auto split: sum.splits)
qed

theorem ensure_filters_exact_witness:
  "filter (\<lambda>name. unit_try_origin runtime_conv name
      (CustomOrigin ReferendumKiller :: unit runtime_origin) = Inr ()) unit_ensures =
    [ReferendumKiller]"
proof -
  have "ReferendumKiller \<in> set unit_ensures"
    by (simp add: unit_ensures_def)
  then show ?thesis
    using ensure_filters_exact
      [OF rto.origin_laws_axioms, THEN conjunct1, of "CustomOrigin ReferendumKiller"]
    by simp
qed

text \<open>
  The limits grow strictly in the order of the declaration, and the origin that the
  benchmarks take as the successful one is the most privileged: the spending filter accepts
  it, and no origin at all is granted more.
\<close>

theorem Spender_privilege_order:
  assumes "origin_laws C" and "ensure_try_successful_origin Spender C = Inr best"
  shows "sorted_wrt (\<lambda>a b. snd a < snd b) Spender \<and>
    (\<exists>limit. Spender_try_origin C best = Inr limit \<and>
      (\<forall>o0 v. Spender_try_origin C o0 = Inr v \<longrightarrow> v \<le> limit))"
proof
  show "sorted_wrt (\<lambda>a b. snd a < snd b) Spender"
    by (simp add: Spender_def currency_values)
  have "best = from_origin C Treasurer"
    using assms(2) by (simp add: origin_laws.Spender_successful [OF assms(1)])
  then have "Spender_try_origin C best = Inr 1000000000000000000000"
    by (simp add: origin_laws.Spender_of_custom [OF assms(1)] Spender_lookup)
  moreover have "v \<le> 1000000000000000000000" if "Spender_try_origin C o0 = Inr v" for o0 v
    using that by (auto simp: origin_laws.ensure_accepts_iff [OF assms(1)] Spender_limit_max)
  ultimately show "\<exists>limit. Spender_try_origin C best = Inr limit \<and>
      (\<forall>o0 v. Spender_try_origin C o0 = Inr v \<longrightarrow> v \<le> limit)"
    by blast
qed

theorem Spender_privilege_order_witness:
  "\<exists>limit. Spender_try_origin runtime_conv (CustomOrigin Treasurer :: unit runtime_origin) =
     Inr limit \<and>
     (\<forall>o0 v. Spender_try_origin runtime_conv (o0 :: unit runtime_origin) = Inr v \<longrightarrow> v \<le> limit)"
  using Spender_privilege_order
    [OF rto.origin_laws_axioms, of "CustomOrigin Treasurer :: unit runtime_origin"]
  by (simp add: rto.Spender_successful)

end
