(* ===== verification/Governance_Tracks.thy ===== *)
theory Governance_Tracks
  imports Governance_Origins
begin

text \<open>
  \<open>configs/governance/tracks.rs\<close> (the same text in both templates): the ten referendum
  tracks, their approval and support curves, and the function that assigns a track to the
  origin of a proposal. The curves, fixed-point numbers and padded names are built by
  functions of the SDK, gathered in \<open>referenda_api\<close>; the conversions out of the runtime's
  \<open>OriginCaller\<close> are in \<open>caller_api\<close>.
\<close>

section \<open>Curves\<close>

record ('f, 'c, 'n) referenda_api =
  fixed_from_rational :: "u128 \<Rightarrow> u128 \<Rightarrow> 'f"
  make_linear :: "u128 \<Rightarrow> u128 \<Rightarrow> 'f \<Rightarrow> 'f \<Rightarrow> 'c"
  make_reciprocal :: "u128 \<Rightarrow> u128 \<Rightarrow> 'f \<Rightarrow> 'f \<Rightarrow> 'f \<Rightarrow> 'c"
  str_array :: "string \<Rightarrow> 'n"

text \<open>\<open>x as u128\<close> extends the sign of the \<open>i32\<close>.\<close>

definition percent :: "('f, 'c, 'n) referenda_api \<Rightarrow> 32 word \<Rightarrow> 'f" where
  "percent A x = fixed_from_rational A (scast x) 100"

definition APP_ROOT :: "('f, 'c, 'n) referenda_api \<Rightarrow> 'c" where
  "APP_ROOT A = make_reciprocal A 4 28 (percent A 80) (percent A 50) (percent A 100)"

definition SUP_ROOT :: "('f, 'c, 'n) referenda_api \<Rightarrow> 'c" where
  "SUP_ROOT A = make_linear A 28 28 (percent A 0) (percent A 50)"

definition APP_TREASURER :: "('f, 'c, 'n) referenda_api \<Rightarrow> 'c" where
  "APP_TREASURER A = make_reciprocal A 4 28 (percent A 80) (percent A 50) (percent A 100)"

definition SUP_TREASURER :: "('f, 'c, 'n) referenda_api \<Rightarrow> 'c" where
  "SUP_TREASURER A = make_linear A 28 28 (percent A 0) (percent A 50)"

definition APP_REFERENDUM_CANCELLER :: "('f, 'c, 'n) referenda_api \<Rightarrow> 'c" where
  "APP_REFERENDUM_CANCELLER A = make_linear A 17 28 (percent A 50) (percent A 100)"

definition SUP_REFERENDUM_CANCELLER :: "('f, 'c, 'n) referenda_api \<Rightarrow> 'c" where
  "SUP_REFERENDUM_CANCELLER A = make_reciprocal A 12 28 (percent A 1) (percent A 0) (percent A 50)"

definition APP_REFERENDUM_KILLER :: "('f, 'c, 'n) referenda_api \<Rightarrow> 'c" where
  "APP_REFERENDUM_KILLER A = make_linear A 17 28 (percent A 50) (percent A 100)"

definition SUP_REFERENDUM_KILLER :: "('f, 'c, 'n) referenda_api \<Rightarrow> 'c" where
  "SUP_REFERENDUM_KILLER A = make_reciprocal A 12 28 (percent A 1) (percent A 0) (percent A 50)"

definition APP_SMALL_TIPPER :: "('f, 'c, 'n) referenda_api \<Rightarrow> 'c" where
  "APP_SMALL_TIPPER A = make_linear A 10 28 (percent A 50) (percent A 100)"

definition SUP_SMALL_TIPPER :: "('f, 'c, 'n) referenda_api \<Rightarrow> 'c" where
  "SUP_SMALL_TIPPER A = make_reciprocal A 1 28 (percent A 4) (percent A 0) (percent A 50)"

definition APP_BIG_TIPPER :: "('f, 'c, 'n) referenda_api \<Rightarrow> 'c" where
  "APP_BIG_TIPPER A = make_linear A 10 28 (percent A 50) (percent A 100)"

definition SUP_BIG_TIPPER :: "('f, 'c, 'n) referenda_api \<Rightarrow> 'c" where
  "SUP_BIG_TIPPER A = make_reciprocal A 8 28 (percent A 1) (percent A 0) (percent A 50)"

definition APP_SMALL_SPENDER :: "('f, 'c, 'n) referenda_api \<Rightarrow> 'c" where
  "APP_SMALL_SPENDER A = make_linear A 17 28 (percent A 50) (percent A 100)"

definition SUP_SMALL_SPENDER :: "('f, 'c, 'n) referenda_api \<Rightarrow> 'c" where
  "SUP_SMALL_SPENDER A = make_reciprocal A 12 28 (percent A 1) (percent A 0) (percent A 50)"

definition APP_MEDIUM_SPENDER :: "('f, 'c, 'n) referenda_api \<Rightarrow> 'c" where
  "APP_MEDIUM_SPENDER A = make_linear A 23 28 (percent A 50) (percent A 100)"

definition SUP_MEDIUM_SPENDER :: "('f, 'c, 'n) referenda_api \<Rightarrow> 'c" where
  "SUP_MEDIUM_SPENDER A = make_reciprocal A 16 28 (percent A 1) (percent A 0) (percent A 50)"

definition APP_BIG_SPENDER :: "('f, 'c, 'n) referenda_api \<Rightarrow> 'c" where
  "APP_BIG_SPENDER A = make_linear A 28 28 (percent A 50) (percent A 100)"

definition SUP_BIG_SPENDER :: "('f, 'c, 'n) referenda_api \<Rightarrow> 'c" where
  "SUP_BIG_SPENDER A = make_reciprocal A 20 28 (percent A 1) (percent A 0) (percent A 50)"

definition APP_WHITELISTED_CALLER :: "('f, 'c, 'n) referenda_api \<Rightarrow> 'c" where
  "APP_WHITELISTED_CALLER A = make_reciprocal A 16 (28 * 24) (percent A 96) (percent A 50) (percent A 100)"

definition SUP_WHITELISTED_CALLER :: "('f, 'c, 'n) referenda_api \<Rightarrow> 'c" where
  "SUP_WHITELISTED_CALLER A = make_reciprocal A 1 28 (percent A 20) (percent A 5) (percent A 50)"

lemmas curve_defs =
  APP_ROOT_def SUP_ROOT_def APP_TREASURER_def
  SUP_TREASURER_def APP_REFERENDUM_CANCELLER_def SUP_REFERENDUM_CANCELLER_def
  APP_REFERENDUM_KILLER_def SUP_REFERENDUM_KILLER_def APP_SMALL_TIPPER_def
  SUP_SMALL_TIPPER_def APP_BIG_TIPPER_def SUP_BIG_TIPPER_def
  APP_SMALL_SPENDER_def SUP_SMALL_SPENDER_def APP_MEDIUM_SPENDER_def
  SUP_MEDIUM_SPENDER_def APP_BIG_SPENDER_def SUP_BIG_SPENDER_def
  APP_WHITELISTED_CALLER_def SUP_WHITELISTED_CALLER_def

section \<open>The tracks\<close>

record ('c, 'n) TrackInfo =
  track_name :: 'n
  max_deciding :: u32
  decision_deposit :: u128
  prepare_period :: u32
  decision_period :: u32
  confirm_period :: u32
  min_enactment_period :: u32
  min_approval :: 'c
  min_support :: 'c

record ('c, 'n) Track =
  track_id :: u16
  track_info :: "('c, 'n) TrackInfo"

definition tracks :: "('f, 'c, 'n) referenda_api \<Rightarrow> features \<Rightarrow> ('c, 'n) Track list" where
  "tracks A F = [
    \<lparr>track_id = 0, track_info = \<lparr>
      track_name = str_array A ''root'',
      max_deciding = 1,
      decision_deposit = 100 * GRAND,
      prepare_period = 8 * MINUTES F,
      decision_period = 20 * MINUTES F,
      confirm_period = 12 * MINUTES F,
      min_enactment_period = 5 * MINUTES F,
      min_approval = APP_ROOT A,
      min_support = SUP_ROOT A\<rparr>\<rparr>,
    \<lparr>track_id = 1, track_info = \<lparr>
      track_name = str_array A ''whitelisted_caller'',
      max_deciding = 100,
      decision_deposit = 10 * GRAND,
      prepare_period = 6 * MINUTES F,
      decision_period = 20 * MINUTES F,
      confirm_period = 4 * MINUTES F,
      min_enactment_period = 3 * MINUTES F,
      min_approval = APP_WHITELISTED_CALLER A,
      min_support = SUP_WHITELISTED_CALLER A\<rparr>\<rparr>,
    \<lparr>track_id = 11, track_info = \<lparr>
      track_name = str_array A ''treasurer'',
      max_deciding = 10,
      decision_deposit = GRAND,
      prepare_period = 8 * MINUTES F,
      decision_period = 20 * MINUTES F,
      confirm_period = 8 * MINUTES F,
      min_enactment_period = 5 * MINUTES F,
      min_approval = APP_TREASURER A,
      min_support = SUP_TREASURER A\<rparr>\<rparr>,
    \<lparr>track_id = 20, track_info = \<lparr>
      track_name = str_array A ''referendum_canceller'',
      max_deciding = 1000,
      decision_deposit = 10 * GRAND,
      prepare_period = 8 * MINUTES F,
      decision_period = 14 * MINUTES F,
      confirm_period = 8 * MINUTES F,
      min_enactment_period = 3 * MINUTES F,
      min_approval = APP_REFERENDUM_CANCELLER A,
      min_support = SUP_REFERENDUM_CANCELLER A\<rparr>\<rparr>,
    \<lparr>track_id = 21, track_info = \<lparr>
      track_name = str_array A ''referendum_killer'',
      max_deciding = 1000,
      decision_deposit = 50 * GRAND,
      prepare_period = 8 * MINUTES F,
      decision_period = 20 * MINUTES F,
      confirm_period = 8 * MINUTES F,
      min_enactment_period = 3 * MINUTES F,
      min_approval = APP_REFERENDUM_KILLER A,
      min_support = SUP_REFERENDUM_KILLER A\<rparr>\<rparr>,
    \<lparr>track_id = 30, track_info = \<lparr>
      track_name = str_array A ''small_tipper'',
      max_deciding = 200,
      decision_deposit = 3 * CENTS,
      prepare_period = MINUTES F,
      decision_period = 14 * MINUTES F,
      confirm_period = 4 * MINUTES F,
      min_enactment_period = MINUTES F,
      min_approval = APP_SMALL_TIPPER A,
      min_support = SUP_SMALL_TIPPER A\<rparr>\<rparr>,
    \<lparr>track_id = 31, track_info = \<lparr>
      track_name = str_array A ''big_tipper'',
      max_deciding = 100,
      decision_deposit = 10 * 3 * CENTS,
      prepare_period = 4 * MINUTES F,
      decision_period = 14 * MINUTES F,
      confirm_period = 12 * MINUTES F,
      min_enactment_period = 3 * MINUTES F,
      min_approval = APP_BIG_TIPPER A,
      min_support = SUP_BIG_TIPPER A\<rparr>\<rparr>,
    \<lparr>track_id = 32, track_info = \<lparr>
      track_name = str_array A ''small_spender'',
      max_deciding = 50,
      decision_deposit = 100 * 3 * CENTS,
      prepare_period = 10 * MINUTES F,
      decision_period = 20 * MINUTES F,
      confirm_period = 10 * MINUTES F,
      min_enactment_period = 5 * MINUTES F,
      min_approval = APP_SMALL_SPENDER A,
      min_support = SUP_SMALL_SPENDER A\<rparr>\<rparr>,
    \<lparr>track_id = 33, track_info = \<lparr>
      track_name = str_array A ''medium_spender'',
      max_deciding = 50,
      decision_deposit = 200 * 3 * CENTS,
      prepare_period = 10 * MINUTES F,
      decision_period = 20 * MINUTES F,
      confirm_period = 12 * MINUTES F,
      min_enactment_period = 5 * MINUTES F,
      min_approval = APP_MEDIUM_SPENDER A,
      min_support = SUP_MEDIUM_SPENDER A\<rparr>\<rparr>,
    \<lparr>track_id = 34, track_info = \<lparr>
      track_name = str_array A ''big_spender'',
      max_deciding = 50,
      decision_deposit = 400 * 3 * CENTS,
      prepare_period = 10 * MINUTES F,
      decision_period = 20 * MINUTES F,
      confirm_period = 14 * MINUTES F,
      min_enactment_period = 5 * MINUTES F,
      min_approval = APP_BIG_SPENDER A,
      min_support = SUP_BIG_SPENDER A\<rparr>\<rparr>]"

section \<open>The track of an origin\<close>

text \<open>
  \<open>RawOrigin::try_from\<close> and \<open>origins::Origin::try_from\<close> on the runtime's \<open>OriginCaller\<close>, and
  the test for the variant \<open>RawOrigin::Root\<close>.
\<close>

record ('c, 'r) caller_api =
  raw_try_from :: "'c \<Rightarrow> 'r option"
  custom_try_from :: "'c \<Rightarrow> Origin option"
  is_Root :: "'r \<Rightarrow> bool"

definition track_for :: "('c, 'r) caller_api \<Rightarrow> 'c \<Rightarrow> unit + u16" where
  "track_for A i = (
     case raw_try_from A i of
       Some system_origin \<Rightarrow> if is_Root A system_origin then Inr 0 else Inl ()
     | None \<Rightarrow> (
         case custom_try_from A i of
           Some custom_origin \<Rightarrow> (
             case custom_origin of
               WhitelistedCaller \<Rightarrow> Inr 1
             | Treasurer \<Rightarrow> Inr 11
             | ReferendumCanceller \<Rightarrow> Inr 20
             | ReferendumKiller \<Rightarrow> Inr 21
             | SmallTipper \<Rightarrow> Inr 30
             | BigTipper \<Rightarrow> Inr 31
             | SmallSpender \<Rightarrow> Inr 32
             | MediumSpender \<Rightarrow> Inr 33
             | BigSpender \<Rightarrow> Inr 34)
         | None \<Rightarrow> Inl ()))"

section \<open>What the assignment relies on\<close>

text \<open>
  The two conversions recognise exactly the callers built from their own origins, and the
  system's origins include the root.
\<close>

locale caller_laws =
  fixes A :: "('c, 'r) caller_api"
    and system_caller :: "'r \<Rightarrow> 'c"
    and custom_caller :: "Origin \<Rightarrow> 'c"
  assumes raw_iff: "raw_try_from A c = Some r \<longleftrightarrow> c = system_caller r"
    and custom_iff: "custom_try_from A c = Some o0 \<longleftrightarrow> c = custom_caller o0"
    and callers_differ: "system_caller r \<noteq> custom_caller o0"
    and root_exists: "\<exists>r. is_Root A r"
begin

lemma raw_system: "raw_try_from A (system_caller r) = Some r"
  by (simp add: raw_iff)

lemma raw_custom: "raw_try_from A (custom_caller o0) = None"
proof (cases "raw_try_from A (custom_caller o0)")
  case (Some r)
  then show ?thesis
    using callers_differ by (metis raw_iff)
qed

lemma custom_custom: "custom_try_from A (custom_caller o0) = Some o0"
  by (simp add: custom_iff)

lemma track_for_system:
  "track_for A (system_caller r) = (if is_Root A r then Inr 0 else Inl ())"
  by (simp add: track_for_def raw_system)

lemma track_for_custom:
  "track_for A (custom_caller o0) = Inr (case o0 of
     WhitelistedCaller \<Rightarrow> 1 | Treasurer \<Rightarrow> 11 | ReferendumCanceller \<Rightarrow> 20 | ReferendumKiller \<Rightarrow> 21
   | SmallTipper \<Rightarrow> 30 | BigTipper \<Rightarrow> 31 | SmallSpender \<Rightarrow> 32 | MediumSpender \<Rightarrow> 33
   | BigSpender \<Rightarrow> 34)"
  by (simp add: track_for_def raw_custom custom_custom split: Origin.split)

lemma caller_cases:
  obtains (system) r where "c = system_caller r"
    | (custom) o0 where "c = custom_caller o0"
    | (other) "raw_try_from A c = None" "custom_try_from A c = None"
  by (cases "raw_try_from A c"; cases "custom_try_from A c") (auto simp: raw_iff custom_iff)

lemma track_for_other:
  "raw_try_from A c = None \<Longrightarrow> custom_try_from A c = None \<Longrightarrow> track_for A c = Inl ()"
  by (simp add: track_for_def)

lemma custom_tracks_distinct:
  "track_for A (custom_caller o1) = track_for A (custom_caller o2) \<longleftrightarrow> o1 = o2"
  by (cases o1; cases o2) (simp_all add: track_for_custom)

lemma custom_track_not_root: "track_for A (custom_caller o0) \<noteq> Inr 0"
  by (cases o0) (simp_all add: track_for_custom)

lemma rejects_iff:
  "track_for A c = Inl () \<longleftrightarrow>
     \<not> (\<exists>r. c = system_caller r \<and> is_Root A r) \<and> (\<forall>o0. c \<noteq> custom_caller o0)"
proof (cases c rule: caller_cases)
  case (system r)
  then show ?thesis
    using callers_differ raw_system by (auto simp: track_for_system) (metis option.inject)
next
  case (custom o0)
  then show ?thesis
    by (auto simp: track_for_custom)
next
  case other
  then show ?thesis
    using raw_system custom_custom by (auto simp: track_for_other)
qed

lemma track_for_range:
  assumes "track_for A c = Inr i"
  shows "i \<in> set [0, 1, 11, 20, 21, 30, 31, 32, 33, 34]"
proof (cases c rule: caller_cases)
  case (custom o0)
  with assms show ?thesis
    by (cases o0) (simp_all add: track_for_custom)
qed (use assms in \<open>auto simp: track_for_system track_for_other split: if_splits\<close>)

lemma track_for_onto:
  assumes "i \<in> set [0, 1, 11, 20, 21, 30, 31, 32, 33, 34]"
  shows "\<exists>c. track_for A c = Inr i"
proof -
  obtain r where "is_Root A r"
    using root_exists by blast
  then have root: "track_for A (system_caller r) = Inr 0"
    by (simp add: track_for_system)
  have custom: "\<exists>c. track_for A c = Inr i" if "track_for A (custom_caller o0) = Inr i" for o0
    using that by blast
  show ?thesis
    using assms root
      custom [of WhitelistedCaller] custom [of Treasurer] custom [of ReferendumCanceller]
      custom [of ReferendumKiller] custom [of SmallTipper] custom [of BigTipper]
      custom [of SmallSpender] custom [of MediumSpender] custom [of BigSpender]
    by (auto simp: track_for_custom)
qed

end

text \<open>A caller as the SDK generates it: a system origin, one of this pallet's, or another's.\<close>

datatype ('r, 'x) runtime_caller = SystemCaller 'r | CustomCaller Origin | OtherCaller 'x

datatype 'a raw_origin = RawRoot | RawSigned 'a | RawNone

definition runtime_caller_api :: "(('a raw_origin, 'x) runtime_caller, 'a raw_origin) caller_api" where
  "runtime_caller_api = \<lparr>
     raw_try_from = (\<lambda>c. case c of SystemCaller r \<Rightarrow> Some r | _ \<Rightarrow> None),
     custom_try_from = (\<lambda>c. case c of CustomCaller o0 \<Rightarrow> Some o0 | _ \<Rightarrow> None),
     is_Root = (\<lambda>r. r = RawRoot)\<rparr>"

interpretation rtc: caller_laws runtime_caller_api SystemCaller CustomCaller
  by unfold_locales (auto simp: runtime_caller_api_def split: runtime_caller.splits)

section \<open>Facts about the tracks\<close>

lemma track_ids: "map track_id (tracks R F) = [0, 1, 11, 20, 21, 30, 31, 32, 33, 34]"
  by (simp add: tracks_def)

lemma track_ids_sorted: "sorted_wrt (<) (map track_id (tracks R F))"
  by (simp add: track_ids)

lemma track_unique:
  assumes "i \<in> set (map track_id (tracks R F))"
  shows "\<exists>!t. t \<in> set (tracks R F) \<and> track_id t = i"
proof -
  have "distinct (map track_id (tracks R F))"
    by (simp add: track_ids)
  then show ?thesis
    using assms by (auto simp: distinct_map inj_on_def)
qed

text \<open>The four periods of a track in milliseconds at the build's slot duration.\<close>

definition periods_ms :: "features \<Rightarrow> ('c, 'n) Track \<Rightarrow> nat list" where
  "periods_ms F t = map (\<lambda>p. unat p * unat (SLOT_DURATION F))
     [prepare_period (track_info t), decision_period (track_info t),
      confirm_period (track_info t), min_enactment_period (track_info t)]"

text \<open>
  A description of a curve by the arguments it was made from: the instance of the SDK's
  constructors that forgets nothing.
\<close>

datatype curve_args =
    LinearArgs u128 u128 "u128 \<times> u128" "u128 \<times> u128"
  | ReciprocalArgs u128 u128 "u128 \<times> u128" "u128 \<times> u128" "u128 \<times> u128"

definition args_api :: "(u128 \<times> u128, curve_args, string) referenda_api" where
  "args_api = \<lparr>
     fixed_from_rational = Pair, make_linear = LinearArgs, make_reciprocal = ReciprocalArgs,
     str_array = (\<lambda>x. x)\<rparr>"

text \<open>
  The curve falls from its ceiling \<open>c\<close> to its floor \<open>f\<close> within its period, and a reciprocal
  curve passes through a level between the two. All three are percentages.
\<close>

fun falls_between :: "u128 \<Rightarrow> u128 \<Rightarrow> curve_args \<Rightarrow> bool" where
  "falls_between c f (LinearArgs len period lo hi) \<longleftrightarrow>
     0 < len \<and> len \<le> period \<and> hi = (c, 100) \<and> lo = (f, 100) \<and> f < c"
| "falls_between c f (ReciprocalArgs delay period level lo hi) \<longleftrightarrow>
     0 < delay \<and> delay < period \<and> hi = (c, 100) \<and> lo = (f, 100) \<and> snd level = 100 \<and>
     f < fst level \<and> fst level < c"

definition curves_of :: "('c, 'n) Track list \<Rightarrow> (u16 \<times> 'c \<times> 'c) list" where
  "curves_of ts =
     map (\<lambda>t. (track_id t, min_approval (track_info t), min_support (track_info t))) ts"

section \<open>Properties\<close>

text \<open>
  C10: the tracks and the origins match. The track list is strictly sorted by identifier, as
  the referenda pallet requires; whatever track \<open>track_for\<close> names exists exactly once; every
  track is the track of some origin; different custom origins have different tracks, none of
  them the root's; and a caller is rejected exactly when it is neither the root nor a custom
  origin, so that signed callers and the origins of other pallets have no track.
\<close>

theorem tracks_match_origins:
  assumes "caller_laws A sys custom"
  shows "sorted_wrt (<) (map track_id (tracks R F)) \<and>
    (\<forall>c i. track_for A c = Inr i \<longrightarrow> (\<exists>!t. t \<in> set (tracks R F) \<and> track_id t = i)) \<and>
    (\<forall>t \<in> set (tracks R F). \<exists>c. track_for A c = Inr (track_id t)) \<and>
    (\<forall>o1 o2. track_for A (custom o1) = track_for A (custom o2) \<longleftrightarrow> o1 = o2) \<and>
    (\<forall>o0. track_for A (custom o0) \<noteq> Inr 0) \<and>
    (\<forall>c. track_for A c = Inl () \<longleftrightarrow>
      \<not> (\<exists>r. c = sys r \<and> is_Root A r) \<and> (\<forall>o0. c \<noteq> custom o0))"
proof (intro conjI allI impI ballI caller_laws.rejects_iff [OF assms])
  show "\<exists>!t. t \<in> set (tracks R F) \<and> track_id t = i" if "track_for A c = Inr i" for c i
    by (rule track_unique) (use caller_laws.track_for_range [OF assms that] in
      \<open>simp only: track_ids\<close>)
  show "\<exists>c. track_for A c = Inr (track_id t)" if "t \<in> set (tracks R F)" for t
  proof -
    have "track_id t \<in> set (map track_id (tracks R F))"
      using that by simp
    then show ?thesis
      unfolding track_ids by (rule caller_laws.track_for_onto [OF assms])
  qed
qed (simp_all add: track_ids_sorted caller_laws.custom_tracks_distinct [OF assms]
    caller_laws.custom_track_not_root [OF assms])

theorem tracks_match_origins_witness:
  "\<exists>!t. t \<in> set (tracks args_api default_features) \<and> track_id t = 32"
proof -
  have "track_for runtime_caller_api
      (CustomCaller SmallSpender :: (unit raw_origin, unit) runtime_caller) = Inr 32"
    by (simp add: rtc.track_for_custom)
  then show ?thesis
    by (rule tracks_match_origins [OF rtc.caller_laws_axioms, THEN conjunct2, THEN conjunct1,
          rule_format])
qed

text \<open>
  The periods of the tracks are wall-clock times. Any two builds, with or without
  asynchronous backing, give a referendum on the same track the same preparation, decision,
  confirmation and enactment times in milliseconds; every period is at least one minute, the
  decision takes at most twenty, and the confirmation fits into the decision period.
\<close>

theorem track_periods_wall_clock:
  "map (periods_ms F) (tracks R F) = map (periods_ms F') (tracks R F') \<and>
   (\<forall>t \<in> set (tracks R F). \<exists>prep dec conf enact.
      periods_ms F t = [prep, dec, conf, enact] \<and>
      60000 \<le> prep \<and> 60000 \<le> enact \<and> 60000 \<le> conf \<and> conf \<le> dec \<and> dec \<le> 20 * 60000)"
  by (simp add: tracks_def periods_ms_def const_defs)

theorem track_periods_wall_clock_witness:
  "map (periods_ms default_features) (tracks args_api default_features) =
     map (periods_ms async_features) (tracks args_api async_features)"
  using track_periods_wall_clock by blast

text \<open>
  C29: larger spending powers cost larger deposits. Of two origins that the spending filter
  accepts, the one with the higher limit decides on a track with the higher decision deposit.
\<close>

theorem deposits_follow_limits:
  assumes "caller_laws A sys custom"
    and "map_of Spender o1 = Some l1" and "map_of Spender o2 = Some l2" and "l1 < l2"
    and "t1 \<in> set (tracks R F)" and "t2 \<in> set (tracks R F)"
    and "track_for A (custom o1) = Inr (track_id t1)"
    and "track_for A (custom o2) = Inr (track_id t2)"
  shows "decision_deposit (track_info t1) < decision_deposit (track_info t2)"
proof -
  have deposit: "decision_deposit (track_info t) = (case o0 of
        SmallTipper \<Rightarrow> 3000000000000 | BigTipper \<Rightarrow> 30000000000000 | SmallSpender \<Rightarrow> 300000000000000
      | MediumSpender \<Rightarrow> 600000000000000 | BigSpender \<Rightarrow> 1200000000000000
      | _ \<Rightarrow> 100000000000000000)"
    if "map_of Spender o0 = Some l" "t \<in> set (tracks R F)"
      "track_for A (custom o0) = Inr (track_id t)" for o0 l t
    using that
    by (cases o0)
      (auto simp: Spender_lookup caller_laws.track_for_custom [OF assms(1)] tracks_def
        currency_values)
  show ?thesis
    using assms(2-4) deposit [OF assms(2,5,7)] deposit [OF assms(3,6,8)]
    by (cases o1; cases o2) (simp_all add: Spender_lookup)
qed

theorem deposits_follow_limits_witness:
  "decision_deposit (track_info (tracks args_api default_features ! 5)) <
     decision_deposit (track_info (tracks args_api default_features ! 2))"
proof -
  let ?ts = "tracks args_api default_features"
  have mem: "?ts ! 5 \<in> set ?ts" "?ts ! 2 \<in> set ?ts"
    by (simp_all add: tracks_def)
  have ids: "track_id (?ts ! 5) = 30" "track_id (?ts ! 2) = 11"
    by (simp_all add: tracks_def)
  show ?thesis
    by (rule deposits_follow_limits [OF rtc.caller_laws_axioms _ _ _ mem,
          of SmallTipper 750000000000000 Treasurer 1000000000000000000000])
      (simp_all add: Spender_lookup rtc.track_for_custom ids)
qed

text \<open>
  Every curve is made from consistent arguments. Approval falls from 100 to 50 percent on
  every track; support falls from 50 percent, to 5 percent for whitelisted calls and to 0 on
  the other tracks; lengths and delays are positive and lie within the period, and the level
  of a reciprocal curve lies strictly between floor and ceiling.
\<close>

theorem curves_well_formed:
  "\<forall>(i, approval, support) \<in> set (curves_of (tracks args_api F)).
     falls_between 100 50 approval \<and>
     falls_between 50 (if i = 1 then 5 else 0) support"
  by (simp add: curves_of_def tracks_def curve_defs percent_def args_api_def)

theorem curves_well_formed_witness:
  "falls_between 50 5 (SUP_WHITELISTED_CALLER args_api)"
proof -
  have "(1, APP_WHITELISTED_CALLER args_api, SUP_WHITELISTED_CALLER args_api)
      \<in> set (curves_of (tracks args_api default_features))"
    by (simp add: curves_of_def tracks_def)
  then show ?thesis
    using curves_well_formed by fastforce
qed

end
