(* ===== verification/Xcm_Config.thy ===== *)
theory Xcm_Config
  imports Xcm_Reserves
begin

text \<open>
  The rest of \<open>configs/xcm_config.rs\<close> of the two runtimes: the locations of the chain and its
  pallets, the limits of the message executor, the origins with free execution, fee handling,
  and the conversions between accounts, currencies and locations. Pallet indices come from
  the generated runtime, storage values and other pallets from the SDK; they are arguments.
  Names prefixed \<open>evm_\<close> or \<open>generic_\<close> belong to one template; the others have the same text
  in both.
\<close>

section \<open>Locations and limits\<close>

text \<open>\<open><P as PalletInfoAccess>::index() as u8\<close>: the index is truncated to eight bits.\<close>

definition PalletLocation :: "nat \<Rightarrow> Location" where
  "PalletLocation index = loc 0 [PalletInstance (of_nat index)]"

definition RelayNetwork :: "nat option" where
  "RelayNetwork = None"

definition UniversalLocation :: "u32 \<Rightarrow> junction list" where
  "UniversalLocation parachain_id = [Parachain parachain_id]"

definition SelfReserve :: "nat \<Rightarrow> Location" where
  "SelfReserve balances_index = loc 0 [PalletInstance (of_nat balances_index)]"

definition PolkadotXcmLocation :: "nat \<Rightarrow> Location" where
  "PolkadotXcmLocation polkadot_xcm_index = loc 0 [PalletInstance (of_nat polkadot_xcm_index)]"

definition UnitWeightCost :: "'w weight_api \<Rightarrow> 'w" where
  "UnitWeightCost W = from_parts W 1000000000 (64 * 1024)"

definition MaxInstructions :: u32 where
  "MaxInstructions = 100"

definition MaxAssetsIntoHolding :: u32 where
  "MaxAssetsIntoHolding = 64"

definition BaseXcmWeight :: "'w weight_api \<Rightarrow> 'w" where
  "BaseXcmWeight W = from_parts W 200000000 0"

definition MaxAssetsForTransfer :: nat where
  "MaxAssetsForTransfer = 2"

definition MaxHrmpRelayFee :: Asset where
  "MaxHrmpRelayFee = \<lparr>asset_id = Location_parent, fungible = Fungible 1000000000000\<rparr>"

definition ParachainMinFee :: "xcm_api \<Rightarrow> Location \<Rightarrow> u128 option" where
  "ParachainMinFee X location =
     (if parents location = 1 \<and> first_interior X location = Some (Parachain 1000)
      then Some 50000000 else None)"

section \<open>Free execution\<close>

definition ParentOrParentsExecutivePlurality_contains :: "Location \<Rightarrow> bool" where
  "ParentOrParentsExecutivePlurality_contains location \<longleftrightarrow>
     parents location = 1 \<and>
     (case interior location of
        [] \<Rightarrow> True
      | [Plurality Executive _] \<Rightarrow> True
      | _ \<Rightarrow> False)"

section \<open>Fees\<close>

text \<open>
  \<open>AssetTransactor::deposit_asset\<close> changes the storage and may fail. The loop goes on after a
  failure and reports the asset in the log; the model returns the assets reported.
\<close>

type_synonym ('s, 'e, 'x) deposit_asset =
  "Asset \<Rightarrow> Location \<Rightarrow> 'x option \<Rightarrow> 's \<Rightarrow> ('e + unit) \<times> 's"

fun deposit_loop ::
  "('s, 'e, 'x) deposit_asset \<Rightarrow> Location \<Rightarrow> 'x option \<Rightarrow> Asset list \<Rightarrow> 's \<Rightarrow> Asset list \<times> 's" where
  "deposit_loop deposit_asset dest context [] s = ([], s)"
| "deposit_loop deposit_asset dest context (asset # assets) s =
     (case deposit_asset asset dest context s of
        (Inl e, s') \<Rightarrow>
          (let (burned, s'') = deposit_loop deposit_asset dest context assets s'
           in (asset # burned, s''))
      | (Inr _, s') \<Rightarrow> deposit_loop deposit_asset dest context assets s')"

definition deposit_or_burn_fee ::
  "('s, 'e, 'x) deposit_asset \<Rightarrow> Asset list \<Rightarrow> 'x option \<Rightarrow> bytes \<Rightarrow> 's \<Rightarrow> Asset list \<times> 's" where
  "deposit_or_burn_fee deposit_asset fee context receiver =
     deposit_loop deposit_asset (loc 0 [AccountKey20 None receiver]) context fee"

text \<open>\<open>handle_fee\<close> returns no asset; the second component is what the log reports as burned.\<close>

definition handle_fee ::
  "('s, 'e, 'x) deposit_asset \<Rightarrow> bytes \<Rightarrow> Asset list \<Rightarrow> 'x option \<Rightarrow> 's \<Rightarrow>
   Asset list \<times> Asset list \<times> 's" where
  "handle_fee deposit_asset receiver_account fee context s =
     (let (burned, s') = deposit_or_burn_fee deposit_asset fee context receiver_account s
      in ([], burned, s'))"

section \<open>Origins, accounts and currencies\<close>

text \<open>
  The origin type of the runtime: \<open>try_with_caller\<close>, the conversions between its caller and
  \<open>RawOrigin\<close>, and the account of \<open>RawOrigin::Signed\<close>.
\<close>

record ('o, 'c, 'r) signed_api =
  try_with_caller :: "'o \<Rightarrow> ('c \<Rightarrow> 'c + Location) \<Rightarrow> 'o + Location"
  caller_try_into :: "'c \<Rightarrow> 'c + 'r"
  raw_into :: "'r \<Rightarrow> 'c"
  as_Signed :: "'r \<Rightarrow> bytes option"

definition SignedToAccountId20_try_convert ::
  "('o, 'c, 'r) signed_api \<Rightarrow> nat option \<Rightarrow> 'o \<Rightarrow> 'o + Location" where
  "SignedToAccountId20_try_convert S network o0 =
     try_with_caller S o0 (\<lambda>caller.
       case caller_try_into S caller of
         Inr raw \<Rightarrow> (case as_Signed S raw of
             Some who \<Rightarrow> Inr (loc 0 [AccountKey20 network who])
           | None \<Rightarrow> Inl (raw_into S raw))
       | Inl other \<Rightarrow> Inl other)"

definition LocalOriginToLocation ::
  "('o, 'c, 'r) signed_api \<Rightarrow> 'o \<Rightarrow> 'o + Location" where
  "LocalOriginToLocation S = SignedToAccountId20_try_convert S RelayNetwork"

definition generic_AccountIdToLocation_convert :: "bytes \<Rightarrow> Location" where
  "generic_AccountIdToLocation_convert account = loc 0 [AccountId32 None account]"

text \<open>\<open>to_account\<close> is the library's \<open>LocationToAccountId\<close>; an \<open>H160\<close> is the account's bytes.\<close>

definition evm_LocationToH160_convert_location ::
  "(Location \<Rightarrow> bytes option) \<Rightarrow> Location \<Rightarrow> bytes option" where
  "evm_LocationToH160_convert_location to_account location = to_account location"

datatype evm_CurrencyId = Evm_SelfReserve | Evm_ForeignAsset u128 | Evm_Erc20 bytes

text \<open>
  \<open>convert_back\<close> is the converter's lookup of a registered asset; the location of the ERC-20
  bridge pallet is defined by the pallet-configuration macro. \<open>push_interior(..).ok()\<close> drops
  an error.
\<close>

definition evm_CurrencyIdToLocation_convert ::
  "xcm_api \<Rightarrow> (u128 \<Rightarrow> Location option) \<Rightarrow> Location \<Rightarrow> nat \<Rightarrow> evm_CurrencyId \<Rightarrow> Location option" where
  "evm_CurrencyIdToLocation_convert X convert_back Erc20XcmBridgePalletLocation balances_index
     currency = (
     case currency of
       Evm_SelfReserve \<Rightarrow> Some (SelfReserve balances_index)
     | Evm_ForeignAsset asset \<Rightarrow> convert_back asset
     | Evm_Erc20 contract_address \<Rightarrow>
         Some (snd (push_interior X Erc20XcmBridgePalletLocation
                      (AccountKey20 None contract_address))))"

datatype generic_CurrencyId = Generic_SelfReserve | Generic_ForeignAsset u32

definition generic_CurrencyIdToLocation_convert ::
  "(u32 \<Rightarrow> Location option) \<Rightarrow> nat \<Rightarrow> generic_CurrencyId \<Rightarrow> Location option" where
  "generic_CurrencyIdToLocation_convert convert_back balances_index currency = (
     case currency of
       Generic_SelfReserve \<Rightarrow> Some (SelfReserve balances_index)
     | Generic_ForeignAsset asset \<Rightarrow> convert_back asset)"

definition evm_AssetFeesFilter_contains :: "xcm_api \<Rightarrow> Location \<Rightarrow> Location \<Rightarrow> bool" where
  "evm_AssetFeesFilter_contains X Erc20XcmBridgePalletLocation location \<longleftrightarrow>
     parents location > 0 \<and>
     first_interior X location \<noteq> first_interior X Erc20XcmBridgePalletLocation"

definition generic_AssetFeesFilter_contains :: "xcm_api \<Rightarrow> nat \<Rightarrow> Location \<Rightarrow> bool" where
  "generic_AssetFeesFilter_contains X polkadot_xcm_index location \<longleftrightarrow>
     parents location > 0 \<and>
     first_interior X location \<noteq> first_interior X (PolkadotXcmLocation polkadot_xcm_index)"

section \<open>Transactors\<close>

datatype Transactors = Relay

definition Transactors_try_from :: "u8 \<Rightarrow> unit + Transactors" where
  "Transactors_try_from v = (if v = 0 then Inr Relay else Inl ())"

fun Transactors_encode_call :: "('k \<Rightarrow> bytes) \<Rightarrow> Transactors \<Rightarrow> 'k \<Rightarrow> bytes" where
  "Transactors_encode_call pallet_encode_call Relay call = pallet_encode_call call"

fun Transactors_destination :: "Transactors \<Rightarrow> Location" where
  "Transactors_destination Relay = Location_parent"

section \<open>What the conversions rely on\<close>

text \<open>The account of a signed caller, if it is one.\<close>

definition signer :: "('o, 'c, 'r) signed_api \<Rightarrow> 'c \<Rightarrow> bytes option" where
  "signer S caller = (case caller_try_into S caller of
     Inr r \<Rightarrow> as_Signed S r | Inl _ \<Rightarrow> None)"

text \<open>
  \<open>try_with_caller\<close> runs its function on the caller; an error puts the caller it carries back
  into the origin. The two conversions of a caller are inverse to each other.
\<close>

locale signed_laws =
  fixes S :: "('o, 'c, 'r) signed_api"
    and caller_of :: "'o \<Rightarrow> 'c"
    and with_caller :: "'o \<Rightarrow> 'c \<Rightarrow> 'o"
  assumes try_with_caller_eq: "try_with_caller S o0 f =
      (case f (caller_of o0) of Inr l \<Rightarrow> Inr l | Inl c \<Rightarrow> Inl (with_caller o0 c))"
    and with_same_caller: "with_caller o0 (caller_of o0) = o0"
    and caller_other: "caller_try_into S c = Inl d \<Longrightarrow> d = c"
    and caller_raw: "caller_try_into S c = Inr r \<Longrightarrow> raw_into S r = c"
begin

lemma try_convert_eq:
  "SignedToAccountId20_try_convert S network o0 =
     (case signer S (caller_of o0) of
        Some who \<Rightarrow> Inr (loc 0 [AccountKey20 network who])
      | None \<Rightarrow> Inl o0)"
  by (auto simp: SignedToAccountId20_try_convert_def signer_def try_with_caller_eq with_same_caller
      dest: caller_other caller_raw split: sum.splits option.splits)

end

text \<open>
  An origin as a caller with a call filter, the callers being system origins or others.
\<close>

datatype demo_raw = DemoRoot | DemoSigned bytes

definition demo_signed_api ::
  "((demo_raw + nat) \<times> nat, demo_raw + nat, demo_raw) signed_api" where
  "demo_signed_api = \<lparr>
     try_with_caller = (\<lambda>o0 f. case f (fst o0) of Inr l \<Rightarrow> Inr l | Inl c \<Rightarrow> Inl (c, snd o0)),
     caller_try_into = (\<lambda>c. case c of Inl r \<Rightarrow> Inr r | Inr n \<Rightarrow> Inl c),
     raw_into = Inl,
     as_Signed = (\<lambda>r. case r of DemoSigned who \<Rightarrow> Some who | DemoRoot \<Rightarrow> None)\<rparr>"

interpretation demo: signed_laws demo_signed_api fst "\<lambda>o0 c. (c, snd o0)"
  by unfold_locales (auto simp: demo_signed_api_def split: sum.splits)

text \<open>
  A view \<open>bal\<close> of the storage, the receiver's holdings of one asset, that a successful deposit
  raises by the deposited amount and a failed one leaves alone.
\<close>

definition amount :: "Location \<Rightarrow> Asset \<Rightarrow> nat" where
  "amount i asset =
     (if asset_id asset = i then case fungible asset of Fungible n \<Rightarrow> unat n | NonFungible _ \<Rightarrow> 1
      else 0)"

locale deposit_ledger =
  fixes deposit_asset :: "('s, 'e, 'x) deposit_asset"
    and dest :: Location
    and bal :: "'s \<Rightarrow> Location \<Rightarrow> nat"
  assumes credit: "deposit_asset asset dest ctx s = (Inr u, s') \<Longrightarrow>
      bal s' i = bal s i + amount i asset"
    and no_credit: "deposit_asset asset dest ctx s = (Inl e, s') \<Longrightarrow> bal s' i = bal s i"
begin

lemma loop_conserves:
  "case deposit_loop deposit_asset dest ctx assets s of (burned, s') \<Rightarrow>
     bal s' i + sum_list (map (amount i) burned) = bal s i + sum_list (map (amount i) assets)"
proof (induction assets arbitrary: s)
  case (Cons asset assets)
  obtain r s' where step: "deposit_asset asset dest ctx s = (r, s')"
    by (cases "deposit_asset asset dest ctx s")
  obtain burned t where rest: "deposit_loop deposit_asset dest ctx assets s' = (burned, t)"
    by (cases "deposit_loop deposit_asset dest ctx assets s'")
  show ?case
    using Cons.IH [of s'] step rest credit [of asset ctx s] no_credit [of asset ctx s]
    by (cases r) simp_all
qed simp

end

text \<open>A ledger that refuses every asset that is not fungible.\<close>

definition demo_deposit :: "(Location \<Rightarrow> nat, unit, unit) deposit_asset" where
  "demo_deposit asset dest ctx s =
     (case fungible asset of
        Fungible n \<Rightarrow> (Inr (), s(asset_id asset := s (asset_id asset) + unat n))
      | NonFungible _ \<Rightarrow> (Inl (), s))"

interpretation demo_ledger: deposit_ledger demo_deposit dest "\<lambda>s. s"
  by unfold_locales (auto simp: demo_deposit_def amount_def split: fungibility.splits)

section \<open>Properties\<close>

text \<open>
  C14: fees are never lost silently. \<open>handle_fee\<close> keeps no asset, goes through the whole fee
  whatever fails on the way, and for every asset the amount credited to the receiver together
  with the amounts it reports as burned is the amount of the fee.
\<close>

theorem handle_fee_conserves:
  assumes "deposit_ledger deposit_asset (loc 0 [AccountKey20 None receiver]) bal"
  shows "case handle_fee deposit_asset receiver fee ctx s of (kept, burned, s') \<Rightarrow>
    kept = [] \<and>
    bal s' i + sum_list (map (amount i) burned) = bal s i + sum_list (map (amount i) fee)"
  using deposit_ledger.loop_conserves [OF assms, where ctx = ctx and assets = fee and s = s and i = i]
  by (auto simp: handle_fee_def deposit_or_burn_fee_def split: prod.splits)

theorem handle_fee_conserves_witness:
  "case handle_fee demo_deposit [1]
      [\<lparr>asset_id = Location_parent, fungible = NonFungible 1\<rparr>,
       \<lparr>asset_id = Location_parent, fungible = Fungible 7\<rparr>] None (\<lambda>_. 0) of
     (kept, burned, s') \<Rightarrow>
       kept = [] \<and> s' Location_parent + sum_list (map (amount Location_parent) burned) = 8"
  using handle_fee_conserves [OF demo_ledger.deposit_ledger_axioms, where receiver = "[1]"
      and fee = "[\<lparr>asset_id = Location_parent, fungible = NonFungible 1\<rparr>,
        \<lparr>asset_id = Location_parent, fungible = Fungible 7\<rparr>]"
      and ctx = None and s = "\<lambda>_. 0" and i = Location_parent]
  by (simp add: amount_def split: prod.splits)

text \<open>
  Only the relay chain executes for free. A location that the unpaid-execution filter
  contains has exactly one parent and names no chain below it, so neither a sibling parachain
  nor anything inside one, nor any local account or pallet is among them, and of the relay
  chain's bodies only the executive.
\<close>

theorem free_execution_only_relay:
  "ParentOrParentsExecutivePlurality_contains l \<longleftrightarrow>
     l = Location_parent \<or> (\<exists>part. l = loc 1 [Plurality Executive part])"
  by (cases l)
    (auto simp: ParentOrParentsExecutivePlurality_contains_def
      split: list.splits junction.splits body_id.splits)

text \<open>
  Exactly the signed origins become locations. \<open>LocalOriginToLocation\<close> turns an origin
  signed by an account into the local location of that account's 20-byte key without a
  network, and hands back every other origin unchanged.
\<close>

theorem signed_origin_location:
  assumes "signed_laws S caller_of with_caller"
  shows "LocalOriginToLocation S o0 =
    (case signer S (caller_of o0) of
       Some who \<Rightarrow> Inr (loc 0 [AccountKey20 None who])
     | None \<Rightarrow> Inl o0)"
  by (simp add: LocalOriginToLocation_def RelayNetwork_def signed_laws.try_convert_eq [OF assms])

theorem signed_origin_location_witness:
  "LocalOriginToLocation demo_signed_api (Inl (DemoSigned [1, 2]), 9) =
     Inr (loc 0 [AccountKey20 None [1, 2]]) \<and>
   LocalOriginToLocation demo_signed_api (Inl DemoRoot, 9) = Inl (Inl DemoRoot, 9)"
  unfolding signed_origin_location [OF demo.signed_laws_axioms]
  by (simp add: signer_def demo_signed_api_def)

text \<open>
  Different local currencies of the EVM runtime have different locations. With the bridge
  pallet's location as short as a single pallet, each contract address has its own location
  under it, none of them is the location of the native currency, and all of them are local.
\<close>

theorem erc20_locations_distinct:
  assumes "xcm_laws X" and "bridge = PalletLocation bridge_index"
  shows "(evm_CurrencyIdToLocation_convert X cb bridge bal (Evm_Erc20 a) =
      evm_CurrencyIdToLocation_convert X cb bridge bal (Evm_Erc20 b) \<longleftrightarrow> a = b) \<and>
    evm_CurrencyIdToLocation_convert X cb bridge bal (Evm_Erc20 a) \<noteq>
      evm_CurrencyIdToLocation_convert X cb bridge bal Evm_SelfReserve \<and>
    evm_CurrencyIdToLocation_convert X cb bridge bal (Evm_Erc20 a) =
      Some (loc 0 [PalletInstance (of_nat bridge_index), AccountKey20 None a])"
  using assms
  by (simp add: evm_CurrencyIdToLocation_convert_def PalletLocation_def SelfReserve_def
      xcm_laws.push_ok)

theorem erc20_locations_distinct_witness:
  "evm_CurrencyIdToLocation_convert list_xcm_api (\<lambda>_. None) (PalletLocation 65) 10 (Evm_Erc20 [1]) \<noteq>
   evm_CurrencyIdToLocation_convert list_xcm_api (\<lambda>_. None) (PalletLocation 65) 10 (Evm_Erc20 [2])"
  using erc20_locations_distinct
    [OF xl.xcm_laws_axioms refl, THEN conjunct1, of "\<lambda>_. None" 65 10 "[1]" "[2]"]
  by simp

text \<open>
  Which assets may pay fees. In both runtimes the fee filter contains exactly the
  locations outside this chain whose first junction is not the excluded pallet's own: the
  relay chain, every sibling and every other consensus system pass, nothing local does.
\<close>

theorem fee_assets_are_foreign:
  assumes "xcm_laws X"
  shows "(evm_AssetFeesFilter_contains X (PalletLocation i) l \<longleftrightarrow>
      parents l \<noteq> 0 \<and> (\<forall>rest. interior l \<noteq> PalletInstance (of_nat i) # rest)) \<and>
    (generic_AssetFeesFilter_contains X i l \<longleftrightarrow>
      parents l \<noteq> 0 \<and> (\<forall>rest. interior l \<noteq> PalletInstance (of_nat i) # rest))"
  by (auto simp: evm_AssetFeesFilter_contains_def generic_AssetFeesFilter_contains_def
      PalletLocation_def PolkadotXcmLocation_def xcm_laws.first_interior_eq [OF assms]
      word_neq_0_conv split: list.splits)

theorem fee_assets_are_foreign_witness:
  "evm_AssetFeesFilter_contains list_xcm_api (PalletLocation 65) Location_parent \<and>
   \<not> generic_AssetFeesFilter_contains list_xcm_api 31 (loc 0 [PalletInstance 10])"
  using fee_assets_are_foreign [OF xl.xcm_laws_axioms, of 65 Location_parent]
    fee_assets_are_foreign [OF xl.xcm_laws_axioms, of 31 "loc 0 [PalletInstance 10]"]
  by simp

text \<open>
  Remote transactions reach the relay chain only. Of the 256 transactor indices only 0
  names a transactor, and its destination is the parent.
\<close>

theorem transactors_reach_relay_only:
  "map_sum id Transactors_destination (Transactors_try_from v) =
     (if v = 0 then Inr RelayLocation else Inl ())"
  by (simp add: Transactors_try_from_def RelayLocation_def)

end
