(* ===== verification/Runtime_Config.thy ===== *)
theory Runtime_Config
  imports Governance_Tracks Xcm_Config Asset_Config
begin

text \<open>
  The configuration of the pallets: the implementations of the configuration traits in
  \<open>configs/mod.rs\<close> and the parameter types of \<open>types.rs\<close>, for both templates, with the pallet
  groups and the runtime API modules of \<open>lib.rs\<close> and \<open>apis.rs\<close>. A trait is a record of the
  values and origin filters it is given; associated types that only name other types of the
  runtime are left out. The origin filters of the SDK are the parameter \<open>ensure_api\<close>, seen as
  the set of origins they accept; what the configuration macros define themselves
  (\<open>TreasurySpender\<close>, \<open>StakingAdminBodyId\<close>) is an argument.
\<close>

section \<open>Origin filters\<close>

text \<open>Origins of the SDK's own pallets, beside the custom governance origins.\<close>

datatype sdk_origin = SdkRoot | SdkSigned bytes | SdkNone | SdkXcm Location

type_synonym rt_origin = "sdk_origin runtime_origin"
type_synonym origin_filter = "rt_origin \<Rightarrow> bool"

record ensure_api =
  EnsureRoot :: origin_filter
  EnsureSigned :: origin_filter
  EnsureXcm :: "(Location \<Rightarrow> bool) \<Rightarrow> origin_filter"
  IsVoiceOfBody :: "Location \<Rightarrow> nat \<Rightarrow> Location \<Rightarrow> bool"
  EitherOf :: "origin_filter \<Rightarrow> origin_filter \<Rightarrow> origin_filter"
  EitherOfDiverse :: "origin_filter \<Rightarrow> origin_filter \<Rightarrow> origin_filter"
  AsEnsureOriginWithArg :: "origin_filter \<Rightarrow> origin_filter"
  EnsureAccountId20 :: "bytes \<Rightarrow> origin_filter"

text \<open>The filters declared with the governance origins, as sets of origins.\<close>

definition custom_filter :: "Origin \<Rightarrow> origin_filter" where
  "custom_filter r o0 \<longleftrightarrow> unit_try_origin runtime_conv r o0 = Inr ()"

lemma custom_filter_iff [simp]: "custom_filter r o0 \<longleftrightarrow> o0 = CustomOrigin r"
  by (cases o0) (auto simp: custom_filter_def rto.unit_accepts_iff)

text \<open>We allow root and the StakingAdmin to execute privileged collator selection operations.\<close>

definition CollatorSelectionUpdateOrigin :: "ensure_api \<Rightarrow> nat \<Rightarrow> origin_filter" where
  "CollatorSelectionUpdateOrigin N StakingAdminBodyId =
     EitherOfDiverse N (EnsureRoot N) (EnsureXcm N (IsVoiceOfBody N RelayLocation StakingAdminBodyId))"

section \<open>The system and consensus configuration\<close>

datatype consensus_hook =
    FixedVelocityConsensusHook nat nat nat
  | ExpectParentIncluded

definition ConsensusHook :: "features \<Rightarrow> consensus_hook" where
  "ConsensusHook F = FixedVelocityConsensusHook RELAY_CHAIN_SLOT_DURATION_MILLIS
     BLOCK_PROCESSING_VELOCITY (UNINCLUDED_SEGMENT_CAPACITY F)"

datatype timestamp_hook = Aura_hook | No_hook

record SystemConfig =
  consensus_hook :: consensus_hook
  ExistentialDeposit :: u128
  OnTimestampSet :: timestamp_hook
  PreimageOrigin :: origin_filter
  SS58Prefix :: u16
  ScheduleOrigin :: origin_filter
  SlotDuration :: u64

definition evm_SystemConfig :: "ensure_api \<Rightarrow> features \<Rightarrow> SystemConfig" where
  "evm_SystemConfig N F = \<lparr>
     consensus_hook = (if tanssi F then ExpectParentIncluded else ConsensusHook F),
     ExistentialDeposit = evm_EXISTENTIAL_DEPOSIT F,
     OnTimestampSet = (if tanssi F then No_hook else Aura_hook),
     PreimageOrigin = EnsureRoot N,
     SS58Prefix = 42,
     ScheduleOrigin = EnsureRoot N,
     SlotDuration = SLOT_DURATION F\<rparr>"

definition generic_SystemConfig :: "ensure_api \<Rightarrow> features \<Rightarrow> SystemConfig" where
  "generic_SystemConfig N F = \<lparr>
     consensus_hook = (if tanssi F then ExpectParentIncluded else ConsensusHook F),
     ExistentialDeposit = generic_EXISTENTIAL_DEPOSIT,
     OnTimestampSet = (if tanssi F then No_hook else Aura_hook),
     PreimageOrigin = EnsureRoot N,
     SS58Prefix = 42,
     ScheduleOrigin = EnsureRoot N,
     SlotDuration = SLOT_DURATION F\<rparr>"

section \<open>The governance configuration\<close>

definition TreasuryPalletId :: string where
  "TreasuryPalletId = ''py/trsry''"

definition TreasuryInteriorLocation :: "junction list" where
  "TreasuryInteriorLocation = [PalletInstance 13]"

record GovernanceConfig =
  ConvictionVoteLockingPeriod :: u32
  DispatchWhitelistedOrigin :: origin_filter
  ReferendaAlarmInterval :: u32
  ReferendaCancelOrigin :: origin_filter
  ReferendaKillOrigin :: origin_filter
  ReferendaSubmissionDeposit :: u128
  ReferendaSubmitOrigin :: origin_filter
  ReferendaUndecidingTimeout :: u32
  TreasuryInterior :: "junction list"
  TreasuryPallet :: string
  TreasuryPayoutSpendPeriod :: u32
  TreasuryRejectOrigin :: origin_filter
  TreasurySpendOrigin :: origin_filter
  TreasurySpendPeriod :: u32
  WhitelistOrigin :: origin_filter

definition evm_GovernanceConfig ::
  "ensure_api \<Rightarrow> features \<Rightarrow> origin_filter \<Rightarrow> GovernanceConfig" where
  "evm_GovernanceConfig N F TreasurySpender = \<lparr>
     ConvictionVoteLockingPeriod = 7 * DAYS F,
     DispatchWhitelistedOrigin = EitherOf N (EnsureRoot N) (custom_filter WhitelistedCaller),
     ReferendaAlarmInterval = 1,
     ReferendaCancelOrigin = EnsureRoot N,
     ReferendaKillOrigin = EnsureRoot N,
     ReferendaSubmissionDeposit = 3 * CENTS,
     ReferendaSubmitOrigin = EnsureSigned N,
     ReferendaUndecidingTimeout = 14 * DAYS F,
     TreasuryInterior = TreasuryInteriorLocation,
     TreasuryPallet = TreasuryPalletId,
     TreasuryPayoutSpendPeriod = 30 * DAYS F,
     TreasuryRejectOrigin = EitherOfDiverse N (EnsureRoot N) (custom_filter Treasurer),
     TreasurySpendOrigin = TreasurySpender,
     TreasurySpendPeriod = 6 * DAYS F,
     WhitelistOrigin = EnsureRoot N\<rparr>"

definition generic_GovernanceConfig ::
  "ensure_api \<Rightarrow> features \<Rightarrow> origin_filter \<Rightarrow> GovernanceConfig" where
  "generic_GovernanceConfig N F TreasurySpender = \<lparr>
     ConvictionVoteLockingPeriod = 7 * DAYS F,
     DispatchWhitelistedOrigin = EitherOf N (EnsureRoot N) (custom_filter WhitelistedCaller),
     ReferendaAlarmInterval = 1,
     ReferendaCancelOrigin = EnsureRoot N,
     ReferendaKillOrigin = EnsureRoot N,
     ReferendaSubmissionDeposit = 3 * CENTS,
     ReferendaSubmitOrigin = EnsureSigned N,
     ReferendaUndecidingTimeout = 14 * DAYS F,
     TreasuryInterior = TreasuryInteriorLocation,
     TreasuryPallet = TreasuryPalletId,
     TreasuryPayoutSpendPeriod = 30 * DAYS F,
     TreasuryRejectOrigin = EitherOfDiverse N (EnsureRoot N) (custom_filter Treasurer),
     TreasurySpendOrigin = TreasurySpender,
     TreasurySpendPeriod = 6 * DAYS F,
     WhitelistOrigin = EnsureRoot N\<rparr>"

text \<open>How long a payment of the treasury may stay unanswered: the timeout of its paymaster.\<close>

definition TreasuryPaymaster_timeout :: "features \<Rightarrow> u32" where
  "TreasuryPaymaster_timeout F = 6 * HOURS F"

section \<open>The XCM, EVM and asset configuration\<close>

record XcmConfig =
  AddSupportedAssetOrigin :: origin_filter
  DerivativeAddressRegistrationOrigin :: origin_filter
  EditSupportedAssetOrigin :: origin_filter
  HrmpManipulatorOrigin :: origin_filter
  HrmpOpenOrigin :: origin_filter
  MessageQueueHeapSize :: u32
  MessageQueueMaxStale :: u32
  PauseSupportedAssetOrigin :: origin_filter
  RemoveSupportedAssetOrigin :: origin_filter
  ResumeSupportedAssetOrigin :: origin_filter
  SovereignAccountDispatcherOrigin :: origin_filter
  XcmAdminOrigin :: origin_filter
  XcmpQueueControllerOrigin :: origin_filter
  XcmpQueueMaxInboundSuspended :: u32

definition evm_XcmConfig :: "ensure_api \<Rightarrow> XcmConfig" where
  "evm_XcmConfig N = \<lparr>
     AddSupportedAssetOrigin = EnsureRoot N,
     DerivativeAddressRegistrationOrigin = EnsureRoot N,
     EditSupportedAssetOrigin = EnsureRoot N,
     HrmpManipulatorOrigin = EnsureRoot N,
     HrmpOpenOrigin = EnsureRoot N,
     MessageQueueHeapSize = 64 * 1024,
     MessageQueueMaxStale = 8,
     PauseSupportedAssetOrigin = EnsureRoot N,
     RemoveSupportedAssetOrigin = EnsureRoot N,
     ResumeSupportedAssetOrigin = EnsureRoot N,
     SovereignAccountDispatcherOrigin = EnsureRoot N,
     XcmAdminOrigin = EnsureRoot N,
     XcmpQueueControllerOrigin = EnsureRoot N,
     XcmpQueueMaxInboundSuspended = 1000\<rparr>"

definition generic_XcmConfig :: "ensure_api \<Rightarrow> XcmConfig" where
  "generic_XcmConfig N = \<lparr>
     AddSupportedAssetOrigin = EnsureRoot N,
     DerivativeAddressRegistrationOrigin = EnsureRoot N,
     EditSupportedAssetOrigin = EnsureRoot N,
     HrmpManipulatorOrigin = EnsureRoot N,
     HrmpOpenOrigin = EnsureRoot N,
     MessageQueueHeapSize = 64 * 1024,
     MessageQueueMaxStale = 8,
     PauseSupportedAssetOrigin = EnsureRoot N,
     RemoveSupportedAssetOrigin = EnsureRoot N,
     ResumeSupportedAssetOrigin = EnsureRoot N,
     SovereignAccountDispatcherOrigin = EnsureRoot N,
     XcmAdminOrigin = EnsureRoot N,
     XcmpQueueControllerOrigin = EnsureRoot N,
     XcmpQueueMaxInboundSuspended = 1000\<rparr>"

definition generic_MaxLockers :: u32 where
  "generic_MaxLockers = 8"

definition generic_MaxRemoteLockConsumers :: u32 where
  "generic_MaxRemoteLockConsumers = 0"

text \<open>
  \<open>Perbill::from_percent(35) * RuntimeBlockWeights::get().max_block\<close>; the product and the block
  weights are the SDK's and the macro's.
\<close>

definition MessageQueueServiceWeight ::
  "'p perbill_api \<Rightarrow> ('p \<Rightarrow> 'w \<Rightarrow> 'w) \<Rightarrow> 'w \<Rightarrow> 'w" where
  "MessageQueueServiceWeight P perbill_mul max_block = perbill_mul (from_percent P 35) max_block"

definition evm_Erc20XcmBridgeTransferGasLimit :: u64 where
  "evm_Erc20XcmBridgeTransferGasLimit = 800000"

record AssetsConfig =
  ApprovalDeposit :: u128
  AssetAccountDeposit :: u128
  AssetDeposit :: u128
  CreateOrigin :: origin_filter
  ForceOrigin :: origin_filter
  ForeignAssetModifierOrigin :: origin_filter
  RootOperatorAccountId :: bytes

definition evm_AssetsConfig :: "ensure_api \<Rightarrow> AssetsConfig" where
  "evm_AssetsConfig N = \<lparr>
     ApprovalDeposit = MILLICENTS,
     AssetAccountDeposit = deposit 1 16,
     AssetDeposit = 10 * CENTS,
     CreateOrigin = AsEnsureOriginWithArg N (EnsureSigned N),
     ForceOrigin = EnsureRoot N,
     ForeignAssetModifierOrigin = EnsureRoot N,
     RootOperatorAccountId = evm_RootOperatorAccountId\<rparr>"

definition generic_AssetsConfig :: "ensure_api \<Rightarrow> AssetsConfig" where
  "generic_AssetsConfig N = \<lparr>
     ApprovalDeposit = generic_EXISTENTIAL_DEPOSIT,
     AssetAccountDeposit = deposit 1 16,
     AssetDeposit = 10 * CENTS,
     CreateOrigin = AsEnsureOriginWithArg N (EnsureSigned N),
     ForceOrigin = EnsureRoot N,
     ForeignAssetModifierOrigin = EnsureRoot N,
     RootOperatorAccountId = generic_RootOperatorAccountId\<rparr>"

section \<open>The EVM\<close>

text \<open>
  \<open>EvmConfig\<close>: the account of an EVM address, the origins that may act in the name of an address, and
  who finds the author of a block. \<open>IdentityAddressMapping\<close> belongs to another package and is an
  argument.
\<close>

datatype author_source = AuthorOfAura | AuthorOfInherent

record EvmConfig =
  AddressMapping :: "bytes \<Rightarrow> bytes"
  CallOrigin :: "bytes \<Rightarrow> origin_filter"
  FindAuthor :: author_source
  WithdrawOrigin :: "bytes \<Rightarrow> origin_filter"

definition evm_EvmConfig :: "ensure_api \<Rightarrow> features \<Rightarrow> (bytes \<Rightarrow> bytes) \<Rightarrow> EvmConfig" where
  "evm_EvmConfig N F IdentityAddressMapping = \<lparr>
     AddressMapping = IdentityAddressMapping,
     CallOrigin = EnsureAccountId20 N,
     FindAuthor = (if tanssi F then AuthorOfInherent else AuthorOfAura),
     WithdrawOrigin = EnsureAccountId20 N\<rparr>"

section \<open>Privileges\<close>

text \<open>
  The operations that a filter of the configuration guards; spending has its own limits. Those of the
  collator selection exist in builds without \<open>tanssi\<close> only, those of the EVM in its template only: where
  the filter does not exist, nobody may do it.
\<close>

datatype privilege =
    NotePreimage | ScheduleCall | UpdateCollators
  | DispatchWhitelisted | CancelReferendum | KillReferendum | SubmitReferendum
  | RejectSpend | WhitelistCall
  | AddAsset | EditAsset | PauseAsset | ResumeAsset | RemoveAsset
  | RegisterDerivative | ManageHrmp | OpenHrmp | DispatchSovereign | AdministerXcm | ControlXcmp
  | CreateAsset | ForceAsset | ModifyForeignAsset
  | EvmCall bytes | EvmWithdraw bytes

definition guard :: "origin_filter option \<Rightarrow> origin_filter" where
  "guard f o0 \<longleftrightarrow> (case f of Some f \<Rightarrow> f o0 | None \<Rightarrow> False)"

fun filter_of ::
  "origin_filter option \<Rightarrow> SystemConfig \<Rightarrow> GovernanceConfig \<Rightarrow> XcmConfig \<Rightarrow> AssetsConfig \<Rightarrow>
   EvmConfig option \<Rightarrow> privilege \<Rightarrow> origin_filter" where
  "filter_of U S G X A V NotePreimage = PreimageOrigin S"
| "filter_of U S G X A V ScheduleCall = ScheduleOrigin S"
| "filter_of U S G X A V UpdateCollators = guard U"
| "filter_of U S G X A V DispatchWhitelisted = DispatchWhitelistedOrigin G"
| "filter_of U S G X A V CancelReferendum = ReferendaCancelOrigin G"
| "filter_of U S G X A V KillReferendum = ReferendaKillOrigin G"
| "filter_of U S G X A V SubmitReferendum = ReferendaSubmitOrigin G"
| "filter_of U S G X A V RejectSpend = TreasuryRejectOrigin G"
| "filter_of U S G X A V WhitelistCall = WhitelistOrigin G"
| "filter_of U S G X A V AddAsset = AddSupportedAssetOrigin X"
| "filter_of U S G X A V EditAsset = EditSupportedAssetOrigin X"
| "filter_of U S G X A V PauseAsset = PauseSupportedAssetOrigin X"
| "filter_of U S G X A V ResumeAsset = ResumeSupportedAssetOrigin X"
| "filter_of U S G X A V RemoveAsset = RemoveSupportedAssetOrigin X"
| "filter_of U S G X A V RegisterDerivative = DerivativeAddressRegistrationOrigin X"
| "filter_of U S G X A V ManageHrmp = HrmpManipulatorOrigin X"
| "filter_of U S G X A V OpenHrmp = HrmpOpenOrigin X"
| "filter_of U S G X A V DispatchSovereign = SovereignAccountDispatcherOrigin X"
| "filter_of U S G X A V AdministerXcm = XcmAdminOrigin X"
| "filter_of U S G X A V ControlXcmp = XcmpQueueControllerOrigin X"
| "filter_of U S G X A V CreateAsset = CreateOrigin A"
| "filter_of U S G X A V ForceAsset = ForceOrigin A"
| "filter_of U S G X A V ModifyForeignAsset = ForeignAssetModifierOrigin A"
| "filter_of U S G X A V (EvmCall address) = guard (map_option (\<lambda>E. CallOrigin E address) V)"
| "filter_of U S G X A V (EvmWithdraw address) = guard (map_option (\<lambda>E. WithdrawOrigin E address) V)"

text \<open>\<open>ConsensusConfig\<close> is implemented in builds without \<open>tanssi\<close> only.\<close>

definition ConsensusConfig :: "ensure_api \<Rightarrow> features \<Rightarrow> nat \<Rightarrow> origin_filter option" where
  "ConsensusConfig N F body =
     (if tanssi F then None else Some (CollatorSelectionUpdateOrigin N body))"

definition evm_allows ::
  "ensure_api \<Rightarrow> features \<Rightarrow> (bytes \<Rightarrow> bytes) \<Rightarrow> nat \<Rightarrow> origin_filter \<Rightarrow> privilege \<Rightarrow> origin_filter" where
  "evm_allows N F mapping body spender =
     filter_of (ConsensusConfig N F body) (evm_SystemConfig N F)
       (evm_GovernanceConfig N F spender) (evm_XcmConfig N) (evm_AssetsConfig N)
       (Some (evm_EvmConfig N F mapping))"

definition generic_allows ::
  "ensure_api \<Rightarrow> features \<Rightarrow> nat \<Rightarrow> origin_filter \<Rightarrow> privilege \<Rightarrow> origin_filter" where
  "generic_allows N F body spender =
     filter_of (ConsensusConfig N F body) (generic_SystemConfig N F)
       (generic_GovernanceConfig N F spender) (generic_XcmConfig N) (generic_AssetsConfig N) None"

lemmas config_defs =
  evm_SystemConfig_def evm_GovernanceConfig_def evm_XcmConfig_def evm_AssetsConfig_def
  generic_SystemConfig_def generic_GovernanceConfig_def generic_XcmConfig_def
  generic_AssetsConfig_def CollatorSelectionUpdateOrigin_def ConsensusConfig_def evm_EvmConfig_def

text \<open>What the filters of the SDK document.\<close>

locale ensure_laws =
  fixes N :: ensure_api and voice :: "Location \<Rightarrow> nat \<Rightarrow> Location \<Rightarrow> bool"
  assumes root: "EnsureRoot N o0 \<longleftrightarrow> o0 = OtherOrigin SdkRoot"
    and signed: "EnsureSigned N o0 \<longleftrightarrow> (\<exists>a. o0 = OtherOrigin (SdkSigned a))"
    and xcm: "EnsureXcm N c o0 \<longleftrightarrow> (\<exists>l. o0 = OtherOrigin (SdkXcm l) \<and> c l)"
    and voice: "IsVoiceOfBody N prefix body l \<longleftrightarrow> voice prefix body l"
    and either: "EitherOf N f g o0 \<longleftrightarrow> f o0 \<or> g o0"
    and either_diverse: "EitherOfDiverse N f g o0 \<longleftrightarrow> f o0 \<or> g o0"
    and with_arg: "AsEnsureOriginWithArg N f o0 \<longleftrightarrow> f o0"
    and account20: "EnsureAccountId20 N address o0 \<longleftrightarrow> o0 = OtherOrigin (SdkSigned address)"
begin

lemmas filter_laws = root signed xcm voice either either_diverse with_arg account20

text \<open>Who holds a privilege, in both templates; \<open>evm\<close> tells which one.\<close>

lemma allows_iff:
  assumes "allows = (if evm then evm_allows N F mapping body spender
    else generic_allows N F body spender)"
  shows "allows p o0 \<longleftrightarrow>
    (case o0 of
       OtherOrigin SdkRoot \<Rightarrow> p \<notin> {SubmitReferendum, CreateAsset} \<union> range EvmCall \<union> range EvmWithdraw \<and>
         (p = UpdateCollators \<longrightarrow> \<not> tanssi F)
     | OtherOrigin (SdkSigned a) \<Rightarrow> p \<in> {SubmitReferendum, CreateAsset} \<or>
         evm \<and> p \<in> {EvmCall a, EvmWithdraw a}
     | OtherOrigin SdkNone \<Rightarrow> False
     | OtherOrigin (SdkXcm l) \<Rightarrow> p = UpdateCollators \<and> \<not> tanssi F \<and> voice RelayLocation body l
     | CustomOrigin r \<Rightarrow> (p, r) \<in> {(DispatchWhitelisted, WhitelistedCaller), (RejectSpend, Treasurer)})"
  using assms
  by (cases p)
    (auto simp: evm_allows_def generic_allows_def config_defs filter_laws guard_def
      split: runtime_origin.splits sdk_origin.splits if_splits)

end

text \<open>The filters on the origins of the model; a body speaks through its plurality junction.\<close>

definition plurality_voice :: "Location \<Rightarrow> nat \<Rightarrow> Location \<Rightarrow> bool" where
  "plurality_voice prefix body l \<longleftrightarrow>
     parents l = parents prefix \<and>
     (\<exists>part. interior l = interior prefix @ [Plurality (OtherBody body) part])"

definition direct_ensure :: ensure_api where
  "direct_ensure = \<lparr>
     EnsureRoot = (\<lambda>o0. o0 = OtherOrigin SdkRoot),
     EnsureSigned = (\<lambda>o0. case o0 of OtherOrigin (SdkSigned _) \<Rightarrow> True | _ \<Rightarrow> False),
     EnsureXcm = (\<lambda>f o0. case o0 of OtherOrigin (SdkXcm l) \<Rightarrow> f l | _ \<Rightarrow> False),
     IsVoiceOfBody = plurality_voice,
     EitherOf = (\<lambda>f g o0. f o0 \<or> g o0),
     EitherOfDiverse = (\<lambda>f g o0. f o0 \<or> g o0),
     AsEnsureOriginWithArg = (\<lambda>f. f),
     EnsureAccountId20 = (\<lambda>address o0. o0 = OtherOrigin (SdkSigned address))\<rparr>"

interpretation direct_ensure: ensure_laws direct_ensure plurality_voice
  by unfold_locales
    (auto simp: direct_ensure_def split: runtime_origin.splits sdk_origin.splits)

section \<open>Pallet groups and runtime APIs\<close>

text \<open>The groups of pallets the runtime is made of, by the names of \<open>mod runtime\<close>.\<close>

definition evm_runtime_groups :: "features \<Rightarrow> string list" where
  "evm_runtime_groups F =
     (if tanssi F then [''System'', ''Tanssi'', ''XCM'', ''Assets'', ''Governance'', ''EVM'']
      else [''System'', ''Consensus'', ''XCM'', ''Assets'', ''Governance'', ''EVM''])"

definition generic_runtime_groups :: "features \<Rightarrow> string list" where
  "generic_runtime_groups F =
     (if tanssi F then [''System'', ''XCM'', ''Assets'', ''Governance'', ''Tanssi'']
      else [''System'', ''XCM'', ''Assets'', ''Governance'', ''Consensus''])"

text \<open>
  The API modules with the types each is given, in their order. The module of the benchmarks has
  the same entries in all four lists.
\<close>

type_synonym api_module = "string \<times> string list"

definition benchmarks_api :: api_module where
  "benchmarks_api = (''benchmarks'',
     [''AllPalletsWithSystem'', ''Assets'', ''AssetManager'', ''AssetType'', ''RuntimeOrigin'',
      ''RelayLocation'', ''ParachainSystem'', ''System'', ''ExistentialDeposit'', ''AssetId'',
      ''XCMConfig'', ''AccountId'', ''Cents'', ''FeeAssetId'', ''TransactionByteFee'', ''Address'',
      ''Balances''])"

definition system_api :: api_module where
  "system_api = (''system'',
     [''Executive'', ''System'', ''ParachainSystem'', ''RuntimeVersion'', ''AccountId'', ''Nonce'',
      ''RuntimeGenesisConfig'', ''RuntimeBlockWeights''])"

definition consensus_api :: "features \<Rightarrow> api_module" where
  "consensus_api F = (''consensus'',
     if async_backing F then [''SessionKeys'', ''SlotDuration'', ''ConsensusHook'']
     else [''SessionKeys'', ''Aura''])"

definition evm_apis :: "features \<Rightarrow> api_module list" where
  "evm_apis F =
     (if tanssi F then
        [(''evm'', [''RuntimeCall'', ''Executive'', ''Ethereum'', ''Oracle'', ''OracleKey'']),
         (''assets'', [''RuntimeCall'', ''TransactionPayment'', ''Balance'']),
         (''tanssi'', [''SessionKeys'']), system_api, benchmarks_api]
      else
        [(''evm'', [''RuntimeCall'', ''Executive'', ''Ethereum'']),
         (''assets'', [''RuntimeCall'', ''TransactionPayment'', ''Balance'', ''Oracle'', ''OracleKey'']),
         consensus_api F, system_api, benchmarks_api])"

text \<open>In the generic template the block weights are handed over with \<open>try-runtime\<close> only, or with \<open>tanssi\<close>.\<close>

definition generic_apis :: "bool \<Rightarrow> features \<Rightarrow> api_module list" where
  "generic_apis try_runtime F =
     [(''assets'', [''RuntimeCall'', ''TransactionPayment'', ''Balance'', ''Oracle'', ''OracleKey''])] @
     (if tanssi F then [(''tanssi'', [''SessionKeys'']), system_api, benchmarks_api]
      else
        [consensus_api F,
         (''system'', filter (\<lambda>t. try_runtime \<or> t \<noteq> ''RuntimeBlockWeights'') (snd system_api)),
         benchmarks_api])"

section \<open>Properties\<close>

text \<open>
  C15: who may do what. In both templates root may use every guarded operation but the two that
  need a signed account, submitting referenda and creating assets, and but acting for an address of the
  EVM; a signed account may do just these two and, in the EVM template, act for the address that is its
  own; the relay chain's staking body may update the collators, which nobody may in builds with
  \<open>tanssi\<close>; of the governance origins only \<open>WhitelistedCaller\<close> and \<open>Treasurer\<close> may do anything here,
  dispatching whitelisted calls and rejecting spends. In particular the origins \<open>ReferendumCanceller\<close>
  and \<open>ReferendumKiller\<close>, which have tracks of their own, may neither cancel nor kill a referendum.
\<close>

theorem config_privileges_exact:
  assumes "ensure_laws N voice"
    and "allows = (if evm then evm_allows N F mapping body spender
      else generic_allows N F body spender)"
  shows "(allows p (OtherOrigin SdkRoot) \<longleftrightarrow>
      p \<notin> {SubmitReferendum, CreateAsset} \<union> range EvmCall \<union> range EvmWithdraw \<and>
      (p = UpdateCollators \<longrightarrow> \<not> tanssi F)) \<and>
    (allows p (OtherOrigin (SdkSigned a)) \<longleftrightarrow>
      p \<in> {SubmitReferendum, CreateAsset} \<or> evm \<and> p \<in> {EvmCall a, EvmWithdraw a}) \<and>
    \<not> allows p (OtherOrigin SdkNone) \<and>
    (allows p (OtherOrigin (SdkXcm l)) \<longleftrightarrow>
      p = UpdateCollators \<and> \<not> tanssi F \<and> voice RelayLocation body l) \<and>
    (allows p (CustomOrigin r) \<longleftrightarrow>
      p = DispatchWhitelisted \<and> r = WhitelistedCaller \<or> p = RejectSpend \<and> r = Treasurer) \<and>
    \<not> allows p (CustomOrigin ReferendumCanceller) \<and> \<not> allows p (CustomOrigin ReferendumKiller)"
  by (simp add: ensure_laws.allows_iff [OF assms])

theorem config_privileges_exact_witness:
  "\<not> evm_allows direct_ensure default_features id 1 (\<lambda>_. False) CancelReferendum
      (CustomOrigin ReferendumCanceller) \<and>
   evm_allows direct_ensure default_features id 1 (\<lambda>_. False) UpdateCollators
      (OtherOrigin (SdkXcm (loc 1 [Plurality (OtherBody 1) 0]))) \<and>
   \<not> evm_allows direct_ensure default_features id 1 (\<lambda>_. False) (EvmCall [7]) (OtherOrigin (SdkSigned [8]))"
  using config_privileges_exact [OF direct_ensure.ensure_laws_axioms refl, where evm = True
      and F = default_features and mapping = id and body = 1 and spender = "\<lambda>_. False"
      and p = CancelReferendum]
    config_privileges_exact [OF direct_ensure.ensure_laws_axioms refl, where evm = True
      and F = default_features and mapping = id and body = 1 and spender = "\<lambda>_. False"
      and p = UpdateCollators and l = "loc 1 [Plurality (OtherBody 1) 0]"]
    config_privileges_exact [OF direct_ensure.ensure_laws_axioms refl, where evm = True
      and F = default_features and mapping = id and body = 1 and spender = "\<lambda>_. False"
      and p = "EvmCall [7]" and a = "[8]"]
  by (simp add: plurality_voice_def RelayLocation_def default_features_def)

text \<open>
  An address is controlled by its own account alone: as the mapping is the identity, distinct
  addresses have distinct accounts, and a call or a withdrawal in the name of an address is accepted
  exactly from the signed origin of its account.
\<close>

theorem evm_address_control:
  assumes "ensure_laws N voice" and "\<And>address. mapping address = address"
  shows "CallOrigin (evm_EvmConfig N F mapping) address o0 \<longleftrightarrow>
      o0 = OtherOrigin (SdkSigned (AddressMapping (evm_EvmConfig N F mapping) address))"
    and "WithdrawOrigin (evm_EvmConfig N F mapping) = CallOrigin (evm_EvmConfig N F mapping)"
    and "inj (AddressMapping (evm_EvmConfig N F mapping))"
  using assms(2) by (simp_all add: evm_EvmConfig_def inj_def ensure_laws.account20 [OF assms(1)])

text \<open>
  C37: the periods of governance. In every build the lock of a vote, the timeout of an undecided
  referendum, the spending period and the payout period are 7, 14, 6 and 30 days of wall-clock
  time, none of them overflows, and on every track the preparation of a referendum is over long
  before the referendum can time out.
\<close>

theorem governance_periods:
  assumes "G \<in> {evm_GovernanceConfig N F spender, generic_GovernanceConfig N F spender}"
  shows "(let ms = unat (MILLISECS_PER_BLOCK F); day = 24 * 60 * 60 * 1000 in
      unat (ConvictionVoteLockingPeriod G) * ms = 7 * day \<and>
      unat (ReferendaUndecidingTimeout G) * ms = 14 * day \<and>
      unat (TreasurySpendPeriod G) * ms = 6 * day \<and>
      unat (TreasuryPayoutSpendPeriod G) * ms = 30 * day \<and>
      unat (TreasuryPaymaster_timeout F) * ms * 4 = day) \<and>
    (\<forall>t \<in> set (tracks R F). 100 * unat (prepare_period (track_info t)) <
      unat (ReferendaUndecidingTimeout G))"
  using assms
  by (auto simp: evm_GovernanceConfig_def generic_GovernanceConfig_def TreasuryPaymaster_timeout_def
      tracks_def const_defs Let_def)

text \<open>
  The APIs follow the pallet groups: a build has the consensus API exactly when it has the
  consensus group, and exactly one of the consensus and tanssi groups. The oracle belongs to the
  asset APIs in every build but the EVM template's with \<open>tanssi\<close>, where it is listed under the
  EVM APIs instead.
\<close>

theorem api_modules_match_groups:
  "(''consensus'' \<in> fst ` set (evm_apis F) \<longleftrightarrow> ''Consensus'' \<in> set (evm_runtime_groups F)) \<and>
   (''tanssi'' \<in> fst ` set (evm_apis F) \<longleftrightarrow> ''Consensus'' \<notin> set (evm_runtime_groups F)) \<and>
   (''consensus'' \<in> fst ` set (generic_apis t F) \<longleftrightarrow>
     ''Consensus'' \<in> set (generic_runtime_groups F)) \<and>
   (\<forall>types. map_of (generic_apis t F) ''assets'' = Some types \<longrightarrow> ''Oracle'' \<in> set types) \<and>
   (\<forall>types. map_of (evm_apis F) ''assets'' = Some types \<longrightarrow>
     (''Oracle'' \<in> set types \<longleftrightarrow> \<not> tanssi F)) \<and>
   (\<forall>types. map_of (evm_apis F) ''evm'' = Some types \<longrightarrow> (''Oracle'' \<in> set types \<longleftrightarrow> tanssi F))"
  by (simp add: evm_apis_def generic_apis_def evm_runtime_groups_def generic_runtime_groups_def
      consensus_api_def system_api_def benchmarks_api_def)

theorem governance_periods_witness:
  "unat (ReferendaUndecidingTimeout (evm_GovernanceConfig direct_ensure default_features
     (\<lambda>_. False))) * 12000 = 14 * (24 * 60 * 60 * 1000)"
  using conjunct1 [OF governance_periods [of
      "evm_GovernanceConfig direct_ensure default_features (\<lambda>_. False)"
      direct_ensure default_features "\<lambda>_. False"]]
  by (simp add: MILLISECS_PER_BLOCK_def Let_def)

end
