(* ===== verification/Transaction_Pipeline.thy ===== *)
theory Transaction_Pipeline
  imports Runtime_Config
begin

text \<open>
  The transaction extensions of \<open>types.rs\<close> (the same text in both templates), which a signed extrinsic
  passes before its call is dispatched, and the session keys of \<open>lib.rs\<close>. How the SDK runs a pipeline
  is not modelled; inherents and the self-contained Ethereum transactions do not go through it.
\<close>

section \<open>Transaction extensions\<close>

datatype tx_extension =
    CheckNonZeroSender
  | CheckSpecVersion
  | CheckTxVersion
  | CheckGenesis
  | CheckEra
  | CheckNonce
  | CheckWeight
  | ChargeAssetTxPayment
  | CheckMetadataHash

text \<open>The outer extension gives the unused part of the proof weight back after the dispatch.\<close>

datatype tx_pipeline = StorageWeightReclaim "tx_extension list"

definition TxExtension :: tx_pipeline where
  "TxExtension = StorageWeightReclaim
     [CheckNonZeroSender, CheckSpecVersion, CheckTxVersion, CheckGenesis, CheckEra, CheckNonce,
      CheckWeight, ChargeAssetTxPayment, CheckMetadataHash]"

definition generic_TxExtension :: tx_pipeline where
  "generic_TxExtension = StorageWeightReclaim
     [CheckNonZeroSender, CheckSpecVersion, CheckTxVersion, CheckGenesis, CheckEra, CheckNonce,
      CheckWeight, ChargeAssetTxPayment, CheckMetadataHash]"

text \<open>
  The two pipelines are the same, and every extension stands in them exactly once.
\<close>

lemma pipelines_complete:
  "generic_TxExtension = TxExtension"
  "TxExtension = StorageWeightReclaim es \<Longrightarrow> distinct es \<and> set es = UNIV"
  by (auto simp: generic_TxExtension_def TxExtension_def intro: tx_extension.exhaust)

section \<open>Session keys\<close>

text \<open>The keys a collator registers, by name; a chain with \<open>tanssi\<close> has none of its own.\<close>

definition SessionKeys :: "features \<Rightarrow> string list" where
  "SessionKeys F = (if tanssi F then [] else [''aura''])"

definition generic_SessionKeys :: "features \<Rightarrow> string list" where
  "generic_SessionKeys F = (if tanssi F then [] else [''aura''])"

end
