(* ===== verification/Generic_Governance.thy ===== *)
theory Generic_Governance
  imports Governance_Tracks
begin

text \<open>
  The constants and the governance of the generic template: \<open>constants.rs\<close>, \<open>configs/governance/origins.rs\<close>
  and \<open>tracks.rs\<close> under \<open>src/generic-template/runtime/src\<close>. The two templates are separate copies
  of this code. Here the copy of the generic template is translated on its own, over the same data
  types, and shown to be in step with the one of the EVM template, so that what is proved of the
  latter holds of both. The equations are collected in \<open>in_step\<close>.
\<close>

named_theorems in_step \<open>definitions of the generic template and those of the EVM template\<close>

section \<open>Constants\<close>

definition generic_MICROCENTS :: u128 where [const_defs]:
  "generic_MICROCENTS = 1000000"

definition generic_MILLICENTS :: u128 where [const_defs]:
  "generic_MILLICENTS = 1000000000"

definition generic_CENTS :: u128 where [const_defs]:
  "generic_CENTS = 1000 * generic_MILLICENTS"

definition generic_DOLLARS :: u128 where [const_defs]:
  "generic_DOLLARS = 100 * generic_CENTS"

definition generic_GRAND :: u128 where [const_defs]:
  "generic_GRAND = 1000 * generic_DOLLARS"

definition generic_deposit :: "u32 \<Rightarrow> u32 \<Rightarrow> u128" where
  "generic_deposit items bytes = ucast items * 15 * generic_CENTS + ucast bytes * 6 * generic_CENTS"

definition generic_P_FACTOR :: nat where
  "generic_P_FACTOR = 10"

definition generic_Q_FACTOR :: nat where
  "generic_Q_FACTOR = 100"

definition generic_POLY_DEGREE :: nat where
  "generic_POLY_DEGREE = 1"

definition generic_MILLISECS_PER_BLOCK :: "features \<Rightarrow> u64" where [const_defs]:
  "generic_MILLISECS_PER_BLOCK F = (if async_backing F then 6000 else 12000)"

definition generic_SLOT_DURATION :: "features \<Rightarrow> u64" where [const_defs]:
  "generic_SLOT_DURATION F = generic_MILLISECS_PER_BLOCK F"

definition generic_MINUTES :: "features \<Rightarrow> u32" where [const_defs]:
  "generic_MINUTES F = 60000 div ucast (generic_MILLISECS_PER_BLOCK F)"

definition generic_HOURS :: "features \<Rightarrow> u32" where [const_defs]:
  "generic_HOURS F = generic_MINUTES F * 60"

definition generic_DAYS :: "features \<Rightarrow> u32" where [const_defs]:
  "generic_DAYS F = generic_HOURS F * 24"

definition generic_AVERAGE_ON_INITIALIZE_RATIO :: "'p perbill_api \<Rightarrow> 'p" where
  "generic_AVERAGE_ON_INITIALIZE_RATIO P = from_percent P 5"

definition generic_NORMAL_DISPATCH_RATIO :: "'p perbill_api \<Rightarrow> 'p" where
  "generic_NORMAL_DISPATCH_RATIO P = from_percent P 75"

definition generic_MAXIMUM_BLOCK_WEIGHT :: "features \<Rightarrow> 'w weight_api \<Rightarrow> 'w" where
  "generic_MAXIMUM_BLOCK_WEIGHT F W = from_parts W
     (if async_backing F
      then u64_saturating_mul (WEIGHT_REF_TIME_PER_SECOND W) 2
      else u64_saturating_div (WEIGHT_REF_TIME_PER_SECOND W) 2)
     (MAX_POV_SIZE W)"

definition generic_UNINCLUDED_SEGMENT_CAPACITY :: "features \<Rightarrow> nat" where
  "generic_UNINCLUDED_SEGMENT_CAPACITY F = (if async_backing F then 3 else 1)"

definition generic_BLOCK_PROCESSING_VELOCITY :: nat where
  "generic_BLOCK_PROCESSING_VELOCITY = 1"

definition generic_RELAY_CHAIN_SLOT_DURATION_MILLIS :: nat where
  "generic_RELAY_CHAIN_SLOT_DURATION_MILLIS = 6000"

definition generic_MAX_BLOCK_LENGTH :: u32 where
  "generic_MAX_BLOCK_LENGTH = 5 * 1024 * 1024"

definition generic_VERSION :: "'v \<Rightarrow> 'v RuntimeVersion" where
  "generic_VERSION RUNTIME_API_VERSIONS = \<lparr>
     spec_name = ''template-parachain'',
     impl_name = ''template-parachain'',
     authoring_version = 1,
     spec_version = 1,
     impl_version = 0,
     apis = RUNTIME_API_VERSIONS,
     transaction_version = 1,
     system_version = 1\<rparr>"

definition generic_native_version :: "'v \<Rightarrow> 'v NativeVersion" where
  "generic_native_version RUNTIME_API_VERSIONS =
     \<lparr>runtime_version = generic_VERSION RUNTIME_API_VERSIONS, can_author_with = []\<rparr>"

lemma constants_in_step [in_step]:
  "generic_MICROCENTS = MICROCENTS"
  "generic_MILLICENTS = MILLICENTS"
  "generic_CENTS = CENTS"
  "generic_DOLLARS = DOLLARS"
  "generic_GRAND = GRAND"
  "generic_deposit = deposit"
  "generic_P_FACTOR = P_FACTOR"
  "generic_Q_FACTOR = Q_FACTOR"
  "generic_POLY_DEGREE = POLY_DEGREE"
  "generic_MILLISECS_PER_BLOCK = MILLISECS_PER_BLOCK"
  "generic_SLOT_DURATION = SLOT_DURATION"
  "generic_MINUTES = MINUTES"
  "generic_HOURS = HOURS"
  "generic_DAYS = DAYS"
  "generic_AVERAGE_ON_INITIALIZE_RATIO = AVERAGE_ON_INITIALIZE_RATIO"
  "generic_NORMAL_DISPATCH_RATIO = NORMAL_DISPATCH_RATIO"
  "generic_MAXIMUM_BLOCK_WEIGHT = MAXIMUM_BLOCK_WEIGHT"
  "generic_UNINCLUDED_SEGMENT_CAPACITY = UNINCLUDED_SEGMENT_CAPACITY"
  "generic_BLOCK_PROCESSING_VELOCITY = BLOCK_PROCESSING_VELOCITY"
  "generic_RELAY_CHAIN_SLOT_DURATION_MILLIS = RELAY_CHAIN_SLOT_DURATION_MILLIS"
  "generic_MAX_BLOCK_LENGTH = MAX_BLOCK_LENGTH"
  "generic_VERSION = VERSION"
  "generic_native_version = native_version"
  by (simp_all add: fun_eq_iff generic_MICROCENTS_def MICROCENTS_def generic_MILLICENTS_def
      MILLICENTS_def generic_CENTS_def CENTS_def generic_DOLLARS_def DOLLARS_def
      generic_GRAND_def GRAND_def generic_deposit_def deposit_def generic_P_FACTOR_def
      P_FACTOR_def generic_Q_FACTOR_def Q_FACTOR_def generic_POLY_DEGREE_def POLY_DEGREE_def
      generic_MILLISECS_PER_BLOCK_def MILLISECS_PER_BLOCK_def generic_SLOT_DURATION_def
      SLOT_DURATION_def generic_MINUTES_def MINUTES_def generic_HOURS_def HOURS_def
      generic_DAYS_def DAYS_def generic_AVERAGE_ON_INITIALIZE_RATIO_def
      AVERAGE_ON_INITIALIZE_RATIO_def generic_NORMAL_DISPATCH_RATIO_def
      NORMAL_DISPATCH_RATIO_def generic_MAXIMUM_BLOCK_WEIGHT_def MAXIMUM_BLOCK_WEIGHT_def
      generic_UNINCLUDED_SEGMENT_CAPACITY_def UNINCLUDED_SEGMENT_CAPACITY_def
      generic_BLOCK_PROCESSING_VELOCITY_def BLOCK_PROCESSING_VELOCITY_def
      generic_RELAY_CHAIN_SLOT_DURATION_MILLIS_def RELAY_CHAIN_SLOT_DURATION_MILLIS_def
      generic_MAX_BLOCK_LENGTH_def MAX_BLOCK_LENGTH_def generic_VERSION_def VERSION_def
      generic_native_version_def native_version_def in_step)

section \<open>Origins\<close>

definition generic_unit_try_origin :: "'o origin_conv \<Rightarrow> Origin \<Rightarrow> 'o \<Rightarrow> 'o + unit" where
  "generic_unit_try_origin C name o0 =
     result_bind (into_origin C o0)
       (\<lambda>r. if r = name then Inr () else Inl (from_origin C r))"

definition generic_unit_try_successful_origin :: "'o origin_conv \<Rightarrow> Origin \<Rightarrow> unit + 'o" where
  "generic_unit_try_successful_origin C name = Inr (from_origin C name)"

definition generic_unit_ensures :: "Origin list" where
  "generic_unit_ensures = [Treasurer, ReferendumCanceller, ReferendumKiller, WhitelistedCaller]"

definition generic_ensure_try_origin ::
  "(Origin \<times> 'a) list \<Rightarrow> 'o origin_conv \<Rightarrow> 'o \<Rightarrow> 'o + 'a" where
  "generic_ensure_try_origin items C o0 =
     result_bind (into_origin C o0)
       (\<lambda>r. case map_of items r of Some v \<Rightarrow> Inr v | None \<Rightarrow> Inl (from_origin C r))"

definition generic_ensure_try_successful_origin ::
  "(Origin \<times> 'a) list \<Rightarrow> 'o origin_conv \<Rightarrow> unit + 'o" where
  "generic_ensure_try_successful_origin items C =
     foldl (\<lambda>_ item. Inr (from_origin C (fst item))) (Inl ()) items"

definition generic_Spender :: "(Origin \<times> u128) list" where
  "generic_Spender =
    [(SmallTipper, 250 * 3 * generic_CENTS),
     (BigTipper, generic_GRAND),
     (SmallSpender, 10 * generic_GRAND),
     (MediumSpender, 100 * generic_GRAND),
     (BigSpender, 1000 * generic_GRAND),
     (Treasurer, 10000 * generic_GRAND)]"

lemma generic_unit_try_origin_eq [in_step]: "generic_unit_try_origin = unit_try_origin"
  by (intro ext) (unfold generic_unit_try_origin_def unit_try_origin_def in_step, rule refl)

lemma generic_unit_try_successful_origin_eq [in_step]: "generic_unit_try_successful_origin = unit_try_successful_origin"
  by (intro ext) (unfold generic_unit_try_successful_origin_def unit_try_successful_origin_def in_step, rule refl)

lemma generic_unit_ensures_eq [in_step]: "generic_unit_ensures = unit_ensures"
  by (simp only: generic_unit_ensures_def unit_ensures_def in_step)

lemma generic_ensure_try_origin_eq [in_step]: "generic_ensure_try_origin = ensure_try_origin"
  by (intro ext) (unfold generic_ensure_try_origin_def ensure_try_origin_def in_step, rule refl)

lemma generic_ensure_try_successful_origin_eq [in_step]: "generic_ensure_try_successful_origin = ensure_try_successful_origin"
  by (intro ext) (unfold generic_ensure_try_successful_origin_def ensure_try_successful_origin_def in_step, rule refl)

lemma generic_Spender_eq [in_step]: "generic_Spender = Spender"
  by (simp only: generic_Spender_def Spender_def in_step)

section \<open>Tracks\<close>

definition generic_percent :: "('f, 'c, 'n) referenda_api \<Rightarrow> 32 word \<Rightarrow> 'f" where
  "generic_percent A x = fixed_from_rational A (scast x) 100"

definition generic_APP_ROOT :: "('f, 'c, 'n) referenda_api \<Rightarrow> 'c" where
  "generic_APP_ROOT A = make_reciprocal A 4 28 (generic_percent A 80) (generic_percent A 50) (generic_percent A 100)"

definition generic_SUP_ROOT :: "('f, 'c, 'n) referenda_api \<Rightarrow> 'c" where
  "generic_SUP_ROOT A = make_linear A 28 28 (generic_percent A 0) (generic_percent A 50)"

definition generic_APP_TREASURER :: "('f, 'c, 'n) referenda_api \<Rightarrow> 'c" where
  "generic_APP_TREASURER A = make_reciprocal A 4 28 (generic_percent A 80) (generic_percent A 50) (generic_percent A 100)"

definition generic_SUP_TREASURER :: "('f, 'c, 'n) referenda_api \<Rightarrow> 'c" where
  "generic_SUP_TREASURER A = make_linear A 28 28 (generic_percent A 0) (generic_percent A 50)"

definition generic_APP_REFERENDUM_CANCELLER :: "('f, 'c, 'n) referenda_api \<Rightarrow> 'c" where
  "generic_APP_REFERENDUM_CANCELLER A = make_linear A 17 28 (generic_percent A 50) (generic_percent A 100)"

definition generic_SUP_REFERENDUM_CANCELLER :: "('f, 'c, 'n) referenda_api \<Rightarrow> 'c" where
  "generic_SUP_REFERENDUM_CANCELLER A = make_reciprocal A 12 28 (generic_percent A 1) (generic_percent A 0) (generic_percent A 50)"

definition generic_APP_REFERENDUM_KILLER :: "('f, 'c, 'n) referenda_api \<Rightarrow> 'c" where
  "generic_APP_REFERENDUM_KILLER A = make_linear A 17 28 (generic_percent A 50) (generic_percent A 100)"

definition generic_SUP_REFERENDUM_KILLER :: "('f, 'c, 'n) referenda_api \<Rightarrow> 'c" where
  "generic_SUP_REFERENDUM_KILLER A = make_reciprocal A 12 28 (generic_percent A 1) (generic_percent A 0) (generic_percent A 50)"

definition generic_APP_SMALL_TIPPER :: "('f, 'c, 'n) referenda_api \<Rightarrow> 'c" where
  "generic_APP_SMALL_TIPPER A = make_linear A 10 28 (generic_percent A 50) (generic_percent A 100)"

definition generic_SUP_SMALL_TIPPER :: "('f, 'c, 'n) referenda_api \<Rightarrow> 'c" where
  "generic_SUP_SMALL_TIPPER A = make_reciprocal A 1 28 (generic_percent A 4) (generic_percent A 0) (generic_percent A 50)"

definition generic_APP_BIG_TIPPER :: "('f, 'c, 'n) referenda_api \<Rightarrow> 'c" where
  "generic_APP_BIG_TIPPER A = make_linear A 10 28 (generic_percent A 50) (generic_percent A 100)"

definition generic_SUP_BIG_TIPPER :: "('f, 'c, 'n) referenda_api \<Rightarrow> 'c" where
  "generic_SUP_BIG_TIPPER A = make_reciprocal A 8 28 (generic_percent A 1) (generic_percent A 0) (generic_percent A 50)"

definition generic_APP_SMALL_SPENDER :: "('f, 'c, 'n) referenda_api \<Rightarrow> 'c" where
  "generic_APP_SMALL_SPENDER A = make_linear A 17 28 (generic_percent A 50) (generic_percent A 100)"

definition generic_SUP_SMALL_SPENDER :: "('f, 'c, 'n) referenda_api \<Rightarrow> 'c" where
  "generic_SUP_SMALL_SPENDER A = make_reciprocal A 12 28 (generic_percent A 1) (generic_percent A 0) (generic_percent A 50)"

definition generic_APP_MEDIUM_SPENDER :: "('f, 'c, 'n) referenda_api \<Rightarrow> 'c" where
  "generic_APP_MEDIUM_SPENDER A = make_linear A 23 28 (generic_percent A 50) (generic_percent A 100)"

definition generic_SUP_MEDIUM_SPENDER :: "('f, 'c, 'n) referenda_api \<Rightarrow> 'c" where
  "generic_SUP_MEDIUM_SPENDER A = make_reciprocal A 16 28 (generic_percent A 1) (generic_percent A 0) (generic_percent A 50)"

definition generic_APP_BIG_SPENDER :: "('f, 'c, 'n) referenda_api \<Rightarrow> 'c" where
  "generic_APP_BIG_SPENDER A = make_linear A 28 28 (generic_percent A 50) (generic_percent A 100)"

definition generic_SUP_BIG_SPENDER :: "('f, 'c, 'n) referenda_api \<Rightarrow> 'c" where
  "generic_SUP_BIG_SPENDER A = make_reciprocal A 20 28 (generic_percent A 1) (generic_percent A 0) (generic_percent A 50)"

definition generic_APP_WHITELISTED_CALLER :: "('f, 'c, 'n) referenda_api \<Rightarrow> 'c" where
  "generic_APP_WHITELISTED_CALLER A = make_reciprocal A 16 (28 * 24) (generic_percent A 96) (generic_percent A 50) (generic_percent A 100)"

definition generic_SUP_WHITELISTED_CALLER :: "('f, 'c, 'n) referenda_api \<Rightarrow> 'c" where
  "generic_SUP_WHITELISTED_CALLER A = make_reciprocal A 1 28 (generic_percent A 20) (generic_percent A 5) (generic_percent A 50)"

definition generic_tracks :: "('f, 'c, 'n) referenda_api \<Rightarrow> features \<Rightarrow> ('c, 'n) Track list" where
  "generic_tracks A F = [
    \<lparr>track_id = 0, track_info = \<lparr>
      track_name = str_array A ''root'',
      max_deciding = 1,
      decision_deposit = 100 * generic_GRAND,
      prepare_period = 8 * generic_MINUTES F,
      decision_period = 20 * generic_MINUTES F,
      confirm_period = 12 * generic_MINUTES F,
      min_enactment_period = 5 * generic_MINUTES F,
      min_approval = generic_APP_ROOT A,
      min_support = generic_SUP_ROOT A\<rparr>\<rparr>,
    \<lparr>track_id = 1, track_info = \<lparr>
      track_name = str_array A ''whitelisted_caller'',
      max_deciding = 100,
      decision_deposit = 10 * generic_GRAND,
      prepare_period = 6 * generic_MINUTES F,
      decision_period = 20 * generic_MINUTES F,
      confirm_period = 4 * generic_MINUTES F,
      min_enactment_period = 3 * generic_MINUTES F,
      min_approval = generic_APP_WHITELISTED_CALLER A,
      min_support = generic_SUP_WHITELISTED_CALLER A\<rparr>\<rparr>,
    \<lparr>track_id = 11, track_info = \<lparr>
      track_name = str_array A ''treasurer'',
      max_deciding = 10,
      decision_deposit = generic_GRAND,
      prepare_period = 8 * generic_MINUTES F,
      decision_period = 20 * generic_MINUTES F,
      confirm_period = 8 * generic_MINUTES F,
      min_enactment_period = 5 * generic_MINUTES F,
      min_approval = generic_APP_TREASURER A,
      min_support = generic_SUP_TREASURER A\<rparr>\<rparr>,
    \<lparr>track_id = 20, track_info = \<lparr>
      track_name = str_array A ''referendum_canceller'',
      max_deciding = 1000,
      decision_deposit = 10 * generic_GRAND,
      prepare_period = 8 * generic_MINUTES F,
      decision_period = 14 * generic_MINUTES F,
      confirm_period = 8 * generic_MINUTES F,
      min_enactment_period = 3 * generic_MINUTES F,
      min_approval = generic_APP_REFERENDUM_CANCELLER A,
      min_support = generic_SUP_REFERENDUM_CANCELLER A\<rparr>\<rparr>,
    \<lparr>track_id = 21, track_info = \<lparr>
      track_name = str_array A ''referendum_killer'',
      max_deciding = 1000,
      decision_deposit = 50 * generic_GRAND,
      prepare_period = 8 * generic_MINUTES F,
      decision_period = 20 * generic_MINUTES F,
      confirm_period = 8 * generic_MINUTES F,
      min_enactment_period = 3 * generic_MINUTES F,
      min_approval = generic_APP_REFERENDUM_KILLER A,
      min_support = generic_SUP_REFERENDUM_KILLER A\<rparr>\<rparr>,
    \<lparr>track_id = 30, track_info = \<lparr>
      track_name = str_array A ''small_tipper'',
      max_deciding = 200,
      decision_deposit = 3 * generic_CENTS,
      prepare_period = generic_MINUTES F,
      decision_period = 14 * generic_MINUTES F,
      confirm_period = 4 * generic_MINUTES F,
      min_enactment_period = generic_MINUTES F,
      min_approval = generic_APP_SMALL_TIPPER A,
      min_support = generic_SUP_SMALL_TIPPER A\<rparr>\<rparr>,
    \<lparr>track_id = 31, track_info = \<lparr>
      track_name = str_array A ''big_tipper'',
      max_deciding = 100,
      decision_deposit = 10 * 3 * generic_CENTS,
      prepare_period = 4 * generic_MINUTES F,
      decision_period = 14 * generic_MINUTES F,
      confirm_period = 12 * generic_MINUTES F,
      min_enactment_period = 3 * generic_MINUTES F,
      min_approval = generic_APP_BIG_TIPPER A,
      min_support = generic_SUP_BIG_TIPPER A\<rparr>\<rparr>,
    \<lparr>track_id = 32, track_info = \<lparr>
      track_name = str_array A ''small_spender'',
      max_deciding = 50,
      decision_deposit = 100 * 3 * generic_CENTS,
      prepare_period = 10 * generic_MINUTES F,
      decision_period = 20 * generic_MINUTES F,
      confirm_period = 10 * generic_MINUTES F,
      min_enactment_period = 5 * generic_MINUTES F,
      min_approval = generic_APP_SMALL_SPENDER A,
      min_support = generic_SUP_SMALL_SPENDER A\<rparr>\<rparr>,
    \<lparr>track_id = 33, track_info = \<lparr>
      track_name = str_array A ''medium_spender'',
      max_deciding = 50,
      decision_deposit = 200 * 3 * generic_CENTS,
      prepare_period = 10 * generic_MINUTES F,
      decision_period = 20 * generic_MINUTES F,
      confirm_period = 12 * generic_MINUTES F,
      min_enactment_period = 5 * generic_MINUTES F,
      min_approval = generic_APP_MEDIUM_SPENDER A,
      min_support = generic_SUP_MEDIUM_SPENDER A\<rparr>\<rparr>,
    \<lparr>track_id = 34, track_info = \<lparr>
      track_name = str_array A ''big_spender'',
      max_deciding = 50,
      decision_deposit = 400 * 3 * generic_CENTS,
      prepare_period = 10 * generic_MINUTES F,
      decision_period = 20 * generic_MINUTES F,
      confirm_period = 14 * generic_MINUTES F,
      min_enactment_period = 5 * generic_MINUTES F,
      min_approval = generic_APP_BIG_SPENDER A,
      min_support = generic_SUP_BIG_SPENDER A\<rparr>\<rparr>]"

definition generic_track_for :: "('c, 'r) caller_api \<Rightarrow> 'c \<Rightarrow> unit + u16" where
  "generic_track_for A i = (
     case raw_try_from A i of
       Some system_origin \<Rightarrow> if is_Root A system_origin then Inr 0 else Inl ()
     | None \<Rightarrow> (
         case custom_try_from A i of
           Some custom_origin \<Rightarrow> (
             case custom_origin of
               WhitelistedCaller \<Rightarrow> Inr 1
             | Treasurer \<Rightarrow> Inr 11
             | ReferendumCanceller \<Rightarrow> Inr 20
             | ReferendumKiller \<Rightarrow> Inr 21
             | SmallTipper \<Rightarrow> Inr 30
             | BigTipper \<Rightarrow> Inr 31
             | SmallSpender \<Rightarrow> Inr 32
             | MediumSpender \<Rightarrow> Inr 33
             | BigSpender \<Rightarrow> Inr 34)
         | None \<Rightarrow> Inl ()))"

lemma curves_in_step [in_step]:
  "generic_percent = percent"
  "generic_APP_ROOT = APP_ROOT"
  "generic_SUP_ROOT = SUP_ROOT"
  "generic_APP_TREASURER = APP_TREASURER"
  "generic_SUP_TREASURER = SUP_TREASURER"
  "generic_APP_REFERENDUM_CANCELLER = APP_REFERENDUM_CANCELLER"
  "generic_SUP_REFERENDUM_CANCELLER = SUP_REFERENDUM_CANCELLER"
  "generic_APP_REFERENDUM_KILLER = APP_REFERENDUM_KILLER"
  "generic_SUP_REFERENDUM_KILLER = SUP_REFERENDUM_KILLER"
  "generic_APP_SMALL_TIPPER = APP_SMALL_TIPPER"
  "generic_SUP_SMALL_TIPPER = SUP_SMALL_TIPPER"
  "generic_APP_BIG_TIPPER = APP_BIG_TIPPER"
  "generic_SUP_BIG_TIPPER = SUP_BIG_TIPPER"
  "generic_APP_SMALL_SPENDER = APP_SMALL_SPENDER"
  "generic_SUP_SMALL_SPENDER = SUP_SMALL_SPENDER"
  "generic_APP_MEDIUM_SPENDER = APP_MEDIUM_SPENDER"
  "generic_SUP_MEDIUM_SPENDER = SUP_MEDIUM_SPENDER"
  "generic_APP_BIG_SPENDER = APP_BIG_SPENDER"
  "generic_SUP_BIG_SPENDER = SUP_BIG_SPENDER"
  "generic_APP_WHITELISTED_CALLER = APP_WHITELISTED_CALLER"
  "generic_SUP_WHITELISTED_CALLER = SUP_WHITELISTED_CALLER"
  by (simp_all add: fun_eq_iff generic_percent_def percent_def generic_APP_ROOT_def APP_ROOT_def
      generic_SUP_ROOT_def SUP_ROOT_def generic_APP_TREASURER_def APP_TREASURER_def
      generic_SUP_TREASURER_def SUP_TREASURER_def generic_APP_REFERENDUM_CANCELLER_def
      APP_REFERENDUM_CANCELLER_def generic_SUP_REFERENDUM_CANCELLER_def
      SUP_REFERENDUM_CANCELLER_def generic_APP_REFERENDUM_KILLER_def APP_REFERENDUM_KILLER_def
      generic_SUP_REFERENDUM_KILLER_def SUP_REFERENDUM_KILLER_def generic_APP_SMALL_TIPPER_def
      APP_SMALL_TIPPER_def generic_SUP_SMALL_TIPPER_def SUP_SMALL_TIPPER_def
      generic_APP_BIG_TIPPER_def APP_BIG_TIPPER_def generic_SUP_BIG_TIPPER_def
      SUP_BIG_TIPPER_def generic_APP_SMALL_SPENDER_def APP_SMALL_SPENDER_def
      generic_SUP_SMALL_SPENDER_def SUP_SMALL_SPENDER_def generic_APP_MEDIUM_SPENDER_def
      APP_MEDIUM_SPENDER_def generic_SUP_MEDIUM_SPENDER_def SUP_MEDIUM_SPENDER_def
      generic_APP_BIG_SPENDER_def APP_BIG_SPENDER_def generic_SUP_BIG_SPENDER_def
      SUP_BIG_SPENDER_def generic_APP_WHITELISTED_CALLER_def APP_WHITELISTED_CALLER_def
      generic_SUP_WHITELISTED_CALLER_def SUP_WHITELISTED_CALLER_def in_step)

lemma generic_tracks_eq [in_step]: "generic_tracks = tracks"
  by (intro ext) (unfold generic_tracks_def tracks_def in_step, rule refl)

lemma generic_track_for_eq [in_step]: "generic_track_for = track_for"
  by (intro ext) (unfold generic_track_for_def track_for_def in_step, rule refl)

end
