(* ===== verification/Runtime_Call.thy ===== *)
theory Runtime_Call
  imports Runtime_Constants
begin

text \<open>
  The calls of a runtime and the proxy filter of \<open>types.rs\<close> (the same text in both templates).
  \<open>RuntimeCall\<close> is generated from the pallets of the SDK; the datatype has the variants that
  the sources match and all variants of these pallets that carry calls (the weight files name them),
  with the calls inside, and for each pallet one constructor that stands for its other calls.
  Calls that are kept as encoded bytes (preimages, proposals, calls in messages) are data here.
\<close>

section \<open>Calls\<close>

datatype system_call = set_code bytes | kill_prefix bytes nat | other_system nat

datatype balances_call = force_adjust_total_issuance u128 | other_balances nat

datatype collator_call = set_desired_candidates u32 | other_collator nat

datatype ethereum_call = transact bytes | other_ethereum nat

datatype runtime_call =
    System system_call
  | Timestamp_set u64
  | ParachainSystem bytes
  | Balances balances_call
  | CollatorSelection collator_call
  | Sudo sudo_call
  | Utility utility_call
  | Scheduler scheduler_call
  | Multisig multisig_call
  | Whitelist whitelist_call
  | Proxy proxy_call
  | Ethereum ethereum_call
  | OtherPallet nat
and sudo_call =
    sudo runtime_call
  | sudo_unchecked_weight runtime_call nat
  | sudo_as bytes runtime_call
  | other_sudo nat
and utility_call =
    with_weight runtime_call nat
  | dispatch_as nat runtime_call
  | as_derivative u16 runtime_call
  | force_batch "runtime_call list"
  | batch "runtime_call list"
  | batch_all "runtime_call list"
  | dispatch_as_fallible nat runtime_call
  | if_else runtime_call runtime_call
  | other_utility nat
and scheduler_call =
    schedule_named_after nat nat runtime_call
  | schedule nat runtime_call
  | schedule_named nat nat runtime_call
  | schedule_after nat runtime_call
  | other_scheduler nat
and multisig_call =
    as_multi_threshold_1 "bytes list" runtime_call
  | as_multi u16 "bytes list" runtime_call nat
  | other_multisig nat
and whitelist_call =
    dispatch_whitelisted_call_with_preimage runtime_call
  | other_whitelist nat
and proxy_call =
    proxy bytes runtime_call
  | proxy_announced bytes bytes runtime_call
  | reject_announcement bytes bytes
  | other_proxy nat

section \<open>Proxies\<close>

datatype ProxyType = Any | NonTransfer | CancelProxy | Collator

definition ProxyType_default :: ProxyType where
  "ProxyType_default = Any"

text \<open>The variant \<open>Collator\<close> exists in the build without the \<open>tanssi\<close> feature only.\<close>

definition ProxyType_exists :: "features \<Rightarrow> ProxyType \<Rightarrow> bool" where
  "ProxyType_exists F t \<longleftrightarrow> (t = Collator \<longrightarrow> \<not> tanssi F)"

fun ProxyType_filter :: "ProxyType \<Rightarrow> runtime_call \<Rightarrow> bool" where
  "ProxyType_filter Any c = True"
| "ProxyType_filter NonTransfer c = (case c of Balances _ \<Rightarrow> False | _ \<Rightarrow> True)"
| "ProxyType_filter CancelProxy c =
     (case c of Proxy (reject_announcement _ _) \<Rightarrow> True | Multisig _ \<Rightarrow> True | _ \<Rightarrow> False)"
| "ProxyType_filter Collator c =
     (case c of CollatorSelection _ \<Rightarrow> True | Multisig _ \<Rightarrow> True | _ \<Rightarrow> False)"

lemma restricted_types_not_Balances:
  "t \<noteq> Any \<Longrightarrow> ProxyType_filter t c \<Longrightarrow> ProxyType_filter NonTransfer c"
  by (cases t) (auto split: runtime_call.splits proxy_call.splits)

section \<open>Properties\<close>

text \<open>
  The proxy types form a hierarchy. Everything a restricted type allows is allowed by
  \<open>NonTransfer\<close>, which is everything but the calls of the balances pallet; \<open>CancelProxy\<close> and
  \<open>Collator\<close> share exactly the multisig calls; and no restricted type allows a call of
  another proxy to be made in turn, except \<open>NonTransfer\<close>.
\<close>

theorem proxy_hierarchy:
  "(t \<noteq> Any \<longrightarrow> {c. ProxyType_filter t c} \<subseteq> - range Balances) \<and>
   {c. ProxyType_filter NonTransfer c} = - range Balances \<and>
   {c. ProxyType_filter CancelProxy c} \<inter> {c. ProxyType_filter Collator c} = range Multisig \<and>
   (ProxyType_filter t (Proxy (proxy real c)) \<longleftrightarrow> t \<in> {Any, NonTransfer})"
proof (intro conjI impI)
  show nt: "{c. ProxyType_filter NonTransfer c} = - range Balances"
    by (auto split: runtime_call.splits)
  show "{c. ProxyType_filter t c} \<subseteq> - range Balances" if "t \<noteq> Any"
    using restricted_types_not_Balances [OF that] nt by blast
  have "ProxyType_filter CancelProxy c \<and> ProxyType_filter Collator c \<longleftrightarrow> c \<in> range Multisig" for c
    by (cases c) auto
  then show "{c. ProxyType_filter CancelProxy c} \<inter> {c. ProxyType_filter Collator c} = range Multisig"
    by blast
  show "ProxyType_filter t (Proxy (proxy real c)) \<longleftrightarrow> t \<in> {Any, NonTransfer}"
    by (cases t) auto
qed

theorem proxy_hierarchy_witness:
  "\<not> ProxyType_filter Collator (Balances (other_balances 0))"
proof -
  have "{c. ProxyType_filter Collator c} \<subseteq> - range Balances"
    using proxy_hierarchy [THEN conjunct1, of Collator] by blast
  then show ?thesis
    by auto
qed

end
