(* ===== verification/Fuzzer.thy ===== *)
theory Fuzzer
  imports Runtime_Call
begin

text \<open>
  \<open>template-fuzzer/src/main.rs\<close> (the same text in both templates but for the genesis of the
  EVM pallets): the filter of generated calls, the loop that plays a list of calls through
  blocks, the inherents of each block, and the invariants checked at the end. The runtime
  under test is the parameter \<open>executive_api\<close>. Arithmetic overflow panics, as in builds with
  overflow checks.
\<close>

section \<open>The filter of calls\<close>

text \<open>
  \<open>max_candidates\<close> is the collator-selection pallet's \<open>MaxCandidates\<close>; its arm exists in
  builds without \<open>tanssi\<close> only. The guarded arms for \<open>Sudo\<close> read: with origin 0 look inside,
  with any other origin refuse.
\<close>

fun recursive_call_filter :: "features \<Rightarrow> u32 \<Rightarrow> runtime_call \<Rightarrow> nat \<Rightarrow> bool" where
  "recursive_call_filter F mc (Sudo s) origin =
     (case s of
        sudo call \<Rightarrow> if origin = 0 then recursive_call_filter F mc call origin else False
      | sudo_unchecked_weight call _ \<Rightarrow>
          if origin = 0 then recursive_call_filter F mc call origin else False
      | sudo_as _ _ \<Rightarrow> if origin \<noteq> 0 then False else True
      | other_sudo _ \<Rightarrow> if origin \<noteq> 0 then False else True)"
| "recursive_call_filter F mc (Utility u) origin =
     (case u of
        with_weight call _ \<Rightarrow> recursive_call_filter F mc call origin
      | dispatch_as _ call \<Rightarrow> recursive_call_filter F mc call origin
      | as_derivative _ call \<Rightarrow> recursive_call_filter F mc call origin
      | force_batch calls \<Rightarrow> list_all (\<lambda>call. recursive_call_filter F mc call origin) calls
      | batch calls \<Rightarrow> list_all (\<lambda>call. recursive_call_filter F mc call origin) calls
      | batch_all calls \<Rightarrow> list_all (\<lambda>call. recursive_call_filter F mc call origin) calls
      | dispatch_as_fallible _ _ \<Rightarrow> True
      | if_else _ _ \<Rightarrow> True
      | other_utility _ \<Rightarrow> True)"
| "recursive_call_filter F mc (Scheduler s) origin =
     (case s of
        schedule_named_after _ _ call \<Rightarrow> recursive_call_filter F mc call origin
      | schedule _ call \<Rightarrow> recursive_call_filter F mc call origin
      | schedule_named _ _ call \<Rightarrow> recursive_call_filter F mc call origin
      | schedule_after _ call \<Rightarrow> recursive_call_filter F mc call origin
      | other_scheduler _ \<Rightarrow> True)"
| "recursive_call_filter F mc (Multisig m) origin =
     (case m of
        as_multi_threshold_1 _ call \<Rightarrow> recursive_call_filter F mc call origin
      | as_multi _ _ call _ \<Rightarrow> recursive_call_filter F mc call origin
      | other_multisig _ \<Rightarrow> True)"
| "recursive_call_filter F mc (Whitelist w) origin =
     (case w of
        dispatch_whitelisted_call_with_preimage call \<Rightarrow> recursive_call_filter F mc call origin
      | other_whitelist _ \<Rightarrow> True)"
| "recursive_call_filter F mc (System s) origin =
     (case s of set_code _ \<Rightarrow> False | kill_prefix _ _ \<Rightarrow> False | other_system _ \<Rightarrow> True)"
| "recursive_call_filter F mc (CollatorSelection c) origin =
     (case c of
        set_desired_candidates wanted \<Rightarrow> if tanssi F then True else wanted < mc
      | other_collator _ \<Rightarrow> True)"
| "recursive_call_filter F mc (Balances b) origin =
     (case b of force_adjust_total_issuance _ \<Rightarrow> False | other_balances _ \<Rightarrow> True)"
| "recursive_call_filter F mc (Timestamp_set now) origin = True"
| "recursive_call_filter F mc (ParachainSystem d) origin = True"
| "recursive_call_filter F mc (Proxy p) origin = True"
| "recursive_call_filter F mc (Ethereum e) origin = True"
| "recursive_call_filter F mc (OtherPallet n) origin = True"

text \<open>
  What the filter means: the calls inside a call, whatever the filter does with them, and the calls
  that are refused by themselves.
\<close>

definition inner_calls :: "runtime_call \<Rightarrow> runtime_call list" where
  "inner_calls c = (case c of
     Sudo (sudo d) \<Rightarrow> [d]
   | Sudo (sudo_unchecked_weight d _) \<Rightarrow> [d]
   | Sudo (sudo_as _ d) \<Rightarrow> [d]
   | Utility (with_weight d _) \<Rightarrow> [d]
   | Utility (dispatch_as _ d) \<Rightarrow> [d]
   | Utility (as_derivative _ d) \<Rightarrow> [d]
   | Utility (force_batch ds) \<Rightarrow> ds
   | Utility (batch ds) \<Rightarrow> ds
   | Utility (batch_all ds) \<Rightarrow> ds
   | Utility (dispatch_as_fallible _ d) \<Rightarrow> [d]
   | Utility (if_else d e) \<Rightarrow> [d, e]
   | Scheduler (schedule_named_after _ _ d) \<Rightarrow> [d]
   | Scheduler (schedule _ d) \<Rightarrow> [d]
   | Scheduler (schedule_named _ _ d) \<Rightarrow> [d]
   | Scheduler (schedule_after _ d) \<Rightarrow> [d]
   | Multisig (as_multi_threshold_1 _ d) \<Rightarrow> [d]
   | Multisig (as_multi _ _ d _) \<Rightarrow> [d]
   | Whitelist (dispatch_whitelisted_call_with_preimage d) \<Rightarrow> [d]
   | Proxy (proxy _ d) \<Rightarrow> [d]
   | Proxy (proxy_announced _ _ d) \<Rightarrow> [d]
   | _ \<Rightarrow> [])"

definition harmful :: "features \<Rightarrow> u32 \<Rightarrow> nat \<Rightarrow> runtime_call \<Rightarrow> bool" where
  "harmful F mc origin c \<longleftrightarrow> (case c of
     Sudo _ \<Rightarrow> origin \<noteq> 0
   | System (set_code _) \<Rightarrow> True
   | System (kill_prefix _ _) \<Rightarrow> True
   | CollatorSelection (set_desired_candidates wanted) \<Rightarrow> \<not> tanssi F \<and> mc \<le> wanted
   | Balances (force_adjust_total_issuance _) \<Rightarrow> True
   | _ \<Rightarrow> False)"

inductive carries :: "runtime_call \<Rightarrow> runtime_call \<Rightarrow> bool" where
  itself: "carries c c"
| inside: "d \<in> set (inner_calls c) \<Longrightarrow> carries d e \<Longrightarrow> carries c e"

text \<open>
  The wrappers that have no arm of their own in the filter and so fall under its last one. A call is
  exposed when it is reached without passing through any of them.
\<close>

definition hides :: "runtime_call \<Rightarrow> bool" where
  "hides c \<longleftrightarrow> (case c of
     Sudo (sudo_as _ _) \<Rightarrow> True
   | Utility (dispatch_as_fallible _ _) \<Rightarrow> True
   | Utility (if_else _ _) \<Rightarrow> True
   | Proxy (proxy _ _) \<Rightarrow> True
   | Proxy (proxy_announced _ _ _) \<Rightarrow> True
   | _ \<Rightarrow> False)"

inductive exposes :: "runtime_call \<Rightarrow> runtime_call \<Rightarrow> bool" where
  itself: "exposes c c"
| inside: "\<not> hides c \<Longrightarrow> d \<in> set (inner_calls c) \<Longrightarrow> exposes d e \<Longrightarrow> exposes c e"

lemma exposes_carries: "exposes c e \<Longrightarrow> carries c e"
  by (induction rule: exposes.induct) (auto intro: carries.intros)

lemma carries_exposes: "carries c e \<Longrightarrow> \<forall>d. carries c d \<longrightarrow> \<not> hides d \<Longrightarrow> exposes c e"
  by (induction rule: carries.induct) (blast intro: exposes.intros carries.intros)+

lemmas call_splits =
  runtime_call.splits sudo_call.splits utility_call.splits scheduler_call.splits
  multisig_call.splits whitelist_call.splits proxy_call.splits

lemma filter_unfold:
  "recursive_call_filter F mc c origin \<longleftrightarrow>
     \<not> harmful F mc origin c \<and>
     (hides c \<or> (\<forall>d \<in> set (inner_calls c). recursive_call_filter F mc d origin))"
proof (cases c)
  case (Sudo s)
  then show ?thesis
    by (cases s) (simp_all add: harmful_def inner_calls_def hides_def)
next
  case (Utility u)
  then show ?thesis
    by (cases u) (simp_all add: harmful_def inner_calls_def hides_def list_all_iff)
next
  case (Scheduler s)
  then show ?thesis
    by (cases s) (simp_all add: harmful_def inner_calls_def hides_def)
next
  case (Multisig m)
  then show ?thesis
    by (cases m) (simp_all add: harmful_def inner_calls_def hides_def)
next
  case (Whitelist w)
  then show ?thesis
    by (cases w) (simp_all add: harmful_def inner_calls_def hides_def)
next
  case (Proxy p)
  then show ?thesis
    by (cases p) (simp_all add: harmful_def inner_calls_def hides_def)
next
  case (System s)
  then show ?thesis
    by (cases s) (simp_all add: harmful_def inner_calls_def hides_def)
next
  case (CollatorSelection d)
  then show ?thesis
    by (cases d) (auto simp: harmful_def inner_calls_def hides_def)
next
  case (Balances b)
  then show ?thesis
    by (cases b) (simp_all add: harmful_def inner_calls_def hides_def)
qed (simp_all add: harmful_def inner_calls_def hides_def)

lemma size_in_list: "d \<in> set ds \<Longrightarrow> size d \<le> Suc (size_list size ds)"
  by (induction ds) auto

lemma inner_calls_smaller: "d \<in> set (inner_calls c) \<Longrightarrow> size d < size c"
  by (auto simp: inner_calls_def less_Suc_eq_le size_in_list split: call_splits)

lemma filter_iff_exposes:
  "recursive_call_filter F mc c origin \<longleftrightarrow> (\<forall>e. exposes c e \<longrightarrow> \<not> harmful F mc origin e)"
proof
  assume "recursive_call_filter F mc c origin"
  moreover have "recursive_call_filter F mc c origin \<Longrightarrow> \<not> harmful F mc origin e"
    if "exposes c e" for e
    using that by (induction rule: exposes.induct) (metis filter_unfold)+
  ultimately show "\<forall>e. exposes c e \<longrightarrow> \<not> harmful F mc origin e"
    by blast
next
  show "\<forall>e. exposes c e \<longrightarrow> \<not> harmful F mc origin e \<Longrightarrow> recursive_call_filter F mc c origin"
  proof (induction "size c" arbitrary: c rule: less_induct)
    case less
    then show ?case
      by (subst filter_unfold) (metis exposes.intros inner_calls_smaller)
  qed
qed

section \<open>The blocks\<close>

text \<open>
  The runtime under test: its storage \<open>'s\<close>, headers \<open>'h\<close> and weights \<open>'w\<close>. \<open>apply_extrinsic\<close>
  is \<open>None\<close> where one of the two \<open>unwrap\<close>s of the source would panic; \<open>dispatch\<close> also returns
  how long it took, in nanoseconds. \<open>validation_data\<close> builds the parachain inherent from the
  parent head, the relay chain's slot and the relay block number.
\<close>

record ('s, 'h, 'w) executive_api =
  finalize_block :: "'s \<Rightarrow> 'h \<times> 's"
  header_new :: "u32 \<Rightarrow> 'h option \<Rightarrow> u64 \<Rightarrow> 'h"
  executive_initialize_block :: "'h \<Rightarrow> 's \<Rightarrow> 's"
  apply_extrinsic :: "runtime_call \<Rightarrow> 's \<Rightarrow> 's option"
  validation_data :: "'h \<Rightarrow> u64 \<Rightarrow> u32 \<Rightarrow> bytes"
  call_weight :: "runtime_call \<Rightarrow> 'w"
  dispatch :: "runtime_call \<Rightarrow> bytes \<Rightarrow> 's \<Rightarrow> nat \<times> 's"

definition apply_unwrap ::
  "('s, 'h, 'w) executive_api \<Rightarrow> runtime_call \<Rightarrow> 's \<Rightarrow> rust_panic + 's" where
  "apply_unwrap E c s =
     (case apply_extrinsic E c s of
        Some s' \<Rightarrow> Inr s'
      | None \<Rightarrow> Inl (ExpectFailed ''called `Result::unwrap()` on an `Err` value''))"

definition initialize_block ::
  "('s, 'h, 'w) executive_api \<Rightarrow> features \<Rightarrow> u32 \<Rightarrow> 's \<Rightarrow> rust_panic + 's" where
  "initialize_block E F block s = (
     let current_timestamp = ucast block * SLOT_DURATION F * 2 :: u64;
         (prev_header, s1) =
           (if block = 1 then (None, s)
            else case finalize_block E s of (h, s') \<Rightarrow> (Some h, s'));
         parent_header = header_new E block prev_header (ucast block);
         s2 = executive_initialize_block E parent_header s1;
         parent_head = (case prev_header of Some h \<Rightarrow> h | None \<Rightarrow> parent_header);
         current_slot = 2 * current_timestamp div SLOT_DURATION F
     in result_bind (apply_unwrap E (Timestamp_set current_timestamp) s2) (\<lambda>s3.
          apply_unwrap E (ParachainSystem (validation_data E parent_head current_slot block)) s3))"

section \<open>The invariants\<close>

text \<open>An account as the loop over the system's accounts sees it, with its locks and holds.\<close>

record account_info =
  consumers :: nat
  providers :: nat
  free :: nat
  reserved :: nat
  frozen :: nat
  lock_amounts :: "nat list"
  hold_amounts :: "nat list"

record 's ledger_view =
  accounts_of :: "'s \<Rightarrow> account_info list"
  total_issuance :: "'s \<Rightarrow> nat"
  integrity_test :: "'s \<Rightarrow> rust_panic + unit"
  try_state :: "u32 \<Rightarrow> 's \<Rightarrow> rust_panic + unit"

definition rust_assert :: "bool \<Rightarrow> string \<Rightarrow> rust_panic + unit" where
  "rust_assert b msg = (if b then Inr () else Inl (AssertionFailed msg))"

definition u128_add :: "nat \<Rightarrow> nat \<Rightarrow> rust_panic + nat" where
  "u128_add a b = (if a + b < 2 ^ 128 then Inr (a + b) else Inl ArithmeticOverflow)"

fun u128_sum :: "nat list \<Rightarrow> nat \<Rightarrow> rust_panic + nat" where
  "u128_sum [] acc = Inr acc"
| "u128_sum (x # xs) acc = result_bind (u128_add acc x) (u128_sum xs)"

text \<open>\<open>max().unwrap_or_default()\<close>.\<close>

definition max_or_default :: "nat list \<Rightarrow> nat" where
  "max_or_default xs = (if xs = [] then 0 else Max (set xs))"

fun check_accounts :: "account_info list \<Rightarrow> nat \<Rightarrow> nat \<Rightarrow> rust_panic + (nat \<times> nat)" where
  "check_accounts [] counted_free counted_reserved = Inr (counted_free, counted_reserved)"
| "check_accounts (info # rest) counted_free counted_reserved =
     result_bind
       (rust_assert (\<not> (consumers info > 0 \<and> providers info = 0)) ''Invalid c/p state'') (\<lambda>_.
     result_bind (u128_add counted_free (free info)) (\<lambda>counted_free.
     result_bind (u128_add counted_reserved (reserved info)) (\<lambda>counted_reserved.
     result_bind
       (rust_assert (max_or_default (lock_amounts info) = frozen info)
          ''Max lock should be equal to frozen balance'') (\<lambda>_.
     result_bind (u128_sum (hold_amounts info) 0) (\<lambda>sum_holds.
     result_bind
       (rust_assert (sum_holds \<le> reserved info)
          ''Sum of all holds should be less than or equal to reserved balance'') (\<lambda>_.
     check_accounts rest counted_free counted_reserved))))))"

definition check_invariants :: "'s ledger_view \<Rightarrow> u32 \<Rightarrow> nat \<Rightarrow> 's \<Rightarrow> rust_panic + unit" where
  "check_invariants V block initial_total_issuance s =
     result_bind (check_accounts (accounts_of V s) 0 0) (\<lambda>(counted_free, counted_reserved).
     result_bind (u128_add counted_free counted_reserved) (\<lambda>counted_issuance.
     result_bind (rust_assert (total_issuance V s = counted_issuance) ''total_issuance'') (\<lambda>_.
     result_bind
       (rust_assert (total_issuance V s \<le> initial_total_issuance) ''initial_total_issuance'') (\<lambda>_.
     result_bind (integrity_test V s) (\<lambda>_. try_state V block s)))))"

section \<open>The loop\<close>

record ('s, 'w) fuzz_state =
  block_no :: u32
  block_weight :: 'w
  elapsed :: nat
  storage :: 's

text \<open>A call with its lapse moves on to a later block first.\<close>

definition next_block ::
  "('s, 'h, 'w) executive_api \<Rightarrow> 'w weight_api \<Rightarrow> features \<Rightarrow> u8 \<Rightarrow> ('s, 'w) fuzz_state \<Rightarrow>
   rust_panic + ('s, 'w) fuzz_state" where
  "next_block E W F lapse st = (
     if lapse > 0 then
       if elapsed st div 1000000000 \<le> 2 then
         if unat (block_no st) + unat lapse * 393 < 2 ^ 32 then
           let block = block_no st + ucast lapse * 393
           in result_bind (initialize_block E F block (storage st)) (\<lambda>s.
                Inr \<lparr>block_no = block, block_weight = from_parts W 0 0, elapsed = 0, storage = s\<rparr>)
         else Inl ArithmeticOverflow
       else Inl (AssertionFailed ''block execution took too much time'')
     else Inr st)"

definition play_call ::
  "('s, 'h, 'w) executive_api \<Rightarrow> 'w weight_api \<Rightarrow> bytes \<Rightarrow> runtime_call \<Rightarrow>
   ('s, 'w) fuzz_state \<Rightarrow> ('s, 'w) fuzz_state" where
  "play_call E W account extrinsic st = (
     let weight = saturating_add W (block_weight st) (call_weight E extrinsic)
     in if ref_time W weight \<ge> 2 * WEIGHT_REF_TIME_PER_SECOND W
        then st\<lparr>block_weight := weight\<rparr>
        else case dispatch E extrinsic account (storage st) of (t, s) \<Rightarrow>
          st\<lparr>block_weight := weight, elapsed := elapsed st + t, storage := s\<rparr>)"

text \<open>The loop over the decoded calls; \<open>origin % accounts.len()\<close> panics without accounts.\<close>

fun process_extrinsics ::
  "('s, 'h, 'w) executive_api \<Rightarrow> 'w weight_api \<Rightarrow> features \<Rightarrow> u32 \<Rightarrow> bytes list \<Rightarrow>
   (u8 \<times> u8 \<times> runtime_call) list \<Rightarrow> ('s, 'w) fuzz_state \<Rightarrow>
   rust_panic + ('s, 'w) fuzz_state" where
  "process_extrinsics E W F mc accounts [] st = Inr st"
| "process_extrinsics E W F mc accounts ((lapse, origin, extrinsic) # rest) st = (
     if accounts = [] then Inl ArithmeticOverflow
     else
       let origin_no = unat origin mod length accounts in
       if \<not> recursive_call_filter F mc extrinsic origin_no
       then process_extrinsics E W F mc accounts rest st
       else result_bind (next_block E W F lapse st) (\<lambda>st1.
         process_extrinsics E W F mc accounts rest
           (play_call E W (accounts ! origin_no) extrinsic st1)))"

text \<open>
  \<open>decoded\<close> is what the decoder takes from the input, one call after the other until it
  fails. Calls of the system pallet are dropped, and an input without calls does nothing.
\<close>

definition process_input ::
  "('s, 'h, 'w) executive_api \<Rightarrow> 'w weight_api \<Rightarrow> features \<Rightarrow> u32 \<Rightarrow> 's ledger_view \<Rightarrow>
   bytes list \<Rightarrow> 's \<Rightarrow>
   (u8 \<times> u8 \<times> runtime_call) list \<Rightarrow> rust_panic + 's" where
  "process_input E W F mc V accounts genesis decoded = (
     let extrinsics =
       filter (\<lambda>(_, _, x). case x of System _ \<Rightarrow> False | _ \<Rightarrow> True) decoded
     in if extrinsics = [] then Inr genesis
        else result_bind (initialize_block E F 1 genesis) (\<lambda>s0.
          result_bind
            (process_extrinsics E W F mc accounts extrinsics
               \<lparr>block_no = 1, block_weight = from_parts W 0 0, elapsed = 0, storage = s0\<rparr>)
            (\<lambda>st. case finalize_block E (storage st) of (_, s) \<Rightarrow>
               result_bind (check_invariants V (block_no st) (total_issuance V genesis) s)
                 (\<lambda>_. Inr s))))"

section \<open>What the checks establish\<close>

definition account_consistent :: "account_info \<Rightarrow> bool" where
  "account_consistent info \<longleftrightarrow>
     (consumers info > 0 \<longrightarrow> providers info > 0) \<and>
     frozen info = max_or_default (lock_amounts info) \<and>
     sum_list (hold_amounts info) \<le> reserved info"

lemma result_bind_Inr_iff: "result_bind r f = Inr b \<longleftrightarrow> (\<exists>a. r = Inr a \<and> f a = Inr b)"
  by (cases r) simp_all

lemma rust_assert_Inr [simp]: "rust_assert b msg = Inr u \<longleftrightarrow> b"
  by (simp add: rust_assert_def)

lemma u128_add_Inr [simp]: "u128_add a b = Inr c \<longleftrightarrow> a + b < 2 ^ 128 \<and> c = a + b"
  by (auto simp: u128_add_def)

lemma u128_sum_Inr:
  "acc < 2 ^ 128 \<Longrightarrow>
   u128_sum xs acc = Inr t \<longleftrightarrow> t = acc + sum_list xs \<and> acc + sum_list xs < 2 ^ 128"
  by (induction xs arbitrary: acc) (auto simp: result_bind_Inr_iff add.assoc)

lemma check_accounts_Inr:
  assumes "f < 2 ^ 128" and "r < 2 ^ 128" and "list_all (\<lambda>i. reserved i < 2 ^ 128) infos"
  shows "check_accounts infos f r = Inr (f', r') \<longleftrightarrow>
    list_all account_consistent infos \<and>
    f' = f + sum_list (map free infos) \<and> r' = r + sum_list (map reserved infos) \<and>
    f' < 2 ^ 128 \<and> r' < 2 ^ 128"
  using assms
proof (induction infos arbitrary: f r)
  case (Cons info infos)
  have head: "check_accounts (info # infos) f r = Inr (f', r') \<longleftrightarrow>
      account_consistent info \<and> f + free info < 2 ^ 128 \<and> r + reserved info < 2 ^ 128 \<and>
      check_accounts infos (f + free info) (r + reserved info) = Inr (f', r')"
    using Cons.prems(3)
    by (auto simp: result_bind_Inr_iff u128_sum_Inr account_consistent_def)
  show ?case
  proof (cases "f + free info < 2 ^ 128 \<and> r + reserved info < 2 ^ 128")
    case True
    then show ?thesis
      using Cons.prems Cons.IH [of "f + free info" "r + reserved info"] head
      by (auto simp: add.assoc)
  next
    case False
    then show ?thesis
      using head by auto
  qed
qed auto

end
