(* ===== verification/Fuzzer_Trace.thy ===== *)
theory Fuzzer_Trace
  imports Fuzzer
begin

text \<open>
  What the fuzzer's loop does to the runtime, as a protocol: the sequence of calls into the
  runtime is recorded by an instance of \<open>executive_api\<close> whose storage is the record itself,
  and an automaton states which sequences are right: blocks are opened with increasing
  numbers, stamped, given their inherent, filled with admissible calls within the weight of a
  block and finalised before the next one opens.
\<close>

section \<open>The recording runtime\<close>

datatype event =
    Finalized
  | Initialized u32
  | Applied runtime_call
  | Dispatched bytes runtime_call

definition log_api ::
  "(runtime_call \<Rightarrow> 'w) \<Rightarrow> (runtime_call \<Rightarrow> nat) \<Rightarrow> (event list, u32, 'w) executive_api" where
  "log_api cw time = \<lparr>
     finalize_block = (\<lambda>s. (0, s @ [Finalized])),
     header_new = (\<lambda>number _ _. number),
     executive_initialize_block = (\<lambda>h s. s @ [Initialized h]),
     apply_extrinsic = (\<lambda>c s. Some (s @ [Applied c])),
     validation_data = (\<lambda>_ _ _. []),
     call_weight = cw,
     dispatch = (\<lambda>c a s. (time c, s @ [Dispatched a c]))\<rparr>"

lemma log_api_simps [simp]:
  "finalize_block (log_api cw time) s = (0, s @ [Finalized])"
  "header_new (log_api cw time) number prev d = number"
  "executive_initialize_block (log_api cw time) h s = s @ [Initialized h]"
  "apply_extrinsic (log_api cw time) c s = Some (s @ [Applied c])"
  "validation_data (log_api cw time) h n b = []"
  "call_weight (log_api cw time) = cw"
  "dispatch (log_api cw time) c a s = (time c, s @ [Dispatched a c])"
  by (simp_all add: log_api_def)

section \<open>The protocol\<close>

datatype phase = Closed u32 | Begun u32 | Stamped u32 | Open u32 nat

record 'w protocol =
  weights :: "'w weight_api"
  build :: features
  candidates :: u32
  fuzz_accounts :: "bytes list"
  weight_of_call :: "runtime_call \<Rightarrow> 'w"

text \<open>A call is admissible for an account when it passes the filter at one of its indices.\<close>

definition admissible :: "'w protocol \<Rightarrow> bytes \<Rightarrow> runtime_call \<Rightarrow> bool" where
  "admissible P a c \<longleftrightarrow>
     (case c of System _ \<Rightarrow> False | _ \<Rightarrow> True) \<and>
     (\<exists>k < length (fuzz_accounts P). fuzz_accounts P ! k = a \<and>
        recursive_call_filter (build P) (candidates P) c k)"

fun phase_step :: "'w protocol \<Rightarrow> phase \<Rightarrow> event \<Rightarrow> phase option" where
  "phase_step P (Closed b) (Initialized b') = (if b < b' then Some (Begun b') else None)"
| "phase_step P (Begun b) (Applied (Timestamp_set t)) =
     (if unat t = unat b * unat (SLOT_DURATION (build P)) * 2 then Some (Stamped b) else None)"
| "phase_step P (Stamped b) (Applied (ParachainSystem d)) = Some (Open b 0)"
| "phase_step P (Open b load) (Dispatched a c) = (
     let load' = load + ref_time (weights P) (weight_of_call P c)
     in if admissible P a c \<and> load' < 2 * WEIGHT_REF_TIME_PER_SECOND (weights P)
        then Some (Open b load') else None)"
| "phase_step P (Open b load) Finalized = Some (Closed b)"
| "phase_step P _ _ = None"

fun phases :: "'w protocol \<Rightarrow> phase \<Rightarrow> event list \<Rightarrow> phase option" where
  "phases P p [] = Some p"
| "phases P p (e # es) = (case phase_step P p e of None \<Rightarrow> None | Some q \<Rightarrow> phases P q es)"

lemma phases_append:
  "phases P p (es @ fs) = (case phases P p es of None \<Rightarrow> None | Some q \<Rightarrow> phases P q fs)"
  by (induction es arbitrary: p) (auto split: option.splits)

section \<open>The invariant of the loop\<close>

lemma timestamp_exact:
  fixes b :: u32
  shows "unat (ucast b * SLOT_DURATION F * 2 :: u64) = unat b * unat (SLOT_DURATION F) * 2"
proof -
  have b: "unat b < 2 ^ 32"
    using unsigned_less [of b] by simp
  have "unat (ucast b :: u64) = unat b"
    using b by (simp add: unsigned_ucast_eq take_bit_nat_eq_self_iff)
  moreover have "unat (SLOT_DURATION F) \<le> 12000"
    by (simp add: const_defs)
  moreover have "unat b * unat (SLOT_DURATION F) * 2 \<le> 2 ^ 32 * 12000 * 2"
    using b \<open>unat (SLOT_DURATION F) \<le> 12000\<close> by (intro mult_le_mono) simp_all
  ultimately show ?thesis
    by (simp add: unat_word_ariths)
qed

lemma log_initialize:
  "initialize_block (log_api cw time) F b s =
     Inr (s @ (if b = 1 then [] else [Finalized]) @
       [Initialized b, Applied (Timestamp_set (ucast b * SLOT_DURATION F * 2)),
        Applied (ParachainSystem [])])"
  by (simp add: initialize_block_def apply_unwrap_def Let_def)

lemma initialize_opens:
  assumes "phases P p s = Some (if b = 1 then Closed prev else Open prev load)" and "prev < b"
    and "initialize_block (log_api cw time) (build P) b s = Inr t"
  shows "phases P p t = Some (Open b 0)"
proof -
  define ts :: u64 where "ts = ucast b * SLOT_DURATION (build P) * 2"
  have t: "t = s @ (if b = 1 then [] else [Finalized]) @
      [Initialized b, Applied (Timestamp_set ts), Applied (ParachainSystem [])]"
    using assms(3) by (simp add: log_initialize ts_def)
  have "unat ts = unat b * unat (SLOT_DURATION (build P)) * 2"
    unfolding ts_def by (rule timestamp_exact)
  then show ?thesis
    using assms(1,2) by (cases "b = 1") (auto simp: t phases_append)
qed

definition loop_invariant ::
  "'w protocol \<Rightarrow> (event list, 'w) fuzz_state \<Rightarrow> bool" where
  "loop_invariant P st \<longleftrightarrow>
     0 < block_no st \<and>
     (\<exists>load. phases P (Closed 0) (storage st) = Some (Open (block_no st) load) \<and>
       load \<le> ref_time (weights P) (block_weight st) \<and>
       load < 2 * WEIGHT_REF_TIME_PER_SECOND (weights P))"

lemma block_lapse_exact:
  fixes b :: u32 and lapse :: u8
  assumes "unat b + unat lapse * 393 < 2 ^ 32"
  shows "unat (b + ucast lapse * 393) = unat b + unat lapse * 393"
proof -
  have "unat (ucast lapse :: u32) = unat lapse"
    using unat_byte_less [of lapse] by (simp add: unsigned_ucast_eq take_bit_nat_eq_self_iff)
  then show ?thesis
    using assms by (simp add: unat_word_ariths)
qed

lemma block_advances:
  fixes b :: u32 and lapse :: u8
  assumes "0 < lapse" and "unat b + unat lapse * 393 < 2 ^ 32"
  shows "b < b + ucast lapse * 393"
  using assms(1) block_lapse_exact [OF assms(2)] by (simp add: word_less_nat_alt)

lemma next_block_invariant:
  assumes "loop_invariant P st" and "weight_laws (weights P)"
    and "next_block (log_api cw time) (weights P) (build P) lapse st = Inr st'"
  shows "loop_invariant P st'"
proof (cases "lapse > 0")
  case True
  let ?b = "block_no st + ucast lapse * 393"
  from assms(3) True have range: "unat (block_no st) + unat lapse * 393 < 2 ^ 32"
    by (auto simp: next_block_def split: if_splits)
  have later: "block_no st < ?b"
    by (rule block_advances [OF True range])
  have "?b \<noteq> 1"
    using later assms(1) by (auto simp: loop_invariant_def word_less_nat_alt)
  obtain load where load: "phases P (Closed 0) (storage st) = Some (Open (block_no st) load)"
    using assms(1) by (auto simp: loop_invariant_def)
  obtain t where t: "initialize_block (log_api cw time) (build P) ?b (storage st) = Inr t"
    by (simp add: log_initialize)
  then have st': "st' = \<lparr>block_no = ?b, block_weight = from_parts (weights P) 0 0, elapsed = 0,
      storage = t\<rparr>"
    using assms(3) True range by (auto simp: next_block_def Let_def split: if_splits)
  have "phases P (Closed 0) t = Some (Open ?b 0)"
    by (rule initialize_opens [OF _ later t]) (use load \<open>?b \<noteq> 1\<close> in simp)
  moreover have "0 < ?b"
    using later word_coorder.not_eq_extremum by fastforce
  ultimately show ?thesis
    using weight_laws.per_second [OF assms(2)] by (simp add: loop_invariant_def st')
next
  case False
  then show ?thesis
    using assms(1,3) by (simp add: next_block_def)
qed

lemma play_call_invariant:
  assumes "loop_invariant P st" and "weight_laws (weights P)" and "admissible P a c"
  shows "loop_invariant P (play_call (log_api (weight_of_call P) time) (weights P) a c st)"
proof -
  let ?W = "weights P" and ?c = "ref_time (weights P) (weight_of_call P c)"
  let ?w = "saturating_add ?W (block_weight st) (weight_of_call P c)"
  obtain load where load: "phases P (Closed 0) (storage st) = Some (Open (block_no st) load)"
    and le: "load \<le> ref_time ?W (block_weight st)" and pos: "0 < block_no st"
    and small: "load < 2 * WEIGHT_REF_TIME_PER_SECOND ?W"
    using assms(1) by (auto simp: loop_invariant_def)
  have w: "ref_time ?W ?w = min u64_MAX (ref_time ?W (block_weight st) + ?c)"
    by (simp add: weight_laws.ref_time_add [OF assms(2)] u64_saturating_add_def)
  show ?thesis
  proof (cases "2 * WEIGHT_REF_TIME_PER_SECOND ?W \<le> ref_time ?W ?w")
    case True
    have "load \<le> ref_time ?W ?w"
      using small True by simp
    then show ?thesis
      using True load pos small by (simp add: play_call_def Let_def loop_invariant_def)
  next
    case False
    then have exact: "ref_time ?W ?w = ref_time ?W (block_weight st) + ?c"
      using w by (auto simp: min_def weight_laws.per_second [OF assms(2)] u64_MAX_def split: if_splits)
    then have "load + ?c < 2 * WEIGHT_REF_TIME_PER_SECOND ?W" and "load + ?c \<le> ref_time ?W ?w"
      using False le by simp_all
    then show ?thesis
      using False load pos assms(3)
      by (simp add: play_call_def Let_def loop_invariant_def phases_append)
  qed
qed

lemma process_extrinsics_invariant:
  assumes "loop_invariant P st" and "weight_laws (weights P)"
    and "list_all (\<lambda>(_, _, x). case x of System _ \<Rightarrow> False | _ \<Rightarrow> True) xs"
    and "process_extrinsics (log_api (weight_of_call P) time) (weights P) (build P)
      (candidates P) (fuzz_accounts P) xs st = Inr st'"
  shows "loop_invariant P st'"
  using assms(1,3,4)
proof (induction xs arbitrary: st)
  case (Cons x xs)
  obtain lapse origin c where x: "x = (lapse, origin, c)"
    by (cases x)
  let ?k = "unat origin mod length (fuzz_accounts P)"
  have accounts: "fuzz_accounts P \<noteq> []"
    using Cons.prems(3) x by auto
  show ?case
  proof (cases "recursive_call_filter (build P) (candidates P) c ?k")
    case True
    then obtain st1 where st1: "next_block (log_api (weight_of_call P) time) (weights P) (build P)
        lapse st = Inr st1"
      and rest: "process_extrinsics (log_api (weight_of_call P) time) (weights P) (build P)
        (candidates P) (fuzz_accounts P) xs
        (play_call (log_api (weight_of_call P) time) (weights P) (fuzz_accounts P ! ?k) c st1) =
        Inr st'"
      using Cons.prems(3) accounts x by (auto simp: result_bind_Inr_iff Let_def)
    have "admissible P (fuzz_accounts P ! ?k) c"
      using True accounts Cons.prems(2) x
      by (auto simp: admissible_def intro!: exI [of _ ?k])
    then have "loop_invariant P
        (play_call (log_api (weight_of_call P) time) (weights P) (fuzz_accounts P ! ?k) c st1)"
      using play_call_invariant next_block_invariant [OF Cons.prems(1) assms(2) st1] assms(2)
      by blast
    then show ?thesis
      using Cons.IH Cons.prems(2) rest by simp
  next
    case False
    then show ?thesis
      using Cons.IH [OF Cons.prems(1)] Cons.prems(2,3) accounts x by (simp add: Let_def)
  qed
qed simp

section \<open>Properties\<close>

text \<open>
  C8: what the filter refuses. A call is refused exactly when a harmful call is exposed in it: it is
  harmful itself, or holds a harmful call at any depth that is reached through batches, scheduling,
  multisigs, \<open>sudo\<close> and the other wrappers the filter knows. For calls without an unknown wrapper that
  is every harmful call they carry. The content of the others, \<open>proxy\<close>, \<open>proxy_announced\<close>, \<open>if_else\<close>,
  \<open>dispatch_as_fallible\<close> and, for the sudo account, \<open>sudo_as\<close>, is never looked at: whatever it is, the
  call passes.
\<close>

theorem fuzz_filter_exact:
  "(recursive_call_filter F mc c origin \<longleftrightarrow> (\<forall>e. exposes c e \<longrightarrow> \<not> harmful F mc origin e)) \<and>
   ((\<forall>d. carries c d \<longrightarrow> \<not> hides d) \<longrightarrow>
      (recursive_call_filter F mc c origin \<longleftrightarrow> (\<forall>e. carries c e \<longrightarrow> \<not> harmful F mc origin e))) \<and>
   recursive_call_filter F mc (Proxy (proxy real d)) origin \<and>
   recursive_call_filter F mc (Proxy (proxy_announced delegate real d)) origin \<and>
   recursive_call_filter F mc (Utility (if_else d e)) origin \<and>
   recursive_call_filter F mc (Utility (dispatch_as_fallible as_origin d)) origin \<and>
   (recursive_call_filter F mc (Sudo (sudo_as who d)) origin \<longleftrightarrow> origin = 0)"
  using filter_iff_exposes [of F mc c origin]
  by (auto dest: exposes_carries carries_exposes)

theorem fuzz_filter_exact_witness:
  "\<not> recursive_call_filter default_features 100
     (Utility (batch [OtherPallet 0, Scheduler (schedule 5 (System (set_code [])))])) 0 \<and>
   recursive_call_filter default_features 100 (Utility (if_else (System (set_code [])) (OtherPallet 0))) 0"
proof -
  have "exposes (Utility (batch [OtherPallet 0, Scheduler (schedule 5 (System (set_code [])))]))
      (System (set_code []))"
    by (rule exposes.inside [where d = "Scheduler (schedule 5 (System (set_code [])))"])
      (auto simp: inner_calls_def hides_def intro: exposes.intros)
  moreover have "harmful default_features 100 0 (System (set_code []))"
    by (simp add: harmful_def)
  ultimately show ?thesis
    using fuzz_filter_exact [of default_features 100 _ 0] by blast
qed

text \<open>
  A call made through a proxy is not looked into: a change of the code that the filter
  refuses by itself passes inside a proxy call, for every account.
\<close>

theorem fuzz_filter_ignores_proxy:
  "recursive_call_filter F mc (Proxy (proxy real (System (set_code code)))) origin \<and>
   \<not> recursive_call_filter F mc (System (set_code code)) origin"
  by simp

text \<open>
  C31: what the final checks prove of a ledger whose balances are 128-bit numbers. They pass
  exactly when every account has a provider for its consumers, has its largest lock frozen and
  its holds covered by the reserve, the free and reserved balances add up, without overflow, to
  a total issuance that has not grown, and the pallets' own tests pass.
\<close>

theorem check_invariants_exact:
  assumes "list_all (\<lambda>i. reserved i < 2 ^ 128) (accounts_of V s)"
  shows "check_invariants V block initial s = Inr () \<longleftrightarrow>
    list_all account_consistent (accounts_of V s) \<and>
    sum_list (map free (accounts_of V s)) + sum_list (map reserved (accounts_of V s)) =
      total_issuance V s \<and>
    total_issuance V s < 2 ^ 128 \<and> total_issuance V s \<le> initial \<and>
    integrity_test V s = Inr () \<and> try_state V block s = Inr ()"
  using assms
  by (auto simp: check_invariants_def result_bind_Inr_iff check_accounts_Inr)

theorem check_invariants_exact_witness:
  "check_invariants
     \<lparr>accounts_of = id, total_issuance = (\<lambda>_. 12), integrity_test = (\<lambda>_. Inr ()),
      try_state = (\<lambda>_ _. Inr ())\<rparr> 1 20
     [\<lparr>consumers = 1, providers = 1, free = 5, reserved = 7, frozen = 3, lock_amounts = [3, 2],
       hold_amounts = [4, 2]\<rparr>] = Inr ()"
  by (subst check_invariants_exact) (simp_all add: account_consistent_def max_or_default_def)

text \<open>
  The loop keeps to the protocol of a chain. Whenever an input with calls is played to the
  end, the runtime has seen a sequence of complete blocks with increasing numbers: each opens,
  is stamped with its number's time, receives its inherent, then only calls that pass the filter
  for their account and together stay below two seconds of weight, and is finalised before the
  next one opens and at the end.
\<close>

theorem fuzz_protocol:
  assumes "weight_laws (weights P)"
    and "\<exists>(_, _, x) \<in> set decoded. \<forall>c. x \<noteq> System c"
    and "process_input (log_api (weight_of_call P) time) (weights P) (build P) (candidates P) V
      (fuzz_accounts P) [] decoded = Inr trace"
  shows "\<exists>b. phases P (Closed 0) trace = Some (Closed b)"
proof -
  let ?E = "log_api (weight_of_call P) time"
  let ?keep = "\<lambda>(_, _, x). case x of System _ \<Rightarrow> False | _ \<Rightarrow> True"
  let ?st0 = "\<lambda>s. \<lparr>block_no = 1, block_weight = from_parts (weights P) 0 0, elapsed = 0,
    storage = s\<rparr>"
  have "filter ?keep decoded \<noteq> []"
    using assms(2) by (fastforce simp: filter_empty_conv split: runtime_call.splits)
  then obtain s0 st where s0: "initialize_block ?E (build P) 1 [] = Inr s0"
    and st: "process_extrinsics ?E (weights P) (build P) (candidates P) (fuzz_accounts P)
      (filter ?keep decoded) (?st0 s0) = Inr st"
    and trace: "trace = storage st @ [Finalized]"
    using assms(3)
    by (auto simp: process_input_def result_bind_Inr_iff Let_def)
  have "phases P (Closed 0) s0 = Some (Open 1 0)"
    by (rule initialize_opens [OF _ _ s0, where prev = 0]) simp_all
  then have "loop_invariant P (?st0 s0)"
    using weight_laws.per_second [OF assms(1)] by (simp add: loop_invariant_def)
  then have "loop_invariant P st"
    by (rule process_extrinsics_invariant [OF _ assms(1) _ st]) (simp add: list_all_iff)
  then show ?thesis
    by (auto simp: loop_invariant_def trace phases_append)
qed

definition demo_protocol :: "sp_weight protocol" where
  "demo_protocol = \<lparr>weights = sp_weight_5MiB, build = default_features, candidates = 100,
     fuzz_accounts = [[0], [1]], 
     weight_of_call = (\<lambda>_. \<lparr>sp_ref_time = 1000, sp_proof_size = 0\<rparr>)\<rparr>"

definition empty_ledger :: "event list ledger_view" where
  "empty_ledger = \<lparr>accounts_of = (\<lambda>_. []), total_issuance = (\<lambda>_. 0),
     integrity_test = (\<lambda>_. Inr ()), try_state = (\<lambda>_ _. Inr ())\<rparr>"

theorem fuzz_protocol_witness:
  "\<exists>trace b. process_input (log_api (weight_of_call demo_protocol) (\<lambda>_. 5)) sp_weight_5MiB
       default_features 100 empty_ledger [[0], [1]] [] [(0, 3, OtherPallet 1), (2, 0, OtherPallet 2)] =
       Inr trace \<and>
     phases demo_protocol (Closed 0) trace = Some (Closed b)"
proof -
  let ?P = demo_protocol
  let ?decoded = "[(0 :: u8, 3 :: u8, OtherPallet 1), (2, 0, OtherPallet 2)]"
  have P: "weights ?P = sp_weight_5MiB" "build ?P = default_features" "candidates ?P = 100"
    "fuzz_accounts ?P = [[0], [1]]"
    by (simp_all add: demo_protocol_def)
  have laws: "weight_laws (weights ?P)"
    unfolding P by (rule sp.weight_laws_axioms)
  have "\<exists>trace. process_input (log_api (weight_of_call ?P) (\<lambda>_. 5)) (weights ?P) (build ?P)
      (candidates ?P) empty_ledger (fuzz_accounts ?P) [] ?decoded = Inr trace"
    unfolding P
    by (simp add: process_input_def log_initialize next_block_def play_call_def Let_def
        check_invariants_def empty_ledger_def demo_protocol_def sp_weight_api_def
        u64_saturating_add_def rust_assert_def u128_add_def)
  then obtain trace where run: "process_input (log_api (weight_of_call ?P) (\<lambda>_. 5)) (weights ?P)
      (build ?P) (candidates ?P) empty_ledger (fuzz_accounts ?P) [] ?decoded = Inr trace"
    by blast
  have "\<exists>b. phases ?P (Closed 0) trace = Some (Closed b)"
    by (rule fuzz_protocol [OF laws _ run]) simp
  with run show ?thesis
    unfolding P by blast
qed

end
