(* ===== verification/Fuzzer_Chain.thy ===== *)
theory Fuzzer_Chain
  imports Fuzzer_Trace
begin

text \<open>
  What the fuzzer's loop may do to a runtime, stated without its bookkeeping: an inductive
  relation says which storages an open block of a well-behaved chain can have, for any runtime.
  The loop with its block counter, weights and clock refines it.
\<close>

section \<open>The abstract chain\<close>

text \<open>
  A block is opened by the runtime's initialisation under the header of the block, the
  timestamp of its number and the parachain inherent of its parent.
\<close>

definition opened ::
  "('s, 'h, 'w) executive_api \<Rightarrow> features \<Rightarrow> 'h option \<Rightarrow> u32 \<Rightarrow> 's \<Rightarrow> 's \<Rightarrow> bool" where
  "opened E F prev b s s' \<longleftrightarrow> (\<exists>t slot s1.
     unat t = unat b * unat (SLOT_DURATION F) * 2 \<and> unat slot = 4 * unat b \<and>
     apply_extrinsic E (Timestamp_set t)
       (executive_initialize_block E (header_new E b prev (ucast b)) s) = Some s1 \<and>
     apply_extrinsic E (ParachainSystem (validation_data E
       (case prev of Some h \<Rightarrow> h | None \<Rightarrow> header_new E b prev (ucast b)) slot b)) s1 = Some s')"

text \<open>\<open>chain E P g b load s\<close>: from the genesis \<open>g\<close>, block \<open>b\<close> can be open with weight \<open>load\<close> used.\<close>

inductive chain ::
  "('s, 'h, 'w) executive_api \<Rightarrow> 'w protocol \<Rightarrow> 's \<Rightarrow> u32 \<Rightarrow> nat \<Rightarrow> 's \<Rightarrow> bool"
  for E P g where
  first: "opened E (build P) None 1 g s \<Longrightarrow> chain E P g 1 0 s"
| next_one: "chain E P g b load s \<Longrightarrow> finalize_block E s = (h, s1) \<Longrightarrow> b < b' \<Longrightarrow>
     opened E (build P) (Some h) b' s1 s2 \<Longrightarrow> chain E P g b' 0 s2"
| call: "chain E P g b load s \<Longrightarrow> admissible P a c \<Longrightarrow>
     load + ref_time (weights P) (weight_of_call P c) < 2 * WEIGHT_REF_TIME_PER_SECOND (weights P) \<Longrightarrow>
     dispatch E c a s = (t, s') \<Longrightarrow>
     chain E P g b (load + ref_time (weights P) (weight_of_call P c)) s'"

lemma chain_load:
  assumes "chain E P g b load s" and "0 < WEIGHT_REF_TIME_PER_SECOND (weights P)"
  shows "0 < b \<and> load < 2 * WEIGHT_REF_TIME_PER_SECOND (weights P)"
  using assms
  by (induction rule: chain.induct) (auto simp: word_gt_0_no intro: le_less_trans)

section \<open>The loop refines the chain\<close>

lemma relay_slot_exact:
  fixes b :: u32 and t :: u64
  assumes "unat t = unat b * unat (SLOT_DURATION F) * 2"
  shows "unat (2 * t div SLOT_DURATION F) = 4 * unat b"
proof -
  have "unat b < 2 ^ 32"
    using unsigned_less [of b] by simp
  moreover have "unat (SLOT_DURATION F) \<le> 12000" and pos: "0 < unat (SLOT_DURATION F)"
    by (simp_all add: const_defs)
  ultimately have "unat b * unat (SLOT_DURATION F) \<le> 2 ^ 32 * 12000"
    by (intro mult_le_mono) simp_all
  then have "unat (2 * t) = 4 * unat b * unat (SLOT_DURATION F)"
    using assms by (simp add: unat_word_ariths)
  then show ?thesis
    using pos by (simp add: unat_div)
qed

lemma apply_unwrap_Inr: "apply_unwrap E c s = Inr s' \<longleftrightarrow> apply_extrinsic E c s = Some s'"
  by (simp add: apply_unwrap_def split: option.splits)

lemma opened_iff:
  fixes b :: u32 and t :: u64
  assumes "t = ucast b * SLOT_DURATION F * 2"
  shows "opened E F prev b s s' \<longleftrightarrow> (\<exists>s1.
     apply_extrinsic E (Timestamp_set t)
       (executive_initialize_block E (header_new E b prev (ucast b)) s) = Some s1 \<and>
     apply_extrinsic E (ParachainSystem (validation_data E
       (case prev of Some h \<Rightarrow> h | None \<Rightarrow> header_new E b prev (ucast b))
       (2 * t div SLOT_DURATION F) b)) s1 = Some s')"
proof -
  have t: "unat t = unat b * unat (SLOT_DURATION F) * 2"
    unfolding assms by (rule timestamp_exact)
  have "unat t' = unat b * unat (SLOT_DURATION F) * 2 \<longleftrightarrow> t' = t" for t' :: u64
    by (simp add: t [symmetric] word_unat_eq_iff)
  moreover have "unat slot = 4 * unat b \<longleftrightarrow> slot = 2 * t div SLOT_DURATION F" for slot :: u64
    by (simp add: relay_slot_exact [OF t, symmetric] word_unat_eq_iff)
  ultimately show ?thesis
    by (simp add: opened_def)
qed

lemma initialize_block_opened:
  "initialize_block E F b s = Inr s' \<longleftrightarrow>
     (if b = 1 then opened E F None b s s'
      else opened E F (Some (fst (finalize_block E s))) b (snd (finalize_block E s)) s')"
  by (simp add: initialize_block_def Let_def result_bind_Inr_iff apply_unwrap_Inr
      opened_iff [OF refl] split_beta)

text \<open>
  The weights are truthful when no call takes longer than its weight says: weights count
  picoseconds, the loop's clock nanoseconds.
\<close>

definition truthful_weights ::
  "('s, 'h, 'w) executive_api \<Rightarrow> 'w protocol \<Rightarrow> 's \<Rightarrow> bool" where
  "truthful_weights E P g \<longleftrightarrow>
     (\<forall>b load s c a. chain E P g b load s \<longrightarrow>
        fst (dispatch E c a s) * 1000 \<le> ref_time (weights P) (weight_of_call P c))"

text \<open>
  The abstraction bounds the load by the weight counter, and bounds the clock by the load when
  the weights are truthful.
\<close>

definition abstracts ::
  "('s, 'h, 'w) executive_api \<Rightarrow> 'w protocol \<Rightarrow> 's \<Rightarrow> ('s, 'w) fuzz_state \<Rightarrow> bool" where
  "abstracts E P g st \<longleftrightarrow>
     (\<exists>load. chain E P g (block_no st) load (storage st) \<and>
        load \<le> ref_time (weights P) (block_weight st) \<and>
        (truthful_weights E P g \<longrightarrow> elapsed st * 1000 \<le> load))"

text \<open>The protocol of a run: the loop's own arguments, with the runtime's weights of calls.\<close>

definition run_protocol ::
  "('s, 'h, 'w) executive_api \<Rightarrow> 'w weight_api \<Rightarrow> features \<Rightarrow> u32 \<Rightarrow> bytes list \<Rightarrow> 'w protocol" where
  "run_protocol E W F mc accounts = \<lparr>weights = W, build = F, candidates = mc,
     fuzz_accounts = accounts, weight_of_call = call_weight E\<rparr>"

lemma run_protocol_simps [simp]:
  "weights (run_protocol E W F mc accounts) = W"
  "build (run_protocol E W F mc accounts) = F"
  "candidates (run_protocol E W F mc accounts) = mc"
  "fuzz_accounts (run_protocol E W F mc accounts) = accounts"
  "weight_of_call (run_protocol E W F mc accounts) = call_weight E"
  by (simp_all add: run_protocol_def)

lemma next_block_refines:
  assumes "abstracts E (run_protocol E W F mc accounts) g st" and "weight_laws W"
    and "next_block E W F lapse st = Inr st'"
  shows "abstracts E (run_protocol E W F mc accounts) g st'"
proof (cases "lapse > 0")
  case True
  let ?P = "run_protocol E W F mc accounts" and ?b = "block_no st + ucast lapse * 393"
  obtain load where load: "chain E ?P g (block_no st) load (storage st)"
    using assms(1) by (auto simp: abstracts_def)
  then have pos: "0 < block_no st"
    using chain_load weight_laws.per_second [OF assms(2)] by fastforce
  from assms(3) True have range: "unat (block_no st) + unat lapse * 393 < 2 ^ 32"
    by (auto simp: next_block_def split: if_splits)
  have later: "block_no st < ?b"
    by (rule block_advances [OF True range])
  then have "?b \<noteq> 1"
    using pos by (auto simp: word_less_nat_alt)
  obtain t where t: "initialize_block E F ?b (storage st) = Inr t"
    and st': "block_no st' = ?b" "storage st' = t" "elapsed st' = 0"
    using assms(3) True range
    by (auto simp: next_block_def Let_def result_bind_Inr_iff split: if_splits)
  have "opened E F (Some (fst (finalize_block E (storage st)))) ?b
      (snd (finalize_block E (storage st))) t"
    using t \<open>?b \<noteq> 1\<close> by (simp add: initialize_block_opened)
  then have "chain E ?P g ?b 0 t"
    using chain.next_one [OF load prod.collapse [symmetric] later] by simp
  then show ?thesis
    by (auto simp: abstracts_def st')
next
  case False
  then show ?thesis
    using assms(1,3) by (simp add: next_block_def)
qed

lemma play_call_refines:
  assumes "abstracts E (run_protocol E W F mc accounts) g st" and "weight_laws W"
    and "admissible (run_protocol E W F mc accounts) a c"
  shows "abstracts E (run_protocol E W F mc accounts) g (play_call E W a c st)"
proof -
  let ?P = "run_protocol E W F mc accounts" and ?c = "ref_time W (call_weight E c)"
  let ?w = "saturating_add W (block_weight st) (call_weight E c)"
  obtain load where load: "chain E ?P g (block_no st) load (storage st)"
    and le: "load \<le> ref_time W (block_weight st)"
    and clock: "truthful_weights E ?P g \<longrightarrow> elapsed st * 1000 \<le> load"
    using assms(1) by (auto simp: abstracts_def)
  have w: "ref_time W ?w = min u64_MAX (ref_time W (block_weight st) + ?c)"
    by (simp add: weight_laws.ref_time_add [OF assms(2)] u64_saturating_add_def)
  show ?thesis
  proof (cases "2 * WEIGHT_REF_TIME_PER_SECOND W \<le> ref_time W ?w")
    case True
    have "load < 2 * WEIGHT_REF_TIME_PER_SECOND W"
      using chain_load [OF load] weight_laws.per_second [OF assms(2)] by simp
    then show ?thesis
      using True load clock
      by (auto simp: play_call_def Let_def abstracts_def intro!: exI [of _ load])
  next
    case False
    then have exact: "ref_time W ?w = ref_time W (block_weight st) + ?c"
      using w by (auto simp: min_def weight_laws.per_second [OF assms(2)] u64_MAX_def
          split: if_splits)
    obtain t s' where d: "dispatch E c a (storage st) = (t, s')"
      by fastforce
    have "chain E ?P g (block_no st) (load + ?c) s'"
      using chain.call [OF load assms(3) _ d] False exact le by simp
    moreover have "truthful_weights E ?P g \<longrightarrow> t * 1000 \<le> ?c"
      using load d unfolding truthful_weights_def by (metis fst_conv run_protocol_simps(1,5))
    ultimately show ?thesis
      using False d exact le clock
      by (auto simp: play_call_def Let_def abstracts_def intro!: exI [of _ "load + ?c"])
  qed
qed

definition not_system :: "u8 \<times> u8 \<times> runtime_call \<Rightarrow> bool" where
  "not_system x \<longleftrightarrow> (case snd (snd x) of System _ \<Rightarrow> False | _ \<Rightarrow> True)"

lemma not_system_iff: "not_system (lapse, origin, c) \<longleftrightarrow> (\<forall>d. c \<noteq> System d)"
  by (cases c) (simp_all add: not_system_def)

lemma filter_not_system:
  "filter (\<lambda>(_, _, x). case x of System _ \<Rightarrow> False | _ \<Rightarrow> True) = filter not_system"
  by (rule arg_cong [of _ _ filter]) (auto simp: fun_eq_iff not_system_def split: runtime_call.splits)

lemma process_input_calls:
  assumes "filter not_system decoded \<noteq> []"
  shows "process_input E W F mc V accounts g decoded =
    result_bind (initialize_block E F 1 g) (\<lambda>s0.
      result_bind (process_extrinsics E W F mc accounts (filter not_system decoded)
        \<lparr>block_no = 1, block_weight = from_parts W 0 0, elapsed = 0, storage = s0\<rparr>) (\<lambda>st.
      result_bind (check_invariants V (block_no st) (total_issuance V g)
        (snd (finalize_block E (storage st)))) (\<lambda>_. Inr (snd (finalize_block E (storage st))))))"
  using assms unfolding process_input_def filter_not_system Let_def by (simp add: split_beta)

lemma process_extrinsics_refines:
  assumes "abstracts E (run_protocol E W F mc accounts) g st" and "weight_laws W"
    and "list_all not_system xs"
    and "process_extrinsics E W F mc accounts xs st = Inr st'"
  shows "abstracts E (run_protocol E W F mc accounts) g st'"
  using assms(1,3,4)
proof (induction xs arbitrary: st)
  case (Cons x xs)
  obtain lapse origin c where x: "x = (lapse, origin, c)"
    by (cases x)
  let ?k = "unat origin mod length accounts"
  have accounts: "accounts \<noteq> []"
    using Cons.prems(3) x by auto
  show ?case
  proof (cases "recursive_call_filter F mc c ?k")
    case True
    then obtain st1 where st1: "next_block E W F lapse st = Inr st1"
      and rest: "process_extrinsics E W F mc accounts xs
        (play_call E W (accounts ! ?k) c st1) = Inr st'"
      using Cons.prems(3) accounts x by (auto simp: result_bind_Inr_iff Let_def)
    have "admissible (run_protocol E W F mc accounts) (accounts ! ?k) c"
      using True accounts Cons.prems(2) x
      by (auto simp: admissible_def not_system_def intro!: exI [of _ ?k])
    then show ?thesis
      using Cons.IH [OF play_call_refines [OF next_block_refines [OF Cons.prems(1) assms(2) st1]
            assms(2)]] Cons.prems(2) rest by simp
  next
    case False
    then show ?thesis
      using Cons.IH [OF Cons.prems(1)] Cons.prems(2,3) accounts x by (simp add: Let_def)
  qed
qed simp

section \<open>Properties\<close>

text \<open>
  C3: the loop refines the chain. Whatever the runtime under test does, an input with calls that
  is played to the end leaves a storage that the abstract chain reaches too: complete blocks
  with increasing numbers, each opened with its header, its timestamp and its inherent, filled
  only with calls that pass the filter for their account and stay below two seconds of weight
  together; the last block is finalised and its storage is what the final checks have passed.
\<close>

theorem fuzz_refines_chain:
  assumes "weight_laws W" and "\<exists>(_, _, x) \<in> set decoded. \<forall>c. x \<noteq> System c"
    and "process_input E W F mc V accounts g decoded = Inr s"
  shows "\<exists>b load s0. chain E (run_protocol E W F mc accounts) g b load s0 \<and>
    s = snd (finalize_block E s0) \<and>
    check_invariants V b (total_issuance V g) s = Inr ()"
proof -
  let ?st0 = "\<lambda>s. \<lparr>block_no = 1, block_weight = from_parts W 0 0, elapsed = 0, storage = s\<rparr>"
  have "filter not_system decoded \<noteq> []"
    using assms(2) by (auto simp: filter_empty_conv not_system_iff intro: bexI [rotated])
  then obtain s0 st where s0: "initialize_block E F 1 g = Inr s0"
    and st: "process_extrinsics E W F mc accounts (filter not_system decoded) (?st0 s0) = Inr st"
    and s: "s = snd (finalize_block E (storage st))"
    and checked: "check_invariants V (block_no st) (total_issuance V g) s = Inr ()"
    using assms(3)
    by (auto simp: process_input_calls result_bind_Inr_iff)
  have "opened E F None 1 g s0"
    using s0 by (simp add: initialize_block_opened)
  then have "abstracts E (run_protocol E W F mc accounts) g (?st0 s0)"
    by (auto simp: abstracts_def intro!: exI [of _ 0] chain.first)
  then have "abstracts E (run_protocol E W F mc accounts) g st"
    by (rule process_extrinsics_refines [OF _ assms(1) _ st]) (simp add: list_all_iff)
  then show ?thesis
    using s checked by (auto simp: abstracts_def)
qed

text \<open>A runtime whose storage counts the calls it has dispatched.\<close>

definition counting_runtime :: "(nat, u32, sp_weight) executive_api" where
  "counting_runtime = \<lparr>
     finalize_block = (\<lambda>s. (0, s)),
     header_new = (\<lambda>number _ _. number),
     executive_initialize_block = (\<lambda>_ s. s),
     apply_extrinsic = (\<lambda>_ s. Some s),
     validation_data = (\<lambda>_ _ _. []),
     call_weight = (\<lambda>_. \<lparr>sp_ref_time = 1000, sp_proof_size = 0\<rparr>),
     dispatch = (\<lambda>_ _ s. (1, Suc s))\<rparr>"

definition no_ledger :: "nat ledger_view" where
  "no_ledger = \<lparr>accounts_of = (\<lambda>_. []), total_issuance = (\<lambda>_. 0),
     integrity_test = (\<lambda>_. Inr ()), try_state = (\<lambda>_ _. Inr ())\<rparr>"

theorem fuzz_refines_chain_witness:
  "\<exists>b load s0. chain counting_runtime
     (run_protocol counting_runtime sp_weight_5MiB default_features 100 [[0], [1]]) 0 b load s0 \<and>
     2 = snd (finalize_block counting_runtime s0) \<and>
     check_invariants no_ledger b (total_issuance no_ledger 0) 2 = Inr ()"
  by (rule fuzz_refines_chain
        [OF sp.weight_laws_axioms, of "[(0, 3, OtherPallet 1), (2, 0, OtherPallet 2)]"])
    (simp_all add: process_input_def initialize_block_def apply_unwrap_def next_block_def
      play_call_def Let_def check_invariants_def counting_runtime_def no_ledger_def
      sp_weight_api_def u64_saturating_add_def rust_assert_def u128_add_def)

text \<open>
  What can be wrong with a runtime: it refuses the inherents of its first block or of a later
  one, it reaches a state that fails the final checks, or a call takes longer than its weight.
\<close>

definition flawed ::
  "('s, 'h, 'w) executive_api \<Rightarrow> 'w protocol \<Rightarrow> 's ledger_view \<Rightarrow> 's \<Rightarrow> bool" where
  "flawed E P V g \<longleftrightarrow>
     (\<forall>s. \<not> opened E (build P) None 1 g s) \<or>
     (\<exists>b load s. chain E P g b load s \<and>
       ((\<exists>b' > b. \<forall>s'. \<not> opened E (build P) (Some (fst (finalize_block E s))) b'
            (snd (finalize_block E s)) s') \<or>
        check_invariants V b (total_issuance V g) (snd (finalize_block E s)) \<noteq> Inr () \<or>
        (\<exists>c a. ref_time (weights P) (weight_of_call P c) < fst (dispatch E c a s) * 1000)))"

lemma flawless_truthful: "\<not> flawed E P V g \<Longrightarrow> truthful_weights E P g"
  by (auto simp: flawed_def truthful_weights_def not_less)

lemma next_block_returns:
  assumes "abstracts E (run_protocol E W F mc accounts) g st" and "weight_laws W"
    and "\<not> flawed E (run_protocol E W F mc accounts) V g"
    and "unat (block_no st) + unat lapse * 393 < 2 ^ 32"
  shows "\<exists>st'. next_block E W F lapse st = Inr st' \<and>
    unat (block_no st') = unat (block_no st) + unat lapse * 393"
proof (cases "lapse > 0")
  case True
  let ?P = "run_protocol E W F mc accounts" and ?b = "block_no st + ucast lapse * 393"
  obtain load where load: "chain E ?P g (block_no st) load (storage st)"
    and clock: "elapsed st * 1000 \<le> load"
    using assms(1) flawless_truthful [OF assms(3)] by (auto simp: abstracts_def)
  then have "elapsed st * 1000 < 2000000000000" and pos: "0 < block_no st"
    using chain_load [OF load] weight_laws.per_second [OF assms(2)] by simp_all
  then have "elapsed st div 1000000000 \<le> 2"
    by linarith
  moreover have later: "block_no st < ?b"
    by (rule block_advances [OF True assms(4)])
  then have "?b \<noteq> 1"
    using pos by (auto simp: word_less_nat_alt)
  then have "\<exists>t. initialize_block E F ?b (storage st) = Inr t"
    using assms(3) load later by (auto simp: flawed_def initialize_block_opened)
  moreover have "unat ?b = unat (block_no st) + unat lapse * 393"
    by (rule block_lapse_exact [OF assms(4)])
  ultimately show ?thesis
    using True assms(4) by (auto simp: next_block_def Let_def)
next
  case False
  then show ?thesis
    by (simp add: next_block_def word_less_nat_alt)
qed

lemma play_call_block [simp]: "block_no (play_call E W a c st) = block_no st"
  by (simp add: play_call_def Let_def split_beta)

lemma process_extrinsics_returns:
  assumes "abstracts E (run_protocol E W F mc accounts) g st" and "weight_laws W"
    and "\<not> flawed E (run_protocol E W F mc accounts) V g" and "accounts \<noteq> []"
    and "list_all not_system xs" and "unat (block_no st) + length xs * (255 * 393) < 2 ^ 32"
  shows "\<exists>st'. process_extrinsics E W F mc accounts xs st = Inr st'"
  using assms(1,5,6)
proof (induction xs arbitrary: st)
  case (Cons x xs)
  obtain lapse origin c where x: "x = (lapse, origin, c)"
    by (cases x)
  let ?k = "unat origin mod length accounts"
  show ?case
  proof (cases "recursive_call_filter F mc c ?k")
    case True
    have lapse: "unat lapse * 393 \<le> 255 * 393"
      using unat_byte_less [of lapse] by (intro mult_le_mono) simp_all
    then have "unat (block_no st) + unat lapse * 393 < 2 ^ 32"
      using Cons.prems(3) by simp
    then obtain st1 where st1: "next_block E W F lapse st = Inr st1"
      and b1: "unat (block_no st1) = unat (block_no st) + unat lapse * 393"
      using next_block_returns [OF Cons.prems(1) assms(2,3)] by blast
    have "admissible (run_protocol E W F mc accounts) (accounts ! ?k) c"
      using True assms(4) Cons.prems(2) x
      by (auto simp: admissible_def not_system_def intro!: exI [of _ ?k])
    then have "abstracts E (run_protocol E W F mc accounts) g
        (play_call E W (accounts ! ?k) c st1)"
      by (rule play_call_refines [OF next_block_refines [OF Cons.prems(1) assms(2) st1] assms(2)])
    then have "\<exists>st'. process_extrinsics E W F mc accounts xs
        (play_call E W (accounts ! ?k) c st1) = Inr st'"
      by (rule Cons.IH) (use Cons.prems(2,3) b1 lapse in simp_all)
    then show ?thesis
      using True st1 assms(4) x by (simp add: Let_def)
  next
    case False
    then show ?thesis
      using Cons.IH [OF Cons.prems(1)] Cons.prems(2,3) assms(4) x by (simp add: Let_def)
  qed
qed simp

text \<open>
  An alarm is real: when an input of at most 42857 calls makes the loop panic, the runtime
  itself is at fault.
\<close>

lemma process_input_alarm:
  assumes "weight_laws W" and "accounts \<noteq> []" and "length decoded \<le> 42857"
    and "process_input E W F mc V accounts g decoded = Inl p"
  shows "flawed E (run_protocol E W F mc accounts) V g"
proof (rule ccontr)
  let ?P = "run_protocol E W F mc accounts" and ?xs = "filter not_system decoded"
  let ?st0 = "\<lambda>s. \<lparr>block_no = 1, block_weight = from_parts W 0 0, elapsed = 0, storage = s\<rparr>"
  assume flawless: "\<not> flawed E ?P V g"
  have calls: "?xs \<noteq> []"
    using assms(4) by (auto simp: process_input_def filter_not_system)
  obtain s0 where s0: "initialize_block E F 1 g = Inr s0"
    using flawless by (auto simp: flawed_def initialize_block_opened)
  then have start: "abstracts E ?P g (?st0 s0)"
    by (auto simp: abstracts_def initialize_block_opened intro!: exI [of _ 0] chain.first)
  have "length ?xs \<le> 42857"
    using assms(3) length_filter_le order_trans by blast
  then obtain st where st: "process_extrinsics E W F mc accounts ?xs (?st0 s0) = Inr st"
    using process_extrinsics_returns [OF start assms(1) flawless assms(2), of ?xs]
    by (auto simp: list_all_iff)
  have "abstracts E ?P g st"
    by (rule process_extrinsics_refines [OF start assms(1) _ st]) (simp add: list_all_iff)
  then have "check_invariants V (block_no st) (total_issuance V g)
      (snd (finalize_block E (storage st))) = Inr ()"
    using flawless by (auto simp: flawed_def abstracts_def)
  then show False
    using assms(4) calls s0 st by (simp add: process_input_calls)
qed

end
