(* ===== verification/Fuzzer_Main.thy ===== *)
theory Fuzzer_Main
  imports Fuzzer_Chain
begin

text \<open>
  The rest of \<open>template-fuzzer/src/main.rs\<close>: the loop that decodes calls from the raw input, the
  genesis the calls are played on, and \<open>main\<close>, which builds the accounts and the genesis once
  and plays every input that the fuzzing engine provides. The decoder of runtime calls, the
  conversion of 32 bytes into an account and the building of a storage belong to the SDK and are
  parameters.
\<close>

section \<open>The loop over the input\<close>

text \<open>
  \<open>iter::from_fn(|| decode_with_depth_limit(64, &mut data).ok())\<close>: one item after the other
  until the decoder fails. Nothing in the loop itself makes it end, so it is a partial
  function: \<open>None\<close> is a loop that never returns.
\<close>

partial_function (option) decode_extrinsics ::
  "(nat \<Rightarrow> bytes \<Rightarrow> ('x \<times> bytes) option) \<Rightarrow> bytes \<Rightarrow> 'x list option" where
  "decode_extrinsics decode data =
     (case decode 64 data of
        None \<Rightarrow> Some []
      | Some (x, rest) \<Rightarrow> Option.bind (decode_extrinsics decode rest) (\<lambda>xs. Some (x # xs)))"

text \<open>An item is never decoded from nothing: whatever is decoded was read from the input.\<close>

definition reads_input :: "(nat \<Rightarrow> bytes \<Rightarrow> ('x \<times> bytes) option) \<Rightarrow> bool" where
  "reads_input decode \<longleftrightarrow>
     (\<forall>n data x rest. decode n data = Some (x, rest) \<longrightarrow> length rest < length data)"

definition process_data ::
  "('s, 'h, 'w) executive_api \<Rightarrow> 'w weight_api \<Rightarrow> features \<Rightarrow> u32 \<Rightarrow> 's ledger_view \<Rightarrow>
   (nat \<Rightarrow> bytes \<Rightarrow> ((u8 \<times> u8 \<times> runtime_call) \<times> bytes) option) \<Rightarrow> bytes list \<Rightarrow> 's \<Rightarrow> bytes \<Rightarrow>
   (rust_panic + 's) option" where
  "process_data E W F mc V decode accounts genesis data =
     Option.bind (decode_extrinsics decode data)
       (\<lambda>decoded. Some (process_input E W F mc V accounts genesis decoded))"

section \<open>The genesis\<close>

text \<open>
  The fields that \<open>generate_genesis\<close> sets; all others are defaults. The session and
  collator-selection pallets exist without \<open>tanssi\<close> only, the chain id in the EVM template only.
\<close>

record collator_selection_config =
  invulnerables :: "bytes list"
  candidacy_bond :: u128
  desired_candidates :: u32

record 'k fuzz_genesis =
  genesis_balances :: "(bytes \<times> u128) list"
  session_keys :: "(bytes \<times> bytes \<times> 'k) list option"
  collator_selection :: "collator_selection_config option"
  sudo_key :: "bytes option"
  evm_chain_id :: "u64 option"

definition unwrap_panic :: "'a option \<Rightarrow> rust_panic + 'a" where
  "unwrap_panic r =
     (case r of
        Some a \<Rightarrow> Inr a
      | None \<Rightarrow> Inl (ExpectFailed ''called `Result::unwrap()` on an `Err` value''))"

definition zero_account :: "(bytes \<Rightarrow> bytes) \<Rightarrow> bytes" where
  "zero_account into = into (replicate 32 0)"

definition generic_genesis_config ::
  "features \<Rightarrow> (bytes \<Rightarrow> bytes) \<Rightarrow> (bytes \<Rightarrow> 'k option) \<Rightarrow> bytes list \<Rightarrow>
   rust_panic + 'k fuzz_genesis" where
  "generic_genesis_config F into aura_from_slice accounts = (
     let balances = map (\<lambda>k. (k, push_bit 60 1)) accounts;
         root = zero_account into
     in result_bind
          (if tanssi F then Inr None
           else result_bind (unwrap_panic (aura_from_slice (replicate 32 0))) (\<lambda>aura.
             Inr (Some [(zero_account into, zero_account into, aura)])))
          (\<lambda>keys. Inr
            \<lparr>genesis_balances = balances,
             session_keys = keys,
             collator_selection =
               (if tanssi F then None
                else Some \<lparr>invulnerables = [zero_account into], candidacy_bond = push_bit 57 1,
                  desired_candidates = 1\<rparr>),
             sudo_key = Some root,
             evm_chain_id = None\<rparr>))"

definition evm_genesis_config ::
  "features \<Rightarrow> (bytes \<Rightarrow> bytes) \<Rightarrow> (bytes \<Rightarrow> 'k option) \<Rightarrow> bytes list \<Rightarrow>
   rust_panic + 'k fuzz_genesis" where
  "evm_genesis_config F into aura_from_slice accounts = (
     let balances = map (\<lambda>k. (k, push_bit 60 1)) accounts;
         root = zero_account into
     in result_bind
          (if tanssi F then Inr None
           else result_bind (unwrap_panic (aura_from_slice (replicate 32 0))) (\<lambda>aura.
             Inr (Some [(zero_account into, zero_account into, aura)])))
          (\<lambda>keys. Inr
            \<lparr>genesis_balances = balances,
             session_keys = keys,
             collator_selection =
               (if tanssi F then None
                else Some \<lparr>invulnerables = [zero_account into], candidacy_bond = push_bit 57 1,
                  desired_candidates = 1\<rparr>),
             sudo_key = Some root,
             evm_chain_id = Some 1000\<rparr>))"

definition generate_genesis ::
  "(bytes list \<Rightarrow> rust_panic + 'k fuzz_genesis) \<Rightarrow> ('k fuzz_genesis \<Rightarrow> 's option) \<Rightarrow>
   bytes list \<Rightarrow> rust_panic + 's" where
  "generate_genesis genesis_config build_storage accounts =
     result_bind (genesis_config accounts) (\<lambda>config. unwrap_panic (build_storage config))"

section \<open>The main function\<close>

definition main_accounts :: "(bytes \<Rightarrow> bytes) \<Rightarrow> bytes list" where
  "main_accounts into = map (\<lambda>i. into (replicate 32 (of_nat i))) [0..<5]"

text \<open>
  The outcomes of the inputs the engine provides, up to the first panic, which it reports; every
  input is played on its own copy of the genesis. An input that never returns gives \<open>None\<close>.
\<close>

fun fuzz_inputs ::
  "(bytes \<Rightarrow> (rust_panic + 's) option) \<Rightarrow> bytes list \<Rightarrow> (rust_panic + 's list) option" where
  "fuzz_inputs target [] = Some (Inr [])"
| "fuzz_inputs target (data # inputs) =
     Option.bind (target data) (\<lambda>r.
       case r of
         Inl p \<Rightarrow> Some (Inl p)
       | Inr s \<Rightarrow> Option.bind (fuzz_inputs target inputs) (\<lambda>rs.
           Some (result_bind rs (\<lambda>ss. Inr (s # ss)))))"

definition fuzzer_main ::
  "('s, 'h, 'w) executive_api \<Rightarrow> 'w weight_api \<Rightarrow> features \<Rightarrow> u32 \<Rightarrow> 's ledger_view \<Rightarrow>
   (nat \<Rightarrow> bytes \<Rightarrow> ((u8 \<times> u8 \<times> runtime_call) \<times> bytes) option) \<Rightarrow> (bytes \<Rightarrow> bytes) \<Rightarrow>
   (bytes list \<Rightarrow> rust_panic + 's) \<Rightarrow> bytes list \<Rightarrow> (rust_panic + 's list) option" where
  "fuzzer_main E W F mc V decode into genesis_of inputs = (
     let accounts = main_accounts into
     in case genesis_of accounts of
          Inl p \<Rightarrow> Some (Inl p)
        | Inr genesis \<Rightarrow> fuzz_inputs (process_data E W F mc V decode accounts genesis) inputs)"

section \<open>The loops end\<close>

lemma decode_extrinsics_returns:
  assumes "reads_input decode"
  shows "\<exists>xs. decode_extrinsics decode data = Some xs \<and> length xs \<le> length data"
proof (induction "length data" arbitrary: data rule: less_induct)
  case less
  show ?case
  proof (cases "decode 64 data")
    case None
    then show ?thesis
      by (subst decode_extrinsics.simps) simp
  next
    case (Some r)
    obtain x rest where r: "r = (x, rest)"
      by fastforce
    have shorter: "length rest < length data"
      using assms Some r by (auto simp: reads_input_def)
    obtain xs where "decode_extrinsics decode rest = Some xs" and "length xs \<le> length rest"
      using less [OF shorter] by blast
    then show ?thesis
      using Some r shorter by (subst decode_extrinsics.simps) simp
  qed
qed

lemma fuzz_inputs_return:
  "(\<And>data. data \<in> set inputs \<Longrightarrow> target data \<noteq> None) \<Longrightarrow> fuzz_inputs target inputs \<noteq> None"
  by (induction inputs) (force split: sum.splits)+

lemma main_accounts_nonempty [simp]: "main_accounts into \<noteq> []" "length (main_accounts into) = 5"
  by (simp_all add: main_accounts_def)

text \<open>Without the law of the decoder the loop may run forever: an item read from nothing.\<close>

lemma decode_extrinsics_diverges:
  assumes "\<And>data. decode 64 data = Some (x, data)"
  shows "decode_extrinsics decode data = None"
proof (rule ccontr)
  assume "decode_extrinsics decode data \<noteq> None"
  then obtain xs where "decode_extrinsics decode data = Some xs"
    by blast
  then show False
  proof (induction xs arbitrary: data)
    case Nil
    then show ?case
      by (subst (asm) decode_extrinsics.simps) (auto simp: assms bind_eq_Some_conv)
  next
    case (Cons y ys)
    then show ?case
      by (subst (asm) (2) decode_extrinsics.simps) (auto simp: assms bind_eq_Some_conv)
  qed
qed

lemma process_data_alarm:
  assumes "reads_input decode" and "weight_laws W" and "accounts \<noteq> []"
    and "length data \<le> 42857" and "process_data E W F mc V decode accounts g data = Some (Inl p)"
  shows "flawed E (run_protocol E W F mc accounts) V g"
proof -
  obtain decoded where "decode_extrinsics decode data = Some decoded"
    and "length decoded \<le> length data"
    using decode_extrinsics_returns [OF assms(1)] by blast
  then show ?thesis
    using assms(4,5) process_input_alarm [OF assms(2,3), of decoded]
    by (auto simp: process_data_def)
qed

lemma fuzz_inputs_alarm:
  "fuzz_inputs target inputs = Some (Inl p) \<Longrightarrow> \<exists>data \<in> set inputs. target data = Some (Inl p)"
proof (induction inputs)
  case (Cons data inputs)
  then obtain r where r: "target data = Some r"
    by (auto simp: bind_eq_Some_conv)
  show ?case
  proof (cases r)
    case (Inr s)
    then obtain rs where "fuzz_inputs target inputs = Some rs"
      and "result_bind rs (\<lambda>ss. Inr (s # ss)) = Inl p"
      using Cons.prems r by (auto simp: bind_eq_Some_conv)
    then show ?thesis
      using Cons.IH by (cases rs) auto
  qed (use Cons.prems r in auto)
qed simp

section \<open>Properties\<close>

text \<open>
  C17: the fuzzer ends on every input. When the decoder reads what it decodes from the input,
  the loop over the raw bytes, the loop over the calls and the run over any number of inputs
  return: each input gives a storage or a panic, and \<open>main\<close> reports the first panic.
\<close>

theorem fuzzer_main_ends:
  assumes "reads_input decode"
  shows "\<exists>r. fuzzer_main E W F mc V decode into genesis_of inputs = Some r"
proof -
  have "process_data E W F mc V decode accounts g data \<noteq> None" for accounts g data
    using decode_extrinsics_returns [OF assms, of data] by (auto simp: process_data_def)
  then show ?thesis
    using fuzz_inputs_return by (fastforce simp: fuzzer_main_def Let_def split: sum.splits)
qed

text \<open>A decoder of calls without arguments: the lapse, the account and the index of the pallet.\<close>

definition plain_decoder :: "nat \<Rightarrow> bytes \<Rightarrow> ((u8 \<times> u8 \<times> runtime_call) \<times> bytes) option" where
  "plain_decoder limit data =
     (case data of
        lapse # origin # pallet # rest \<Rightarrow> Some ((lapse, origin, OtherPallet (unat pallet)), rest)
      | _ \<Rightarrow> None)"

lemma plain_decoder_reads: "reads_input plain_decoder"
  by (auto simp: reads_input_def plain_decoder_def split: list.splits)

theorem fuzzer_main_ends_witness:
  "\<exists>r. fuzzer_main counting_runtime sp_weight_5MiB default_features 100 no_ledger plain_decoder id
     (\<lambda>_. Inr 0) [[0, 3, 1, 2, 0], []] = Some r"
  by (rule fuzzer_main_ends [OF plain_decoder_reads])



text \<open>
  C36: the filter and the genesis agree on who may use sudo. In both templates, when the five
  accounts are different, the genesis makes exactly the account with index 0 the sudo key and
  the only invulnerable collator, every account holds more than the candidacy bond, and the
  filter lets through a plain call of the sudo pallet for an account if and only if that account
  holds the key.
\<close>

theorem fuzz_sudo_is_key:
  assumes "distinct (main_accounts into)" and "k < 5"
    and "evm_genesis_config F into aura (main_accounts into) = Inr G \<or>
      generic_genesis_config F into aura (main_accounts into) = Inr G"
  shows "(recursive_call_filter F mc (Sudo (other_sudo n)) k \<longleftrightarrow>
      sudo_key G = Some (main_accounts into ! k)) \<and>
    map fst (genesis_balances G) = main_accounts into \<and>
    (\<forall>c. collator_selection G = Some c \<longrightarrow> invulnerables c = [main_accounts into ! 0] \<and>
      (\<forall>(a, b) \<in> set (genesis_balances G). candidacy_bond c < b))"
proof -
  have G: "sudo_key G = Some (main_accounts into ! 0)"
    "genesis_balances G = map (\<lambda>a. (a, push_bit 60 1)) (main_accounts into)"
    "collator_selection G = (if tanssi F then None
      else Some \<lparr>invulnerables = [main_accounts into ! 0], candidacy_bond = push_bit 57 1,
        desired_candidates = 1\<rparr>)"
    using assms(3)
    by (auto simp: evm_genesis_config_def generic_genesis_config_def Let_def result_bind_Inr_iff
        main_accounts_def zero_account_def)
  have "main_accounts into ! k = main_accounts into ! 0 \<longleftrightarrow> k = 0"
    using assms(1,2) by (simp add: nth_eq_iff_index_eq)
  then show ?thesis
    by (auto simp: G comp_def push_bit_eq_mult split: if_splits)
qed

theorem fuzz_sudo_is_key_witness:
  "\<exists>G :: unit fuzz_genesis.
     evm_genesis_config default_features id (\<lambda>_. Some ()) (main_accounts id) = Inr G \<and>
     \<not> recursive_call_filter default_features 100 (Sudo (other_sudo 0)) 3 \<and>
     sudo_key G \<noteq> Some (main_accounts id ! 3)"
proof -
  obtain G :: "unit fuzz_genesis" where
    G: "evm_genesis_config default_features id (\<lambda>_. Some ()) (main_accounts id) = Inr G"
    by (simp add: evm_genesis_config_def unwrap_panic_def Let_def)
  have "distinct (main_accounts id)"
    by (simp add: main_accounts_def upt_rec)
  then show ?thesis
    using fuzz_sudo_is_key [of id 3 default_features "\<lambda>_. Some ()" G 100 0] G by auto
qed

end
