(* ===== verification/Generic_Fuzzer.thy ===== *)
theory Generic_Fuzzer
  imports Generic_Governance Fuzzer_Main
begin

text \<open>
  The fuzzer of the generic template, \<open>src/generic-template/template-fuzzer/src/main.rs\<close>: the same
  functions as in the fuzzer of the EVM template, in another order and with other messages,
  translated on their own and shown to be in step.
\<close>

section \<open>Blocks\<close>

definition generic_apply_unwrap ::
  "('s, 'h, 'w) executive_api \<Rightarrow> runtime_call \<Rightarrow> 's \<Rightarrow> rust_panic + 's" where
  "generic_apply_unwrap E c s =
     (case apply_extrinsic E c s of
        Some s' \<Rightarrow> Inr s'
      | None \<Rightarrow> Inl (ExpectFailed ''called `Result::unwrap()` on an `Err` value''))"

definition generic_initialize_block ::
  "('s, 'h, 'w) executive_api \<Rightarrow> features \<Rightarrow> u32 \<Rightarrow> 's \<Rightarrow> rust_panic + 's" where
  "generic_initialize_block E F block s = (
     let current_timestamp = ucast block * generic_SLOT_DURATION F * 2 :: u64;
         (prev_header, s1) =
           (if block = 1 then (None, s)
            else case finalize_block E s of (h, s') \<Rightarrow> (Some h, s'));
         parent_header = header_new E block prev_header (ucast block);
         s2 = executive_initialize_block E parent_header s1;
         parent_head = (case prev_header of Some h \<Rightarrow> h | None \<Rightarrow> parent_header);
         current_slot = 2 * current_timestamp div generic_SLOT_DURATION F
     in result_bind (generic_apply_unwrap E (Timestamp_set current_timestamp) s2) (\<lambda>s3.
          generic_apply_unwrap E (ParachainSystem (validation_data E parent_head current_slot block)) s3))"

lemma generic_apply_unwrap_eq [in_step]: "generic_apply_unwrap = apply_unwrap"
  by (intro ext) (unfold generic_apply_unwrap_def apply_unwrap_def in_step, rule refl)

lemma generic_initialize_block_eq [in_step]: "generic_initialize_block = initialize_block"
  by (intro ext) (unfold generic_initialize_block_def initialize_block_def in_step, rule refl)

section \<open>Final checks\<close>

fun generic_check_accounts :: "account_info list \<Rightarrow> nat \<Rightarrow> nat \<Rightarrow> rust_panic + (nat \<times> nat)" where
  "generic_check_accounts [] counted_free counted_reserved = Inr (counted_free, counted_reserved)"
| "generic_check_accounts (info # rest) counted_free counted_reserved =
     result_bind
       (rust_assert (\<not> (consumers info > 0 \<and> providers info = 0)) ''Invalid c/p state'') (\<lambda>_.
     result_bind (u128_add counted_free (free info)) (\<lambda>counted_free.
     result_bind (u128_add counted_reserved (reserved info)) (\<lambda>counted_reserved.
     result_bind
       (rust_assert (max_or_default (lock_amounts info) = frozen info)
          ''Max lock should be equal to frozen balance'') (\<lambda>_.
     result_bind (u128_sum (hold_amounts info) 0) (\<lambda>sum_holds.
     result_bind
       (rust_assert (sum_holds \<le> reserved info)
          ''Sum of all holds should be less than or equal to reserved balance'') (\<lambda>_.
     generic_check_accounts rest counted_free counted_reserved))))))"

definition generic_check_invariants :: "'s ledger_view \<Rightarrow> u32 \<Rightarrow> nat \<Rightarrow> 's \<Rightarrow> rust_panic + unit" where
  "generic_check_invariants V block initial_total_issuance s =
     result_bind (generic_check_accounts (accounts_of V s) 0 0) (\<lambda>(counted_free, counted_reserved).
     result_bind (u128_add counted_free counted_reserved) (\<lambda>counted_issuance.
     result_bind (rust_assert (total_issuance V s = counted_issuance) ''total_issuance'') (\<lambda>_.
     result_bind
       (rust_assert (total_issuance V s \<le> initial_total_issuance) ''initial_total_issuance'') (\<lambda>_.
     result_bind (integrity_test V s) (\<lambda>_. try_state V block s)))))"

lemma generic_check_accounts_eq [in_step]: "generic_check_accounts = check_accounts"
proof (intro ext)
  fix xs f r
  show "generic_check_accounts xs f r = check_accounts xs f r"
    by (induction xs arbitrary: f r) simp_all
qed

lemma generic_check_invariants_eq [in_step]: "generic_check_invariants = check_invariants"
  by (intro ext) (unfold generic_check_invariants_def check_invariants_def in_step, rule refl)

section \<open>The call filter\<close>

fun generic_recursive_call_filter :: "features \<Rightarrow> u32 \<Rightarrow> runtime_call \<Rightarrow> nat \<Rightarrow> bool" where
  "generic_recursive_call_filter F mc (Sudo s) origin =
     (case s of
        sudo call \<Rightarrow> if origin = 0 then generic_recursive_call_filter F mc call origin else False
      | sudo_unchecked_weight call _ \<Rightarrow>
          if origin = 0 then generic_recursive_call_filter F mc call origin else False
      | sudo_as _ _ \<Rightarrow> if origin \<noteq> 0 then False else True
      | other_sudo _ \<Rightarrow> if origin \<noteq> 0 then False else True)"
| "generic_recursive_call_filter F mc (Utility u) origin =
     (case u of
        with_weight call _ \<Rightarrow> generic_recursive_call_filter F mc call origin
      | dispatch_as _ call \<Rightarrow> generic_recursive_call_filter F mc call origin
      | as_derivative _ call \<Rightarrow> generic_recursive_call_filter F mc call origin
      | force_batch calls \<Rightarrow> list_all (\<lambda>call. generic_recursive_call_filter F mc call origin) calls
      | batch calls \<Rightarrow> list_all (\<lambda>call. generic_recursive_call_filter F mc call origin) calls
      | batch_all calls \<Rightarrow> list_all (\<lambda>call. generic_recursive_call_filter F mc call origin) calls
      | dispatch_as_fallible _ _ \<Rightarrow> True
      | if_else _ _ \<Rightarrow> True
      | other_utility _ \<Rightarrow> True)"
| "generic_recursive_call_filter F mc (Scheduler s) origin =
     (case s of
        schedule_named_after _ _ call \<Rightarrow> generic_recursive_call_filter F mc call origin
      | schedule _ call \<Rightarrow> generic_recursive_call_filter F mc call origin
      | schedule_named _ _ call \<Rightarrow> generic_recursive_call_filter F mc call origin
      | schedule_after _ call \<Rightarrow> generic_recursive_call_filter F mc call origin
      | other_scheduler _ \<Rightarrow> True)"
| "generic_recursive_call_filter F mc (Multisig m) origin =
     (case m of
        as_multi_threshold_1 _ call \<Rightarrow> generic_recursive_call_filter F mc call origin
      | as_multi _ _ call _ \<Rightarrow> generic_recursive_call_filter F mc call origin
      | other_multisig _ \<Rightarrow> True)"
| "generic_recursive_call_filter F mc (Whitelist w) origin =
     (case w of
        dispatch_whitelisted_call_with_preimage call \<Rightarrow> generic_recursive_call_filter F mc call origin
      | other_whitelist _ \<Rightarrow> True)"
| "generic_recursive_call_filter F mc (System s) origin =
     (case s of set_code _ \<Rightarrow> False | kill_prefix _ _ \<Rightarrow> False | other_system _ \<Rightarrow> True)"
| "generic_recursive_call_filter F mc (CollatorSelection c) origin =
     (case c of
        set_desired_candidates wanted \<Rightarrow> if tanssi F then True else wanted < mc
      | other_collator _ \<Rightarrow> True)"
| "generic_recursive_call_filter F mc (Balances b) origin =
     (case b of force_adjust_total_issuance _ \<Rightarrow> False | other_balances _ \<Rightarrow> True)"
| "generic_recursive_call_filter F mc (Timestamp_set now) origin = True"
| "generic_recursive_call_filter F mc (ParachainSystem d) origin = True"
| "generic_recursive_call_filter F mc (Proxy p) origin = True"
| "generic_recursive_call_filter F mc (Ethereum e) origin = True"
| "generic_recursive_call_filter F mc (OtherPallet n) origin = True"

lemma generic_recursive_call_filter_eq [in_step]:
  "generic_recursive_call_filter = recursive_call_filter"
proof (intro ext)
  fix F mc c k
  show "generic_recursive_call_filter F mc c k = recursive_call_filter F mc c k"
    by (induction F mc c k rule: recursive_call_filter.induct)
      (simp_all split: sudo_call.split utility_call.split scheduler_call.split multisig_call.split
        whitelist_call.split add: list_all_iff)
qed

section \<open>The loop\<close>

definition generic_next_block ::
  "('s, 'h, 'w) executive_api \<Rightarrow> 'w weight_api \<Rightarrow> features \<Rightarrow> u8 \<Rightarrow> ('s, 'w) fuzz_state \<Rightarrow>
   rust_panic + ('s, 'w) fuzz_state" where
  "generic_next_block E W F lapse st = (
     if lapse > 0 then
       if elapsed st div 1000000000 \<le> 2 then
         if unat (block_no st) + unat lapse * 393 < 2 ^ 32 then
           let block = block_no st + ucast lapse * 393
           in result_bind (generic_initialize_block E F block (storage st)) (\<lambda>s.
                Inr \<lparr>block_no = block, block_weight = from_parts W 0 0, elapsed = 0, storage = s\<rparr>)
         else Inl ArithmeticOverflow
       else Inl (AssertionFailed ''block execution took too much time'')
     else Inr st)"

definition generic_play_call ::
  "('s, 'h, 'w) executive_api \<Rightarrow> 'w weight_api \<Rightarrow> bytes \<Rightarrow> runtime_call \<Rightarrow>
   ('s, 'w) fuzz_state \<Rightarrow> ('s, 'w) fuzz_state" where
  "generic_play_call E W account extrinsic st = (
     let weight = saturating_add W (block_weight st) (call_weight E extrinsic)
     in if ref_time W weight \<ge> 2 * WEIGHT_REF_TIME_PER_SECOND W
        then st\<lparr>block_weight := weight\<rparr>
        else case dispatch E extrinsic account (storage st) of (t, s) \<Rightarrow>
          st\<lparr>block_weight := weight, elapsed := elapsed st + t, storage := s\<rparr>)"

fun generic_process_extrinsics ::
  "('s, 'h, 'w) executive_api \<Rightarrow> 'w weight_api \<Rightarrow> features \<Rightarrow> u32 \<Rightarrow> bytes list \<Rightarrow>
   (u8 \<times> u8 \<times> runtime_call) list \<Rightarrow> ('s, 'w) fuzz_state \<Rightarrow>
   rust_panic + ('s, 'w) fuzz_state" where
  "generic_process_extrinsics E W F mc accounts [] st = Inr st"
| "generic_process_extrinsics E W F mc accounts ((lapse, origin, extrinsic) # rest) st = (
     if accounts = [] then Inl ArithmeticOverflow
     else
       let origin_no = unat origin mod length accounts in
       if \<not> generic_recursive_call_filter F mc extrinsic origin_no
       then generic_process_extrinsics E W F mc accounts rest st
       else result_bind (generic_next_block E W F lapse st) (\<lambda>st1.
         generic_process_extrinsics E W F mc accounts rest
           (generic_play_call E W (accounts ! origin_no) extrinsic st1)))"

definition generic_process_input ::
  "('s, 'h, 'w) executive_api \<Rightarrow> 'w weight_api \<Rightarrow> features \<Rightarrow> u32 \<Rightarrow> 's ledger_view \<Rightarrow>
   bytes list \<Rightarrow> 's \<Rightarrow>
   (u8 \<times> u8 \<times> runtime_call) list \<Rightarrow> rust_panic + 's" where
  "generic_process_input E W F mc V accounts genesis decoded = (
     let extrinsics =
       filter (\<lambda>(_, _, x). case x of System _ \<Rightarrow> False | _ \<Rightarrow> True) decoded
     in if extrinsics = [] then Inr genesis
        else result_bind (generic_initialize_block E F 1 genesis) (\<lambda>s0.
          result_bind
            (generic_process_extrinsics E W F mc accounts extrinsics
               \<lparr>block_no = 1, block_weight = from_parts W 0 0, elapsed = 0, storage = s0\<rparr>)
            (\<lambda>st. case finalize_block E (storage st) of (_, s) \<Rightarrow>
               result_bind (generic_check_invariants V (block_no st) (total_issuance V genesis) s)
                 (\<lambda>_. Inr s))))"

lemma generic_next_block_eq [in_step]: "generic_next_block = next_block"
  by (intro ext) (unfold generic_next_block_def next_block_def in_step, rule refl)

lemma generic_play_call_eq [in_step]: "generic_play_call = play_call"
  by (intro ext) (unfold generic_play_call_def play_call_def in_step, rule refl)

lemma generic_process_extrinsics_eq [in_step]: "generic_process_extrinsics = process_extrinsics"
proof (intro ext)
  fix E W F mc accounts xs st
  show "generic_process_extrinsics E W F mc accounts xs st =
      process_extrinsics E W F mc accounts xs st"
    by (induction xs arbitrary: st) (auto simp: in_step Let_def split: prod.splits)
qed

lemma generic_process_input_eq [in_step]: "generic_process_input = process_input"
  by (intro ext) (unfold generic_process_input_def process_input_def in_step, rule refl)

section \<open>Inputs and genesis\<close>

definition generic_process_data ::
  "('s, 'h, 'w) executive_api \<Rightarrow> 'w weight_api \<Rightarrow> features \<Rightarrow> u32 \<Rightarrow> 's ledger_view \<Rightarrow>
   (nat \<Rightarrow> bytes \<Rightarrow> ((u8 \<times> u8 \<times> runtime_call) \<times> bytes) option) \<Rightarrow> bytes list \<Rightarrow> 's \<Rightarrow> bytes \<Rightarrow>
   (rust_panic + 's) option" where
  "generic_process_data E W F mc V decode accounts genesis data =
     Option.bind (decode_extrinsics decode data)
       (\<lambda>decoded. Some (generic_process_input E W F mc V accounts genesis decoded))"

definition generic_generate_genesis ::
  "(bytes list \<Rightarrow> rust_panic + 'k fuzz_genesis) \<Rightarrow> ('k fuzz_genesis \<Rightarrow> 's option) \<Rightarrow>
   bytes list \<Rightarrow> rust_panic + 's" where
  "generic_generate_genesis genesis_config build_storage accounts =
     result_bind (genesis_config accounts) (\<lambda>config. unwrap_panic (build_storage config))"

definition generic_main_accounts :: "(bytes \<Rightarrow> bytes) \<Rightarrow> bytes list" where
  "generic_main_accounts into = map (\<lambda>i. into (replicate 32 (of_nat i))) [0..<5]"

fun generic_fuzz_inputs ::
  "(bytes \<Rightarrow> (rust_panic + 's) option) \<Rightarrow> bytes list \<Rightarrow> (rust_panic + 's list) option" where
  "generic_fuzz_inputs target [] = Some (Inr [])"
| "generic_fuzz_inputs target (data # inputs) =
     Option.bind (target data) (\<lambda>r.
       case r of
         Inl p \<Rightarrow> Some (Inl p)
       | Inr s \<Rightarrow> Option.bind (generic_fuzz_inputs target inputs) (\<lambda>rs.
           Some (result_bind rs (\<lambda>ss. Inr (s # ss)))))"

definition generic_fuzzer_main ::
  "('s, 'h, 'w) executive_api \<Rightarrow> 'w weight_api \<Rightarrow> features \<Rightarrow> u32 \<Rightarrow> 's ledger_view \<Rightarrow>
   (nat \<Rightarrow> bytes \<Rightarrow> ((u8 \<times> u8 \<times> runtime_call) \<times> bytes) option) \<Rightarrow> (bytes \<Rightarrow> bytes) \<Rightarrow>
   (bytes list \<Rightarrow> rust_panic + 's) \<Rightarrow> bytes list \<Rightarrow> (rust_panic + 's list) option" where
  "generic_fuzzer_main E W F mc V decode into genesis_of inputs = (
     let accounts = generic_main_accounts into
     in case genesis_of accounts of
          Inl p \<Rightarrow> Some (Inl p)
        | Inr genesis \<Rightarrow> generic_fuzz_inputs (generic_process_data E W F mc V decode accounts genesis) inputs)"

lemma generic_process_data_eq [in_step]: "generic_process_data = process_data"
  by (intro ext) (unfold generic_process_data_def process_data_def in_step, rule refl)

lemma generic_generate_genesis_eq [in_step]: "generic_generate_genesis = generate_genesis"
  by (intro ext) (unfold generic_generate_genesis_def generate_genesis_def in_step, rule refl)

lemma generic_main_accounts_eq [in_step]: "generic_main_accounts = main_accounts"
  by (intro ext) (unfold generic_main_accounts_def main_accounts_def in_step, rule refl)

lemma generic_fuzz_inputs_eq [in_step]: "generic_fuzz_inputs = fuzz_inputs"
proof (intro ext)
  fix target inputs
  show "generic_fuzz_inputs target inputs = fuzz_inputs target inputs"
    by (induction inputs) simp_all
qed

lemma generic_fuzzer_main_eq [in_step]: "generic_fuzzer_main = fuzzer_main"
  by (intro ext) (unfold generic_fuzzer_main_def fuzzer_main_def in_step, rule refl)

end
