(* ===== verification/Node_Command.thy ===== *)
theory Node_Command
  imports Genesis Node_Service
begin

text \<open>
  \<open>node/src/cli.rs\<close> and \<open>node/src/command.rs\<close> of the nodes, and the chain specifications of
  \<open>chain_spec.rs\<close> as a whole: which specification a command line selects, what each sub-command
  does with it, and how the arguments of the relay chain are resolved. Argument parsing, the
  creation of a configuration and the commands themselves belong to the SDK; \<open>command_api\<close> has
  the functions that are called, and a run ends in the SDK's command that is executed, as a
  value.
\<close>

section \<open>Chain specifications\<close>

datatype ChainType = DevelopmentChain | LocalChain

datatype property_value = PString string | PNumber nat | PBool bool

record 'k ChainSpec =
  cs_code :: bytes
  cs_extensions :: Extensions
  cs_name :: string
  cs_id :: string
  cs_chain_type :: ChainType
  cs_genesis :: "'k genesis_config"
  cs_protocol_id :: "string option"
  cs_properties :: "string \<rightharpoonup> property_value"

text \<open>What a node is built from: \<open>WASM_BINARY\<close> is \<open>None\<close> when the runtime was not built to WASM.\<close>

record ('e, 'k, 'f, 'io, 'js, 'abi) node_env =
  env_features :: features
  env_keys :: "('e, 'k) keys_api"
  env_from_low_u64_be :: "u64 \<Rightarrow> bytes"
  env_contracts :: "('f, 'io, 'js, 'abi) contracts_api"
  WASM_BINARY :: "bytes option"
  from_json_file :: "string \<Rightarrow> string + 'k ChainSpec"

definition base_properties :: "string \<rightharpoonup> property_value" where
  "base_properties =
     [''tokenSymbol'' \<mapsto> PString ''UNIT'', ''tokenDecimals'' \<mapsto> PNumber 12,
      ''ss58Format'' \<mapsto> PNumber 42]"

text \<open>\<open>WASM_BINARY.expect(..)\<close>, then the genesis patch, then the specification.\<close>

definition build_spec ::
  "bytes option \<Rightarrow> rust_panic + 'k genesis_config \<Rightarrow>
   (bytes \<Rightarrow> 'k genesis_config \<Rightarrow> 'k ChainSpec) \<Rightarrow> rust_panic + 'k ChainSpec" where
  "build_spec wasm genesis spec =
     (case wasm of
        None \<Rightarrow> Inl (ExpectFailed ''WASM binary was not built, please build it!'')
      | Some code \<Rightarrow> result_bind genesis (\<lambda>g. Inr (spec code g)))"

definition development_spec ::
  "(string \<rightharpoonup> property_value) \<Rightarrow> bytes \<Rightarrow> 'k genesis_config \<Rightarrow> 'k ChainSpec" where
  "development_spec properties code g = \<lparr>
     cs_code = code, cs_extensions = spec_extensions, cs_name = ''Development'', cs_id = ''dev'',
     cs_chain_type = DevelopmentChain, cs_genesis = g, cs_protocol_id = None,
     cs_properties = properties\<rparr>"

definition local_testnet_spec ::
  "(string \<rightharpoonup> property_value) \<Rightarrow> bytes \<Rightarrow> 'k genesis_config \<Rightarrow> 'k ChainSpec" where
  "local_testnet_spec properties code g = \<lparr>
     cs_code = code, cs_extensions = spec_extensions, cs_name = ''Local Testnet'',
     cs_id = ''local_testnet'', cs_chain_type = LocalChain, cs_genesis = g,
     cs_protocol_id = Some ''template-local'', cs_properties = properties\<rparr>"

definition evm_genesis_of ::
  "('e, 'k, 'f, 'io, 'js, 'abi) node_env \<Rightarrow> ContractsPath \<Rightarrow> rust_panic + 'k genesis_config" where
  "evm_genesis_of E contracts_path =
     evm_spec_genesis (env_features E) (env_keys E) (env_from_low_u64_be E) (env_contracts E)
       contracts_path"

definition evm_development_config ::
  "('e, 'k, 'f, 'io, 'js, 'abi) node_env \<Rightarrow> ContractsPath \<Rightarrow> rust_panic + 'k ChainSpec" where
  "evm_development_config E contracts_path =
     build_spec (WASM_BINARY E) (evm_genesis_of E contracts_path)
       (development_spec (base_properties
          (''isEthereum'' \<mapsto> PBool True,
           ''basedOn'' \<mapsto> PString ''OpenZeppelin EVM Template'')))"

definition evm_local_testnet_config ::
  "('e, 'k, 'f, 'io, 'js, 'abi) node_env \<Rightarrow> ContractsPath \<Rightarrow> rust_panic + 'k ChainSpec" where
  "evm_local_testnet_config E contracts_path =
     build_spec (WASM_BINARY E) (evm_genesis_of E contracts_path)
       (local_testnet_spec (base_properties(''isEthereum'' \<mapsto> PBool True)))"

definition generic_development_config ::
  "('e, 'k, 'f, 'io, 'js, 'abi) node_env \<Rightarrow> rust_panic + 'k ChainSpec" where
  "generic_development_config E =
     build_spec (WASM_BINARY E) (generic_spec_genesis (env_features E) (env_keys E))
       (development_spec (base_properties
          (''basedOn'' \<mapsto> PString ''OpenZeppelin Generic Template'')))"

definition generic_local_testnet_config ::
  "('e, 'k, 'f, 'io, 'js, 'abi) node_env \<Rightarrow> rust_panic + 'k ChainSpec" where
  "generic_local_testnet_config E =
     build_spec (WASM_BINARY E) (generic_spec_genesis (env_features E) (env_keys E))
       (local_testnet_spec base_properties)"

section \<open>The command line\<close>

text \<open>The structs of the SDK's commands are of the type \<open>'c\<close>.\<close>

record 'c ExtendedBuildSpecCmd =
  build_cmd :: 'c
  predeployed_contracts :: "string option"
  no_predeployed_contracts :: bool

datatype 'c BenchmarkCmd =
    BenchPallet 'c | BenchBlock 'c | BenchStorage 'c | BenchMachine 'c | BenchOther 'c

datatype 'c Subcommand =
    BuildSpec "'c ExtendedBuildSpecCmd"
  | CheckBlock 'c
  | ExportBlocks 'c
  | ExportState 'c
  | ImportBlocks 'c
  | Revert 'c
  | PurgeChain 'c
  | ExportGenesisHead 'c
  | ExportGenesisWasm 'c
  | Benchmark "'c BenchmarkCmd"
  | TryRuntime

record 'c Cli =
  subcommand :: "'c Subcommand option"
  run_cmd :: 'c
  no_hardware_benchmarks :: bool
  relay_chain_args :: "string list"
  eth :: EthConfiguration

fun contract_directory :: "'c Subcommand \<Rightarrow> ContractsPath" where
  "contract_directory (BuildSpec cmd) =
     (case (no_predeployed_contracts cmd, predeployed_contracts cmd) of
        (True, _) \<Rightarrow> ContractsNone
      | (False, None) \<Rightarrow> ContractsDefault
      | (False, Some path) \<Rightarrow> ContractsSome path)"
| "contract_directory _ = ContractsNone"

definition evm_load_spec ::
  "('e, 'k, 'f, 'io, 'js, 'abi) node_env \<Rightarrow> string \<Rightarrow> ContractsPath \<Rightarrow>
   rust_panic + (string + 'k ChainSpec)" where
  "evm_load_spec E i contracts_path =
     (if i = ''dev'' then map_sum id Inr (evm_development_config E contracts_path)
      else if i = ''template-paseo'' then map_sum id Inr (evm_local_testnet_config E contracts_path)
      else if i = '''' \<or> i = ''local''
      then map_sum id Inr (evm_local_testnet_config E contracts_path)
      else Inr (from_json_file E i))"

definition generic_load_spec ::
  "('e, 'k, 'f, 'io, 'js, 'abi) node_env \<Rightarrow> string \<Rightarrow> rust_panic + (string + 'k ChainSpec)" where
  "generic_load_spec E i =
     (if i = ''dev'' then map_sum id Inr (generic_development_config E)
      else if i = ''template-paseo'' then map_sum id Inr (generic_local_testnet_config E)
      else if i = '''' \<or> i = ''local'' then map_sum id Inr (generic_local_testnet_config E)
      else Inr (from_json_file E i))"

text \<open>\<open>SubstrateCli::load_spec\<close> of the EVM node's \<open>Cli\<close>.\<close>

definition Cli_load_spec ::
  "('e, 'k, 'f, 'io, 'js, 'abi) node_env \<Rightarrow> 'c Cli \<Rightarrow> string \<Rightarrow>
   rust_panic + (string + 'k ChainSpec)" where
  "Cli_load_spec E cli i =
     evm_load_spec E i
       (case subcommand cli of
          Some s \<Rightarrow> contract_directory s
        | None \<Rightarrow> ContractsPath_default)"

section \<open>The relay chain's command line\<close>

record 'r RelayChainCli =
  base :: 'r
  relay_chain_id :: "string option"
  relay_base_path :: "string option"

text \<open>
  The functions that a command calls. \<open>create_runner\<close> makes the configuration of the sub-command, or of
  the node itself without one; \<open>base_shared_path\<close> and \<open>base_chain_id\<close> are the answers of the relay
  chain's own arguments; \<open>input_error\<close> is the conversion from a string.
\<close>

record ('c, 'k, 'r, 'w, 'e) command_api =
  create_runner :: "'c Cli \<Rightarrow> 'e + 'k ChainSpec Configuration"
  executable_name :: string
  parse_from :: "string list \<Rightarrow> 'r"
  base_shared_path :: "'r \<Rightarrow> 'e + string option"
  base_chain_id :: "'r \<Rightarrow> bool \<Rightarrow> 'e + string"
  create_configuration :: "'r RelayChainCli \<Rightarrow> 'e + 'k ChainSpec Configuration"
  get_extension :: "'k ChainSpec \<Rightarrow> Extensions option"
  command_chain :: "'c \<Rightarrow> string option"
  gather_hwbench :: "'k ChainSpec Configuration \<Rightarrow> 'w option"
  input_error :: "string \<Rightarrow> 'e"
  display_error :: "'e \<Rightarrow> string"

definition RelayChainCli_new ::
  "('c, 'k, 'r, 'w, 'e) command_api \<Rightarrow> 'k ChainSpec Configuration \<Rightarrow> string list \<Rightarrow>
   'r RelayChainCli" where
  "RelayChainCli_new A para_config args = (
     let extension = get_extension A (conf_chain_spec para_config);
         chain_id = map_option relay_chain extension;
         base_path = path_join (conf_base_path para_config) ''polkadot''
     in \<lparr>base = parse_from A args, relay_chain_id = chain_id, relay_base_path = Some base_path\<rparr>)"

definition RelayChainCli_base_path ::
  "('c, 'k, 'r, 'w, 'e) command_api \<Rightarrow> 'r RelayChainCli \<Rightarrow> 'e + string option" where
  "RelayChainCli_base_path A cli =
     result_bind (base_shared_path A (base cli)) (\<lambda>p. Inr (or_else p (relay_base_path cli)))"

definition RelayChainCli_chain_id ::
  "('c, 'k, 'r, 'w, 'e) command_api \<Rightarrow> 'r RelayChainCli \<Rightarrow> bool \<Rightarrow> 'e + string" where
  "RelayChainCli_chain_id A cli is_dev =
     result_bind (base_chain_id A (base cli) is_dev) (\<lambda>chain_id.
       Inr (if chain_id = [] then (case relay_chain_id cli of Some i \<Rightarrow> i | None \<Rightarrow> [])
            else chain_id))"

definition p2p_listen_port :: u16 where
  "p2p_listen_port = 30334"

definition rpc_listen_port :: u16 where
  "rpc_listen_port = 9945"

definition prometheus_listen_port :: u16 where
  "prometheus_listen_port = 9616"

section \<open>Running a command\<close>

text \<open>The SDK's command that a run ends in, with the arguments it is given.\<close>

datatype ('c, 'k, 'cl, 'b, 'q, 'n) action =
    DoBuildSpec 'c "'k ChainSpec"
  | DoCheckBlock 'c 'cl 'q
  | DoExportBlocks 'c 'cl "'k ChainSpec Configuration"
  | DoExportState 'c 'cl "'k ChainSpec"
  | DoImportBlocks 'c 'cl 'q
  | DoRevert 'c 'cl 'b
  | DoPurgeChain 'c "'k ChainSpec Configuration" "'k ChainSpec Configuration"
  | DoExportGenesisHead 'c 'cl
  | DoExportGenesisWasm 'c "'k ChainSpec"
  | DoBenchmarkPallet 'c "'k ChainSpec"
  | DoBenchmarkBlock 'c 'cl
  | DoBenchmarkStorage 'c "'k ChainSpec Configuration" 'cl 'b
  | DoBenchmarkMachine 'c "'k ChainSpec Configuration"
  | DoRunNode 'n

text \<open>The macro \<open>construct_async_run\<close>: a configuration, then the partial components.\<close>

definition construct_async_run ::
  "('c, 'k, 'r, 'w, 'e) command_api \<Rightarrow>
   ('k ChainSpec Configuration \<Rightarrow> 'e abort + ('cl, 'b, 'q, 'p) PartialComponents) \<Rightarrow> 'c Cli \<Rightarrow>
   ('k ChainSpec Configuration \<Rightarrow> ('cl, 'b, 'q, 'p) PartialComponents \<Rightarrow>
     ('c, 'k, 'cl, 'b, 'q, 'n) action) \<Rightarrow> 'e abort + ('c, 'k, 'cl, 'b, 'q, 'n) action" where
  "construct_async_run A new_partial cli code =
     result_bind (try_result (create_runner A cli)) (\<lambda>config.
     result_bind (new_partial config) (\<lambda>components. Inr (code config components)))"

definition relay_configuration ::
  "('c, 'k, 'r, 'w, 'e) command_api \<Rightarrow> 'c Cli \<Rightarrow> 'k ChainSpec Configuration \<Rightarrow>
   'e abort + 'k ChainSpec Configuration" where
  "relay_configuration A cli config = (
     let polkadot_cli = RelayChainCli_new A config (executable_name A # relay_chain_args cli)
     in case create_configuration A polkadot_cli of
          Inr polkadot_config \<Rightarrow> Inr polkadot_config
        | Inl err \<Rightarrow> Inl (Failed (input_error A
            (''Relay chain argument error: '' @ display_error A err))))"

definition run_benchmark ::
  "('c, 'k, 'r, 'w, 'e) command_api \<Rightarrow> features \<Rightarrow>
   ('k ChainSpec Configuration \<Rightarrow> 'e abort + ('cl, 'b, 'q, 'p) PartialComponents) \<Rightarrow>
   'k ChainSpec Configuration \<Rightarrow> 'c BenchmarkCmd \<Rightarrow>
   'e abort + ('c, 'k, 'cl, 'b, 'q, 'n) action" where
  "run_benchmark A F new_partial config cmd =
     (case cmd of
        BenchPallet c \<Rightarrow>
          if runtime_benchmarks F then Inr (DoBenchmarkPallet c (conf_chain_spec config))
          else Inl (Failed (input_error A (''Benchmarking wasn't enabled when building the node. '' @
            ''You can enable it with `--features runtime-benchmarks`.'')))
      | BenchBlock c \<Rightarrow>
          result_bind (new_partial config) (\<lambda>partials. Inr (DoBenchmarkBlock c (pc_client partials)))
      | BenchStorage c \<Rightarrow>
          if runtime_benchmarks F
          then result_bind (new_partial config) (\<lambda>partials.
                 Inr (DoBenchmarkStorage c config (pc_client partials) (pc_backend partials)))
          else Inl (Failed (input_error A
            ''Compile with --features=runtime-benchmarks to enable storage benchmarks.''))
      | BenchMachine c \<Rightarrow> Inr (DoBenchmarkMachine c config)
      | BenchOther c \<Rightarrow> Inl (Failed (input_error A ''Benchmarking sub-command unsupported'')))"

text \<open>
  The hardware benchmark: \<open>then_some\<close> takes its argument by value, so that the hardware is
  measured (the first component) whatever the flag says, and the flag decides about the result.
\<close>

definition node_hwbench ::
  "('c, 'k, 'r, 'w, 'e) command_api \<Rightarrow> 'c Cli \<Rightarrow> 'k ChainSpec Configuration \<Rightarrow>
   'w option \<times> 'w option" where
  "node_hwbench A cli config = (
     let gathered = gather_hwbench A config
     in (gathered, if \<not> no_hardware_benchmarks cli then gathered else None))"

definition run_node ::
  "('c, 'k, 'r, 'w, 'e) command_api \<Rightarrow>
   ('k ChainSpec Configuration \<Rightarrow> 'k ChainSpec Configuration \<Rightarrow> u32 \<Rightarrow> 'w option \<Rightarrow> 'e abort + 'n) \<Rightarrow>
   'c Cli \<Rightarrow> 'k ChainSpec Configuration \<Rightarrow> 'e abort + 'n" where
  "run_node A start_parachain_node cli config = (
     let hwbench = snd (node_hwbench A cli config) in
     result_bind (case get_extension A (conf_chain_spec config) of
         Some e \<Rightarrow> Inr (para_id e)
       | None \<Rightarrow> Inl (Failed (input_error A ''Could not find parachain ID in chain-spec.'')))
       (\<lambda>pid.
     result_bind (relay_configuration A cli config) (\<lambda>polkadot_config.
     start_parachain_node config polkadot_config pid hwbench)))"

text \<open>
  \<open>run\<close> of both nodes: they differ in how the specification is loaded, the partial components
  are built and the node is started.
\<close>

definition run_with ::
  "('c, 'k, 'r, 'w, 'e) command_api \<Rightarrow> features \<Rightarrow>
   (string \<Rightarrow> rust_panic + (string + 'k ChainSpec)) \<Rightarrow>
   ('k ChainSpec Configuration \<Rightarrow> 'e abort + ('cl, 'b, 'q, 'p) PartialComponents) \<Rightarrow>
   ('k ChainSpec Configuration \<Rightarrow> 'k ChainSpec Configuration \<Rightarrow> u32 \<Rightarrow> 'w option \<Rightarrow> 'e abort + 'n) \<Rightarrow>
   'c Cli \<Rightarrow> 'e abort + ('c, 'k, 'cl, 'b, 'q, 'n) action" where
  "run_with A F load_spec new_partial start_parachain_node cli =
     (case subcommand cli of
        Some (BuildSpec cmd) \<Rightarrow>
          result_bind (try_result (create_runner A cli)) (\<lambda>config.
            Inr (DoBuildSpec (build_cmd cmd) (conf_chain_spec config)))
      | Some (CheckBlock cmd) \<Rightarrow> construct_async_run A new_partial cli (\<lambda>config components.
          DoCheckBlock cmd (pc_client components) (pc_import_queue components))
      | Some (ExportBlocks cmd) \<Rightarrow> construct_async_run A new_partial cli (\<lambda>config components.
          DoExportBlocks cmd (pc_client components) config)
      | Some (ExportState cmd) \<Rightarrow> construct_async_run A new_partial cli (\<lambda>config components.
          DoExportState cmd (pc_client components) (conf_chain_spec config))
      | Some (ImportBlocks cmd) \<Rightarrow> construct_async_run A new_partial cli (\<lambda>config components.
          DoImportBlocks cmd (pc_client components) (pc_import_queue components))
      | Some (Revert cmd) \<Rightarrow> construct_async_run A new_partial cli (\<lambda>config components.
          DoRevert cmd (pc_client components) (pc_backend components))
      | Some (PurgeChain cmd) \<Rightarrow>
          result_bind (try_result (create_runner A cli)) (\<lambda>config.
          result_bind (relay_configuration A cli config) (\<lambda>polkadot_config.
            Inr (DoPurgeChain cmd config polkadot_config)))
      | Some (ExportGenesisHead cmd) \<Rightarrow>
          result_bind (try_result (create_runner A cli)) (\<lambda>config.
          result_bind (new_partial config) (\<lambda>partials.
            Inr (DoExportGenesisHead cmd (pc_client partials))))
      | Some (ExportGenesisWasm cmd) \<Rightarrow>
          result_bind (try_result (create_runner A cli)) (\<lambda>_.
            case load_spec (case command_chain A cmd of Some i \<Rightarrow> i | None \<Rightarrow> []) of
              Inl p \<Rightarrow> Inl (Panicked p)
            | Inr (Inl msg) \<Rightarrow> Inl (Failed (input_error A msg))
            | Inr (Inr spec) \<Rightarrow> Inr (DoExportGenesisWasm cmd spec))
      | Some (Benchmark cmd) \<Rightarrow>
          result_bind (try_result (create_runner A cli)) (\<lambda>config.
            run_benchmark A F new_partial config cmd)
      | Some TryRuntime \<Rightarrow> Inl (Failed (input_error A
          (''The `try-runtime` subcommand has been migrated to a standalone CLI '' @
           ''(https://github.com/paritytech/try-runtime-cli). It is no longer being maintained '' @
           ''here and will be removed entirely some time after January 2024. Please remove this '' @
           ''subcommand from your runtime and use the standalone CLI.'')))
      | None \<Rightarrow>
          result_bind (try_result (create_runner A cli)) (\<lambda>config.
          result_bind (run_node A start_parachain_node cli config) (\<lambda>node.
            Inr (DoRunNode node))))"

definition evm_run ::
  "('e, 'k, 'f, 'io, 'js, 'abi) node_env \<Rightarrow> ('c, 'k, 'r, 'w, 'err) command_api \<Rightarrow>
   ('k ChainSpec, 'cl, 'b, 'q, 'p, 'd, 'n, 'ri, 'ck, 'w, 'err) service_api \<Rightarrow> 'c Cli \<Rightarrow>
   'err abort + ('c, 'k, 'cl, 'b, 'q, ('cl, 'ck) running_node) action" where
  "evm_run E A S cli = (
     let F = env_features E in
     run_with A F (Cli_load_spec E cli)
       (\<lambda>config. map_sum id fst (evm_new_partial S F config (eth cli)))
       (\<lambda>config polkadot_config pid hwbench.
          evm_start_parachain_node S F config polkadot_config (eth cli) pid hwbench)
       cli)"

text \<open>
  The command line of the generic node: its build-spec command is the SDK's, and there are no
  Ethereum options. It is run as the command line with the extended command that names no contracts
  and with the default options, neither of which is read.
\<close>

datatype 'c generic_Subcommand =
    GenericBuildSpec 'c
  | GenericCheckBlock 'c
  | GenericExportBlocks 'c
  | GenericExportState 'c
  | GenericImportBlocks 'c
  | GenericRevert 'c
  | GenericPurgeChain 'c
  | GenericExportGenesisHead 'c
  | GenericExportGenesisWasm 'c
  | GenericBenchmark "'c BenchmarkCmd"
  | GenericTryRuntime

record 'c generic_Cli =
  generic_subcommand :: "'c generic_Subcommand option"
  generic_run_cmd :: 'c
  generic_no_hardware_benchmarks :: bool
  generic_relay_chain_args :: "string list"

fun as_Subcommand :: "'c generic_Subcommand \<Rightarrow> 'c Subcommand" where
  "as_Subcommand (GenericBuildSpec c) = BuildSpec
     \<lparr>build_cmd = c, predeployed_contracts = None, no_predeployed_contracts = True\<rparr>"
| "as_Subcommand (GenericCheckBlock c) = CheckBlock c"
| "as_Subcommand (GenericExportBlocks c) = ExportBlocks c"
| "as_Subcommand (GenericExportState c) = ExportState c"
| "as_Subcommand (GenericImportBlocks c) = ImportBlocks c"
| "as_Subcommand (GenericRevert c) = Revert c"
| "as_Subcommand (GenericPurgeChain c) = PurgeChain c"
| "as_Subcommand (GenericExportGenesisHead c) = ExportGenesisHead c"
| "as_Subcommand (GenericExportGenesisWasm c) = ExportGenesisWasm c"
| "as_Subcommand (GenericBenchmark b) = Benchmark b"
| "as_Subcommand GenericTryRuntime = TryRuntime"

definition as_Cli :: "'c generic_Cli \<Rightarrow> 'c Cli" where
  "as_Cli cli = \<lparr>
     subcommand = map_option as_Subcommand (generic_subcommand cli),
     run_cmd = generic_run_cmd cli,
     no_hardware_benchmarks = generic_no_hardware_benchmarks cli,
     relay_chain_args = generic_relay_chain_args cli,
     eth = EthConfiguration_default\<rparr>"

definition generic_run ::
  "('e, 'k, 'f, 'io, 'js, 'abi) node_env \<Rightarrow> ('c, 'k, 'r, 'w, 'err) command_api \<Rightarrow>
   ('k ChainSpec, 'cl, 'b, 'q, 'p, 'd, 'n, 'ri, 'ck, 'w, 'err) service_api \<Rightarrow> 'c generic_Cli \<Rightarrow>
   'err abort + ('c, 'k, 'cl, 'b, 'q, ('cl, 'ck) running_node) action" where
  "generic_run E A S cli = (
     let F = env_features E in
     run_with A F (generic_load_spec E) (generic_new_partial S F) (generic_start_parachain_node S F)
       (as_Cli cli))"

section \<open>What a command works on\<close>

text \<open>
  A runner's configuration has the specification that the command line's own \<open>load_spec\<close> gives
  for the chain the command names, and the extension of a specification can be read back.
\<close>

locale runner_laws =
  fixes A :: "('c, 'k, 'r, 'w, 'err) command_api"
    and E :: "('e, 'k, 'f, 'io, 'js, 'abi) node_env"
    and chain_of :: "'c Cli \<Rightarrow> string"
  assumes runner_spec: "create_runner A cli = Inr config \<Longrightarrow>
      Cli_load_spec E cli (chain_of cli) = Inr (Inr (conf_chain_spec config))"
    and extension: "get_extension A spec = Some (cs_extensions spec)"

definition builtin_chains :: "string set" where
  "builtin_chains = {''dev'', ''template-paseo'', ''local'', []}"

lemma build_spec_Inr:
  "build_spec wasm genesis spec = Inr s \<longleftrightarrow>
     (\<exists>code g. wasm = Some code \<and> genesis = Inr g \<and> s = spec code g)"
  by (auto simp: build_spec_def bind_Inr_iff split: option.splits)

lemma map_sum_Inr: "map_sum id Inr r = Inr (Inr x) \<longleftrightarrow> r = Inr x"
  by (cases r) simp_all

lemmas config_defs =
  evm_development_config_def evm_local_testnet_config_def generic_development_config_def
  generic_local_testnet_config_def development_spec_def local_testnet_spec_def

lemma evm_load_spec_builtin:
  assumes "i \<in> builtin_chains" and "evm_load_spec E i path = Inr (Inr spec)"
  shows "evm_genesis_of E path = Inr (cs_genesis spec)"
    and "cs_extensions spec = spec_extensions"
    and "cs_chain_type spec = DevelopmentChain \<longleftrightarrow> i = ''dev''"
  using assms
  by (auto simp: builtin_chains_def evm_load_spec_def map_sum_Inr build_spec_Inr config_defs
      split: if_splits)

lemma generic_load_spec_builtin:
  assumes "i \<in> builtin_chains" and "generic_load_spec E i = Inr (Inr spec)"
  shows "generic_spec_genesis (env_features E) (env_keys E) = Inr (cs_genesis spec)"
    and "cs_extensions spec = spec_extensions"
    and "cs_chain_type spec = DevelopmentChain \<longleftrightarrow> i = ''dev''"
  using assms
  by (auto simp: builtin_chains_def generic_load_spec_def map_sum_Inr build_spec_Inr config_defs
      split: if_splits)

text \<open>The code that a specification puts at an address.\<close>

definition genesis_code_at :: "'k ChainSpec \<Rightarrow> bytes \<Rightarrow> bytes option" where
  "genesis_code_at spec a =
     (case g_evm_accounts (cs_genesis spec) of
        Some accounts \<Rightarrow> map_option ga_code (accounts a)
      | None \<Rightarrow> None)"

definition contracts_of ::
  "('e, 'k, 'f, 'io, 'js, 'abi) node_env \<Rightarrow> ContractsPath \<Rightarrow> (bytes \<rightharpoonup> 'abi Contract)" where
  "contracts_of E path =
     (case parse_contracts (env_contracts E) path of
        Inr parsed \<Rightarrow> (case parsed of Inl _ \<Rightarrow> Map.empty | Inr m \<Rightarrow> m)
      | Inl _ \<Rightarrow> Map.empty)"

lemma evm_genesis_accounts_of:
  assumes "evm_genesis_of E path = Inr g"
  shows "g_evm_accounts g =
    Some (evm_genesis_accounts (env_from_low_u64_be E) (contracts_of E path))"
  using assms
  by (auto simp: evm_genesis_of_def evm_spec_genesis_def evm_testnet_genesis_def contracts_of_def
      bind_Inr_iff Let_def)

lemma genesis_code_of_spec:
  assumes "i \<in> builtin_chains" and "evm_load_spec E i path = Inr (Inr spec)"
    and "a \<notin> set (used_addresses (env_from_low_u64_be E))"
  shows "genesis_code_at spec a = map_option Contract_bytecode (contracts_of E path a)"
proof -
  have accounts: "g_evm_accounts (cs_genesis spec) =
      Some (evm_genesis_accounts (env_from_low_u64_be E) (contracts_of E path))"
    by (rule evm_genesis_accounts_of [OF evm_load_spec_builtin(1) [OF assms(1,2)]])
  have "map_of (rev (map (\<lambda>addr. (addr, genesis_account revert_code))
      (used_addresses (env_from_low_u64_be E)))) a = None"
    using assms(3) by (auto simp: map_of_eq_None_iff)
  then show ?thesis
    by (simp add: genesis_code_at_def accounts evm_genesis_accounts_def map_add_def
        genesis_account_def option.map_comp comp_def)
qed

lemma contracts_of_choices:
  assumes "entrypoint_address (env_contracts E) = Inr a"
  shows "contracts_of E ContractsNone = Map.empty"
    and "contracts_of E ContractsPath_default = [a \<mapsto> entrypoint_contract (env_contracts E)]"
  using assms by (simp_all add: contracts_of_def parse_contracts_def ContractsPath_default_def)

context runner_laws
begin

text \<open>The code at an address of the specification that a command works on.\<close>

lemma runner_code:
  assumes "create_runner A cli = Inr config" and "chain_of cli \<in> builtin_chains"
    and "a \<notin> set (used_addresses (env_from_low_u64_be E))"
  shows "genesis_code_at (conf_chain_spec config) a = map_option Contract_bytecode
    (contracts_of E (case subcommand cli of
       Some s \<Rightarrow> contract_directory s | None \<Rightarrow> ContractsPath_default) a)"
  using genesis_code_of_spec [OF assms(2) _ assms(3)] runner_spec [OF assms(1)]
  by (simp add: Cli_load_spec_def)

lemma relay_chain_of_builtin:
  assumes "create_runner A cli = Inr config" and "chain_of cli \<in> builtin_chains"
    and "base_chain_id A (parse_from A args) dev = Inr given"
  shows "RelayChainCli_chain_id A (RelayChainCli_new A config args) dev =
    Inr (if given = [] then ''paseo-local'' else given)"
proof -
  have "cs_extensions (conf_chain_spec config) = spec_extensions"
    using evm_load_spec_builtin(2) [OF assms(2)] runner_spec [OF assms(1)]
    by (simp add: Cli_load_spec_def)
  then show ?thesis
    using assms(3)
    by (simp add: RelayChainCli_chain_id_def RelayChainCli_new_def extension spec_extensions_def)
qed

end

section \<open>An instance\<close>

text \<open>A command is the name of its chain, and every configuration is that of a full node.\<close>

definition demo_env :: "(string, string, string, unit, unit, unit) node_env" where
  "demo_env = \<lparr>env_features = default_features, env_keys = demo_keys,
     env_from_low_u64_be = low_u64_address, env_contracts = demo_contracts_api,
     WASM_BINARY = Some [0], from_json_file = (\<lambda>_. Inl ''no such file'')\<rparr>"

definition demo_runner :: "string Cli \<Rightarrow> unit + string ChainSpec Configuration" where
  "demo_runner cli =
     (case Cli_load_spec demo_env cli (run_cmd cli) of
        Inr (Inr spec) \<Rightarrow> Inr \<lparr>telemetry_endpoints = None, default_heap_pages = None,
          is_authority = False, offchain_worker_enabled = True, conf_base_path = ''/data'',
          conf_chain_spec = spec\<rparr>
      | _ \<Rightarrow> Inl ())"

definition demo_command :: "(string, string, string list, unit, unit) command_api" where
  "demo_command = \<lparr>create_runner = demo_runner, executable_name = ''node'', parse_from = id,
     base_shared_path = (\<lambda>_. Inr None), base_chain_id = (\<lambda>_ _. Inr []),
     create_configuration = (\<lambda>_. Inl ()), get_extension = (\<lambda>spec. Some (cs_extensions spec)),
     command_chain = Some, gather_hwbench = (\<lambda>_. None), input_error = (\<lambda>_. ()),
     display_error = (\<lambda>_. [])\<rparr>"

interpretation demo_cli: runner_laws demo_command demo_env run_cmd
  by unfold_locales
    (auto simp: demo_command_def demo_runner_def split: sum.splits)

definition demo_cli_of :: "string Subcommand option \<Rightarrow> string Cli" where
  "demo_cli_of s = \<lparr>subcommand = s, run_cmd = ''dev'', no_hardware_benchmarks = False,
     relay_chain_args = [], eth = EthConfiguration_default\<rparr>"

lemma demo_development_spec:
  "\<exists>spec. evm_development_config demo_env path = Inr spec" if "path \<in> {ContractsNone, ContractsDefault}"
  using that
  by (auto simp: evm_development_config_def build_spec_Inr demo_env_def evm_genesis_of_def
      evm_spec_genesis_def evm_testnet_genesis_def evm_collators_def get_account_id_from_seed_def
      get_collator_keys_from_seed_def get_from_seed_def demo_keys_def parse_contracts_def
      entrypoint_address_def demo_contracts_api_def)

lemma demo_runner_runs:
  assumes "(case s of Some c \<Rightarrow> contract_directory c | None \<Rightarrow> ContractsPath_default)
    \<in> {ContractsNone, ContractsDefault}"
  shows "\<exists>config. create_runner demo_command (demo_cli_of s) = Inr config"
proof -
  obtain spec where "evm_development_config demo_env
      (case s of Some c \<Rightarrow> contract_directory c | None \<Rightarrow> ContractsPath_default) = Inr spec"
    using demo_development_spec [OF assms] by blast
  then show ?thesis
    by (simp add: demo_command_def demo_runner_def demo_cli_of_def Cli_load_spec_def
        evm_load_spec_def)
qed

section \<open>Properties\<close>

text \<open>
  C21: the specification of a built-in chain depends on the sub-command. For the same chain name,
  the node itself and a plain \<open>build-spec\<close> put the entry-point contract into the genesis state,
  while every other sub-command, the export of the genesis head among them, works on a
  genesis state without it.
\<close>

theorem genesis_depends_on_command:
  assumes "runner_laws A E chain_of" and "chain_of cli \<in> builtin_chains"
    and "create_runner A cli = Inr config"
    and "entrypoint_address (env_contracts E) = Inr a"
    and "a \<notin> set (used_addresses (env_from_low_u64_be E))"
  shows "(subcommand cli = None \<longrightarrow>
      genesis_code_at (conf_chain_spec config) a = Some (ENTRYPOINT_BYTECODE (env_contracts E))) \<and>
    (\<forall>cmd. subcommand cli = Some (BuildSpec cmd) \<and> \<not> no_predeployed_contracts cmd \<and>
        predeployed_contracts cmd = None \<longrightarrow>
      genesis_code_at (conf_chain_spec config) a = Some (ENTRYPOINT_BYTECODE (env_contracts E))) \<and>
    (\<forall>s. subcommand cli = Some s \<and> s \<notin> range BuildSpec \<longrightarrow>
      genesis_code_at (conf_chain_spec config) a = None)"
proof (intro conjI allI impI)
  note code = runner_laws.runner_code [OF assms(1,3,2,5)]
  note choices = contracts_of_choices [OF assms(4)]
  show "genesis_code_at (conf_chain_spec config) a = Some (ENTRYPOINT_BYTECODE (env_contracts E))"
    if "subcommand cli = None"
    using that by (simp add: code choices entrypoint_contract_def)
  show "genesis_code_at (conf_chain_spec config) a = Some (ENTRYPOINT_BYTECODE (env_contracts E))"
    if "subcommand cli = Some (BuildSpec cmd) \<and> \<not> no_predeployed_contracts cmd \<and>
      predeployed_contracts cmd = None" for cmd
    using that choices(2) [unfolded ContractsPath_default_def]
    by (simp add: code entrypoint_contract_def)
  show "genesis_code_at (conf_chain_spec config) a = None"
    if "subcommand cli = Some s \<and> s \<notin> range BuildSpec" for s
    using that by (cases s) (simp_all add: code choices)
qed

theorem genesis_depends_on_command_witness:
  "\<exists>node export. create_runner demo_command (demo_cli_of None) = Inr node \<and>
     create_runner demo_command (demo_cli_of (Some (ExportGenesisHead ''dev''))) = Inr export \<and>
     genesis_code_at (conf_chain_spec node) [1] = Some [96] \<and>
     genesis_code_at (conf_chain_spec export) [1] = None"
proof -
  have chain: "run_cmd (demo_cli_of s) \<in> builtin_chains" for s
    by (simp add: demo_cli_of_def builtin_chains_def)
  have entry: "entrypoint_address (env_contracts demo_env) = Inr [1]"
    and code: "ENTRYPOINT_BYTECODE (env_contracts demo_env) = [96]"
    by (simp_all add: demo_env_def entrypoint_address_def demo_contracts_api_def)
  have "length b = 20" if "b \<in> set (used_addresses low_u64_address)" for b
    using that by (auto simp: h160.used_iff h160.hash_eq)
  then have fresh: "[1] \<notin> set (used_addresses (env_from_low_u64_be demo_env))"
    by (fastforce simp: demo_env_def)
  obtain node where node: "create_runner demo_command (demo_cli_of None) = Inr node"
    using demo_runner_runs [of None] by (auto simp: ContractsPath_default_def)
  obtain export where export:
    "create_runner demo_command (demo_cli_of (Some (ExportGenesisHead ''dev''))) = Inr export"
    using demo_runner_runs [of "Some (ExportGenesisHead ''dev'')"] by auto
  note depends = genesis_depends_on_command
    [OF demo_cli.runner_laws_axioms chain _ entry fresh, unfolded code]
  have "genesis_code_at (conf_chain_spec node) [1] = Some [96]"
    using depends [OF node] by (simp add: demo_cli_of_def)
  moreover have "genesis_code_at (conf_chain_spec export) [1] = None"
    using depends [OF export] by (auto simp: demo_cli_of_def)
  ultimately show ?thesis
    using node export by (intro exI conjI)
qed

lemma consistent_id: "genesis_consistent g \<Longrightarrow> g_parachain_id g = para_id spec_extensions"
  by (simp add: genesis_consistent_def)

lemma evm_builtin_sound:
  assumes "i \<in> builtin_chains" and "evm_load_spec E i path = Inr (Inr spec)"
  shows "genesis_consistent (cs_genesis spec) \<and>
    para_id (cs_extensions spec) = g_parachain_id (cs_genesis spec) \<and>
    (cs_chain_type spec = DevelopmentChain \<longleftrightarrow> i = ''dev'')"
proof -
  have "genesis_consistent (cs_genesis spec)"
    using evm_load_spec_builtin(1) [OF assms] unfolding evm_genesis_of_def
    by (rule evm_spec_consistent)
  then show ?thesis
    using evm_load_spec_builtin(2,3) [OF assms] by (simp add: consistent_id)
qed

lemma generic_builtin_sound:
  assumes "i \<in> builtin_chains" and "generic_load_spec E i = Inr (Inr spec)"
  shows "genesis_consistent (cs_genesis spec) \<and>
    para_id (cs_extensions spec) = g_parachain_id (cs_genesis spec) \<and>
    (cs_chain_type spec = DevelopmentChain \<longleftrightarrow> i = ''dev'')"
proof -
  have "genesis_consistent (cs_genesis spec)"
    using generic_load_spec_builtin(1) [OF assms] by (rule generic_spec_consistent)
  then show ?thesis
    using generic_load_spec_builtin(2,3) [OF assms] by (simp add: consistent_id)
qed

lemma other_chains:
  assumes "i \<notin> builtin_chains"
  shows "evm_load_spec E i path = Inr (from_json_file E i)"
    and "generic_load_spec E i = Inr (from_json_file E i)"
  using assms by (auto simp: builtin_chains_def evm_load_spec_def generic_load_spec_def)

text \<open>
  C39: what the names of chains load. In both nodes the four built-in names give a consistent
  genesis state whose parachain identifier is the one of the specification's extension, of the
  development type for \<open>dev\<close> only, and every other name is the path of a file.
\<close>

theorem load_spec_exact:
  "(i \<in> builtin_chains \<and>
    (evm_load_spec E i path = Inr (Inr spec) \<or> generic_load_spec E i = Inr (Inr spec)) \<longrightarrow>
      genesis_consistent (cs_genesis spec) \<and>
      para_id (cs_extensions spec) = g_parachain_id (cs_genesis spec) \<and>
      (cs_chain_type spec = DevelopmentChain \<longleftrightarrow> i = ''dev'')) \<and>
   (i \<notin> builtin_chains \<longrightarrow>
      evm_load_spec E i path = Inr (from_json_file E i) \<and>
      generic_load_spec E i = Inr (from_json_file E i))"
  using evm_builtin_sound generic_builtin_sound other_chains by blast

theorem load_spec_exact_witness:
  "evm_load_spec demo_env ''spec.json'' ContractsNone = Inr (Inl ''no such file'')"
proof -
  have "''spec.json'' \<notin> builtin_chains"
    by (simp add: builtin_chains_def)
  then show ?thesis
    using load_spec_exact [THEN conjunct2, rule_format, of "''spec.json''" demo_env ContractsNone]
    by (simp add: demo_env_def)
qed

text \<open>
  The relay chain of a built-in specification is \<open>paseo-local\<close>, unless the arguments after \<open>--\<close>
  name another one.
\<close>

theorem relay_chain_resolved:
  assumes "runner_laws A E chain_of" and "chain_of cli \<in> builtin_chains"
    and "create_runner A cli = Inr config"
    and "base_chain_id A (parse_from A args) dev = Inr given"
  shows "RelayChainCli_chain_id A (RelayChainCli_new A config args) dev =
    Inr (if given = [] then ''paseo-local'' else given)"
  by (rule runner_laws.relay_chain_of_builtin [OF assms(1,3,2,4)])

end
