(* ===== verification/Node_Faults.thy ===== *)
theory Node_Faults
  imports Node_Service
begin

text \<open>
  What can keep a node from starting. \<open>service_fault\<close> lists the ways in which a call of the services can
  fail, each with the arguments that the code passes and the error or panic it ends in; the start
  of a node fails exactly when there is one, and reports one of them.
\<close>

section \<open>The faults of a start\<close>

text \<open>
  \<open>eth\<close> is the Ethereum configuration, \<open>None\<close> in the generic node; \<open>config\<close> is the prepared
  configuration and \<open>rc\<close> that of the relay-chain side. Steps that use earlier components fail on the
  ones that these steps give. The last fault is the code's own: a collator without a key.
\<close>

inductive service_fault ::
  "('spec, 'c, 'b, 'q, 'p, 'd, 'n, 'r, 'k, 'w, 'e) service_api \<Rightarrow> features \<Rightarrow>
   EthConfiguration option \<Rightarrow> 'spec Configuration \<Rightarrow> 'spec Configuration \<Rightarrow> u32 \<Rightarrow> 'w option \<Rightarrow>
   'e abort \<Rightarrow> bool" for S F eth config rc pid hw where
  telemetry_worker: "reports_telemetry config \<Longrightarrow> telemetry_worker_new S 16 = Inl e \<Longrightarrow>
    service_fault S F eth config rc pid hw (Failed e)"
| client: "new_full_parts_record_import S config (reports_telemetry config) (heap_pages S config)
      (heap_pages S config) True = Inl e \<Longrightarrow>
    service_fault S F eth config rc pid hw (Failed e)"
| nimbus: "new_full_parts_record_import S config (reports_telemetry config) (heap_pages S config)
      (heap_pages S config) True = Inr (c, b) \<Longrightarrow> tanssi F \<Longrightarrow> nimbus_import_queue S c b = None \<Longrightarrow>
    service_fault S F eth config rc pid hw (Panicked (ExpectFailed ''function never fails''))"
| key_value: "generic_new_partial S F config = Inr params \<Longrightarrow> eth = Some ec \<Longrightarrow>
      frontier_backend_type ec = BackendKeyValue \<Longrightarrow>
      kv_backend_open S (pc_client params) config (db_config_dir S config) = Inl e \<Longrightarrow>
    service_fault S F eth config rc pid hw (Failed e)"
| sql_directory: "eth = Some ec \<Longrightarrow> frontier_backend_type ec = BackendSql \<Longrightarrow>
      \<not> create_dir_all S (path_join (db_config_dir S config) ''sql'') \<Longrightarrow>
    service_fault S F eth config rc pid hw
      (Panicked (ExpectFailed ''failed creating sql db directory''))"
| sql: "eth = Some ec \<Longrightarrow> frontier_backend_type ec = BackendSql \<Longrightarrow>
      sql_backend_new S (sql_config ec (path_join (db_config_dir S config) ''sql'')) = None \<Longrightarrow>
    service_fault S F eth config rc pid hw (Panicked (ExpectFailed ''failed creating sql backend''))"
| relay_chain: "build_relay_chain_interface S rc config (reports_telemetry config) hw = Inl e \<Longrightarrow>
    service_fault S F eth config rc pid hw (Failed e)"
| slot: "generic_new_partial S F config = Inr params \<Longrightarrow> eth \<noteq> None \<Longrightarrow> \<not> tanssi F \<Longrightarrow>
      aura_slot_duration S (pc_client params) = Inl e \<Longrightarrow>
    service_fault S F eth config rc pid hw (Failed e)"
| network: "generic_new_partial S F config = Inr params \<Longrightarrow>
      build_relay_chain_interface S rc config (reports_telemetry config) hw = Inr (relay, key) \<Longrightarrow>
      build_network S config (pc_client params) (pc_transaction_pool params) pid relay
        (pc_import_queue params) = Inl e \<Longrightarrow>
    service_fault S F eth config rc pid hw (Failed e)"
| offchain: "generic_new_partial S F config = Inr params \<Longrightarrow>
      build_relay_chain_interface S rc config (reports_telemetry config) hw = Inr (relay, key) \<Longrightarrow>
      build_network S config (pc_client params) (pc_transaction_pool params) pid relay
        (pc_import_queue params) = Inr net \<Longrightarrow>
      offchain_worker_enabled config \<Longrightarrow>
      offchain_workers_new S (pc_client params) (pc_backend params) (pc_transaction_pool params) net
        (is_authority config) False = Inl e \<Longrightarrow>
    service_fault S F eth config rc pid hw (Failed e)"
| tasks: "generic_new_partial S F config = Inr params \<Longrightarrow>
      build_relay_chain_interface S rc config (reports_telemetry config) hw = Inr (relay, key) \<Longrightarrow>
      build_network S config (pc_client params) (pc_transaction_pool params) pid relay
        (pc_import_queue params) = Inr net \<Longrightarrow>
      spawn_tasks S config (pc_client params) (pc_transaction_pool params) net = Inl e \<Longrightarrow>
    service_fault S F eth config rc pid hw (Failed e)"
| overseer: "build_relay_chain_interface S rc config (reports_telemetry config) hw = Inr (relay, key) \<Longrightarrow>
      overseer_handle S relay = Inl e \<Longrightarrow>
    service_fault S F eth config rc pid hw (Failed e)"
| relay_chain_tasks: "generic_new_partial S F config = Inr params \<Longrightarrow>
      build_relay_chain_interface S rc config (reports_telemetry config) hw = Inr (relay, key) \<Longrightarrow>
      start_relay_chain_tasks S (pc_client params) pid relay
        (recovery_profile_of (is_authority config)) relay_chain_slot_duration = Inl e \<Longrightarrow>
    service_fault S F eth config rc pid hw (Failed e)"
| no_key: "collates F config \<Longrightarrow>
      build_relay_chain_interface S rc config (reports_telemetry config) hw = Inr (relay, None) \<Longrightarrow>
    service_fault S F eth config rc pid hw
      (Panicked (ExpectFailed ''Command line arguments do not allow this. qed''))"

section \<open>Every failure is a fault\<close>

lemma bind_Inl_iff: "result_bind r f = Inl e \<longleftrightarrow> r = Inl e \<or> (\<exists>a. r = Inr a \<and> f a = Inl e)"
  by (cases r) simp_all

lemma try_result_Inl: "try_result r = Inl a \<longleftrightarrow> (\<exists>e. r = Inl e \<and> a = Failed e)"
  by (cases r) (auto simp: try_result_def)

lemma expect_Inl: "expect msg a = Inl p \<longleftrightarrow> a = None \<and> p = Panicked (ExpectFailed msg)"
  by (cases a) (auto simp: expect_def)

lemmas step_iffs = bind_Inl_iff bind_Inr_iff try_result_Inl expect_Inl

lemma partial_failure:
  assumes "generic_new_partial S F config = Inl a"
  shows "service_fault S F eth config rc pid hw a"
proof -
  have "(\<exists>e. reports_telemetry config \<and> telemetry_worker_new S 16 = Inl e \<and> a = Failed e) \<or>
      (\<exists>e. new_full_parts_record_import S config (reports_telemetry config) (heap_pages S config)
        (heap_pages S config) True = Inl e \<and> a = Failed e) \<or>
      (\<exists>c b. new_full_parts_record_import S config (reports_telemetry config) (heap_pages S config)
        (heap_pages S config) True = Inr (c, b) \<and> tanssi F \<and> nimbus_import_queue S c b = None \<and>
        a = Panicked (ExpectFailed ''function never fails''))"
    using assms telemetry_of_Inr [of S config]
    by (fastforce simp: generic_new_partial_def telemetry_of_def reports_telemetry_def import_queue_of_def
        build_import_queue_def step_iffs Let_def split: option.splits prod.splits if_splits)
  then show ?thesis
    by (auto intro: service_fault.intros)
qed

lemma frontier_failure:
  assumes "generic_new_partial S F config = Inr params" and "eth = Some ec"
    and "frontier_backend_of S config ec (pc_client params) = Inl a"
  shows "service_fault S F eth config rc pid hw a"
  using assms
  by (auto simp: frontier_backend_of_def step_iffs Let_def split: BackendType.splits if_splits
      intro: service_fault.intros)

lemma consensus_failure:
  "consensus_step F v key pid ts = Inl a \<Longrightarrow>
   v \<and> \<not> tanssi F \<and> key = None \<and>
   a = Panicked (ExpectFailed ''Command line arguments do not allow this. qed'')"
  by (auto simp: consensus_step_def start_consensus_def step_iffs split: if_splits)

lemma consensus_key:
  "consensus_step F (is_authority config) key pid ts = Inr r \<Longrightarrow> collates F config \<longrightarrow> key \<noteq> None"
  by (auto simp: consensus_step_def collates_def step_iffs split: if_splits)

text \<open>The steps of the second half, the same in both nodes.\<close>

definition late_failure where
  "late_failure S F config params net relay key pid a \<longleftrightarrow>
     (\<exists>e. spawn_tasks S config (pc_client params) (pc_transaction_pool params) net = Inl e \<and>
        a = Failed e) \<or>
     (\<exists>e. overseer_handle S relay = Inl e \<and> a = Failed e) \<or>
     (\<exists>e. start_relay_chain_tasks S (pc_client params) pid relay
        (recovery_profile_of (is_authority config)) relay_chain_slot_duration = Inl e \<and> a = Failed e) \<or>
     collates F config \<and> key = None \<and>
       a = Panicked (ExpectFailed ''Command line arguments do not allow this. qed'')"

lemma late_steps:
  "generic_start_tasks S F config params net relay key pid hw ts = Inl a \<Longrightarrow>
     late_failure S F config params net relay key pid a"
  "evm_start_tasks S F config params backend frontier net relay key pid hw ts = Inl a \<Longrightarrow>
     late_failure S F config params net relay key pid a"
  by (auto simp: generic_start_tasks_def evm_start_tasks_def late_failure_def case_prod_beta step_iffs
      Let_def collates_def dest!: consensus_failure)

lemma late_steps_done:
  "generic_start_tasks S F config params net relay key pid hw ts = Inr n \<Longrightarrow>
     \<not> late_failure S F config params net relay key pid a"
  "evm_start_tasks S F config params backend frontier net relay key pid hw ts = Inr n \<Longrightarrow>
     \<not> late_failure S F config params net relay key pid a"
  by (auto simp: generic_start_tasks_def evm_start_tasks_def late_failure_def case_prod_beta step_iffs
      Let_def dest!: consensus_key)

lemma late_fault:
  assumes "generic_new_partial S F config = Inr params"
    and "build_relay_chain_interface S rc config (reports_telemetry config) hw = Inr (relay, key)"
    and "build_network S config (pc_client params) (pc_transaction_pool params) pid relay
      (pc_import_queue params) = Inr net"
    and "late_failure S F config params net relay key pid a"
  shows "service_fault S F eth config rc pid hw a"
  using assms by (auto simp: late_failure_def intro: service_fault.intros)

lemma offchain_failure:
  "offchain_tasks S config params net ts = Inl a \<Longrightarrow>
   offchain_worker_enabled config \<and> (\<exists>e. offchain_workers_new S (pc_client params) (pc_backend params)
     (pc_transaction_pool params) net (is_authority config) False = Inl e \<and> a = Failed e)"
  by (auto simp: offchain_tasks_def step_iffs split: if_splits)

lemma offchain_done:
  "offchain_tasks S config params net ts = Inr ts' \<Longrightarrow> offchain_worker_enabled config \<longrightarrow>
     offchain_workers_new S (pc_client params) (pc_backend params) (pc_transaction_pool params) net
       (is_authority config) False = Inr ()"
  by (auto simp: offchain_tasks_def step_iffs split: if_splits)

lemma generic_failure:
  assumes "generic_start_node_impl S F pc rc pid hw = Inl a"
  shows "service_fault S F None (prepare_node_config S pc) rc pid hw a"
  using assms
  by (auto simp: generic_start_node_impl_def case_prod_beta step_iffs Let_def new_partial_tasks(1)
      partial_failure dest!: late_steps offchain_failure intro: service_fault.intros late_fault)

lemma evm_failure:
  assumes "evm_start_node_impl S F pc rc ec pid hw = Inl a"
  shows "service_fault S F (Some ec) (prepare_node_config S pc) rc pid hw a"
  using assms
  by (auto simp: evm_start_node_impl_def evm_new_partial_def new_frontier_partial_def case_prod_beta
      step_iffs Let_def new_partial_tasks(1) partial_failure frontier_failure split: if_splits
      dest!: late_steps offchain_failure intro: service_fault.intros late_fault)

section \<open>Every fault is a failure\<close>

lemma partial_steps:
  assumes "generic_new_partial S F config = Inr params"
  shows "reports_telemetry config \<longrightarrow> telemetry_worker_new S 16 = Inr ()"
    and "\<exists>c b. new_full_parts_record_import S config (reports_telemetry config) (heap_pages S config)
      (heap_pages S config) True = Inr (c, b) \<and> (tanssi F \<longrightarrow> nimbus_import_queue S c b \<noteq> None)"
  using assms telemetry_of_Inr [of S config]
  by (fastforce simp: generic_new_partial_def telemetry_of_def reports_telemetry_def import_queue_of_def
      build_import_queue_def step_iffs Let_def split: option.splits prod.splits if_splits)+

lemma generic_fault:
  assumes "generic_start_node_impl S F pc rc pid hw = Inr n"
  shows "\<not> service_fault S F None (prepare_node_config S pc) rc pid hw a"
proof
  let ?c = "prepare_node_config S pc"
  obtain params relay key net ts ts' where partial: "generic_new_partial S F ?c = Inr params"
    and relay: "build_relay_chain_interface S rc ?c (reports_telemetry ?c) hw = Inr (relay, key)"
    and net: "build_network S ?c (pc_client params) (pc_transaction_pool params) pid relay
      (pc_import_queue params) = Inr net"
    and offchain: "offchain_tasks S ?c params net ts = Inr ts'"
    and late: "generic_start_tasks S F ?c params net relay key pid hw ts' = Inr n"
    using assms
    by (auto simp: generic_start_node_impl_def case_prod_beta step_iffs Let_def new_partial_tasks(1))
  assume "service_fault S F None ?c rc pid hw a"
  then show False
    using partial_steps [OF partial] offchain_done [OF offchain] late_steps_done(1) [OF late, of a]
    by cases (auto simp: partial relay net late_failure_def)
qed

lemma evm_fault:
  assumes "evm_start_node_impl S F pc rc ec pid hw = Inr n"
  shows "\<not> service_fault S F (Some ec) (prepare_node_config S pc) rc pid hw a"
proof
  let ?c = "prepare_node_config S pc"
  obtain params backend relay key net ts ts' d and frontier :: FrontierPartialComponents
    where partial: "generic_new_partial S F ?c = Inr params"
    and backend: "frontier_backend_of S ?c ec (pc_client params) = Inr backend"
    and relay: "build_relay_chain_interface S rc ?c (reports_telemetry ?c) hw = Inr (relay, key)"
    and slot: "\<not> tanssi F \<longrightarrow> aura_slot_duration S (pc_client params) = Inr d"
    and net: "build_network S ?c (pc_client params) (pc_transaction_pool params) pid relay
      (pc_import_queue params) = Inr net"
    and offchain: "offchain_tasks S ?c params net ts = Inr ts'"
    and late: "evm_start_tasks S F ?c params backend frontier net relay key pid hw ts' = Inr n"
    using assms
    by (auto simp: evm_start_node_impl_def evm_new_partial_def case_prod_beta step_iffs Let_def
        new_partial_tasks(1) split: if_splits) blast+
  have frontier: "(\<forall>e. frontier_backend_type ec = BackendKeyValue \<longrightarrow>
        kv_backend_open S (pc_client params) ?c (db_config_dir S ?c) \<noteq> Inl e) \<and>
      (frontier_backend_type ec = BackendSql \<longrightarrow>
        create_dir_all S (path_join (db_config_dir S ?c) ''sql'') \<and>
        sql_backend_new S (sql_config ec (path_join (db_config_dir S ?c) ''sql'')) \<noteq> None)"
    using backend
    by (auto simp: frontier_backend_of_def step_iffs Let_def split: BackendType.splits if_splits)
  assume "service_fault S F (Some ec) ?c rc pid hw a"
  then show False
    using partial_steps [OF partial] offchain_done [OF offchain] late_steps_done(2) [OF late, of a]
      frontier slot
    by cases (auto simp: partial relay net late_failure_def)
qed

lemma generic_starts_iff:
  "(\<exists>n. generic_start_node_impl S F pc rc pid hw = Inr n) \<longleftrightarrow>
     (\<forall>a. \<not> service_fault S F None (prepare_node_config S pc) rc pid hw a)"
  by (cases "generic_start_node_impl S F pc rc pid hw") (auto dest: generic_failure generic_fault)

lemma evm_starts_iff:
  "(\<exists>n. evm_start_node_impl S F pc rc ec pid hw = Inr n) \<longleftrightarrow>
     (\<forall>a. \<not> service_fault S F (Some ec) (prepare_node_config S pc) rc pid hw a)"
  by (cases "evm_start_node_impl S F pc rc ec pid hw") (auto dest: evm_failure evm_fault)

text \<open>With trivial components the collator's key alone decides.\<close>

lemma demo_fault:
  "(\<exists>a. service_fault (demo_service key) F eth config rc pid hw a) \<longleftrightarrow> collates F config \<and> key = None"
  by (auto simp: service_fault.simps demo_service_def)

lemma demo_no_fault: "\<not> service_fault (demo_service (Some k)) F eth config rc pid hw a"
  using demo_fault [of "Some k" F eth config rc pid hw] by simp

end
