(* ===== verification/Node_Run.thy ===== *)
theory Node_Run
  imports Node_Command Node_Faults
begin

text \<open>
  The run of a node from its command line to its tasks: \<open>run\<close> of \<open>command.rs\<close> composed with the
  services of \<open>service.rs\<close>.
\<close>

section \<open>The arm without a sub-command\<close>

text \<open>What \<open>run\<close> needs before it starts the service: a configuration, the parachain, the relay chain.\<close>

definition node_inputs where
  "node_inputs A cli config pid polkadot_config \<longleftrightarrow>
     create_runner A cli = Inr config \<and>
     (\<exists>ext. get_extension A (conf_chain_spec config) = Some ext \<and> pid = para_id ext) \<and>
     create_configuration A (RelayChainCli_new A config (executable_name A # relay_chain_args cli)) =
       Inr polkadot_config"

lemma relay_configuration_Inr:
  "relay_configuration A cli config = Inr polkadot_config \<longleftrightarrow>
     create_configuration A (RelayChainCli_new A config (executable_name A # relay_chain_args cli)) =
       Inr polkadot_config"
  by (simp add: relay_configuration_def split: sum.split)

lemma run_benchmark_not_node: "run_benchmark A F new_partial config cmd \<noteq> Inr (DoRunNode n)"
  by (cases cmd) (auto simp: run_benchmark_def bind_Inr_iff)

lemma subcommand_not_node:
  "subcommand cli = Some c \<Longrightarrow> run_with A F load_spec new_partial start cli \<noteq> Inr (DoRunNode n)"
  by (cases c)
    (auto simp: run_with_def construct_async_run_def bind_Inr_iff run_benchmark_not_node
      split: sum.splits)

lemma run_with_node_iff:
  "run_with A F load_spec new_partial start cli = Inr (DoRunNode n) \<longleftrightarrow>
     subcommand cli = None \<and>
     (\<exists>config pid polkadot_config. node_inputs A cli config pid polkadot_config \<and>
        start config polkadot_config pid (snd (node_hwbench A cli config)) = Inr n)"
proof (cases "subcommand cli")
  case None
  then show ?thesis
    by (auto simp: run_with_def run_node_def node_inputs_def bind_Inr_iff relay_configuration_Inr
        Let_def split: option.splits)
next
  case (Some c)
  then show ?thesis
    by (simp add: subcommand_not_node)
qed

lemma run_with_starts_iff:
  "(\<exists>n. run_with A F load_spec new_partial start cli = Inr (DoRunNode n)) \<longleftrightarrow>
     subcommand cli = None \<and>
     (\<exists>config pid polkadot_config. node_inputs A cli config pid polkadot_config \<and>
        (\<exists>n. start config polkadot_config pid (snd (node_hwbench A cli config)) = Inr n))"
  by (auto simp: run_with_node_iff)

lemma run_with_failure:
  assumes "subcommand cli = None" and "node_inputs A cli config pid polkadot_config"
    and "run_with A F load_spec new_partial start cli = Inl e"
  shows "start config polkadot_config pid (snd (node_hwbench A cli config)) = Inl e"
proof -
  have "relay_configuration A cli config = Inr polkadot_config"
    using assms(2) by (simp add: node_inputs_def relay_configuration_Inr)
  then show ?thesis
    using assms
    by (auto simp: run_with_def run_node_def node_inputs_def bind_Inl_iff Let_def try_result_def)
qed

section \<open>Properties\<close>

text \<open>
  C23: when a command line starts a node, and what a start that fails reports. \<open>run\<close> of the EVM node
  and of the generic node ends in a running node exactly when there is no sub-command, the
  configuration can be made, its specification names a parachain, the arguments of the relay chain
  are accepted, and none of the faults of the services is there: no component fails to come up, and a
  node that collates has a key. If one of these faults stops the start, the error or panic that
  \<open>run\<close> ends in is the one of such a fault.
\<close>

theorem run_starts_node_iff:
  "((\<exists>n. evm_run E A S cli = Inr (DoRunNode n)) \<longleftrightarrow>
      subcommand cli = None \<and>
      (\<exists>config pid polkadot_config. node_inputs A cli config pid polkadot_config \<and>
         (\<forall>e. \<not> service_fault S (env_features E) (Some (eth cli)) (prepare_node_config S config)
            polkadot_config pid (snd (node_hwbench A cli config)) e))) \<and>
    ((\<exists>n. generic_run E A S gcli = Inr (DoRunNode n)) \<longleftrightarrow>
      generic_subcommand gcli = None \<and>
      (\<exists>config pid polkadot_config. node_inputs A (as_Cli gcli) config pid polkadot_config \<and>
         (\<forall>e. \<not> service_fault S (env_features E) None (prepare_node_config S config)
            polkadot_config pid (snd (node_hwbench A (as_Cli gcli) config)) e))) \<and>
    (subcommand cli = None \<and> node_inputs A cli config pid polkadot_config \<and> evm_run E A S cli = Inl e \<longrightarrow>
      service_fault S (env_features E) (Some (eth cli)) (prepare_node_config S config)
        polkadot_config pid (snd (node_hwbench A cli config)) e) \<and>
    (generic_subcommand gcli = None \<and> node_inputs A (as_Cli gcli) config pid polkadot_config \<and>
      generic_run E A S gcli = Inl e \<longrightarrow>
      service_fault S (env_features E) None (prepare_node_config S config)
        polkadot_config pid (snd (node_hwbench A (as_Cli gcli) config)) e)"
proof -
  have none: "subcommand (as_Cli gcli) = None \<longleftrightarrow> generic_subcommand gcli = None"
    by (simp add: as_Cli_def)
  note entry = evm_run_def generic_run_def Let_def evm_start_parachain_node_def
    generic_start_parachain_node_def
  show ?thesis
    using run_with_failure [of cli A config pid polkadot_config]
      run_with_failure [of "as_Cli gcli" A config pid polkadot_config]
    unfolding entry run_with_starts_iff none evm_starts_iff generic_starts_iff
    by (blast intro: evm_failure generic_failure)
qed

theorem run_starts_node_iff_witness:
  "\<exists>config. create_runner demo_command (demo_cli_of None) = Inr config \<and>
     (\<exists>n. evm_run demo_env (demo_command\<lparr>create_configuration := \<lambda>_. Inr config\<rparr>)
       (demo_service (Some 7)) (demo_cli_of None) = Inr (DoRunNode n))"
proof -
  obtain config where config: "create_runner demo_command (demo_cli_of None) = Inr config"
    using demo_runner_runs [of None] by (auto simp: ContractsPath_default_def)
  let ?A = "demo_command\<lparr>create_configuration := \<lambda>_. Inr config\<rparr>"
  have "node_inputs ?A (demo_cli_of None) config
      (para_id (cs_extensions (conf_chain_spec config))) config"
    using config by (simp add: node_inputs_def demo_command_def)
  then have "\<exists>n. evm_run demo_env ?A (demo_service (Some 7)) (demo_cli_of None) =
      Inr (DoRunNode n)"
    by (intro run_starts_node_iff [THEN conjunct1, THEN iffD2] conjI exI)
      (auto simp: demo_cli_of_def demo_no_fault)
  with config show ?thesis
    by blast
qed

text \<open>
  What then runs: the tasks that the configuration asks for, with the report of the hardware
  benchmark only where it is not disabled.
\<close>

theorem run_node_configured:
  assumes "evm_run E A S cli = Inr (DoRunNode n)"
  shows "\<exists>config. create_runner A cli = Inr config \<and>
    node_as_configured (env_features E) (prepare_node_config S config)
      (common_tasks (prepare_node_config S config) (snd (node_hwbench A cli config)) @
        frontier_task_names) n"
  using assms evm_node_configured
  unfolding evm_run_def Let_def run_with_node_iff evm_start_parachain_node_def node_inputs_def
  by blast

end
