(* ===== verification/Xcm_Transactors.thy ===== *)
theory Xcm_Transactors
  imports Xcm_Config Asset_Config
begin

text \<open>
  The type aliases of \<open>configs/xcm_config.rs\<close> that decide whose account a location is
  (\<open>LocationToAccountId\<close>), which ledger an asset belongs to (\<open>AssetTransactors\<close>), who pays
  delivery fees (\<open>FeeManager\<close>) and where messages can be sent (\<open>XcmRouter\<close>). An alias is the
  composition of library components; the components are parameters and the locales state what
  they document. A tuple of components asks its members in order.
\<close>

section \<open>Accounts of locations\<close>

record account_converters =
  ParentIsPreset :: "Location \<Rightarrow> bytes option"
  SiblingParachainConvertsVia :: "Location \<Rightarrow> bytes option"
  AccountKey20Aliases :: "nat option \<Rightarrow> Location \<Rightarrow> bytes option"
  AccountId32Aliases :: "nat option \<Rightarrow> Location \<Rightarrow> bytes option"

definition evm_LocationToAccountId :: "account_converters \<Rightarrow> Location \<Rightarrow> bytes option" where
  "evm_LocationToAccountId C location =
     or_else (ParentIsPreset C location)
       (or_else (SiblingParachainConvertsVia C location)
          (AccountKey20Aliases C RelayNetwork location))"

definition generic_LocationToAccountId :: "account_converters \<Rightarrow> Location \<Rightarrow> bytes option" where
  "generic_LocationToAccountId C location =
     or_else (ParentIsPreset C location)
       (or_else (SiblingParachainConvertsVia C location)
          (AccountId32Aliases C RelayNetwork location))"

text \<open>The wrapper around the EVM template's alias.\<close>

definition evm_LocationToH160 :: "account_converters \<Rightarrow> Location \<Rightarrow> bytes option" where
  "evm_LocationToH160 C = evm_LocationToH160_convert_location (evm_LocationToAccountId C)"

text \<open>
  The parent and the sibling parachains have fixed accounts; an account junction of this chain
  is its own account when it names no network or the converter's one.
\<close>

locale account_laws =
  fixes C :: account_converters and parent_account :: bytes and sibling_account :: "u32 \<Rightarrow> bytes"
  assumes parent: "ParentIsPreset C l = (if l = Location_parent then Some parent_account else None)"
    and sibling: "SiblingParachainConvertsVia C l =
      (case (parents l, interior l) of (p, [Parachain n]) \<Rightarrow>
         if p = 1 then Some (sibling_account n) else None | _ \<Rightarrow> None)"
    and key20: "AccountKey20Aliases C net l =
      (case (parents l, interior l) of (p, [AccountKey20 n key]) \<Rightarrow>
         if p = 0 \<and> (n = None \<or> n = net) then Some key else None | _ \<Rightarrow> None)"
    and id32: "AccountId32Aliases C net l =
      (case (parents l, interior l) of (p, [AccountId32 n key]) \<Rightarrow>
         if p = 0 \<and> (n = None \<or> n = net) then Some key else None | _ \<Rightarrow> None)"
begin

lemma evm_account_iff:
  "evm_LocationToAccountId C l = Some a \<longleftrightarrow>
     l = Location_parent \<and> a = parent_account \<or>
     (\<exists>n. l = loc 1 [Parachain n] \<and> a = sibling_account n) \<or>
     l = loc 0 [AccountKey20 None a]"
  by (cases l) (auto simp: evm_LocationToAccountId_def or_else_def parent sibling key20
      RelayNetwork_def split: option.splits list.splits junction.splits if_splits)

lemma generic_account_iff:
  "generic_LocationToAccountId C l = Some a \<longleftrightarrow>
     l = Location_parent \<and> a = parent_account \<or>
     (\<exists>n. l = loc 1 [Parachain n] \<and> a = sibling_account n) \<or>
     l = loc 0 [AccountId32 None a]"
  by (cases l) (auto simp: generic_LocationToAccountId_def or_else_def parent sibling id32
      RelayNetwork_def split: option.splits list.splits junction.splits if_splits)

end

text \<open>
  The converters with the accounts the SDK documents: the parent is the bytes \<open>Parent\<close>, a
  sibling the bytes \<open>sibl\<close> and its little-endian identifier, both padded with zeros.
\<close>

definition ascii :: "string \<Rightarrow> bytes" where
  "ascii s = map (\<lambda>c. of_char c) s"

definition padded_account :: "nat \<Rightarrow> bytes \<Rightarrow> bytes" where
  "padded_account n bs = take n (bs @ replicate n 0)"

definition padded_converters :: "nat \<Rightarrow> account_converters" where
  "padded_converters len = \<lparr>
     ParentIsPreset = (\<lambda>l. if l = Location_parent
       then Some (padded_account len (ascii ''Parent'')) else None),
     SiblingParachainConvertsVia = (\<lambda>l. case (parents l, interior l) of
         (p, [Parachain n]) \<Rightarrow> if p = 1
           then Some (padded_account len (ascii ''sibl'' @ le_digits 4 (unat n))) else None
       | _ \<Rightarrow> None),
     AccountKey20Aliases = (\<lambda>net l. case (parents l, interior l) of
         (p, [AccountKey20 n key]) \<Rightarrow> if p = 0 \<and> (n = None \<or> n = net) then Some key else None
       | _ \<Rightarrow> None),
     AccountId32Aliases = (\<lambda>net l. case (parents l, interior l) of
         (p, [AccountId32 n key]) \<Rightarrow> if p = 0 \<and> (n = None \<or> n = net) then Some key else None
       | _ \<Rightarrow> None)\<rparr>"

interpretation padded: account_laws "padded_converters len"
  "padded_account len (ascii ''Parent'')"
  "\<lambda>n. padded_account len (ascii ''sibl'' @ le_digits 4 (unat n))"
  by unfold_locales (simp_all add: padded_converters_def)

section \<open>Ledgers of assets\<close>

text \<open>
  The matchers of the asset transactors: \<open>IsConcrete\<close> a fungible asset with one given id,
  \<open>ConvertedConcreteId\<close> one whose id a converter knows, and \<open>TrustBackedAssets\<close> one that is
  numbered below the assets pallet.
\<close>

record 'i asset_matchers =
  IsConcrete :: "Location \<Rightarrow> Asset \<Rightarrow> u128 option"
  ConvertedConcreteId :: "(Location \<Rightarrow> 'i option) \<Rightarrow> Asset \<Rightarrow> ('i \<times> u128) option"
  TrustBackedAssetsConvertedConcreteId :: "Location \<Rightarrow> Asset \<Rightarrow> ('i \<times> u128) option"

datatype 'i ledger = Balances u128 | Assets 'i u128

text \<open>The ledger and the amount a transactor works on, \<open>None\<close> for an asset it does not handle.\<close>

definition evm_LocalAssetTransactor ::
  "'i asset_matchers \<Rightarrow> nat \<Rightarrow> Asset \<Rightarrow> 'i ledger option" where
  "evm_LocalAssetTransactor M balances_index asset =
     map_option Balances (IsConcrete M (PalletLocation balances_index) asset)"

text \<open>\<open>AsAssetType\<close> looks the location up in the asset manager's registry.\<close>

definition evm_LocalFungiblesTransactor ::
  "'i asset_matchers \<Rightarrow> (Location \<Rightarrow> 'i option) \<Rightarrow> Asset \<Rightarrow> 'i ledger option" where
  "evm_LocalFungiblesTransactor M as_asset_type asset =
     map_option (\<lambda>(i, n). Assets i n) (ConvertedConcreteId M as_asset_type asset)"

definition evm_AssetTransactors ::
  "'i asset_matchers \<Rightarrow> nat \<Rightarrow> (Location \<Rightarrow> 'i option) \<Rightarrow> Asset \<Rightarrow> 'i ledger option" where
  "evm_AssetTransactors M balances_index as_asset_type asset =
     or_else (evm_LocalAssetTransactor M balances_index asset)
       (evm_LocalFungiblesTransactor M as_asset_type asset)"

definition generic_LocalAssetTransactor ::
  "'i asset_matchers \<Rightarrow> Asset \<Rightarrow> 'i ledger option" where
  "generic_LocalAssetTransactor M asset =
     map_option Balances (IsConcrete M RelayLocation asset)"

definition generic_LocalFungiblesTransactor ::
  "'i asset_matchers \<Rightarrow> nat \<Rightarrow> Asset \<Rightarrow> 'i ledger option" where
  "generic_LocalFungiblesTransactor M assets_index asset =
     map_option (\<lambda>(i, n). Assets i n)
       (TrustBackedAssetsConvertedConcreteId M (PalletLocation assets_index) asset)"

definition generic_AssetTransactors ::
  "'i asset_matchers \<Rightarrow> nat \<Rightarrow> Asset \<Rightarrow> 'i ledger option" where
  "generic_AssetTransactors M assets_index asset =
     or_else (generic_LocalAssetTransactor M asset)
       (generic_LocalFungiblesTransactor M assets_index asset)"

locale matcher_laws =
  fixes M :: "'i asset_matchers"
  assumes concrete: "IsConcrete M l asset = Some n \<longleftrightarrow>
      asset_id asset = l \<and> fungible asset = Fungible n"
    and converted: "ConvertedConcreteId M conv asset = Some (i, n) \<longleftrightarrow>
      conv (asset_id asset) = Some i \<and> fungible asset = Fungible n"
    and trust_backed: "TrustBackedAssetsConvertedConcreteId M l asset = Some (i, n) \<Longrightarrow>
      parents (asset_id asset) = parents l \<and>
      (\<exists>j js. interior (asset_id asset) = interior l @ j # js) \<and> fungible asset = Fungible n"
begin

lemma concrete_None:
  "IsConcrete M l asset = None \<longleftrightarrow> asset_id asset \<noteq> l \<or> (\<forall>n. fungible asset \<noteq> Fungible n)"
  using concrete [of l asset] by (cases "IsConcrete M l asset") auto

lemma converted_None:
  "ConvertedConcreteId M conv asset = None \<longleftrightarrow>
     conv (asset_id asset) = None \<or> (\<forall>n. fungible asset \<noteq> Fungible n)"
  using converted [of conv asset]
  by (cases "ConvertedConcreteId M conv asset") (auto split: prod.splits)

lemma evm_transactors_eq:
  "evm_AssetTransactors M b conv \<lparr>asset_id = l, fungible = Fungible n\<rparr> =
     (if l = PalletLocation b then Some (Balances n) else map_option (\<lambda>i. Assets i n) (conv l))"
proof -
  have "ConvertedConcreteId M conv \<lparr>asset_id = l, fungible = Fungible n\<rparr> =
      map_option (\<lambda>i. (i, n)) (conv l)"
    using converted_None converted by (cases "conv l") simp_all
  moreover have "IsConcrete M (PalletLocation b) \<lparr>asset_id = l, fungible = Fungible n\<rparr> =
      (if l = PalletLocation b then Some n else None)"
    using concrete_None concrete by simp
  ultimately show ?thesis
    by (simp add: evm_AssetTransactors_def evm_LocalAssetTransactor_def
        evm_LocalFungiblesTransactor_def option.map_comp comp_def)
qed

lemma generic_transactors_Some:
  "generic_AssetTransactors M a asset = Some x \<Longrightarrow>
     asset_id asset = RelayLocation \<and> (\<exists>n. x = Balances n) \<or>
     (\<exists>j js i n. asset_id asset = loc 0 (PalletInstance (of_nat a) # j # js) \<and> x = Assets i n)"
  using concrete [of RelayLocation asset]
    trust_backed [of "PalletLocation a" asset]
  by (cases "asset_id asset")
    (auto simp: generic_AssetTransactors_def generic_LocalAssetTransactor_def
      generic_LocalFungiblesTransactor_def or_else_def PalletLocation_def split: option.splits)

end

text \<open>
  Matchers on the asset's id directly; the junction after the prefix of a numbered asset is its
  number, whatever follows it.
\<close>

definition direct_matchers :: "'n::len word asset_matchers" where
  "direct_matchers = \<lparr>
     IsConcrete = (\<lambda>l asset. case fungible asset of
       Fungible n \<Rightarrow> if asset_id asset = l then Some n else None | _ \<Rightarrow> None),
     ConvertedConcreteId = (\<lambda>conv asset. case fungible asset of
       Fungible n \<Rightarrow> map_option (\<lambda>i. (i, n)) (conv (asset_id asset)) | _ \<Rightarrow> None),
     TrustBackedAssetsConvertedConcreteId = (\<lambda>l asset.
       case (fungible asset, drop (length (interior l)) (interior (asset_id asset))) of
         (Fungible n, OtherJunction number # _) \<Rightarrow>
           if parents (asset_id asset) = parents l \<and>
              take (length (interior l)) (interior (asset_id asset)) = interior l
           then Some (of_nat (le_value number), n) else None
       | _ \<Rightarrow> None)\<rparr>"

interpretation direct: matcher_laws direct_matchers
proof unfold_locales
  fix l asset i n
  assume "TrustBackedAssetsConvertedConcreteId direct_matchers l asset = Some (i, n)"
  then show "parents (asset_id asset) = parents l \<and>
      (\<exists>j js. interior (asset_id asset) = interior l @ j # js) \<and> fungible asset = Fungible n"
    by (cases asset; cases "fungible asset"; cases "drop (length (interior l)) (interior (asset_id asset))")
      (auto simp: direct_matchers_def split: junction.splits if_splits
        intro!: exI append_eq_conv_conj [THEN iffD2, OF conjI, symmetric])
qed (auto simp: direct_matchers_def split: fungibility.splits if_splits)

section \<open>Fees and routes\<close>

text \<open>
  \<open>XcmFeeManagerFromComponents\<close> waives the fees of the origins that its first component
  contains; \<open>IsChildSystemParachain\<close> contains parachains directly below this chain.
\<close>

record fee_components =
  XcmFeeManagerFromComponents :: "(Location \<Rightarrow> bool) \<Rightarrow> Location option \<Rightarrow> bool"
  IsChildSystemParachain :: "Location \<Rightarrow> bool"

definition FeeManager_is_waived :: "fee_components \<Rightarrow> Location option \<Rightarrow> bool" where
  "FeeManager_is_waived K origin = XcmFeeManagerFromComponents K (IsChildSystemParachain K) origin"

definition generic_FeeManager_is_waived :: "fee_components \<Rightarrow> Location option \<Rightarrow> bool" where
  "generic_FeeManager_is_waived K origin =
     XcmFeeManagerFromComponents K (IsChildSystemParachain K) origin"

locale fee_laws =
  fixes K :: fee_components
  assumes waived_contained: "XcmFeeManagerFromComponents K f origin \<Longrightarrow> \<exists>l. origin = Some l \<and> f l"
    and child: "IsChildSystemParachain K l \<Longrightarrow> \<exists>n. l = loc 0 [Parachain n]"
begin

lemma waived_child: "FeeManager_is_waived K origin \<Longrightarrow> \<exists>n. origin = Some (loc 0 [Parachain n])"
  unfolding FeeManager_is_waived_def using waived_contained child by blast

end

definition system_fee_components :: fee_components where
  "system_fee_components = \<lparr>
     XcmFeeManagerFromComponents = (\<lambda>f origin. case origin of Some l \<Rightarrow> f l | None \<Rightarrow> False),
     IsChildSystemParachain = (\<lambda>l. case (parents l, interior l) of
       (p, [Parachain n]) \<Rightarrow> p = 0 \<and> n < 2000 | _ \<Rightarrow> False)\<rparr>"

interpretation system_fees: fee_laws system_fee_components
proof unfold_locales
  fix l
  assume "IsChildSystemParachain system_fee_components l"
  then show "\<exists>n. l = loc 0 [Parachain n]"
    by (cases l; cases "interior l" rule: remdups_adj.cases)
      (auto simp: system_fee_components_def split: junction.splits)
qed (auto simp: system_fee_components_def split: option.splits)

text \<open>
  Sending: \<open>validate\<close> gives a ticket for a message or an error. A tuple of routers asks the next
  one when a router answers \<open>NotApplicable\<close>, and answers so itself at the end.
\<close>

datatype send_error = NotApplicable | Unroutable | Transport | ExceedsMaxMessageSize

type_synonym ('m, 't) router = "Location \<Rightarrow> 'm \<Rightarrow> send_error + 't"

record ('m, 't) router_components =
  ParentAsUmp :: "('m, 't) router"
  XcmpQueue :: "('m, 't) router"
  WithUniqueTopic :: "'m \<Rightarrow> 'm"

definition next_router :: "send_error + 't \<Rightarrow> send_error + 't \<Rightarrow> send_error + 't" where
  "next_router r s = (if r = Inl NotApplicable then s else r)"

definition XcmRouter :: "('m, 't) router_components \<Rightarrow> ('m, 't) router" where
  "XcmRouter R dest message = (
     let message = WithUniqueTopic R message
     in next_router (ParentAsUmp R dest message)
          (next_router (XcmpQueue R dest message) (Inl NotApplicable)))"

text \<open>The upward queue serves the relay chain only, the horizontal queue sibling parachains only.\<close>

locale router_laws =
  fixes R :: "('m, 't) router_components"
  assumes ump: "ParentAsUmp R dest m = Inl NotApplicable \<longleftrightarrow> dest \<noteq> Location_parent"
    and xcmp: "XcmpQueue R dest m = Inl NotApplicable \<longleftrightarrow> (\<forall>n. dest \<noteq> loc 1 [Parachain n])"
begin

lemma route:
  "XcmRouter R dest m =
     (if dest = Location_parent then ParentAsUmp R dest (WithUniqueTopic R m)
      else if \<exists>n. dest = loc 1 [Parachain n] then XcmpQueue R dest (WithUniqueTopic R m)
      else Inl NotApplicable)"
  using ump xcmp by (auto simp: XcmRouter_def next_router_def Let_def)

end

text \<open>Queues that take every message up to a length for the chains they serve.\<close>

definition queue_routers :: "nat \<Rightarrow> (nat list, nat list) router_components" where
  "queue_routers max_len = \<lparr>
     ParentAsUmp = (\<lambda>dest m. if dest \<noteq> Location_parent then Inl NotApplicable
       else if max_len < length m then Inl ExceedsMaxMessageSize else Inr m),
     XcmpQueue = (\<lambda>dest m. case (parents dest, interior dest) of
         (p, [Parachain n]) \<Rightarrow> if p \<noteq> 1 then Inl NotApplicable
           else if max_len < length m then Inl ExceedsMaxMessageSize else Inr m
       | _ \<Rightarrow> Inl NotApplicable),
     WithUniqueTopic = (\<lambda>m. m @ [0])\<rparr>"

interpretation queues: router_laws "queue_routers max_len"
proof unfold_locales
  fix dest and m :: "nat list"
  show "XcmpQueue (queue_routers max_len) dest m = Inl NotApplicable \<longleftrightarrow>
      (\<forall>n. dest \<noteq> loc 1 [Parachain n])"
    by (cases dest; cases "interior dest" rule: remdups_adj.cases)
      (auto simp: queue_routers_def split: junction.splits)
qed (simp add: queue_routers_def)

section \<open>Properties\<close>

text \<open>
  C16: the ledger of every currency of the EVM template. The location that stands for a currency in
  messages is handled by the asset transactors, and by the right one, for the native currency (the
  balances) and for a registered foreign asset (the assets pallet under its own identifier), with
  the amount unchanged; an ERC-20 token has a location too, but no transactor. The registry
  must give back what it maps, and register neither the balances pallet nor a token of the bridge.
\<close>

theorem evm_currency_reaches_ledger:
  assumes "matcher_laws M" and "xcm_laws X"
    and "\<And>i l. convert_back i = Some l \<Longrightarrow> as_asset_type l = Some i"
    and "as_asset_type (SelfReserve balances_index) = None"
    and "\<And>a. as_asset_type (loc 0 [PalletInstance (of_nat bridge_index), AccountKey20 None a]) = None"
    and "evm_CurrencyIdToLocation_convert X convert_back (PalletLocation bridge_index) balances_index
      currency = Some l"
  shows "evm_AssetTransactors M balances_index as_asset_type \<lparr>asset_id = l, fungible = Fungible n\<rparr> =
    (case currency of
       Evm_SelfReserve \<Rightarrow> Some (Balances n)
     | Evm_ForeignAsset i \<Rightarrow> Some (Assets i n)
     | Evm_Erc20 a \<Rightarrow> None)"
proof (cases currency)
  case Evm_SelfReserve
  then show ?thesis
    using assms(6) by (auto simp: matcher_laws.evm_transactors_eq [OF assms(1)]
        evm_CurrencyIdToLocation_convert_def SelfReserve_def PalletLocation_def)
next
  case (Evm_ForeignAsset i)
  then have "as_asset_type l = Some i"
    using assms(3,6) by (simp add: evm_CurrencyIdToLocation_convert_def)
  moreover from this have "l \<noteq> PalletLocation balances_index"
    using assms(4) by (auto simp: SelfReserve_def PalletLocation_def)
  ultimately show ?thesis
    using Evm_ForeignAsset by (simp add: matcher_laws.evm_transactors_eq [OF assms(1)])
next
  case (Evm_Erc20 a)
  then have "l = loc 0 [PalletInstance (of_nat bridge_index), AccountKey20 None a]"
    using assms(6)
    by (simp add: evm_CurrencyIdToLocation_convert_def PalletLocation_def xcm_laws.push_ok [OF assms(2)])
  then show ?thesis
    using Evm_Erc20 assms(5)
    by (simp add: matcher_laws.evm_transactors_eq [OF assms(1)] PalletLocation_def)
qed

theorem evm_currency_reaches_ledger_witness:
  "evm_AssetTransactors direct_matchers 10
     (\<lambda>l. if l = RelayLocation then Some (7 :: u128) else None)
     \<lparr>asset_id = RelayLocation, fungible = Fungible 5\<rparr> = Some (Assets 7 5) \<and>
   evm_AssetTransactors direct_matchers 10
     (\<lambda>l. if l = RelayLocation then Some (7 :: u128) else None)
     \<lparr>asset_id = loc 0 [PalletInstance 65, AccountKey20 None [1]], fungible = Fungible 5\<rparr> = None"
proof -
  let ?restored = "\<lambda>i :: u128. if i = 7 then Some RelayLocation else None"
  let ?conv = "\<lambda>l. if l = RelayLocation then Some (7 :: u128) else None"
  have known: "?conv l = Some i" if "?restored i = Some l" for i l
    using that by (auto split: if_splits)
  have free: "?conv (SelfReserve 10) = None"
    "?conv (loc 0 [PalletInstance (of_nat 65), AccountKey20 None a]) = None" for a
    by (simp_all add: RelayLocation_def SelfReserve_def)
  note ledger = evm_currency_reaches_ledger [OF direct.matcher_laws_axioms xl.xcm_laws_axioms known free]
  show ?thesis
    using ledger [where currency = "Evm_ForeignAsset 7" and l = RelayLocation and n = 5]
      ledger [where currency = "Evm_Erc20 [1]" and n = 5
        and l = "loc 0 [PalletInstance 65, AccountKey20 None [1]]"]
    by (simp add: evm_CurrencyIdToLocation_convert_def PalletLocation_def
        xcm_laws.push_ok [OF xl.xcm_laws_axioms])
qed

text \<open>
  C20: the native currency of the generic template has no transactor. The location that
  \<open>CurrencyId::SelfReserve\<close> stands for is handled by none, whatever the indices of the pallets,
  and neither is any asset of another chain but the relay chain's token, which is credited as
  the native balance.
\<close>

theorem generic_native_unhandled:
  assumes "matcher_laws M"
  shows "generic_CurrencyIdToLocation_convert convert_back balances_index Generic_SelfReserve =
      Some (SelfReserve balances_index) \<and>
    generic_AssetTransactors M assets_index
      \<lparr>asset_id = SelfReserve balances_index, fungible = f\<rparr> = None \<and>
    (0 < parents l \<longrightarrow>
      generic_AssetTransactors M assets_index \<lparr>asset_id = l, fungible = Fungible n\<rparr> =
        (if l = RelayLocation then Some (Balances n) else None))"
proof -
  note handled = matcher_laws.generic_transactors_Some [OF assms]
  have "generic_AssetTransactors M assets_index
      \<lparr>asset_id = SelfReserve balances_index, fungible = f\<rparr> = None"
    using handled [of assets_index "\<lparr>asset_id = SelfReserve balances_index, fungible = f\<rparr>"]
    by (fastforce simp: SelfReserve_def RelayLocation_def)
  moreover have "generic_AssetTransactors M assets_index
      \<lparr>asset_id = RelayLocation, fungible = Fungible n\<rparr> = Some (Balances n)"
    using matcher_laws.concrete [OF assms, of RelayLocation
        "\<lparr>asset_id = RelayLocation, fungible = Fungible n\<rparr>" n]
    by (simp add: generic_AssetTransactors_def generic_LocalAssetTransactor_def)
  moreover have "generic_AssetTransactors M assets_index
      \<lparr>asset_id = l, fungible = Fungible n\<rparr> = None" if "0 < parents l" and "l \<noteq> RelayLocation"
    using that handled [of assets_index "\<lparr>asset_id = l, fungible = Fungible n\<rparr>"]
    by (cases "generic_AssetTransactors M assets_index \<lparr>asset_id = l, fungible = Fungible n\<rparr>")
      auto
  ultimately show ?thesis
    by (simp add: generic_CurrencyIdToLocation_convert_def)
qed

theorem generic_native_unhandled_witness:
  "generic_AssetTransactors (direct_matchers :: u32 asset_matchers) 50
     \<lparr>asset_id = SelfReserve 10, fungible = Fungible 5\<rparr> = None \<and>
   generic_AssetTransactors (direct_matchers :: u32 asset_matchers) 50
     \<lparr>asset_id = RelayLocation, fungible = Fungible 5\<rparr> = Some (Balances 5)"
proof -
  have "matcher_laws (direct_matchers :: u32 asset_matchers)"
    by (rule direct.matcher_laws_axioms)
  from generic_native_unhandled [OF this, of "\<lambda>_. None" 10 50 "Fungible 5" RelayLocation 5]
  show ?thesis
    by (simp add: RelayLocation_def)
qed

text \<open>
  C18: where messages can go. A message to the relay chain is offered to the upward queue and one
  to a sibling parachain to the horizontal queue, always with a topic, and the queue's answer,
  ticket or error, is the answer; a message to any other location, this chain included, is
  refused as not applicable.
\<close>

theorem router_destinations_exact:
  assumes "router_laws R"
  shows "XcmRouter R Location_parent m = ParentAsUmp R Location_parent (WithUniqueTopic R m) \<and>
    XcmRouter R (loc 1 [Parachain n]) m = XcmpQueue R (loc 1 [Parachain n]) (WithUniqueTopic R m) \<and>
    (XcmRouter R dest m = Inl NotApplicable \<longleftrightarrow>
      dest \<noteq> Location_parent \<and> (\<forall>n. dest \<noteq> loc 1 [Parachain n]))"
  using router_laws.ump [OF assms] router_laws.xcmp [OF assms]
  by (auto simp: router_laws.route [OF assms])

theorem router_destinations_exact_witness:
  "XcmRouter (queue_routers 3) (loc 1 [Parachain 2000]) [1, 2] = Inr [1, 2, 0] \<and>
   XcmRouter (queue_routers 3) (loc 1 [Parachain 2000]) [1, 2, 3] = Inl ExceedsMaxMessageSize \<and>
   XcmRouter (queue_routers 3) Location_here [1, 2] = Inl NotApplicable"
  using router_destinations_exact [OF queues.router_laws_axioms, of 3 "[1, 2]" 2000 Location_here]
    router_destinations_exact [OF queues.router_laws_axioms, of 3 "[1, 2, 3]" 2000 Location_here]
  by (simp add: queue_routers_def)



end
