(* ===== verification/Xcm_Barrier.thy ===== *)
theory Xcm_Barrier
  imports Xcm_Transactors
begin

text \<open>
  What the configurations let other chains do on this one: the local origin a message's
  \<open>Transact\<close> is dispatched with (\<open>XcmOriginToTransactDispatchOrigin\<close>, both templates) and the
  barrier that a message has to pass before it is executed (\<open>Barrier\<close> of the EVM template).
  As in \<open>Xcm_Transactors\<close> the aliases compose library components, which are parameters with
  their documented behaviour as laws.
\<close>

section \<open>Origins of dispatched calls\<close>

datatype origin_kind = Native | SovereignAccount | Superuser | Xcm_kind

datatype local_origin =
    Root
  | Signed bytes
  | CumulusRelay
  | CumulusSibling u32
  | PalletXcm Location

definition RelayChainOrigin :: local_origin where
  "RelayChainOrigin = CumulusRelay"

type_synonym origin_converter = "Location \<Rightarrow> origin_kind \<Rightarrow> local_origin option"

record origin_converters =
  SovereignSignedViaLocation :: "(Location \<Rightarrow> bytes option) \<Rightarrow> origin_converter"
  RelayChainAsNative :: "local_origin \<Rightarrow> origin_converter"
  SiblingParachainAsNative :: origin_converter
  SignedAccountKey20AsNative :: "nat option \<Rightarrow> origin_converter"
  SignedAccountId32AsNative :: "nat option \<Rightarrow> origin_converter"
  XcmPassthrough :: origin_converter

definition evm_XcmOriginToTransactDispatchOrigin ::
  "account_converters \<Rightarrow> origin_converters \<Rightarrow> origin_converter" where
  "evm_XcmOriginToTransactDispatchOrigin C N l k =
     or_else (SovereignSignedViaLocation N (evm_LocationToAccountId C) l k)
       (or_else (RelayChainAsNative N RelayChainOrigin l k)
          (or_else (SiblingParachainAsNative N l k)
             (or_else (SignedAccountKey20AsNative N RelayNetwork l k)
                (XcmPassthrough N l k))))"

definition generic_XcmOriginToTransactDispatchOrigin ::
  "account_converters \<Rightarrow> origin_converters \<Rightarrow> origin_converter" where
  "generic_XcmOriginToTransactDispatchOrigin C N l k =
     or_else (SovereignSignedViaLocation N (generic_LocationToAccountId C) l k)
       (or_else (RelayChainAsNative N RelayChainOrigin l k)
          (or_else (SiblingParachainAsNative N l k)
             (or_else (SignedAccountId32AsNative N RelayNetwork l k)
                (XcmPassthrough N l k))))"

locale dispatch_origin_laws =
  fixes N :: origin_converters
  assumes sovereign: "SovereignSignedViaLocation N to_account l k =
      (if k = SovereignAccount then map_option Signed (to_account l) else None)"
    and relay: "RelayChainAsNative N r l k =
      (if k = Native \<and> l = Location_parent then Some r else None)"
    and sibling: "SiblingParachainAsNative N l k =
      (case interior l of [Parachain n] \<Rightarrow>
         if k = Native \<and> parents l = 1 then Some (CumulusSibling n) else None | _ \<Rightarrow> None)"
    and key20: "SignedAccountKey20AsNative N net l k =
      (case interior l of [AccountKey20 n key] \<Rightarrow>
         if k = Native \<and> parents l = 0 \<and> (n = None \<or> n = net) then Some (Signed key) else None
       | _ \<Rightarrow> None)"
    and id32: "SignedAccountId32AsNative N net l k =
      (case interior l of [AccountId32 n key] \<Rightarrow>
         if k = Native \<and> parents l = 0 \<and> (n = None \<or> n = net) then Some (Signed key) else None
       | _ \<Rightarrow> None)"
    and passthrough: "XcmPassthrough N l k = (if k = Xcm_kind then Some (PalletXcm l) else None)"
begin

lemmas converter_laws = sovereign relay sibling key20 id32 passthrough

lemma evm_sovereign:
  "evm_XcmOriginToTransactDispatchOrigin C N l SovereignAccount =
     map_option Signed (evm_LocationToAccountId C l)"
  by (simp add: evm_XcmOriginToTransactDispatchOrigin_def converter_laws or_else_def
      split: option.splits list.splits junction.splits)

lemma generic_sovereign:
  "generic_XcmOriginToTransactDispatchOrigin C N l SovereignAccount =
     map_option Signed (generic_LocationToAccountId C l)"
  by (simp add: generic_XcmOriginToTransactDispatchOrigin_def converter_laws or_else_def
      split: option.splits list.splits junction.splits)

lemma other_kinds:
  "evm_XcmOriginToTransactDispatchOrigin C N l Superuser = None"
  "generic_XcmOriginToTransactDispatchOrigin C N l Superuser = None"
  "evm_XcmOriginToTransactDispatchOrigin C N l Xcm_kind = Some (PalletXcm l)"
  "generic_XcmOriginToTransactDispatchOrigin C N l Xcm_kind = Some (PalletXcm l)"
  by (simp_all add: evm_XcmOriginToTransactDispatchOrigin_def
      generic_XcmOriginToTransactDispatchOrigin_def converter_laws or_else_def
      split: option.splits list.splits junction.splits)

lemma evm_native:
  "evm_XcmOriginToTransactDispatchOrigin C N l Native = Some r \<longleftrightarrow>
     l = Location_parent \<and> r = CumulusRelay \<or>
     (\<exists>n. l = loc 1 [Parachain n] \<and> r = CumulusSibling n) \<or>
     (\<exists>a. l = loc 0 [AccountKey20 None a] \<and> r = Signed a)"
  by (cases l; cases "interior l" rule: remdups_adj.cases)
    (auto simp: evm_XcmOriginToTransactDispatchOrigin_def converter_laws or_else_def
      RelayChainOrigin_def RelayNetwork_def split: junction.splits if_splits)

lemma generic_native:
  "generic_XcmOriginToTransactDispatchOrigin C N l Native = Some r \<longleftrightarrow>
     l = Location_parent \<and> r = CumulusRelay \<or>
     (\<exists>n. l = loc 1 [Parachain n] \<and> r = CumulusSibling n) \<or>
     (\<exists>a. l = loc 0 [AccountId32 None a] \<and> r = Signed a)"
  by (cases l; cases "interior l" rule: remdups_adj.cases)
    (auto simp: generic_XcmOriginToTransactDispatchOrigin_def converter_laws or_else_def
      RelayChainOrigin_def RelayNetwork_def split: junction.splits if_splits)

end

definition direct_converters :: origin_converters where
  "direct_converters = \<lparr>
     SovereignSignedViaLocation = (\<lambda>to_account l k.
       if k = SovereignAccount then map_option Signed (to_account l) else None),
     RelayChainAsNative = (\<lambda>r l k. if k = Native \<and> l = Location_parent then Some r else None),
     SiblingParachainAsNative = (\<lambda>l k. case interior l of [Parachain n] \<Rightarrow>
         if k = Native \<and> parents l = 1 then Some (CumulusSibling n) else None | _ \<Rightarrow> None),
     SignedAccountKey20AsNative = (\<lambda>net l k. case interior l of [AccountKey20 n key] \<Rightarrow>
         if k = Native \<and> parents l = 0 \<and> (n = None \<or> n = net) then Some (Signed key) else None
       | _ \<Rightarrow> None),
     SignedAccountId32AsNative = (\<lambda>net l k. case interior l of [AccountId32 n key] \<Rightarrow>
         if k = Native \<and> parents l = 0 \<and> (n = None \<or> n = net) then Some (Signed key) else None
       | _ \<Rightarrow> None),
     XcmPassthrough = (\<lambda>l k. if k = Xcm_kind then Some (PalletXcm l) else None)\<rparr>"

interpretation direct_origins: dispatch_origin_laws direct_converters
  by unfold_locales (simp_all add: direct_converters_def)

section \<open>The barrier\<close>

text \<open>
  The instructions that the components of the barrier look at, and those that hold a program which is
  run on this chain later: the error handler, the appendix and the program of another origin. The
  programs that a transfer sends along run on the receiving chain and are left out.
\<close>

datatype instruction =
    WithdrawAsset
  | ReserveAssetDeposited
  | ReceiveTeleportedAsset
  | ClaimAsset
  | BuyExecution
  | PayFees
  | UnpaidExecution
  | SetTopic nat
  | DescendOrigin "junction list"
  | UniversalOrigin junction
  | ClearOrigin
  | AliasOrigin Location
  | InitiateReserveWithdraw Location
  | DepositReserveAsset Location
  | TransferReserveAsset Location
  | SetErrorHandler "instruction list"
  | SetAppendix "instruction list"
  | ExecuteWithOrigin "junction list option" "instruction list"
  | OtherInstruction nat

datatype process_error = BadFormat | Unsupported | Overweight | Yield

text \<open>
  What a barrier decides on: the origin of the message, its instructions, the weight it may use
  and the weight credit left, which an accepting barrier may lower.
\<close>

record 'w xcm_query =
  message_origin :: Location
  message :: "instruction list"
  max_weight :: 'w
  weight_credit :: 'w

type_synonym 'w barrier = "'w xcm_query \<Rightarrow> process_error + 'w xcm_query"

record 'w barrier_components =
  weight_checked_sub :: "'w \<Rightarrow> 'w \<Rightarrow> 'w option"
  TrailingSetTopicAsId :: "'w barrier \<Rightarrow> 'w barrier"
  DenyThenTry :: "('w xcm_query \<Rightarrow> bool) \<Rightarrow> 'w barrier \<Rightarrow> 'w barrier"
  DenyReserveTransferToRelayChain :: "'w xcm_query \<Rightarrow> bool"
  TakeWeightCredit :: "'w barrier"
  WithComputedOrigin :: "'w barrier \<Rightarrow> junction list \<Rightarrow> nat \<Rightarrow> 'w barrier"
  AllowTopLevelPaidExecutionFrom :: "(Location \<Rightarrow> bool) \<Rightarrow> 'w barrier"
  AllowExplicitUnpaidExecutionFrom :: "(Location \<Rightarrow> bool) \<Rightarrow> 'w barrier"

text \<open>A tuple of barriers: the first one that accepts.\<close>

fun first_accepting :: "'w barrier list \<Rightarrow> 'w barrier" where
  "first_accepting [] q = Inl Unsupported"
| "first_accepting (b # bs) q = (case b q of Inr r \<Rightarrow> Inr r | Inl _ \<Rightarrow> first_accepting bs q)"

definition Everything :: "Location \<Rightarrow> bool" where
  "Everything l \<longleftrightarrow> True"

definition evm_Barrier :: "'w barrier_components \<Rightarrow> u32 \<Rightarrow> 'w barrier" where
  "evm_Barrier B parachain_id =
     TrailingSetTopicAsId B
       (DenyThenTry B (DenyReserveTransferToRelayChain B)
          (first_accepting
             [TakeWeightCredit B,
              WithComputedOrigin B
                (first_accepting
                   [AllowTopLevelPaidExecutionFrom B Everything,
                    AllowExplicitUnpaidExecutionFrom B ParentOrParentsExecutivePlurality_contains])
                (UniversalLocation parachain_id) 8]))"

text \<open>The message without a topic at its end.\<close>

definition without_topic :: "instruction list \<Rightarrow> instruction list" where
  "without_topic ms =
     (case rev ms of SetTopic t # front \<Rightarrow> rev front | _ \<Rightarrow> ms)"

text \<open>A reserve transfer to the relay chain, at this place of the message.\<close>

definition reserve_to_relay :: "instruction \<Rightarrow> bool" where
  "reserve_to_relay i \<longleftrightarrow>
     (case i of
        InitiateReserveWithdraw l \<Rightarrow> l = Location_parent
      | DepositReserveAsset l \<Rightarrow> l = Location_parent
      | TransferReserveAsset l \<Rightarrow> l = Location_parent
      | _ \<Rightarrow> False)"

text \<open>A message that pays starts with an instruction that loads assets and buys execution.\<close>

definition pays_for_itself :: "instruction list \<Rightarrow> bool" where
  "pays_for_itself ms \<longleftrightarrow>
     (case ms of
        i # rest \<Rightarrow>
          i \<in> {WithdrawAsset, ReserveAssetDeposited, ReceiveTeleportedAsset, ClaimAsset} \<and>
          (BuyExecution \<in> set rest \<or> PayFees \<in> set rest)
      | [] \<Rightarrow> False)"

text \<open>
  The origin after a prefix of instructions that change it: \<open>DescendOrigin\<close> goes further inside,
  \<open>UniversalOrigin\<close> starts anew at a junction relative to this chain's universal location.
\<close>

fun computed_origin :: "junction list \<Rightarrow> Location \<Rightarrow> instruction list \<Rightarrow> Location option" where
  "computed_origin universal l [] = Some l"
| "computed_origin universal l (DescendOrigin js # rest) =
     computed_origin universal (l\<lparr>interior := interior l @ js\<rparr>) rest"
| "computed_origin universal l (UniversalOrigin j # rest) =
     computed_origin universal
       (if universal = [j] then Location_here else loc (of_nat (length universal)) [j]) rest"
| "computed_origin universal l (_ # rest) = None"

text \<open>The origin after the steps inside that a prefix of a message takes.\<close>

fun descended :: "instruction list \<Rightarrow> Location \<Rightarrow> Location" where
  "descended [] l = l"
| "descended (i # rest) l =
     descended rest (case i of DescendOrigin js \<Rightarrow> l\<lparr>interior := interior l @ js\<rparr> | _ \<Rightarrow> l)"

text \<open>
  \<open>AllowExplicitUnpaidExecutionFrom\<close> asks its filter about the origin at the instruction
  \<open>UnpaidExecution\<close>: the message's own one, or the one that \<open>DescendOrigin\<close> has made of it before.
  A message that clears its origin is refused, and so is an alias, as the code allows no aliasers.
\<close>

locale barrier_laws =
  fixes B :: "'w barrier_components"
  assumes topic: "TrailingSetTopicAsId B b q = b (q\<lparr>message := without_topic (message q)\<rparr>)"
    and deny_try: "DenyThenTry B d b q = Inr r \<longleftrightarrow> \<not> d q \<and> b q = Inr r"
    and deny_relay: "DenyReserveTransferToRelayChain B q \<longleftrightarrow>
      (\<exists>i \<in> set (message q). reserve_to_relay i)"
    and credit: "TakeWeightCredit B q =
      (case weight_checked_sub B (weight_credit q) (max_weight q) of
         Some left \<Rightarrow> Inr (q\<lparr>weight_credit := left\<rparr>)
       | None \<Rightarrow> Inl Overweight)"
    and computed: "WithComputedOrigin B b universal n q = Inr r \<Longrightarrow>
      \<exists>prefix rest l. message q = prefix @ rest \<and> length prefix \<le> n \<and>
        computed_origin universal (message_origin q) prefix = Some l \<and>
        b (q\<lparr>message_origin := l, message := rest\<rparr>) = Inr r"
    and paid: "AllowTopLevelPaidExecutionFrom B f q = Inr r \<Longrightarrow>
      f (message_origin q) \<and> pays_for_itself (message q)"
    and unpaid: "AllowExplicitUnpaidExecutionFrom B f q = Inr r \<Longrightarrow>
      \<exists>prefix rest. message q = prefix @ UnpaidExecution # rest \<and>
        ClearOrigin \<notin> set prefix \<and> (\<forall>l. AliasOrigin l \<notin> set prefix) \<and>
        f (descended prefix (message_origin q))"

lemma set_without_topic: "set (without_topic ms) \<subseteq> set ms"
proof (cases ms rule: rev_cases)
  case (snoc front i)
  then show ?thesis
    by (cases i) (auto simp: without_topic_def)
qed (simp add: without_topic_def)

lemma without_topic_keeps: "(\<And>t. i \<noteq> SetTopic t) \<Longrightarrow> i \<in> set ms \<Longrightarrow> i \<in> set (without_topic ms)"
proof (cases ms rule: rev_cases)
  case (snoc front j)
  moreover assume "\<And>t. i \<noteq> SetTopic t" and "i \<in> set ms"
  ultimately show ?thesis
    by (cases j) (auto simp: without_topic_def)
qed simp

lemma transfer_without_topic:
  "reserve_to_relay i \<Longrightarrow> i \<in> set ms \<Longrightarrow> i \<in> set (without_topic ms)"
  by (rule without_topic_keeps) (auto simp: reserve_to_relay_def)

lemma without_topic_append: "\<exists>tail. ms = without_topic ms @ tail"
proof (cases ms rule: rev_cases)
  case (snoc front i)
  then show ?thesis
    by (cases i) (auto simp: without_topic_def)
qed (simp add: without_topic_def)

lemma pays_for_itself_append: "pays_for_itself ms \<Longrightarrow> pays_for_itself (ms @ ns)"
  by (cases ms) (auto simp: pays_for_itself_def)

text \<open>A message that pays once its topic is removed pays with it.\<close>

lemma pays_in_whole:
  assumes "without_topic ms = prefix @ rest" and "pays_for_itself rest"
  shows "\<exists>rest'. ms = prefix @ rest' \<and> pays_for_itself rest'"
  using without_topic_append [of ms] pays_for_itself_append [OF assms(2)] assms(1)
  by (metis append.assoc)

text \<open>A computed origin extends the message's own one, unless a universal origin is claimed.\<close>

lemma computed_origin_extends:
  assumes "computed_origin universal l prefix = Some l'" and "\<forall>j. UniversalOrigin j \<notin> set prefix"
  shows "parents l' = parents l \<and> (\<exists>js. interior l' = interior l @ js)"
  using assms
  by (induction universal l prefix rule: computed_origin.induct) fastforce+

lemma descended_extends:
  "parents (descended ms l) = parents l \<and> (\<exists>js. interior (descended ms l) = interior l @ js)"
  by (induction ms l rule: descended.induct) (auto split: instruction.splits)

lemma free_origin_extends:
  assumes "ParentOrParentsExecutivePlurality_contains l'"
    and "parents l' = parents l" and "interior l' = interior l @ js"
  shows "ParentOrParentsExecutivePlurality_contains l"
  using assms
  by (cases "interior l")
    (auto simp: ParentOrParentsExecutivePlurality_contains_def split: list.splits junction.splits
      body_id.splits)

lemma free_origin_descended:
  assumes "ParentOrParentsExecutivePlurality_contains (descended ms l)"
  shows "ParentOrParentsExecutivePlurality_contains l"
  using descended_extends [of ms l] free_origin_extends [OF assms] by blast

context barrier_laws
begin

lemma unpaid_origin:
  assumes "AllowExplicitUnpaidExecutionFrom B ParentOrParentsExecutivePlurality_contains q = Inr r"
  shows "ParentOrParentsExecutivePlurality_contains (message_origin q) \<and>
    UnpaidExecution \<in> set (message q)"
proof -
  obtain prefix rest where "message q = prefix @ UnpaidExecution # rest"
    and "ParentOrParentsExecutivePlurality_contains (descended prefix (message_origin q))"
    using unpaid [OF assms] by blast
  then show ?thesis
    by (auto dest: free_origin_descended)
qed

lemma barrier_cases:
  assumes "evm_Barrier B parachain_id q = Inr r"
  obtains (denied_none) "\<forall>i \<in> set (message q). \<not> reserve_to_relay i"
      and "weight_checked_sub B (weight_credit q) (max_weight q) \<noteq> None \<or>
        (\<exists>prefix rest l. without_topic (message q) = prefix @ rest \<and> length prefix \<le> 8 \<and>
          computed_origin (UniversalLocation parachain_id) (message_origin q) prefix = Some l \<and>
          (pays_for_itself rest \<or>
            ParentOrParentsExecutivePlurality_contains l \<and> UnpaidExecution \<in> set rest))"
proof -
  let ?q = "q\<lparr>message := without_topic (message q)\<rparr>"
  let ?inner = "first_accepting
    [AllowTopLevelPaidExecutionFrom B Everything,
     AllowExplicitUnpaidExecutionFrom B ParentOrParentsExecutivePlurality_contains]"
  have "DenyThenTry B (DenyReserveTransferToRelayChain B) (first_accepting [TakeWeightCredit B,
      WithComputedOrigin B ?inner (UniversalLocation parachain_id) 8]) ?q = Inr r"
    using assms by (simp add: evm_Barrier_def topic)
  then have allowed: "\<not> DenyReserveTransferToRelayChain B ?q"
    and accepted: "first_accepting [TakeWeightCredit B,
      WithComputedOrigin B ?inner (UniversalLocation parachain_id) 8] ?q = Inr r"
    by (simp_all add: deny_try)
  have none: "\<forall>i \<in> set (message q). \<not> reserve_to_relay i"
  proof
    fix i
    assume i: "i \<in> set (message q)"
    show "\<not> reserve_to_relay i"
    proof
      assume r: "reserve_to_relay i"
      then have "i \<in> set (without_topic (message q))"
        using i by (rule transfer_without_topic)
      then show False
        using allowed r by (auto simp: deny_relay)
    qed
  qed
  show ?thesis
  proof (cases "weight_checked_sub B (weight_credit q) (max_weight q)")
    case None
    then have "WithComputedOrigin B ?inner (UniversalLocation parachain_id) 8 ?q = Inr r"
      using accepted by (simp add: credit split: sum.splits)
    from computed [OF this] obtain prefix rest l where
      split: "without_topic (message q) = prefix @ rest" "length prefix \<le> 8"
      and l: "computed_origin (UniversalLocation parachain_id) (message_origin q) prefix = Some l"
      and inner: "?inner (?q\<lparr>message_origin := l, message := rest\<rparr>) = Inr r"
      by auto
    have "pays_for_itself rest \<or>
        ParentOrParentsExecutivePlurality_contains l \<and> UnpaidExecution \<in> set rest"
      using inner by (auto split: sum.splits dest!: paid unpaid_origin)
    then show ?thesis
      using that [OF none] split l by blast
  qed (use that [OF none] in simp)
qed

text \<open>
  With enough weight credit the guard alone decides, and it looks at the instructions of the
  message itself only.
\<close>

lemma credit_decides:
  assumes "weight_checked_sub B (weight_credit q) (max_weight q) = Some left"
  shows "(\<exists>r. evm_Barrier B parachain_id q = Inr r) \<longleftrightarrow>
    (\<forall>i \<in> set (message q). \<not> reserve_to_relay i)"
proof -
  have "(\<forall>i \<in> set (without_topic (message q)). \<not> reserve_to_relay i) \<longleftrightarrow>
      (\<forall>i \<in> set (message q). \<not> reserve_to_relay i)"
    using set_without_topic [of "message q"] transfer_without_topic by blast
  then show ?thesis
    using assms by (simp add: evm_Barrier_def topic deny_try deny_relay credit)
qed

end

section \<open>A direct implementation\<close>

text \<open>The instructions a barrier skips to compute the origin.\<close>

definition changes_origin :: "instruction \<Rightarrow> bool" where
  "changes_origin i \<longleftrightarrow> (case i of DescendOrigin _ \<Rightarrow> True | UniversalOrigin _ \<Rightarrow> True | _ \<Rightarrow> False)"

definition loads_assets :: "instruction \<Rightarrow> bool" where
  "loads_assets i \<longleftrightarrow> i \<in> {WithdrawAsset, ReserveAssetDeposited, ReceiveTeleportedAsset}"

definition descends :: "instruction \<Rightarrow> bool" where
  "descends i \<longleftrightarrow> (case i of DescendOrigin _ \<Rightarrow> True | _ \<Rightarrow> False)"

lemma descended_loads:
  "\<forall>i \<in> set ms. loads_assets i \<Longrightarrow> descended (ms @ ns) l = descended ns l"
  by (induction ms) (auto simp: loads_assets_def)

definition direct_barrier :: "nat barrier_components" where
  "direct_barrier = \<lparr>
     weight_checked_sub = (\<lambda>a b. if b \<le> a then Some (a - b) else None),
     TrailingSetTopicAsId = (\<lambda>b q. b (q\<lparr>message := without_topic (message q)\<rparr>)),
     DenyThenTry = (\<lambda>d b q. if d q then Inl Unsupported else b q),
     DenyReserveTransferToRelayChain = (\<lambda>q. list_ex reserve_to_relay (message q)),
     TakeWeightCredit = (\<lambda>q. if max_weight q \<le> weight_credit q
       then Inr (q\<lparr>weight_credit := weight_credit q - max_weight q\<rparr>) else Inl Overweight),
     WithComputedOrigin = (\<lambda>b universal n q.
       let prefix = takeWhile changes_origin (message q) in
       if n < length prefix then Inl Unsupported
       else case computed_origin universal (message_origin q) prefix of
         Some l \<Rightarrow> b (q\<lparr>message_origin := l, message := dropWhile changes_origin (message q)\<rparr>)
       | None \<Rightarrow> Inl BadFormat),
     AllowTopLevelPaidExecutionFrom = (\<lambda>f q.
       if f (message_origin q) \<and> pays_for_itself (message q) then Inr q else Inl BadFormat),
     AllowExplicitUnpaidExecutionFrom = (\<lambda>f q.
       let after = dropWhile loads_assets (message q); path = takeWhile descends after
       in case dropWhile descends after of
            UnpaidExecution # _ \<Rightarrow>
              if f (descended path (message_origin q)) then Inr q else Inl Unsupported
          | _ \<Rightarrow> Inl BadFormat)\<rparr>"

interpretation direct_barrier: barrier_laws direct_barrier
proof unfold_locales
  fix b universal n q r
  assume *: "WithComputedOrigin direct_barrier b universal n q = Inr r"
  let ?prefix = "takeWhile changes_origin (message q)"
  let ?rest = "dropWhile changes_origin (message q)"
  from * obtain l where "length ?prefix \<le> n"
    and "computed_origin universal (message_origin q) ?prefix = Some l"
    and "b (q\<lparr>message_origin := l, message := ?rest\<rparr>) = Inr r"
    by (auto simp: direct_barrier_def Let_def split: if_splits option.splits)
  moreover have "message q = ?prefix @ ?rest"
    by simp
  ultimately show "\<exists>prefix rest l. message q = prefix @ rest \<and> length prefix \<le> n \<and>
      computed_origin universal (message_origin q) prefix = Some l \<and>
      b (q\<lparr>message_origin := l, message := rest\<rparr>) = Inr r"
    by blast
next
  fix f q r
  assume *: "AllowExplicitUnpaidExecutionFrom direct_barrier f q = Inr r"
  let ?loads = "takeWhile loads_assets (message q)"
  let ?after = "dropWhile loads_assets (message q)"
  let ?path = "takeWhile descends ?after"
  from * obtain rest where "dropWhile descends ?after = UnpaidExecution # rest"
    and accepted: "f (descended ?path (message_origin q))"
    by (auto simp: direct_barrier_def Let_def split: list.splits instruction.splits if_splits)
  then have split: "message q = (?loads @ ?path) @ UnpaidExecution # rest"
    by (metis append.assoc takeWhile_dropWhile_id)
  have skipped: "loads_assets i \<or> descends i" if "i \<in> set (?loads @ ?path)" for i
    using that by (auto dest: set_takeWhileD)
  have "ClearOrigin \<notin> set (?loads @ ?path)" and "AliasOrigin l \<notin> set (?loads @ ?path)" for l
    by (rule notI, drule skipped, simp add: loads_assets_def descends_def)+
  moreover note split
  moreover have "descended (?loads @ ?path) (message_origin q) = descended ?path (message_origin q)"
    by (rule descended_loads) (auto dest: set_takeWhileD)
  ultimately show "\<exists>prefix rest. message q = prefix @ UnpaidExecution # rest \<and>
      ClearOrigin \<notin> set prefix \<and> (\<forall>l. AliasOrigin l \<notin> set prefix) \<and>
      f (descended prefix (message_origin q))"
    using accepted by metis
qed (auto simp: direct_barrier_def list_ex_iff split: if_splits)

section \<open>Properties\<close>



text \<open>
  The guard against reserve transfers to the relay chain does not look into the programs a message
  sets up. Given the weight credit, a message whose appendix, error handler or inner program makes
  such a transfer passes, where the transfer itself would be denied.
\<close>

theorem nested_reserve_transfer_admitted:
  assumes "barrier_laws B" and "weight_checked_sub B (weight_credit q) (max_weight q) = Some left"
    and "message q = [i]"
    and "i \<in> {SetAppendix [t], SetErrorHandler [t], ExecuteWithOrigin origin [t]}"
    and "reserve_to_relay t"
  shows "(\<exists>r. evm_Barrier B parachain_id q = Inr r) \<and>
    \<not> (\<exists>r. evm_Barrier B parachain_id (q\<lparr>message := [t]\<rparr>) = Inr r)"
  using barrier_laws.credit_decides [OF assms(1), of q left parachain_id]
    barrier_laws.credit_decides [OF assms(1), of "q\<lparr>message := [t]\<rparr>" left parachain_id] assms(2-5)
  by (auto simp: reserve_to_relay_def)

theorem nested_reserve_transfer_admitted_witness:
  "\<exists>r. evm_Barrier direct_barrier 2000 \<lparr>message_origin = loc 1 [Parachain 3000],
     message = [SetAppendix [DepositReserveAsset Location_parent]], max_weight = 5, weight_credit = 5\<rparr> =
   Inr r"
  using nested_reserve_transfer_admitted [OF direct_barrier.barrier_laws_axioms,
      of "\<lparr>message_origin = loc 1 [Parachain 3000],
        message = [SetAppendix [DepositReserveAsset Location_parent]], max_weight = 5,
        weight_credit = 5\<rparr>" 0 "SetAppendix [DepositReserveAsset Location_parent]"
        "DepositReserveAsset Location_parent"]
  by (simp add: direct_barrier_def reserve_to_relay_def)

text \<open>
  C5: no message from another chain is dispatched as root. In both templates a call is dispatched
  as root for no location and no kind of origin, and not at all for the kind \<open>Superuser\<close>; as a
  signed origin it is dispatched only for the account of its own location; the relay chain's and
  the sibling parachains' own origins arise only from their own locations.
\<close>

theorem transact_never_root:
  assumes "dispatch_origin_laws N" and "account_laws C parent_account sibling_account"
    and "D \<in> {evm_XcmOriginToTransactDispatchOrigin C N, generic_XcmOriginToTransactDispatchOrigin C N}"
  shows "D l k \<noteq> Some Root \<and> D l Superuser = None \<and> D l Xcm_kind = Some (PalletXcm l) \<and>
    (D l k = Some (Signed a) \<longrightarrow>
      evm_LocationToAccountId C l = Some a \<or> generic_LocationToAccountId C l = Some a) \<and>
    (D l k = Some CumulusRelay \<longrightarrow> l = Location_parent) \<and>
    (D l k = Some (CumulusSibling n) \<longrightarrow> l = loc 1 [Parachain n])"
proof (cases k)
  case Native
  then show ?thesis
    using assms(3) dispatch_origin_laws.other_kinds [OF assms(1), of C l]
    by (auto simp: dispatch_origin_laws.evm_native [OF assms(1)] dispatch_origin_laws.generic_native [OF assms(1)]
        account_laws.evm_account_iff [OF assms(2)] account_laws.generic_account_iff [OF assms(2)])
next
  case SovereignAccount
  then show ?thesis
    using assms(3) dispatch_origin_laws.other_kinds [OF assms(1), of C l]
    by (auto simp: dispatch_origin_laws.evm_sovereign [OF assms(1)]
        dispatch_origin_laws.generic_sovereign [OF assms(1)])
qed (use assms(3) dispatch_origin_laws.other_kinds [OF assms(1), of C l] in auto)

theorem transact_never_root_witness:
  "evm_XcmOriginToTransactDispatchOrigin (padded_converters 20) direct_converters
     (loc 1 [Parachain 2000]) Superuser = None \<and>
   evm_XcmOriginToTransactDispatchOrigin (padded_converters 20) direct_converters
     (loc 1 [Parachain 2000]) Native \<noteq> Some Root"
  using transact_never_root [OF direct_origins.dispatch_origin_laws_axioms padded.account_laws_axioms,
      of "evm_XcmOriginToTransactDispatchOrigin (padded_converters 20) direct_converters" 20
        "loc 1 [Parachain 2000]" Native]
  by simp

end
