(* ===== verification/Runtime_Lib.thy ===== *)
theory Runtime_Lib
  imports Runtime_Call
begin

text \<open>
  \<open>lib.rs\<close> of the runtimes and the remaining code of the EVM template's \<open>configs/mod.rs\<close>: the
  conversion of weight to fees (the same text in both templates), self-contained Ethereum
  calls, the block author as an Ethereum address, the block author's share of asset fees, and
  the conversion of Ethereum transactions to extrinsics.
\<close>

section \<open>Weight to fee\<close>

record 'p WeightToFeeCoefficient =
  degree :: nat
  negative :: bool
  coeff_frac :: 'p
  coeff_integer :: u128

definition WeightToFee_polynomial ::
  "'p perbill_api \<Rightarrow> 'w weight_api \<Rightarrow> 'p WeightToFeeCoefficient list" where
  "WeightToFee_polynomial P W = (
     let p = MILLICENTS div of_nat P_FACTOR;
         q = of_nat Q_FACTOR * of_nat (ref_time W (ExtrinsicBaseWeight W)) :: u128
     in [\<lparr>degree = POLY_DEGREE, negative = False,
          coeff_frac = from_rational P (unat (p mod q)) (unat q),
          coeff_integer = p div q\<rparr>])"

section \<open>Self-contained calls\<close>

text \<open>The methods of \<open>pallet_ethereum::Call\<close>, and the dispatch of a runtime call.\<close>

record ('a, 'v, 'd, 'o, 'r, 's) ethereum_api =
  eth_is_self_contained :: "ethereum_call \<Rightarrow> bool"
  eth_check_self_contained :: "ethereum_call \<Rightarrow> ('v + 'a) option"
  eth_validate_self_contained :: "ethereum_call \<Rightarrow> 'a \<Rightarrow> 'd \<Rightarrow> nat \<Rightarrow> ('v + unit) option"
  eth_pre_dispatch_self_contained :: "ethereum_call \<Rightarrow> 'a \<Rightarrow> 'd \<Rightarrow> nat \<Rightarrow> ('v + unit) option"
  ethereum_transaction_origin :: "'a \<Rightarrow> 'o"
  call_dispatch :: "runtime_call \<Rightarrow> 'o \<Rightarrow> 's \<Rightarrow> 'r \<times> 's"

definition is_self_contained ::
  "('a, 'v, 'd, 'o, 'r, 's) ethereum_api \<Rightarrow> runtime_call \<Rightarrow> bool" where
  "is_self_contained E c = (case c of Ethereum call \<Rightarrow> eth_is_self_contained E call | _ \<Rightarrow> False)"

definition check_self_contained ::
  "('a, 'v, 'd, 'o, 'r, 's) ethereum_api \<Rightarrow> runtime_call \<Rightarrow> ('v + 'a) option" where
  "check_self_contained E c =
     (case c of Ethereum call \<Rightarrow> eth_check_self_contained E call | _ \<Rightarrow> None)"

definition validate_self_contained ::
  "('a, 'v, 'd, 'o, 'r, 's) ethereum_api \<Rightarrow> runtime_call \<Rightarrow> 'a \<Rightarrow> 'd \<Rightarrow> nat \<Rightarrow> ('v + unit) option" where
  "validate_self_contained E c info dispatch_info len =
     (case c of
        Ethereum call \<Rightarrow> eth_validate_self_contained E call info dispatch_info len
      | _ \<Rightarrow> None)"

definition pre_dispatch_self_contained ::
  "('a, 'v, 'd, 'o, 'r, 's) ethereum_api \<Rightarrow> runtime_call \<Rightarrow> 'a \<Rightarrow> 'd \<Rightarrow> nat \<Rightarrow> ('v + unit) option" where
  "pre_dispatch_self_contained E c info dispatch_info len =
     (case c of
        Ethereum call \<Rightarrow> eth_pre_dispatch_self_contained E call info dispatch_info len
      | _ \<Rightarrow> None)"

text \<open>The dispatch changes the storage; \<open>None\<close> leaves it.\<close>

definition apply_self_contained ::
  "('a, 'v, 'd, 'o, 'r, 's) ethereum_api \<Rightarrow> runtime_call \<Rightarrow> 'a \<Rightarrow> 's \<Rightarrow> 'r option \<times> 's" where
  "apply_self_contained E c info s =
     (case c of
        Ethereum (transact t) \<Rightarrow>
          (case call_dispatch E c (ethereum_transaction_origin E info) s of (r, s') \<Rightarrow> (Some r, s'))
      | _ \<Rightarrow> (None, s))"

text \<open>An instance whose dispatch counts the calls and returns the signer.\<close>

definition counting_ethereum_api :: "(nat, unit, unit, nat, nat, nat) ethereum_api" where
  "counting_ethereum_api = \<lparr>
     eth_is_self_contained = (\<lambda>c. case c of transact _ \<Rightarrow> True | _ \<Rightarrow> False),
     eth_check_self_contained = (\<lambda>c. case c of transact t \<Rightarrow> Some (Inr (length t)) | _ \<Rightarrow> None),
     eth_validate_self_contained = (\<lambda>_ _ _ _. Some (Inr ())),
     eth_pre_dispatch_self_contained = (\<lambda>_ _ _ _. Some (Inr ())),
     ethereum_transaction_origin = (\<lambda>a. a),
     call_dispatch = (\<lambda>_ o0 s. (o0, Suc s))\<rparr>"

section \<open>The block author\<close>

text \<open>
  \<open>FindAuthorSession\<close>: the consensus finds the author's index in the digests, and the
  session's validators are indexed with it, which panics out of range. With the \<open>tanssi\<close>
  feature the consensus finds the author's key, and the address is the start of its encoding.
\<close>

definition FindAuthorSession_find_author ::
  "('g \<Rightarrow> u32 option) \<Rightarrow> bytes list \<Rightarrow> 'g \<Rightarrow> rust_panic + bytes option" where
  "FindAuthorSession_find_author find_author validators digests =
     (case find_author digests of
        Some author_index \<Rightarrow>
          result_bind (index_panic validators (unat author_index)) (\<lambda>account. Inr (Some account))
      | None \<Rightarrow> Inr None)"

definition tanssi_FindAuthorSession_find_author ::
  "('g \<Rightarrow> 'k option) \<Rightarrow> ('k \<Rightarrow> bytes) \<Rightarrow> 'g \<Rightarrow> rust_panic + bytes option" where
  "tanssi_FindAuthorSession_find_author find_author encode digests =
     (case find_author digests of
        Some author \<Rightarrow> result_bind (slice_to (encode author) 20) (\<lambda>a. Inr (Some a))
      | None \<Rightarrow> Inr None)"

text \<open>
  \<open>AssetsToBlockAuthor::handle_credit\<close>: \<open>resolve\<close> credits the author and returns the credit on
  an error; a credit that is returned, or never resolved, is dropped.
\<close>

definition AssetsToBlockAuthor_handle_credit ::
  "'a option \<Rightarrow> ('a \<Rightarrow> 'c \<Rightarrow> 's \<Rightarrow> ('c + unit) \<times> 's) \<Rightarrow> ('c \<Rightarrow> 's \<Rightarrow> 's) \<Rightarrow> 'c \<Rightarrow> 's \<Rightarrow> 's" where
  "AssetsToBlockAuthor_handle_credit author resolve drop_credit credit s =
     (case author of
        Some a \<Rightarrow> (case resolve a credit s of
            (Inl returned, s') \<Rightarrow> drop_credit returned s'
          | (Inr _, s') \<Rightarrow> s')
      | None \<Rightarrow> drop_credit credit s)"

section \<open>Ethereum transactions as extrinsics\<close>

text \<open>\<open>new_bare\<close>, \<open>encode\<close> and the decoder of opaque extrinsics belong to the SDK.\<close>

definition convert_transaction :: "(runtime_call \<Rightarrow> 'x) \<Rightarrow> bytes \<Rightarrow> 'x" where
  "convert_transaction new_bare transaction = new_bare (Ethereum (transact transaction))"

definition opaque_convert_transaction ::
  "(runtime_call \<Rightarrow> 'x) \<Rightarrow> ('x \<Rightarrow> bytes) \<Rightarrow> (bytes \<Rightarrow> 'y option) \<Rightarrow> bytes \<Rightarrow> rust_panic + 'y" where
  "opaque_convert_transaction new_bare encode decode transaction = (
     let extrinsic = new_bare (Ethereum (transact transaction)); encoded = encode extrinsic
     in case decode encoded of
          Some x \<Rightarrow> Inr x
        | None \<Rightarrow> Inl (ExpectFailed ''Encoded extrinsic is always valid''))"

section \<open>Properties\<close>

text \<open>
  The price of weight. The polynomial has one positive linear term of exactly 8 parts per
  thousand and no integer part, so that the extrinsic base weight costs a thousandth of
  \<open>MILLICENTS\<close> and every fee stays below the weight it pays for.
\<close>

theorem weight_fee_coefficient:
  assumes "weight_laws W" and "perbill_laws P"
  shows "\<exists>c. WeightToFee_polynomial P W = [c] \<and> degree c = 1 \<and> \<not> negative c \<and>
    coeff_integer c = 0 \<and> deconstruct P (coeff_frac c) = 8000000 \<and>
    ref_time W (ExtrinsicBaseWeight W) * deconstruct P (coeff_frac c) div 1000000000 * 1000 =
      unat MILLICENTS"
proof -
  have "deconstruct P (from_rational P 100000000 12500000000) = 8000000"
    by (rule perbill_laws.rational_exact [OF assms(2)]) simp_all
  then show ?thesis
    by (simp add: WeightToFee_polynomial_def weight_laws.extrinsic_base [OF assms(1)]
        currency_values P_FACTOR_def Q_FACTOR_def POLY_DEGREE_def)
qed

theorem weight_fee_coefficient_witness:
  "coeff_integer (hd (WeightToFee_polynomial sp_perbill_api sp_weight_5MiB)) = 0"
  using weight_fee_coefficient [OF sp.weight_laws_axioms spp.perbill_laws_axioms] by auto

text \<open>
  Only Ethereum transactions are self-contained. On every call of another pallet all five
  methods decline, and none of them touches the storage; a call is applied as self-contained
  exactly when it is an Ethereum \<open>transact\<close>, and then as the Ethereum origin of the signer
  that was recovered.
\<close>

theorem self_contained_only_ethereum:
  "(c \<notin> range Ethereum \<longrightarrow>
      \<not> is_self_contained E c \<and> check_self_contained E c = None \<and>
      validate_self_contained E c info d n = None \<and>
      pre_dispatch_self_contained E c info d n = None \<and>
      apply_self_contained E c info s = (None, s)) \<and>
   (fst (apply_self_contained E c info s) \<noteq> None \<longleftrightarrow> (\<exists>t. c = Ethereum (transact t))) \<and>
   (\<forall>t. apply_self_contained E (Ethereum (transact t)) info s =
      map_prod Some id
        (call_dispatch E (Ethereum (transact t)) (ethereum_transaction_origin E info) s))"
proof (intro conjI allI)
  have apply_transact: "apply_self_contained E (Ethereum (transact t)) info s = map_prod Some id
      (call_dispatch E (Ethereum (transact t)) (ethereum_transaction_origin E info) s)" for t
    by (simp add: apply_self_contained_def split: prod.split)
  then show "apply_self_contained E (Ethereum (transact t)) info s = map_prod Some id
      (call_dispatch E (Ethereum (transact t)) (ethereum_transaction_origin E info) s)" for t .
  have apply_other: "apply_self_contained E c info s = (None, s)"
    if "\<nexists>t. c = Ethereum (transact t)" for c
    using that
    by (simp add: apply_self_contained_def split: runtime_call.split ethereum_call.split)
  show "fst (apply_self_contained E c info s) \<noteq> None \<longleftrightarrow> (\<exists>t. c = Ethereum (transact t))"
  proof (cases "\<exists>t. c = Ethereum (transact t)")
    case True
    then obtain t where "c = Ethereum (transact t)"
      by blast
    then show ?thesis
      by (simp add: apply_transact)
  next
    case False
    then have "fst (apply_self_contained E c info s) = None"
      using apply_other [of c] by simp
    with False show ?thesis
      by blast
  qed
  show "c \<notin> range Ethereum \<longrightarrow>
      \<not> is_self_contained E c \<and> check_self_contained E c = None \<and>
      validate_self_contained E c info d n = None \<and>
      pre_dispatch_self_contained E c info d n = None \<and>
      apply_self_contained E c info s = (None, s)"
  proof
    assume "c \<notin> range Ethereum"
    then have other: "c \<noteq> Ethereum e" for e
      by blast
    have "is_self_contained E c = False" "check_self_contained E c = None"
      "validate_self_contained E c info d n = None"
      "pre_dispatch_self_contained E c info d n = None"
      using other
      by (simp_all add: is_self_contained_def check_self_contained_def
          validate_self_contained_def pre_dispatch_self_contained_def split: runtime_call.split)
    moreover have "apply_self_contained E c info s = (None, s)"
      by (rule apply_other) (use other in blast)
    ultimately show "\<not> is_self_contained E c \<and> check_self_contained E c = None \<and>
        validate_self_contained E c info d n = None \<and>
        pre_dispatch_self_contained E c info d n = None \<and>
        apply_self_contained E c info s = (None, s)"
      by blast
  qed
qed

theorem self_contained_only_ethereum_witness:
  "apply_self_contained counting_ethereum_api (Balances (other_balances 1)) 7 5 = (None, 5)"
proof -
  have "Balances (other_balances 1) \<notin> range Ethereum"
    by auto
  then show ?thesis
    using self_contained_only_ethereum [THEN conjunct1, rule_format,
        of "Balances (other_balances 1)" counting_ethereum_api 7 "()" 0 5]
    by simp
qed

text \<open>
  When the block author cannot be named. The lookup panics exactly when the consensus
  reports an index that is not below the number of the session's validators; otherwise it
  returns the validator at that index, or none when the digests name no author.
\<close>

theorem find_author_panics_iff:
  "((\<exists>e. FindAuthorSession_find_author f validators digests = Inl e) \<longleftrightarrow>
     (\<exists>i. f digests = Some i \<and> length validators \<le> unat i)) \<and>
   (\<forall>a. FindAuthorSession_find_author f validators digests = Inr (Some a) \<longleftrightarrow>
     (\<exists>i. f digests = Some i \<and> unat i < length validators \<and> validators ! unat i = a))"
  by (auto simp: FindAuthorSession_find_author_def index_panic_def split: option.splits)

end
