(* ===== verification/Benchmark_Support.thy ===== *)
theory Benchmark_Support
  imports Xcm_Transactors Runtime_Weights
begin

text \<open>
  What exists for builds with \<open>runtime-benchmarks\<close> only: the lists of benchmarked pallets and the
  helpers of \<open>benchmark.rs\<close>, and the conversions of \<open>configs/asset_config.rs\<close> and
  \<open>configs/xcm_config.rs\<close> that the benchmarks call, one of which registers assets on the way.
\<close>

section \<open>The benchmarked pallets\<close>

definition evm_benchmarks :: "(string \<times> string) list" where
  "evm_benchmarks =
    [(''frame_system'', ''SystemBench''),
     (''pallet_assets'', ''Assets''),
     (''pallet_balances'', ''Balances''),
     (''pallet_session'', ''SessionBench''),
     (''pallet_timestamp'', ''Timestamp''),
     (''pallet_message_queue'', ''MessageQueue''),
     (''pallet_sudo'', ''Sudo''),
     (''pallet_collator_selection'', ''CollatorSelection''),
     (''cumulus_pallet_xcmp_queue'', ''XcmpQueue''),
     (''pallet_scheduler'', ''Scheduler''),
     (''pallet_preimage'', ''Preimage''),
     (''pallet_proxy'', ''Proxy''),
     (''cumulus_pallet_parachain_system'', ''ParachainSystem''),
     (''pallet_multisig'', ''Multisig''),
     (''pallet_utility'', ''Utility''),
     (''pallet_treasury'', ''Treasury''),
     (''pallet_evm'', ''EVM''),
     (''pallet_xcm'', ''PalletXcmExtrinsicsBenchmark''),
     (''pallet_asset_manager'', ''AssetManager''),
     (''pallet_conviction_voting'', ''ConvictionVoting''),
     (''pallet_whitelist'', ''Whitelist''),
     (''pallet_referenda'', ''Referenda''),
     (''pallet_xcm_transactor'', ''XcmTransactor''),
     (''pallet_xcm_weight_trader'', ''XcmWeightTrader'')]"

definition generic_benchmarks :: "(string \<times> string) list" where
  "generic_benchmarks =
    [(''frame_system'', ''SystemBench''),
     (''pallet_assets'', ''Assets''),
     (''pallet_balances'', ''Balances''),
     (''pallet_session'', ''SessionBench''),
     (''pallet_timestamp'', ''Timestamp''),
     (''pallet_message_queue'', ''MessageQueue''),
     (''pallet_sudo'', ''Sudo''),
     (''pallet_collator_selection'', ''CollatorSelection''),
     (''cumulus_pallet_xcmp_queue'', ''XcmpQueue''),
     (''cumulus_pallet_parachain_system'', ''ParachainSystem''),
     (''pallet_proxy'', ''Proxy''),
     (''pallet_utility'', ''Utility''),
     (''pallet_multisig'', ''Multisig''),
     (''pallet_xcm'', ''PalletXcmExtrinsicsBenchmark''),
     (''pallet_asset_manager'', ''AssetManager''),
     (''pallet_referenda'', ''Referenda''),
     (''pallet_scheduler'', ''Scheduler''),
     (''pallet_preimage'', ''Preimage''),
     (''pallet_treasury'', ''Treasury''),
     (''pallet_conviction_voting'', ''ConvictionVoting''),
     (''pallet_whitelist'', ''Whitelist''),
     (''pallet_xcm_transactor'', ''XcmTransactor''),
     (''pallet_xcm_weight_trader'', ''XcmWeightTrader'')]"

section \<open>Preparing a payment\<close>

text \<open>
  \<open>OpenHrmpChannel\<close>: opens a channel to a parachain if it is closed. The status of a channel
  and the opening belong to the parachain-system pallet.
\<close>

datatype channel_status = Closed_channel | Full_channel | Ready_channel nat nat

definition OpenHrmpChannel_ensure_successful ::
  "(u32 \<Rightarrow> 's \<Rightarrow> channel_status) \<Rightarrow> (u32 \<Rightarrow> 's \<Rightarrow> 's) \<Rightarrow> u32 \<Rightarrow> 's \<Rightarrow> 's" where
  "OpenHrmpChannel_ensure_successful get_channel_status open_channel para_id s =
     (case get_channel_status para_id s of
        Closed_channel \<Rightarrow> open_channel para_id s
      | _ \<Rightarrow> s)"

text \<open>\<open>PayWithEnsure\<close> is the inner payment with a preparation before \<open>ensure_successful\<close>.\<close>

record ('b, 'k, 'n, 'i, 'e, 't, 's) pay_api =
  pay :: "'b \<Rightarrow> 'k \<Rightarrow> 'n \<Rightarrow> 's \<Rightarrow> ('e + 'i) \<times> 's"
  check_payment :: "'i \<Rightarrow> 's \<Rightarrow> 't"
  pay_ensure_successful :: "'b \<Rightarrow> 'k \<Rightarrow> 'n \<Rightarrow> 's \<Rightarrow> 's"
  ensure_concluded :: "'i \<Rightarrow> 's \<Rightarrow> 's"

definition PayWithEnsure ::
  "('b, 'k, 'n, 'i, 'e, 't, 's) pay_api \<Rightarrow> ('s \<Rightarrow> 's) \<Rightarrow> ('b, 'k, 'n, 'i, 'e, 't, 's) pay_api" where
  "PayWithEnsure Q ensure = \<lparr>
     pay = (\<lambda>who asset_kind amount. pay Q who asset_kind amount),
     check_payment = (\<lambda>i. check_payment Q i),
     pay_ensure_successful = (\<lambda>who asset_kind amount s.
       pay_ensure_successful Q who asset_kind amount (ensure s)),
     ensure_concluded = (\<lambda>i. ensure_concluded Q i)\<rparr>"

section \<open>Conversions\<close>

definition create_asset_id_parameter :: "(u128 \<Rightarrow> 'p) \<Rightarrow> u32 \<Rightarrow> 'p" where
  "create_asset_id_parameter into i = into (ucast i)"

text \<open>
  A version 3 location has parents and junctions; the conversion of the junctions may fail, and
  then the default location stands for it.
\<close>

definition convert_v3_to_v4 ::
  "('j \<Rightarrow> 'k option) \<Rightarrow> (u8 \<Rightarrow> 'k \<Rightarrow> 'l) \<Rightarrow> u8 \<times> 'j \<Rightarrow> 'l option" where
  "convert_v3_to_v4 try_from new_location v3 =
     (case try_from (snd v3) of Some js \<Rightarrow> Some (new_location (fst v3) js) | None \<Rightarrow> None)"

definition AssetType_from_v3 ::
  "('j \<Rightarrow> 'k option) \<Rightarrow> (u8 \<Rightarrow> 'k \<Rightarrow> 'l) \<Rightarrow> 'l \<Rightarrow> u8 \<times> 'j \<Rightarrow> 'l AssetType" where
  "AssetType_from_v3 try_from new_location default_location v3 =
     Xcm (case convert_v3_to_v4 try_from new_location v3 of Some l \<Rightarrow> l | None \<Rightarrow> default_location)"

definition Transactors_default :: Transactors where
  "Transactors_default = Relay"

text \<open>
  \<open>From<Location> for CurrencyId\<close>: the identifier of the location where it is registered, and
  otherwise the identifier of its asset type, which is registered on the way. The registry is the
  asset manager's; \<open>convert\<close> turns a location into the version the registry keeps.
\<close>

record ('l, 'i, 's) registry_api =
  convert_location :: "Location \<Rightarrow> 's \<Rightarrow> 'i option"
  latest_convert :: "Location \<Rightarrow> 'l option"
  set_asset_type_asset_id :: "'l AssetType \<Rightarrow> 'i \<Rightarrow> 's \<Rightarrow> 's"

definition currency_from_location ::
  "('l, 'i, 's) registry_api \<Rightarrow> ('l AssetType \<Rightarrow> rust_panic + 'i) \<Rightarrow> Location \<Rightarrow> 's \<Rightarrow>
   rust_panic + ('i \<times> 's)" where
  "currency_from_location R into_id location s =
     (case convert_location R location s of
        Some new_id \<Rightarrow> Inr (new_id, s)
      | None \<Rightarrow>
          (case latest_convert R location of
             None \<Rightarrow> Inl (ExpectFailed ''convert to v3'')
           | Some l \<Rightarrow>
               let asset_type = Xcm l in
               result_bind (into_id asset_type) (\<lambda>new_id.
                 Inr (new_id, set_asset_type_asset_id R asset_type new_id s))))"

definition evm_CurrencyId_from ::
  "('l, u128, 's) registry_api \<Rightarrow> ('l \<Rightarrow> bytes) \<Rightarrow> (bytes \<Rightarrow> bytes) \<Rightarrow> Location \<Rightarrow> 's \<Rightarrow>
   rust_panic + (evm_CurrencyId \<times> 's)" where
  "evm_CurrencyId_from R encode hash location s =
     result_bind (currency_from_location R (evm_AssetType_into_id encode hash) location s)
       (\<lambda>(new_id, s'). Inr (Evm_ForeignAsset new_id, s'))"

definition generic_CurrencyId_from ::
  "('l, u32, 's) registry_api \<Rightarrow> ('l \<Rightarrow> bytes) \<Rightarrow> (bytes \<Rightarrow> bytes) \<Rightarrow> Location \<Rightarrow> 's \<Rightarrow>
   rust_panic + (generic_CurrencyId \<times> 's)" where
  "generic_CurrencyId_from R encode hash location s =
     result_bind (currency_from_location R (generic_AssetType_into_id encode hash) location s)
       (\<lambda>(new_id, s'). Inr (Generic_ForeignAsset new_id, s'))"

text \<open>A location is looked up by its converted form; registering a form changes its answer only.\<close>

locale registry_laws =
  fixes R :: "('l, 'i, 's) registry_api"
  assumes lookup_set: "convert_location R l (set_asset_type_asset_id R (Xcm k) i s) =
    (if latest_convert R l = Some k then Some i else convert_location R l s)"
begin

lemma currency_stable:
  assumes "currency_from_location R into_id l s = Inr (i, s')"
  shows "currency_from_location R into_id l s' = Inr (i, s')"
    and "latest_convert R k \<noteq> latest_convert R l \<Longrightarrow>
      convert_location R k s' = convert_location R k s"
  using assms
  by (auto simp: currency_from_location_def lookup_set result_bind_def Let_def
      split: option.splits sum.splits)

end

text \<open>The registry as a map from locations.\<close>

definition map_registry :: "(Location, 'i, Location \<Rightarrow> 'i option) registry_api" where
  "map_registry = \<lparr>
     convert_location = (\<lambda>l s. s l),
     latest_convert = Some,
     set_asset_type_asset_id = (\<lambda>t i s. case t of Xcm l \<Rightarrow> s(l \<mapsto> i))\<rparr>"

interpretation map_registry: registry_laws map_registry
  by unfold_locales (simp add: map_registry_def)

section \<open>Weights and benchmarks\<close>

text \<open>The pallet of a weight function.\<close>

definition pallet_of :: "string \<Rightarrow> string" where
  "pallet_of name = takeWhile (\<lambda>c. c \<noteq> CHR '':'') name"

definition of_pallet :: "string \<Rightarrow> 'w weight_entry list \<Rightarrow> bool" where
  "of_pallet p es \<longleftrightarrow> list_all (\<lambda>e. pallet_of (fn_name e) = p) es"

text \<open>A file of weights holds the functions of one pallet, so that one name has to be looked up.\<close>

lemma of_pallet_benchmarked:
  "of_pallet p es \<Longrightarrow> p \<in> B \<Longrightarrow> pallet_of ` fn_name ` set es \<subseteq> B"
  by (auto simp: of_pallet_def list_all_iff)

lemma evm_System_pallets:
  "of_pallet ''pallet_balances'' (evm_pallet_balances_WeightInfo W D)"
  "of_pallet ''pallet_multisig'' (evm_pallet_multisig_WeightInfo W D)"
  "of_pallet ''cumulus_pallet_parachain_system'' (evm_cumulus_pallet_parachain_system_WeightInfo W D)"
  "of_pallet ''pallet_preimage'' (evm_pallet_preimage_WeightInfo W D)"
  "of_pallet ''pallet_proxy'' (evm_pallet_proxy_WeightInfo W D)"
  "of_pallet ''pallet_scheduler'' (evm_pallet_scheduler_WeightInfo W D)"
  "of_pallet ''pallet_timestamp'' (evm_pallet_timestamp_WeightInfo W D)"
  "of_pallet ''pallet_utility'' (evm_pallet_utility_WeightInfo W D)"
  by (simp_all add: of_pallet_def pallet_of_def evm_pallet_balances_WeightInfo_def
      evm_pallet_multisig_WeightInfo_def evm_cumulus_pallet_parachain_system_WeightInfo_def
      evm_pallet_preimage_WeightInfo_def evm_pallet_proxy_WeightInfo_def
      evm_pallet_scheduler_WeightInfo_def evm_pallet_timestamp_WeightInfo_def
      evm_pallet_utility_WeightInfo_def)

lemma evm_System_benchmarked:
  "pallet_of ` fn_name ` set (evm_SystemWeightFull W) \<subseteq> fst ` set evm_benchmarks"
  unfolding evm_SystemWeightFull_def set_append image_Un
  by (intro Un_least evm_System_pallets [THEN of_pallet_benchmarked])
    (simp_all add: evm_benchmarks_def)

lemma evm_Consensus_pallets:
  "of_pallet ''pallet_collator_selection'' (evm_pallet_collator_selection_WeightInfo W D)"
  "of_pallet ''pallet_session'' (evm_pallet_session_WeightInfo W D)"
  by (simp_all add: of_pallet_def pallet_of_def evm_pallet_collator_selection_WeightInfo_def
      evm_pallet_session_WeightInfo_def)

lemma evm_Consensus_benchmarked:
  "pallet_of ` fn_name ` set (evm_ConsensusWeightFull W) \<subseteq> fst ` set evm_benchmarks"
  unfolding evm_ConsensusWeightFull_def set_append image_Un
  by (intro Un_least evm_Consensus_pallets [THEN of_pallet_benchmarked])
    (simp_all add: evm_benchmarks_def)

lemma evm_Assets_pallets:
  "of_pallet ''pallet_asset_manager'' (evm_pallet_asset_manager_WeightInfo W D)"
  "of_pallet ''pallet_assets'' (evm_pallet_assets_WeightInfo W D)"
  by (simp_all add: of_pallet_def pallet_of_def evm_pallet_asset_manager_WeightInfo_def
      evm_pallet_assets_WeightInfo_def)

lemma evm_Assets_benchmarked:
  "pallet_of ` fn_name ` set (evm_AssetsWeightFull W) \<subseteq> fst ` set evm_benchmarks"
  unfolding evm_AssetsWeightFull_def set_append image_Un
  by (intro Un_least evm_Assets_pallets [THEN of_pallet_benchmarked])
    (simp_all add: evm_benchmarks_def)

lemma evm_Governance_pallets:
  "of_pallet ''pallet_conviction_voting'' (evm_pallet_conviction_voting_WeightInfo W D)"
  "of_pallet ''pallet_referenda'' (evm_pallet_referenda_WeightInfo W D)"
  "of_pallet ''pallet_sudo'' (evm_pallet_sudo_WeightInfo W D)"
  "of_pallet ''pallet_treasury'' (evm_pallet_treasury_WeightInfo W D)"
  "of_pallet ''pallet_whitelist'' (evm_pallet_whitelist_WeightInfo W D)"
  by (simp_all add: of_pallet_def pallet_of_def evm_pallet_conviction_voting_WeightInfo_def
      evm_pallet_referenda_WeightInfo_def evm_pallet_sudo_WeightInfo_def
      evm_pallet_treasury_WeightInfo_def evm_pallet_whitelist_WeightInfo_def)

lemma evm_Governance_benchmarked:
  "pallet_of ` fn_name ` set (evm_GovernanceWeightFull W) \<subseteq> fst ` set evm_benchmarks"
  unfolding evm_GovernanceWeightFull_def set_append image_Un
  by (intro Un_least evm_Governance_pallets [THEN of_pallet_benchmarked])
    (simp_all add: evm_benchmarks_def)

lemma evm_Xcm_pallets:
  "of_pallet ''pallet_message_queue'' (evm_pallet_message_queue_WeightInfo W D)"
  "of_pallet ''pallet_xcm'' (evm_pallet_xcm_WeightInfo W D)"
  "of_pallet ''pallet_xcm_transactor'' (evm_pallet_xcm_transactor_WeightInfo W D)"
  "of_pallet ''pallet_xcm_weight_trader'' (evm_pallet_xcm_weight_trader_WeightInfo W D)"
  "of_pallet ''cumulus_pallet_xcmp_queue'' (evm_cumulus_pallet_xcmp_queue_WeightInfo W D)"
  by (simp_all add: of_pallet_def pallet_of_def evm_pallet_message_queue_WeightInfo_def
      evm_pallet_xcm_WeightInfo_def evm_pallet_xcm_transactor_WeightInfo_def
      evm_pallet_xcm_weight_trader_WeightInfo_def evm_cumulus_pallet_xcmp_queue_WeightInfo_def)

lemma evm_Xcm_benchmarked:
  "pallet_of ` fn_name ` set (evm_XcmWeightFull W) \<subseteq> fst ` set evm_benchmarks"
  unfolding evm_XcmWeightFull_def set_append image_Un
  by (intro Un_least evm_Xcm_pallets [THEN of_pallet_benchmarked])
    (simp_all add: evm_benchmarks_def)

lemma evm_Evm_pallets:
  "of_pallet ''pallet_evm'' (evm_pallet_evm_WeightInfo W D)"
  by (simp_all add: of_pallet_def pallet_of_def evm_pallet_evm_WeightInfo_def)

lemma evm_Evm_benchmarked:
  "pallet_of ` fn_name ` set (evm_EvmWeightFull W) \<subseteq> fst ` set evm_benchmarks"
  unfolding evm_EvmWeightFull_def set_append image_Un
  by (intro Un_least evm_Evm_pallets [THEN of_pallet_benchmarked])
    (simp_all add: evm_benchmarks_def)

lemma generic_System_pallets:
  "of_pallet ''pallet_balances'' (generic_pallet_balances_WeightInfo W D)"
  "of_pallet ''pallet_multisig'' (generic_pallet_multisig_WeightInfo W D)"
  "of_pallet ''cumulus_pallet_parachain_system'' (generic_cumulus_pallet_parachain_system_WeightInfo W D)"
  "of_pallet ''pallet_preimage'' (generic_pallet_preimage_WeightInfo W D)"
  "of_pallet ''pallet_proxy'' (generic_pallet_proxy_WeightInfo W D)"
  "of_pallet ''pallet_scheduler'' (generic_pallet_scheduler_WeightInfo W D)"
  "of_pallet ''pallet_timestamp'' (generic_pallet_timestamp_WeightInfo W D)"
  "of_pallet ''pallet_utility'' (generic_pallet_utility_WeightInfo W D)"
  by (simp_all add: of_pallet_def pallet_of_def generic_pallet_balances_WeightInfo_def
      generic_pallet_multisig_WeightInfo_def
      generic_cumulus_pallet_parachain_system_WeightInfo_def
      generic_pallet_preimage_WeightInfo_def generic_pallet_proxy_WeightInfo_def
      generic_pallet_scheduler_WeightInfo_def generic_pallet_timestamp_WeightInfo_def
      generic_pallet_utility_WeightInfo_def)

lemma generic_System_benchmarked:
  "pallet_of ` fn_name ` set (generic_SystemWeightFull W) \<subseteq> fst ` set generic_benchmarks"
  unfolding generic_SystemWeightFull_def set_append image_Un
  by (intro Un_least generic_System_pallets [THEN of_pallet_benchmarked])
    (simp_all add: generic_benchmarks_def)

lemma generic_Consensus_pallets:
  "of_pallet ''pallet_collator_selection'' (generic_pallet_collator_selection_WeightInfo W D)"
  "of_pallet ''pallet_session'' (generic_pallet_session_WeightInfo W D)"
  by (simp_all add: of_pallet_def pallet_of_def
      generic_pallet_collator_selection_WeightInfo_def generic_pallet_session_WeightInfo_def)

lemma generic_Consensus_benchmarked:
  "pallet_of ` fn_name ` set (generic_ConsensusWeightFull W) \<subseteq> fst ` set generic_benchmarks"
  unfolding generic_ConsensusWeightFull_def set_append image_Un
  by (intro Un_least generic_Consensus_pallets [THEN of_pallet_benchmarked])
    (simp_all add: generic_benchmarks_def)

lemma generic_Assets_pallets:
  "of_pallet ''pallet_asset_manager'' (generic_pallet_asset_manager_WeightInfo W D)"
  "of_pallet ''pallet_assets'' (generic_pallet_assets_WeightInfo W D)"
  "of_pallet ''pallet_transaction_payment'' (generic_pallet_transaction_payment_WeightInfo W D)"
  by (simp_all add: of_pallet_def pallet_of_def generic_pallet_asset_manager_WeightInfo_def
      generic_pallet_assets_WeightInfo_def generic_pallet_transaction_payment_WeightInfo_def)

lemma generic_Assets_benchmarked:
  "pallet_of ` fn_name ` set (generic_AssetsWeightFull W) \<subseteq> insert ''pallet_transaction_payment'' (fst ` set generic_benchmarks)"
  unfolding generic_AssetsWeightFull_def set_append image_Un
  by (intro Un_least generic_Assets_pallets [THEN of_pallet_benchmarked])
    (simp_all add: generic_benchmarks_def)

lemma generic_Governance_pallets:
  "of_pallet ''pallet_conviction_voting'' (generic_pallet_conviction_voting_WeightInfo W D)"
  "of_pallet ''pallet_referenda'' (generic_pallet_referenda_WeightInfo W D)"
  "of_pallet ''pallet_sudo'' (generic_pallet_sudo_WeightInfo W D)"
  "of_pallet ''pallet_treasury'' (generic_pallet_treasury_WeightInfo W D)"
  "of_pallet ''pallet_whitelist'' (generic_pallet_whitelist_WeightInfo W D)"
  by (simp_all add: of_pallet_def pallet_of_def generic_pallet_conviction_voting_WeightInfo_def
      generic_pallet_referenda_WeightInfo_def generic_pallet_sudo_WeightInfo_def
      generic_pallet_treasury_WeightInfo_def generic_pallet_whitelist_WeightInfo_def)

lemma generic_Governance_benchmarked:
  "pallet_of ` fn_name ` set (generic_GovernanceWeightFull W) \<subseteq> fst ` set generic_benchmarks"
  unfolding generic_GovernanceWeightFull_def set_append image_Un
  by (intro Un_least generic_Governance_pallets [THEN of_pallet_benchmarked])
    (simp_all add: generic_benchmarks_def)

lemma generic_Xcm_pallets:
  "of_pallet ''pallet_message_queue'' (generic_pallet_message_queue_WeightInfo W D)"
  "of_pallet ''pallet_xcm'' (generic_pallet_xcm_WeightInfo W D)"
  "of_pallet ''pallet_xcm_transactor'' (generic_pallet_xcm_transactor_WeightInfo W D)"
  "of_pallet ''pallet_xcm_weight_trader'' (generic_pallet_xcm_weight_trader_WeightInfo W D)"
  "of_pallet ''cumulus_pallet_xcmp_queue'' (generic_cumulus_pallet_xcmp_queue_WeightInfo W D)"
  by (simp_all add: of_pallet_def pallet_of_def generic_pallet_message_queue_WeightInfo_def
      generic_pallet_xcm_WeightInfo_def generic_pallet_xcm_transactor_WeightInfo_def
      generic_pallet_xcm_weight_trader_WeightInfo_def
      generic_cumulus_pallet_xcmp_queue_WeightInfo_def)

lemma generic_Xcm_benchmarked:
  "pallet_of ` fn_name ` set (generic_XcmWeightFull W) \<subseteq> fst ` set generic_benchmarks"
  unfolding generic_XcmWeightFull_def set_append image_Un
  by (intro Un_least generic_Xcm_pallets [THEN of_pallet_benchmarked])
    (simp_all add: generic_benchmarks_def)

section \<open>Properties\<close>

text \<open>
  Weights come from benchmarks. Every weight function the EVM runtime is configured with
  belongs to a pallet that is benchmarked, and so does every one of the generic runtime but
  those of \<open>pallet_transaction_payment\<close>, whose weights are configured without a benchmark.
\<close>

theorem weights_are_benchmarked:
  "pallet_of ` fn_name ` set (evm_weights W) \<subseteq> fst ` set evm_benchmarks \<and>
   pallet_of ` fn_name ` set (generic_weights W) \<subseteq>
     insert ''pallet_transaction_payment'' (fst ` set generic_benchmarks) \<and>
   ''pallet_transaction_payment'' \<notin> fst ` set generic_benchmarks"
proof (intro conjI)
  show "pallet_of ` fn_name ` set (evm_weights W) \<subseteq> fst ` set evm_benchmarks"
    unfolding evm_weights_def set_append image_Un
    by (intro Un_least evm_System_benchmarked evm_Consensus_benchmarked evm_Assets_benchmarked
        evm_Governance_benchmarked evm_Xcm_benchmarked evm_Evm_benchmarked)
  show "pallet_of ` fn_name ` set (generic_weights W) \<subseteq>
      insert ''pallet_transaction_payment'' (fst ` set generic_benchmarks)"
    unfolding generic_weights_def set_append image_Un
    by (intro Un_least generic_Assets_benchmarked subset_insertI2 [OF generic_System_benchmarked]
        subset_insertI2 [OF generic_Consensus_benchmarked]
        subset_insertI2 [OF generic_Governance_benchmarked]
        subset_insertI2 [OF generic_Xcm_benchmarked])
  show "''pallet_transaction_payment'' \<notin> fst ` set generic_benchmarks"
    by (simp add: generic_benchmarks_def)
qed

text \<open>
  The conversion of a location into a currency registers an unknown location once: converted
  again it has the same identifier and the storage stays as it is, and no location with another
  converted form is affected.
\<close>

theorem benchmark_currency_stable:
  assumes "registry_laws R" and "evm_CurrencyId_from R encode hash l s = Inr (c, s')"
  shows "evm_CurrencyId_from R encode hash l s' = Inr (c, s') \<and>
    (latest_convert R k \<noteq> latest_convert R l \<longrightarrow> convert_location R k s' = convert_location R k s)"
proof -
  obtain i where "currency_from_location R (evm_AssetType_into_id encode hash) l s = Inr (i, s')"
    and "c = Evm_ForeignAsset i"
    using assms(2) by (auto simp: evm_CurrencyId_from_def result_bind_def split: sum.splits)
  then show ?thesis
    using registry_laws.currency_stable [OF assms(1)] by (auto simp: evm_CurrencyId_from_def)
qed

text \<open>Preparing a payment leaves the channel open, when opening one does.\<close>

theorem payment_channel_open:
  assumes "get_channel_status p (open_channel p s) \<noteq> Closed_channel"
  shows "get_channel_status p
    (OpenHrmpChannel_ensure_successful get_channel_status open_channel p s) \<noteq> Closed_channel"
  using assms by (auto simp: OpenHrmpChannel_ensure_successful_def split: channel_status.splits)

end
