(* ===== verification/Generic_Xcm.thy ===== *)
theory Generic_Xcm
  imports Generic_Governance Xcm_Barrier Runtime_Config Runtime_Lib Benchmark_Support
begin

text \<open>
  The XCM and asset configuration and the types of the generic template, as far as its text is a
  copy of the EVM template's: \<open>configs/xcm_config.rs\<close>, \<open>configs/asset_config.rs\<close>, \<open>types.rs\<close>, \<open>lib.rs\<close>
  and \<open>benchmark.rs\<close> under \<open>src/generic-template/runtime/src\<close>, translated on their own and shown to be
  in step. What differs between the templates is in the theories of the components.
\<close>

section \<open>Reserves\<close>

definition generic_AssetHubLocation :: Location where
  "generic_AssetHubLocation = loc 1 [Parachain 1000]"

definition generic_RelayLocation :: Location where
  "generic_RelayLocation = Location_parent"

definition generic_RelayLocationFilter :: asset_filter where
  "generic_RelayLocationFilter = WildAllOfFungible generic_RelayLocation"

definition generic_RelayChainNativeAssetFromAssetHub :: "asset_filter \<times> Location" where
  "generic_RelayChainNativeAssetFromAssetHub = (generic_RelayLocationFilter, generic_AssetHubLocation)"

definition generic_SelfLocation :: Location where
  "generic_SelfLocation = Location_here"

definition generic_SelfLocationAbsolute :: "u32 \<Rightarrow> Location" where
  "generic_SelfLocationAbsolute parachain_id = loc 1 [Parachain parachain_id]"

definition generic_DOTReserveProvider_reserve :: "Asset \<Rightarrow> Location option" where
  "generic_DOTReserveProvider_reserve asset = (
     let location = asset_id asset; dot_here = loc 1 []; dot_asset_hub = generic_AssetHubLocation
     in if location = dot_here then Some dot_asset_hub else None)"

definition generic_BridgedAssetReserveProvider_reserve :: "xcm_api \<Rightarrow> Asset \<Rightarrow> Location option" where
  "generic_BridgedAssetReserveProvider_reserve X asset = (
     let location = asset_id asset; asset_hub_reserve = generic_AssetHubLocation
     in if parents location > 1 \<and> \<not> isl (split_global X (interior location))
        then Some asset_hub_reserve else None)"

definition generic_RelativeReserveProvider_reserve :: "xcm_api \<Rightarrow> Asset \<Rightarrow> Location option" where
  "generic_RelativeReserveProvider_reserve X asset = (
     let location = asset_id asset
     in if parents location = 0 \<and>
          \<not> (case first_interior X location of Some (Parachain _) \<Rightarrow> True | _ \<Rightarrow> False)
        then Some Location_here else Some (chain_location X location))"

definition generic_AbsoluteAndRelativeReserve_reserve ::
  "xcm_api \<Rightarrow> Location \<Rightarrow> Asset \<Rightarrow> Location option" where
  "generic_AbsoluteAndRelativeReserve_reserve X absolute asset =
     map_option (\<lambda>relative_reserve.
         if relative_reserve = absolute then Location_here else relative_reserve)
       (generic_RelativeReserveProvider_reserve X asset)"

definition generic_ReserveProviders_reserve :: "xcm_api \<Rightarrow> u32 \<Rightarrow> Asset \<Rightarrow> Location option" where
  "generic_ReserveProviders_reserve X parachain_id asset =
     or_else
       (or_else (generic_DOTReserveProvider_reserve asset) (generic_BridgedAssetReserveProvider_reserve X asset))
       (generic_AbsoluteAndRelativeReserve_reserve X (generic_SelfLocationAbsolute parachain_id) asset)"

definition generic_IsBridgedConcreteAssetFrom_contains :: "Location \<Rightarrow> Asset \<Rightarrow> Location \<Rightarrow> bool" where
  "generic_IsBridgedConcreteAssetFrom_contains origin_loc asset origin \<longleftrightarrow>
     origin_loc = origin \<and>
     parents (asset_id asset) = 2 \<and>
     (case fungible asset of Fungible _ \<Rightarrow> True | NonFungible _ \<Rightarrow> False)"

definition generic_Reserves_contains ::
  "filter_api \<Rightarrow> xcm_api \<Rightarrow> u32 \<Rightarrow> Asset \<Rightarrow> Location \<Rightarrow> bool" where
  "generic_Reserves_contains L X parachain_id asset origin \<longleftrightarrow>
     generic_IsBridgedConcreteAssetFrom_contains generic_AssetHubLocation asset origin \<or>
     case_contains L generic_RelayChainNativeAssetFromAssetHub asset origin \<or>
     multi_native_contains L
       (generic_AbsoluteAndRelativeReserve_reserve X (generic_SelfLocationAbsolute parachain_id)) asset origin"

lemma generic_AssetHubLocation_eq [in_step]: "generic_AssetHubLocation = AssetHubLocation"
  by (simp only: generic_AssetHubLocation_def AssetHubLocation_def in_step)

lemma generic_RelayLocation_eq [in_step]: "generic_RelayLocation = RelayLocation"
  by (simp only: generic_RelayLocation_def RelayLocation_def in_step)

lemma generic_RelayLocationFilter_eq [in_step]: "generic_RelayLocationFilter = RelayLocationFilter"
  by (simp only: generic_RelayLocationFilter_def RelayLocationFilter_def in_step)

lemma generic_RelayChainNativeAssetFromAssetHub_eq [in_step]: "generic_RelayChainNativeAssetFromAssetHub = RelayChainNativeAssetFromAssetHub"
  by (simp only: generic_RelayChainNativeAssetFromAssetHub_def RelayChainNativeAssetFromAssetHub_def in_step)

lemma generic_SelfLocation_eq [in_step]: "generic_SelfLocation = SelfLocation"
  by (simp only: generic_SelfLocation_def SelfLocation_def in_step)

lemma generic_SelfLocationAbsolute_eq [in_step]: "generic_SelfLocationAbsolute = SelfLocationAbsolute"
  by (intro ext) (unfold generic_SelfLocationAbsolute_def SelfLocationAbsolute_def in_step, rule refl)

lemma generic_DOTReserveProvider_reserve_eq [in_step]: "generic_DOTReserveProvider_reserve = DOTReserveProvider_reserve"
  by (intro ext) (unfold generic_DOTReserveProvider_reserve_def DOTReserveProvider_reserve_def in_step, rule refl)

lemma generic_BridgedAssetReserveProvider_reserve_eq [in_step]: "generic_BridgedAssetReserveProvider_reserve = BridgedAssetReserveProvider_reserve"
  by (intro ext) (unfold generic_BridgedAssetReserveProvider_reserve_def BridgedAssetReserveProvider_reserve_def in_step, rule refl)

lemma generic_RelativeReserveProvider_reserve_eq [in_step]: "generic_RelativeReserveProvider_reserve = RelativeReserveProvider_reserve"
  by (intro ext) (unfold generic_RelativeReserveProvider_reserve_def RelativeReserveProvider_reserve_def in_step, rule refl)

lemma generic_AbsoluteAndRelativeReserve_reserve_eq [in_step]: "generic_AbsoluteAndRelativeReserve_reserve = AbsoluteAndRelativeReserve_reserve"
  by (intro ext) (unfold generic_AbsoluteAndRelativeReserve_reserve_def AbsoluteAndRelativeReserve_reserve_def in_step, rule refl)

lemma generic_ReserveProviders_reserve_eq [in_step]: "generic_ReserveProviders_reserve = ReserveProviders_reserve"
  by (intro ext) (unfold generic_ReserveProviders_reserve_def ReserveProviders_reserve_def in_step, rule refl)

lemma generic_IsBridgedConcreteAssetFrom_contains_eq [in_step]: "generic_IsBridgedConcreteAssetFrom_contains = IsBridgedConcreteAssetFrom_contains"
  by (intro ext) (unfold generic_IsBridgedConcreteAssetFrom_contains_def IsBridgedConcreteAssetFrom_contains_def in_step, rule refl)

lemma generic_Reserves_contains_eq [in_step]: "generic_Reserves_contains = Reserves_contains"
  by (intro ext) (unfold generic_Reserves_contains_def Reserves_contains_def in_step, rule refl)

section \<open>Locations, fees and transactors\<close>

definition generic_RelayNetwork :: "nat option" where
  "generic_RelayNetwork = None"

definition generic_UniversalLocation :: "u32 \<Rightarrow> junction list" where
  "generic_UniversalLocation parachain_id = [Parachain parachain_id]"

definition generic_SelfReserve :: "nat \<Rightarrow> Location" where
  "generic_SelfReserve balances_index = loc 0 [PalletInstance (of_nat balances_index)]"

definition generic_BaseXcmWeight :: "'w weight_api \<Rightarrow> 'w" where
  "generic_BaseXcmWeight W = from_parts W 200000000 0"

definition generic_MaxAssetsForTransfer :: nat where
  "generic_MaxAssetsForTransfer = 2"

definition generic_MaxHrmpRelayFee :: Asset where
  "generic_MaxHrmpRelayFee = \<lparr>asset_id = Location_parent, fungible = Fungible 1000000000000\<rparr>"

definition generic_ParachainMinFee :: "xcm_api \<Rightarrow> Location \<Rightarrow> u128 option" where
  "generic_ParachainMinFee X location =
     (if parents location = 1 \<and> first_interior X location = Some (Parachain 1000)
      then Some 50000000 else None)"

definition generic_Transactors_try_from :: "u8 \<Rightarrow> unit + Transactors" where
  "generic_Transactors_try_from v = (if v = 0 then Inr Relay else Inl ())"

fun generic_Transactors_encode_call :: "('k \<Rightarrow> bytes) \<Rightarrow> Transactors \<Rightarrow> 'k \<Rightarrow> bytes" where
  "generic_Transactors_encode_call pallet_encode_call Relay call = pallet_encode_call call"

fun generic_Transactors_destination :: "Transactors \<Rightarrow> Location" where
  "generic_Transactors_destination Relay = Location_parent"

lemma generic_RelayNetwork_eq [in_step]: "generic_RelayNetwork = RelayNetwork"
  by (simp only: generic_RelayNetwork_def RelayNetwork_def in_step)

lemma generic_UniversalLocation_eq [in_step]: "generic_UniversalLocation = UniversalLocation"
  by (intro ext) (unfold generic_UniversalLocation_def UniversalLocation_def in_step, rule refl)

lemma generic_SelfReserve_eq [in_step]: "generic_SelfReserve = SelfReserve"
  by (intro ext) (unfold generic_SelfReserve_def SelfReserve_def in_step, rule refl)

lemma generic_BaseXcmWeight_eq [in_step]: "generic_BaseXcmWeight = BaseXcmWeight"
  by (intro ext) (unfold generic_BaseXcmWeight_def BaseXcmWeight_def in_step, rule refl)

lemma generic_MaxAssetsForTransfer_eq [in_step]: "generic_MaxAssetsForTransfer = MaxAssetsForTransfer"
  by (simp only: generic_MaxAssetsForTransfer_def MaxAssetsForTransfer_def in_step)

lemma generic_MaxHrmpRelayFee_eq [in_step]: "generic_MaxHrmpRelayFee = MaxHrmpRelayFee"
  by (simp only: generic_MaxHrmpRelayFee_def MaxHrmpRelayFee_def in_step)

lemma generic_ParachainMinFee_eq [in_step]: "generic_ParachainMinFee = ParachainMinFee"
  by (intro ext) (unfold generic_ParachainMinFee_def ParachainMinFee_def in_step, rule refl)

lemma generic_Transactors_try_from_eq [in_step]: "generic_Transactors_try_from = Transactors_try_from"
  by (intro ext) (unfold generic_Transactors_try_from_def Transactors_try_from_def in_step, rule refl)

lemma generic_Transactors_eq [in_step]:
  "generic_Transactors_destination = Transactors_destination"
  "generic_Transactors_encode_call = Transactors_encode_call"
proof (intro ext)
  fix t
  show "generic_Transactors_destination t = Transactors_destination t"
    by (cases t) simp
next
  show "generic_Transactors_encode_call = Transactors_encode_call"
  proof (intro ext)
    fix encode t c
    show "generic_Transactors_encode_call encode t c = Transactors_encode_call encode t c"
      by (cases t) simp
  qed
qed

section \<open>Router and origins\<close>

definition generic_next_router :: "send_error + 't \<Rightarrow> send_error + 't \<Rightarrow> send_error + 't" where
  "generic_next_router r s = (if r = Inl NotApplicable then s else r)"

definition generic_XcmRouter :: "('m, 't) router_components \<Rightarrow> ('m, 't) router" where
  "generic_XcmRouter R dest msg = (
     let msg = WithUniqueTopic R msg
     in generic_next_router (ParentAsUmp R dest msg)
          (generic_next_router (XcmpQueue R dest msg) (Inl NotApplicable)))"

definition generic_RelayChainOrigin :: local_origin where
  "generic_RelayChainOrigin = CumulusRelay"

lemma generic_next_router_eq [in_step]: "generic_next_router = next_router"
  by (intro ext) (unfold generic_next_router_def next_router_def in_step, rule refl)

lemma generic_XcmRouter_eq [in_step]: "generic_XcmRouter = XcmRouter"
  by (intro ext) (unfold generic_XcmRouter_def XcmRouter_def in_step, rule refl)

lemma generic_RelayChainOrigin_eq [in_step]: "generic_RelayChainOrigin = RelayChainOrigin"
  by (simp only: generic_RelayChainOrigin_def RelayChainOrigin_def in_step)

section \<open>Assets\<close>

definition generic_AssetType_default :: "'l \<Rightarrow> 'l AssetType" where
  "generic_AssetType_default here = Xcm here"

definition generic_AssetType_from :: "'l \<Rightarrow> 'l AssetType" where
  "generic_AssetType_from location = Xcm location"

definition generic_AssetType_try_from :: "('latest \<Rightarrow> 'l option) \<Rightarrow> 'latest \<Rightarrow> unit + 'l AssetType" where
  "generic_AssetType_try_from try_into location =
     (case try_into location of Some l \<Rightarrow> Inr (Xcm l) | None \<Rightarrow> Inl ())"

fun generic_AssetType_into_location :: "'l AssetType \<Rightarrow> 'l option" where
  "generic_AssetType_into_location (Xcm location) = Some location"

definition generic_destroy_foreign_asset ::
  "('s, 'e, 'o, 'i, 'p, 'a, 'k, 'w) assets_api \<Rightarrow> 'i \<Rightarrow> ('s, 'e) dispatch" where
  "generic_destroy_foreign_asset A asset =
     storage_layer A (start_destroy A (root_origin A) (id_parameter A asset))"

definition generic_destroy_asset_dispatch_info_weight ::
  "('s, 'e, 'o, 'i, 'p, 'a, 'k, 'w) assets_api \<Rightarrow> 'i \<Rightarrow> 'w" where
  "generic_destroy_asset_dispatch_info_weight A asset = start_destroy_call_weight A (id_parameter A asset)"

lemma generic_AssetType_default_eq [in_step]: "generic_AssetType_default = AssetType_default"
  by (intro ext) (unfold generic_AssetType_default_def AssetType_default_def in_step, rule refl)

lemma generic_AssetType_from_eq [in_step]: "generic_AssetType_from = AssetType_from"
  by (intro ext) (unfold generic_AssetType_from_def AssetType_from_def in_step, rule refl)

lemma generic_AssetType_try_from_eq [in_step]: "generic_AssetType_try_from = AssetType_try_from"
  by (intro ext) (unfold generic_AssetType_try_from_def AssetType_try_from_def in_step, rule refl)

lemma generic_destroy_foreign_asset_eq [in_step]: "generic_destroy_foreign_asset = destroy_foreign_asset"
  by (intro ext) (unfold generic_destroy_foreign_asset_def destroy_foreign_asset_def in_step, rule refl)

lemma generic_destroy_asset_dispatch_info_weight_eq [in_step]: "generic_destroy_asset_dispatch_info_weight = destroy_asset_dispatch_info_weight"
  by (intro ext) (unfold generic_destroy_asset_dispatch_info_weight_def destroy_asset_dispatch_info_weight_def in_step, rule refl)

lemma generic_AssetType_into_location_eq [in_step]:
  "generic_AssetType_into_location = AssetType_into_location"
proof
  fix a
  show "generic_AssetType_into_location a = AssetType_into_location a"
    by (cases a) simp
qed

section \<open>Types and fees\<close>

definition generic_ProxyType_default :: ProxyType where
  "generic_ProxyType_default = Any"

definition generic_ProxyType_exists :: "features \<Rightarrow> ProxyType \<Rightarrow> bool" where
  "generic_ProxyType_exists F t \<longleftrightarrow> (t = Collator \<longrightarrow> \<not> tanssi F)"

fun generic_ProxyType_filter :: "ProxyType \<Rightarrow> runtime_call \<Rightarrow> bool" where
  "generic_ProxyType_filter Any c = True"
| "generic_ProxyType_filter NonTransfer c = (case c of Balances _ \<Rightarrow> False | _ \<Rightarrow> True)"
| "generic_ProxyType_filter CancelProxy c =
     (case c of Proxy (reject_announcement _ _) \<Rightarrow> True | Multisig _ \<Rightarrow> True | _ \<Rightarrow> False)"
| "generic_ProxyType_filter Collator c =
     (case c of CollatorSelection _ \<Rightarrow> True | Multisig _ \<Rightarrow> True | _ \<Rightarrow> False)"

definition generic_CollatorSelectionUpdateOrigin :: "ensure_api \<Rightarrow> nat \<Rightarrow> origin_filter" where
  "generic_CollatorSelectionUpdateOrigin N StakingAdminBodyId =
     EitherOfDiverse N (EnsureRoot N) (EnsureXcm N (IsVoiceOfBody N generic_RelayLocation StakingAdminBodyId))"

definition generic_ConsensusHook :: "features \<Rightarrow> consensus_hook" where
  "generic_ConsensusHook F = FixedVelocityConsensusHook generic_RELAY_CHAIN_SLOT_DURATION_MILLIS
     generic_BLOCK_PROCESSING_VELOCITY (generic_UNINCLUDED_SEGMENT_CAPACITY F)"

definition generic_TreasuryPalletId :: string where
  "generic_TreasuryPalletId = ''py/trsry''"

definition generic_TreasuryInteriorLocation :: "junction list" where
  "generic_TreasuryInteriorLocation = [PalletInstance 13]"

definition generic_MessageQueueServiceWeight ::
  "'p perbill_api \<Rightarrow> ('p \<Rightarrow> 'w \<Rightarrow> 'w) \<Rightarrow> 'w \<Rightarrow> 'w" where
  "generic_MessageQueueServiceWeight P perbill_mul max_block = perbill_mul (from_percent P 35) max_block"

definition generic_TreasuryPaymaster_timeout :: "features \<Rightarrow> u32" where
  "generic_TreasuryPaymaster_timeout F = 6 * generic_HOURS F"

definition generic_WeightToFee_polynomial ::
  "'p perbill_api \<Rightarrow> 'w weight_api \<Rightarrow> 'p WeightToFeeCoefficient list" where
  "generic_WeightToFee_polynomial P W = (
     let p = generic_MILLICENTS div of_nat generic_P_FACTOR;
         q = of_nat generic_Q_FACTOR * of_nat (ref_time W (ExtrinsicBaseWeight W)) :: u128
     in [\<lparr>degree = generic_POLY_DEGREE, negative = False,
          coeff_frac = from_rational P (unat (p mod q)) (unat q),
          coeff_integer = p div q\<rparr>])"

lemma generic_ProxyType_default_eq [in_step]: "generic_ProxyType_default = ProxyType_default"
  by (simp only: generic_ProxyType_default_def ProxyType_default_def in_step)

lemma generic_ProxyType_exists_eq [in_step]: "generic_ProxyType_exists = ProxyType_exists"
  by (intro ext) (unfold generic_ProxyType_exists_def ProxyType_exists_def in_step, rule refl)

lemma generic_CollatorSelectionUpdateOrigin_eq [in_step]: "generic_CollatorSelectionUpdateOrigin = CollatorSelectionUpdateOrigin"
  by (intro ext) (unfold generic_CollatorSelectionUpdateOrigin_def CollatorSelectionUpdateOrigin_def in_step, rule refl)

lemma generic_ConsensusHook_eq [in_step]: "generic_ConsensusHook = ConsensusHook"
  by (intro ext) (unfold generic_ConsensusHook_def ConsensusHook_def in_step, rule refl)

lemma generic_TreasuryPalletId_eq [in_step]: "generic_TreasuryPalletId = TreasuryPalletId"
  by (simp only: generic_TreasuryPalletId_def TreasuryPalletId_def in_step)

lemma generic_TreasuryInteriorLocation_eq [in_step]: "generic_TreasuryInteriorLocation = TreasuryInteriorLocation"
  by (simp only: generic_TreasuryInteriorLocation_def TreasuryInteriorLocation_def in_step)

lemma generic_MessageQueueServiceWeight_eq [in_step]: "generic_MessageQueueServiceWeight = MessageQueueServiceWeight"
  by (intro ext) (unfold generic_MessageQueueServiceWeight_def MessageQueueServiceWeight_def in_step, rule refl)

lemma generic_TreasuryPaymaster_timeout_eq [in_step]: "generic_TreasuryPaymaster_timeout = TreasuryPaymaster_timeout"
  by (intro ext) (unfold generic_TreasuryPaymaster_timeout_def TreasuryPaymaster_timeout_def in_step, rule refl)

lemma generic_WeightToFee_polynomial_eq [in_step]: "generic_WeightToFee_polynomial = WeightToFee_polynomial"
  by (intro ext) (unfold generic_WeightToFee_polynomial_def WeightToFee_polynomial_def in_step, rule refl)

lemma generic_ProxyType_filter_eq [in_step]: "generic_ProxyType_filter = ProxyType_filter"
proof (intro ext)
  fix p c
  show "generic_ProxyType_filter p c = ProxyType_filter p c"
    by (cases p) simp_all
qed

section \<open>Benchmark builds\<close>

definition generic_convert_v3_to_v4 ::
  "('j \<Rightarrow> 'k option) \<Rightarrow> (u8 \<Rightarrow> 'k \<Rightarrow> 'l) \<Rightarrow> u8 \<times> 'j \<Rightarrow> 'l option" where
  "generic_convert_v3_to_v4 try_from new_location v3 =
     (case try_from (snd v3) of Some js \<Rightarrow> Some (new_location (fst v3) js) | None \<Rightarrow> None)"

definition generic_AssetType_from_v3 ::
  "('j \<Rightarrow> 'k option) \<Rightarrow> (u8 \<Rightarrow> 'k \<Rightarrow> 'l) \<Rightarrow> 'l \<Rightarrow> u8 \<times> 'j \<Rightarrow> 'l AssetType" where
  "generic_AssetType_from_v3 try_from new_location default_location v3 =
     Xcm (case generic_convert_v3_to_v4 try_from new_location v3 of Some l \<Rightarrow> l | None \<Rightarrow> default_location)"

definition generic_Transactors_default :: Transactors where
  "generic_Transactors_default = Relay"

definition generic_OpenHrmpChannel_ensure_successful ::
  "(u32 \<Rightarrow> 's \<Rightarrow> channel_status) \<Rightarrow> (u32 \<Rightarrow> 's \<Rightarrow> 's) \<Rightarrow> u32 \<Rightarrow> 's \<Rightarrow> 's" where
  "generic_OpenHrmpChannel_ensure_successful get_channel_status open_channel para_id s =
     (case get_channel_status para_id s of
        Closed_channel \<Rightarrow> open_channel para_id s
      | _ \<Rightarrow> s)"

definition generic_PayWithEnsure ::
  "('b, 'k, 'n, 'i, 'e, 't, 's) pay_api \<Rightarrow> ('s \<Rightarrow> 's) \<Rightarrow> ('b, 'k, 'n, 'i, 'e, 't, 's) pay_api" where
  "generic_PayWithEnsure Q ensure = \<lparr>
     pay = (\<lambda>who asset_kind amount. pay Q who asset_kind amount),
     check_payment = (\<lambda>i. check_payment Q i),
     pay_ensure_successful = (\<lambda>who asset_kind amount s.
       pay_ensure_successful Q who asset_kind amount (ensure s)),
     ensure_concluded = (\<lambda>i. ensure_concluded Q i)\<rparr>"

lemma generic_convert_v3_to_v4_eq [in_step]: "generic_convert_v3_to_v4 = convert_v3_to_v4"
  by (intro ext) (unfold generic_convert_v3_to_v4_def convert_v3_to_v4_def in_step, rule refl)

lemma generic_AssetType_from_v3_eq [in_step]: "generic_AssetType_from_v3 = AssetType_from_v3"
  by (intro ext) (unfold generic_AssetType_from_v3_def AssetType_from_v3_def in_step, rule refl)

lemma generic_Transactors_default_eq [in_step]: "generic_Transactors_default = Transactors_default"
  by (simp only: generic_Transactors_default_def Transactors_default_def in_step)

lemma generic_OpenHrmpChannel_ensure_successful_eq [in_step]: "generic_OpenHrmpChannel_ensure_successful = OpenHrmpChannel_ensure_successful"
  by (intro ext) (unfold generic_OpenHrmpChannel_ensure_successful_def OpenHrmpChannel_ensure_successful_def in_step, rule refl)

lemma generic_PayWithEnsure_eq [in_step]: "generic_PayWithEnsure = PayWithEnsure"
  by (intro ext) (unfold generic_PayWithEnsure_def PayWithEnsure_def in_step, rule refl)

end
