(* ===== verification/Node_Cli.thy ===== *)
theory Node_Cli
  imports Node_Command
begin

text \<open>
  The implementations of \<open>SubstrateCli\<close> and \<open>CliConfiguration\<close> in \<open>node/src/command.rs\<close>: what a
  node says about itself, and how the options of the embedded relay-chain node are answered. The
  values of the SDK's types are of one type \<open>'o\<close>; the answers of \<open>polkadot_cli::RunCmd\<close> are an
  argument.
\<close>

section \<open>SubstrateCli\<close>

record ('e, 'spec) SubstrateCli =
  impl_name_of :: string
  impl_version_of :: string
  description_of :: string
  author_of :: string
  support_url_of :: string
  copyright_start_year :: int
  load_spec_of :: "string \<Rightarrow> 'e + 'spec"

text \<open>The build environment and the name of the executable.\<close>

record build_env =
  SUBSTRATE_CLI_IMPL_VERSION :: string
  CARGO_PKG_AUTHORS :: string
  exe_name :: string

definition newline :: string where
  "newline = [CHR 0x0A]"

definition Cli_description :: "build_env \<Rightarrow> string" where
  "Cli_description B =
     ''Parachain Collator Template'' @ newline @ newline @
     ''The command-line arguments provided first will be passed to the parachain node, '' @
     ''while the arguments provided after -- will be passed to the relay chain node.'' @
     newline @ newline @ exe_name B @ '' <parachain-args> -- <relay-chain-args>''"

definition Cli_SubstrateCli ::
  "build_env \<Rightarrow> (string \<Rightarrow> 'e + 'spec) \<Rightarrow> ('e, 'spec) SubstrateCli" where
  "Cli_SubstrateCli B load_spec = \<lparr>
     impl_name_of = ''Parachain Collator Template'',
     impl_version_of = SUBSTRATE_CLI_IMPL_VERSION B,
     description_of = Cli_description B,
     author_of = CARGO_PKG_AUTHORS B,
     support_url_of = ''https://github.com/paritytech/polkadot-sdk/issues/new'',
     copyright_start_year = 2020,
     load_spec_of = load_spec\<rparr>"

text \<open>The relay-chain side loads its specifications as \<open>polkadot_cli::Cli\<close> without arguments does.\<close>

definition RelayChainCli_SubstrateCli ::
  "build_env \<Rightarrow> (string list \<Rightarrow> string \<Rightarrow> 'e + 'spec) \<Rightarrow> ('e, 'spec) SubstrateCli" where
  "RelayChainCli_SubstrateCli B polkadot_load_spec = \<lparr>
     impl_name_of = ''Parachain Collator Template'',
     impl_version_of = SUBSTRATE_CLI_IMPL_VERSION B,
     description_of = Cli_description B,
     author_of = CARGO_PKG_AUTHORS B,
     support_url_of = ''https://github.com/paritytech/polkadot-sdk/issues/new'',
     copyright_start_year = 2020,
     load_spec_of = polkadot_load_spec [exe_name B]\<rparr>"

section \<open>CliConfiguration\<close>

record ('o, 'spec, 'e) CliConfiguration =
  shared_params :: 'o
  import_params :: "'o option"
  network_params :: "'o option"
  keystore_params :: "'o option"
  base_path_of :: "'e + string option"
  rpc_addr :: "u16 \<Rightarrow> 'e + 'o list option"
  prometheus_config :: "u16 \<Rightarrow> 'spec \<Rightarrow> 'e + 'o option"
  init_of :: "string \<Rightarrow> string \<Rightarrow> rust_panic + ('e + unit)"
  chain_id_of :: "bool \<Rightarrow> 'e + string"
  role_of :: "bool \<Rightarrow> 'e + 'o"
  transaction_pool :: "bool \<Rightarrow> 'e + 'o"
  trie_cache_maximum_size :: "'e + nat option"
  rpc_methods :: "'e + 'o"
  rpc_max_connections :: "'e + u32"
  rpc_cors :: "bool \<Rightarrow> 'e + string list option"
  default_heap_pages :: "'e + u64 option"
  force_authoring :: "'e + bool"
  disable_grandpa :: "'e + bool"
  max_runtime_instances :: "'e + nat option"
  announce_block :: "'e + bool"
  telemetry_endpoints :: "'spec \<Rightarrow> 'e + 'o option"
  node_name :: "'e + string"

text \<open>
  \<open>shared_base_path\<close> is \<open>SharedParams::base_path\<close>; the base path and the chain that the parachain
  side chose are used where the relay chain's own arguments name none.
\<close>

definition RelayChainCli_CliConfiguration ::
  "('o \<Rightarrow> 'e + string option) \<Rightarrow> ('o, 'spec, 'e) CliConfiguration RelayChainCli \<Rightarrow>
   ('o, 'spec, 'e) CliConfiguration" where
  "RelayChainCli_CliConfiguration shared_base_path cli = \<lparr>
     shared_params = shared_params (base cli),
     import_params = import_params (base cli),
     network_params = network_params (base cli),
     keystore_params = keystore_params (base cli),
     base_path_of = result_bind (shared_base_path (shared_params (base cli))) (\<lambda>p.
       Inr (or_else p (relay_base_path cli))),
     rpc_addr = (\<lambda>port. rpc_addr (base cli) port),
     prometheus_config = (\<lambda>port spec. prometheus_config (base cli) port spec),
     init_of = (\<lambda>_ _. Inl (ExpectFailed ''PolkadotCli is never initialized; qed'')),
     chain_id_of = (\<lambda>is_dev. result_bind (chain_id_of (base cli) is_dev) (\<lambda>chain_id.
       Inr (if chain_id = [] then (case relay_chain_id cli of Some i \<Rightarrow> i | None \<Rightarrow> [])
            else chain_id))),
     role_of = (\<lambda>is_dev. role_of (base cli) is_dev),
     transaction_pool = (\<lambda>is_dev. transaction_pool (base cli) is_dev),
     trie_cache_maximum_size = trie_cache_maximum_size (base cli),
     rpc_methods = rpc_methods (base cli),
     rpc_max_connections = rpc_max_connections (base cli),
     rpc_cors = (\<lambda>is_dev. rpc_cors (base cli) is_dev),
     default_heap_pages = default_heap_pages (base cli),
     force_authoring = force_authoring (base cli),
     disable_grandpa = disable_grandpa (base cli),
     max_runtime_instances = max_runtime_instances (base cli),
     announce_block = announce_block (base cli),
     telemetry_endpoints = (\<lambda>spec. telemetry_endpoints (base cli) spec),
     node_name = node_name (base cli)\<rparr>"

text \<open>
  The relay-chain side of a node answers as its own arguments say in everything but the base
  path, the chain and the initialisation; two nodes of this kind differ from the upstream node in
  nothing else.
\<close>

theorem relay_options_forwarded:
  "RelayChainCli_CliConfiguration shared_base_path cli = (base cli)\<lparr>
     base_path_of := base_path_of (RelayChainCli_CliConfiguration shared_base_path cli),
     chain_id_of := chain_id_of (RelayChainCli_CliConfiguration shared_base_path cli),
     init_of := init_of (RelayChainCli_CliConfiguration shared_base_path cli)\<rparr>"
  by (simp add: RelayChainCli_CliConfiguration_def)

text \<open>
  The configuration is the one that the node's command uses: with the answers of the command
  interface for the chain and the base path, the two agree.
\<close>

theorem relay_options_of_command:
  assumes "\<And>dev. chain_id_of (base cli) dev = base_chain_id A (base cli) dev"
    and "shared_base_path (shared_params (base cli)) = base_shared_path A (base cli)"
  shows "chain_id_of (RelayChainCli_CliConfiguration shared_base_path cli) =
      RelayChainCli_chain_id A cli"
    and "base_path_of (RelayChainCli_CliConfiguration shared_base_path cli) =
      RelayChainCli_base_path A cli"
  using assms
  by (simp_all add: RelayChainCli_CliConfiguration_def RelayChainCli_chain_id_def
      RelayChainCli_base_path_def fun_eq_iff)

section \<open>The extended build-spec command\<close>

text \<open>
  \<open>ExtendedBuildSpecCmd\<close> runs as the command of the SDK that it wraps, and hands on the questions for
  its parameters; the options for contracts are read before, by \<open>contract_directory\<close>.
\<close>

definition ExtendedBuildSpecCmd_run ::
  "('c \<Rightarrow> 'spec \<Rightarrow> 'net \<Rightarrow> 'e + unit) \<Rightarrow> 'c ExtendedBuildSpecCmd \<Rightarrow> 'spec \<Rightarrow> 'net \<Rightarrow> 'e + unit" where
  "ExtendedBuildSpecCmd_run cmd_run cmd spec network_config =
     cmd_run (build_cmd cmd) spec network_config"

definition ExtendedBuildSpecCmd_CliConfiguration ::
  "('c \<Rightarrow> 'o) \<Rightarrow> ('c \<Rightarrow> 'o option) \<Rightarrow> 'c ExtendedBuildSpecCmd \<Rightarrow> 'o \<times> 'o option" where
  "ExtendedBuildSpecCmd_CliConfiguration shared node_key cmd =
     (shared (build_cmd cmd), node_key (build_cmd cmd))"

end
