(* ===== verification/Generic_Node.thy ===== *)
theory Generic_Node
  imports Generic_Governance Node_Cli
begin

text \<open>
  The parts of the node of the generic template that are copies of the EVM template's, under
  \<open>src/generic-template/node/src\<close>: the start of the consensus and the import queue of \<open>service.rs\<close>, the
  relay-chain options of \<open>cli.rs\<close> and \<open>command.rs\<close>, and the presets of the runtime, translated on
  their own and shown to be in step.
\<close>

section \<open>Services\<close>

definition generic_start_consensus ::
  "features \<Rightarrow> 'k \<Rightarrow> u32 \<Rightarrow> nat \<Rightarrow> task list \<Rightarrow> 'k consensus_params \<times> task list" where
  "generic_start_consensus F key pid slot tasks =
     (\<lparr>lookahead = async_backing F, collator_key_param = key, para_id_param = pid,
       relay_slot_secs = slot, authoring_duration_ms = (if async_backing F then 1500 else 500)\<rparr>,
      tasks @ [\<lparr>essential = True, blocking = False, task_name = ''aura''\<rparr>])"

definition generic_build_import_queue ::
  "('spec, 'c, 'b, 'q, 'p, 'd, 'n, 'r, 'k, 'w, 'e) service_api \<Rightarrow> 'c \<Rightarrow> 'b \<Rightarrow> bool \<Rightarrow>
   'e abort + 'q" where
  "generic_build_import_queue S client backend telemetry =
     Inr (fully_verifying_import_queue S client backend telemetry)"

definition generic_import_queue_of ::
  "('spec, 'c, 'b, 'q, 'p, 'd, 'n, 'r, 'k, 'w, 'e) service_api \<Rightarrow> features \<Rightarrow> 'c \<Rightarrow> 'b \<Rightarrow> bool \<Rightarrow>
   'e abort + 'q" where
  "generic_import_queue_of S F client backend telemetry =
     (if tanssi F then expect ''function never fails'' (nimbus_import_queue S client backend)
      else generic_build_import_queue S client backend telemetry)"

lemma generic_start_consensus_eq [in_step]: "generic_start_consensus = start_consensus"
  by (intro ext) (unfold generic_start_consensus_def start_consensus_def in_step, rule refl)

lemma generic_build_import_queue_eq [in_step]: "generic_build_import_queue = build_import_queue"
  by (intro ext) (unfold generic_build_import_queue_def build_import_queue_def, rule refl)

lemma generic_import_queue_of_eq [in_step]: "generic_import_queue_of = import_queue_of"
  by (intro ext) (unfold generic_import_queue_of_def import_queue_of_def in_step, rule refl)

section \<open>Relay-chain options\<close>

definition generic_RelayChainCli_new ::
  "('c, 'k, 'r, 'w, 'e) command_api \<Rightarrow> 'k ChainSpec Configuration \<Rightarrow> string list \<Rightarrow>
   'r RelayChainCli" where
  "generic_RelayChainCli_new A para_config args = (
     let extension = get_extension A (conf_chain_spec para_config);
         chain_id = map_option relay_chain extension;
         base_path = path_join (conf_base_path para_config) ''polkadot''
     in \<lparr>base = parse_from A args, relay_chain_id = chain_id, relay_base_path = Some base_path\<rparr>)"

definition generic_p2p_listen_port :: u16 where
  "generic_p2p_listen_port = 30334"

definition generic_rpc_listen_port :: u16 where
  "generic_rpc_listen_port = 9945"

definition generic_prometheus_listen_port :: u16 where
  "generic_prometheus_listen_port = 9616"

definition generic_RelayChainCli_base_path ::
  "('c, 'k, 'r, 'w, 'e) command_api \<Rightarrow> 'r RelayChainCli \<Rightarrow> 'e + string option" where
  "generic_RelayChainCli_base_path A cli =
     result_bind (base_shared_path A (base cli)) (\<lambda>p. Inr (or_else p (relay_base_path cli)))"

definition generic_RelayChainCli_chain_id ::
  "('c, 'k, 'r, 'w, 'e) command_api \<Rightarrow> 'r RelayChainCli \<Rightarrow> bool \<Rightarrow> 'e + string" where
  "generic_RelayChainCli_chain_id A cli is_dev =
     result_bind (base_chain_id A (base cli) is_dev) (\<lambda>chain_id.
       Inr (if chain_id = [] then (case relay_chain_id cli of Some i \<Rightarrow> i | None \<Rightarrow> [])
            else chain_id))"

definition generic_Cli_description :: "build_env \<Rightarrow> string" where
  "generic_Cli_description B =
     ''Parachain Collator Template'' @ newline @ newline @
     ''The command-line arguments provided first will be passed to the parachain node, '' @
     ''while the arguments provided after -- will be passed to the relay chain node.'' @
     newline @ newline @ exe_name B @ '' <parachain-args> -- <relay-chain-args>''"

definition generic_Cli_SubstrateCli ::
  "build_env \<Rightarrow> (string \<Rightarrow> 'e + 'spec) \<Rightarrow> ('e, 'spec) SubstrateCli" where
  "generic_Cli_SubstrateCli B load_spec = \<lparr>
     impl_name_of = ''Parachain Collator Template'',
     impl_version_of = SUBSTRATE_CLI_IMPL_VERSION B,
     description_of = generic_Cli_description B,
     author_of = CARGO_PKG_AUTHORS B,
     support_url_of = ''https://github.com/paritytech/polkadot-sdk/issues/new'',
     copyright_start_year = 2020,
     load_spec_of = load_spec\<rparr>"

definition generic_RelayChainCli_SubstrateCli ::
  "build_env \<Rightarrow> (string list \<Rightarrow> string \<Rightarrow> 'e + 'spec) \<Rightarrow> ('e, 'spec) SubstrateCli" where
  "generic_RelayChainCli_SubstrateCli B polkadot_load_spec = \<lparr>
     impl_name_of = ''Parachain Collator Template'',
     impl_version_of = SUBSTRATE_CLI_IMPL_VERSION B,
     description_of = generic_Cli_description B,
     author_of = CARGO_PKG_AUTHORS B,
     support_url_of = ''https://github.com/paritytech/polkadot-sdk/issues/new'',
     copyright_start_year = 2020,
     load_spec_of = polkadot_load_spec [exe_name B]\<rparr>"

definition generic_RelayChainCli_CliConfiguration ::
  "('o \<Rightarrow> 'e + string option) \<Rightarrow> ('o, 'spec, 'e) CliConfiguration RelayChainCli \<Rightarrow>
   ('o, 'spec, 'e) CliConfiguration" where
  "generic_RelayChainCli_CliConfiguration shared_base_path cli = \<lparr>
     shared_params = shared_params (base cli),
     import_params = import_params (base cli),
     network_params = network_params (base cli),
     keystore_params = keystore_params (base cli),
     base_path_of = result_bind (shared_base_path (shared_params (base cli))) (\<lambda>p.
       Inr (or_else p (relay_base_path cli))),
     rpc_addr = (\<lambda>port. rpc_addr (base cli) port),
     prometheus_config = (\<lambda>port spec. prometheus_config (base cli) port spec),
     init_of = (\<lambda>_ _. Inl (ExpectFailed ''PolkadotCli is never initialized; qed'')),
     chain_id_of = (\<lambda>is_dev. result_bind (chain_id_of (base cli) is_dev) (\<lambda>chain_id.
       Inr (if chain_id = [] then (case relay_chain_id cli of Some i \<Rightarrow> i | None \<Rightarrow> [])
            else chain_id))),
     role_of = (\<lambda>is_dev. role_of (base cli) is_dev),
     transaction_pool = (\<lambda>is_dev. transaction_pool (base cli) is_dev),
     trie_cache_maximum_size = trie_cache_maximum_size (base cli),
     rpc_methods = rpc_methods (base cli),
     rpc_max_connections = rpc_max_connections (base cli),
     rpc_cors = (\<lambda>is_dev. rpc_cors (base cli) is_dev),
     default_heap_pages = default_heap_pages (base cli),
     force_authoring = force_authoring (base cli),
     disable_grandpa = disable_grandpa (base cli),
     max_runtime_instances = max_runtime_instances (base cli),
     announce_block = announce_block (base cli),
     telemetry_endpoints = (\<lambda>spec. telemetry_endpoints (base cli) spec),
     node_name = node_name (base cli)\<rparr>"

lemma generic_RelayChainCli_new_eq [in_step]: "generic_RelayChainCli_new = RelayChainCli_new"
  by (intro ext) (unfold generic_RelayChainCli_new_def RelayChainCli_new_def in_step, rule refl)

lemma generic_p2p_listen_port_eq [in_step]: "generic_p2p_listen_port = p2p_listen_port"
  by (simp only: generic_p2p_listen_port_def p2p_listen_port_def in_step)

lemma generic_rpc_listen_port_eq [in_step]: "generic_rpc_listen_port = rpc_listen_port"
  by (simp only: generic_rpc_listen_port_def rpc_listen_port_def in_step)

lemma generic_prometheus_listen_port_eq [in_step]: "generic_prometheus_listen_port = prometheus_listen_port"
  by (simp only: generic_prometheus_listen_port_def prometheus_listen_port_def in_step)

lemma generic_RelayChainCli_base_path_eq [in_step]: "generic_RelayChainCli_base_path = RelayChainCli_base_path"
  by (intro ext) (unfold generic_RelayChainCli_base_path_def RelayChainCli_base_path_def in_step, rule refl)

lemma generic_RelayChainCli_chain_id_eq [in_step]: "generic_RelayChainCli_chain_id = RelayChainCli_chain_id"
  by (intro ext) (unfold generic_RelayChainCli_chain_id_def RelayChainCli_chain_id_def in_step, rule refl)

lemma generic_Cli_description_eq [in_step]: "generic_Cli_description = Cli_description"
  by (intro ext) (unfold generic_Cli_description_def Cli_description_def in_step, rule refl)

lemma generic_Cli_SubstrateCli_eq [in_step]: "generic_Cli_SubstrateCli = Cli_SubstrateCli"
  by (intro ext) (unfold generic_Cli_SubstrateCli_def Cli_SubstrateCli_def in_step, rule refl)

lemma generic_RelayChainCli_SubstrateCli_eq [in_step]: "generic_RelayChainCli_SubstrateCli = RelayChainCli_SubstrateCli"
  by (intro ext) (unfold generic_RelayChainCli_SubstrateCli_def RelayChainCli_SubstrateCli_def in_step, rule refl)

lemma generic_RelayChainCli_CliConfiguration_eq [in_step]: "generic_RelayChainCli_CliConfiguration = RelayChainCli_CliConfiguration"
  by (intro ext) (unfold generic_RelayChainCli_CliConfiguration_def RelayChainCli_CliConfiguration_def in_step, rule refl)

section \<open>Presets\<close>

definition generic_preset_names :: "string \<Rightarrow> string \<Rightarrow> string list" where
  "generic_preset_names LOCAL_TESTNET DEV = [DEV, LOCAL_TESTNET]"

definition generic_get_preset ::
  "string \<Rightarrow> string \<Rightarrow> ('g \<Rightarrow> bytes) \<Rightarrow> rust_panic + 'g \<Rightarrow> rust_panic + 'g \<Rightarrow> string \<Rightarrow>
   rust_panic + bytes option" where
  "generic_get_preset LOCAL_TESTNET DEV to_string local_testnet development i =
     (if i = LOCAL_TESTNET then result_bind local_testnet (\<lambda>patch. Inr (Some (to_string patch)))
      else if i = DEV then result_bind development (\<lambda>patch. Inr (Some (to_string patch)))
      else Inr None)"

lemma generic_preset_names_eq [in_step]: "generic_preset_names = preset_names"
  by (intro ext) (unfold generic_preset_names_def preset_names_def in_step, rule refl)

lemma generic_get_preset_eq [in_step]: "generic_get_preset = get_preset"
  by (intro ext) (unfold generic_get_preset_def get_preset_def in_step, rule refl)

end
