(* ===== verification/Foreign_Assets.thy ===== *)
theory Foreign_Assets
  imports Generic_Xcm
begin

text \<open>
  The registrar of foreign assets over time. \<open>AssetRegistrar\<close> of \<open>configs/asset_config.rs\<close> is called by
  the asset manager to create and to destroy assets in the assets pallet; here its two operations
  are steps of a system, compared with an abstract registry: a map from identifiers to
  entries. The pallet is the parameter \<open>assets_api\<close> with the laws of the locale \<open>assets_pallet\<close>; what
  follows for every history of calls is proved once, in the locale \<open>registry_steps\<close>.
\<close>

section \<open>The abstract registry\<close>

record 'k asset_entry =
  entry_owner :: 'k
  entry_sufficient :: bool
  entry_min_balance :: u128
  entry_metadata :: "(bytes \<times> bytes \<times> u8 \<times> bool) option"
  entry_live :: bool

type_synonym ('i, 'k) registry = "'i \<Rightarrow> 'k asset_entry option"

datatype 'i registrar_call =
    CreateForeign 'i u128 AssetRegistrarMetadata bool
  | DestroyForeign 'i

text \<open>An identifier can be taken once; an asset that is destroyed keeps its identifier.\<close>

fun registry_spec :: "'k \<Rightarrow> 'i registrar_call \<Rightarrow> ('i, 'k) registry \<Rightarrow> ('i, 'k) registry option" where
  "registry_spec manager (CreateForeign i min_balance m suff) r =
     (case r i of
        Some _ \<Rightarrow> None
      | None \<Rightarrow> Some (r(i \<mapsto> \<lparr>entry_owner = manager, entry_sufficient = suff,
          entry_min_balance = min_balance,
          entry_metadata = Some (asset_name m, asset_symbol m, decimals m, is_frozen m),
          entry_live = True\<rparr>)))"
| "registry_spec manager (DestroyForeign i) r =
     (case r i of None \<Rightarrow> None | Some e \<Rightarrow> Some (r(i \<mapsto> e\<lparr>entry_live := False\<rparr>)))"

section \<open>The calls of the registrar\<close>

fun evm_registrar_call ::
  "('s, 'e, 'o, 'i, 'p, 'a, 'a, 'w) assets_api \<Rightarrow> 'i registrar_call \<Rightarrow> ('s, 'e) dispatch" where
  "evm_registrar_call A (CreateForeign i min_balance m suff) =
     evm_create_foreign_asset A i min_balance m suff"
| "evm_registrar_call A (DestroyForeign i) = destroy_foreign_asset A i"

fun generic_registrar_call ::
  "('s, 'e, 'o, 'i, 'p, 'a, 'k, 'w) assets_api \<Rightarrow> 'i registrar_call \<Rightarrow> ('s, 'e) dispatch" where
  "generic_registrar_call A (CreateForeign i min_balance m suff) =
     generic_create_foreign_asset A i min_balance m suff"
| "generic_registrar_call A (DestroyForeign i) = generic_destroy_foreign_asset A i"

text \<open>A history: calls that succeed or fail, one after the other.\<close>

inductive registrar_run :: "('c \<Rightarrow> ('s, 'e) dispatch) \<Rightarrow> 's \<Rightarrow> 's \<Rightarrow> bool" for exec where
  start: "registrar_run exec s s"
| call: "registrar_run exec s t \<Longrightarrow> exec c t = (r, u) \<Longrightarrow> registrar_run exec s u"

section \<open>What every history keeps\<close>

text \<open>How an entry may change: only from live to destroyed.\<close>

definition entry_le :: "'k asset_entry \<Rightarrow> 'k asset_entry \<Rightarrow> bool" where
  "entry_le e e' \<longleftrightarrow> e' = e\<lparr>entry_live := entry_live e'\<rparr> \<and> (entry_live e' \<longrightarrow> entry_live e)"

lemma entry_le_refl [simp]: "entry_le e e"
  by (simp add: entry_le_def)

lemma entry_le_trans: "entry_le e f \<Longrightarrow> entry_le f g \<Longrightarrow> entry_le e g"
  by (cases e; cases f; cases g) (auto simp: entry_le_def)

text \<open>
  What a registry may become: entries are neither removed nor replaced, and new ones belong to the
  manager and have their metadata.
\<close>

definition registry_le :: "'k \<Rightarrow> ('i, 'k) registry \<Rightarrow> ('i, 'k) registry \<Rightarrow> bool" where
  "registry_le manager r r' \<longleftrightarrow>
     (\<forall>i e. r i = Some e \<longrightarrow> (\<exists>e'. r' i = Some e' \<and> entry_le e e')) \<and>
     (\<forall>i e. r i = None \<longrightarrow> r' i = Some e \<longrightarrow>
        entry_owner e = manager \<and> entry_metadata e \<noteq> None)"

lemma entry_le_fields:
  "entry_le e e' \<Longrightarrow> entry_owner e' = entry_owner e \<and> entry_metadata e' = entry_metadata e"
  by (cases e; cases e') (auto simp: entry_le_def)

lemma registry_le_refl [simp]: "registry_le manager r r"
  by (simp add: registry_le_def)

lemma registry_le_trans:
  assumes "registry_le manager r s" and "registry_le manager s t"
  shows "registry_le manager r t"
  unfolding registry_le_def
proof (intro conjI allI impI)
  fix i e
  assume "r i = Some e"
  then obtain f g where "s i = Some f" "entry_le e f" "t i = Some g" "entry_le f g"
    using assms unfolding registry_le_def by meson
  then show "\<exists>e'. t i = Some e' \<and> entry_le e e'"
    using entry_le_trans by blast
next
  fix i e
  assume r: "r i = None" and t: "t i = Some e"
  show "entry_owner e = manager" and "entry_metadata e \<noteq> None"
  proof (atomize (full), cases "s i")
    case None
    then show "entry_owner e = manager \<and> entry_metadata e \<noteq> None"
      using assms(2) t unfolding registry_le_def by meson
  next
    case (Some f)
    then have "entry_owner f = manager \<and> entry_metadata f \<noteq> None" and "entry_le f e"
      using assms r t unfolding registry_le_def by (meson, force)
    then show "entry_owner e = manager \<and> entry_metadata e \<noteq> None"
      using entry_le_fields [of f e] by simp
  qed
qed

lemma registry_spec_le: "registry_spec manager c r = Some r' \<Longrightarrow> registry_le manager r r'"
  by (cases c) (auto simp: registry_le_def entry_le_def split: option.splits if_splits)

locale registry_steps =
  fixes exec :: "'i registrar_call \<Rightarrow> ('s, 'e) dispatch"
    and manager :: 'k
    and abs :: "'s \<Rightarrow> ('i, 'k) registry"
  assumes refused: "exec c s = (Inl e, t) \<Longrightarrow> t = s"
    and performed: "exec c s = (Inr u, t) \<Longrightarrow> registry_spec manager c (abs s) = Some (abs t)"
begin

lemma step_le: "exec c s = (r, t) \<Longrightarrow> registry_le manager (abs s) (abs t)"
  using refused performed registry_spec_le by (cases r) fastforce+

lemma run_le: "registrar_run exec s t \<Longrightarrow> registry_le manager (abs s) (abs t)"
  by (induction rule: registrar_run.induct) (auto dest: step_le intro: registry_le_trans)

text \<open>A used identifier stays used: no later call creates an asset under it.\<close>

lemma never_reused:
  assumes "registrar_run exec s t" and "abs s i = Some e"
  shows "exec (CreateForeign i min_balance m suff) t \<noteq> (Inr u, v)"
proof
  assume "exec (CreateForeign i min_balance m suff) t = (Inr u, v)"
  moreover have "abs t i \<noteq> None"
    using run_le [OF assms(1)] assms(2) unfolding registry_le_def by blast
  ultimately show False
    using performed by fastforce
qed

end

section \<open>The assets pallet\<close>

text \<open>
  What the assets pallet documents of the three calls, as far as a view of its storage shows: with
  root's origin, an asset is created under an identifier that is not in use, metadata is set
  and destruction is started for an asset that exists.
\<close>

locale assets_pallet =
  fixes A :: "('s, 'e, 'o, 'i, 'p, 'a, 'k, 'w) assets_api"
    and view :: "'s \<Rightarrow> 'p \<Rightarrow> 'k asset_entry option"
  assumes layered: "storage_layer_laws (storage_layer A)"
    and ids: "inj (id_parameter A)"
    and create_effect: "force_create A (root_origin A) p who suff min_balance s = (Inr (), t) \<Longrightarrow>
      view s p = None \<and> view t = (view s)(p \<mapsto> \<lparr>entry_owner = who, entry_sufficient = suff,
        entry_min_balance = min_balance, entry_metadata = None, entry_live = True\<rparr>)"
    and metadata_effect: "force_set_metadata A (root_origin A) p nm symb dec frozen s = (Inr (), t) \<Longrightarrow>
      \<exists>e. view s p = Some e \<and>
        view t = (view s)(p \<mapsto> e\<lparr>entry_metadata := Some (nm, symb, dec, frozen)\<rparr>)"
    and destroy_effect: "start_destroy A (root_origin A) p s = (Inr (), t) \<Longrightarrow>
      \<exists>e. view s p = Some e \<and> view t = (view s)(p \<mapsto> e\<lparr>entry_live := False\<rparr>)"

text \<open>The registry that a storage stands for.\<close>

definition registry_of ::
  "('s, 'e, 'o, 'i, 'p, 'a, 'k, 'w) assets_api \<Rightarrow> ('s \<Rightarrow> 'p \<Rightarrow> 'k asset_entry option) \<Rightarrow> 's \<Rightarrow>
   ('i, 'k) registry" where
  "registry_of A view s i = view s (id_parameter A i)"

context assets_pallet
begin

lemma registry_update:
  "view t = (view s)(id_parameter A i \<mapsto> e) \<Longrightarrow>
   registry_of A view t = (registry_of A view s)(i \<mapsto> e)"
  using ids by (auto simp: registry_of_def fun_eq_iff inj_def)

lemma create_refines:
  assumes "storage_layer A (dispatch_then
      (force_create A (root_origin A) (id_parameter A i) who suff min_balance)
      (force_set_metadata A (root_origin A) (id_parameter A i) (asset_name m) (asset_symbol m)
        (decimals m) (is_frozen m))) s = (r, t)"
  shows "case r of
      Inl _ \<Rightarrow> t = s
    | Inr _ \<Rightarrow> registry_spec who (CreateForeign i min_balance m suff) (registry_of A view s) =
        Some (registry_of A view t)"
proof (cases r)
  case (Inl e)
  then show ?thesis
    using storage_layer_laws.layered_sequence [OF layered, where s = s] assms
    by (metis (mono_tags, lifting) case_prod_conv old.sum.simps(5))
next
  case (Inr x)
  then obtain u where created:
      "force_create A (root_origin A) (id_parameter A i) who suff min_balance s = (Inr (), u)"
    and described: "force_set_metadata A (root_origin A) (id_parameter A i) (asset_name m)
        (asset_symbol m) (decimals m) (is_frozen m) u = (Inr (), t)"
    using storage_layer_laws.layered_sequence [OF layered,
        where a = "force_create A (root_origin A) (id_parameter A i) who suff min_balance"
          and b = "force_set_metadata A (root_origin A) (id_parameter A i) (asset_name m)
            (asset_symbol m) (decimals m) (is_frozen m)" and s = s] assms
    by auto
  from create_effect [OF created] metadata_effect [OF described] obtain e where
    fresh: "registry_of A view s i = None"
    and u: "view u = (view s)(id_parameter A i \<mapsto> \<lparr>entry_owner = who, entry_sufficient = suff,
        entry_min_balance = min_balance, entry_metadata = None, entry_live = True\<rparr>)"
    and e: "view u (id_parameter A i) = Some e"
    and t: "view t = (view u)(id_parameter A i \<mapsto>
        e\<lparr>entry_metadata := Some (asset_name m, asset_symbol m, decimals m, is_frozen m)\<rparr>)"
    by (auto simp: registry_of_def)
  then show ?thesis
    using registry_update [OF t] registry_update [OF u] Inr by (auto simp: fresh)
qed

lemma destroy_refines:
  assumes "storage_layer A (start_destroy A (root_origin A) (id_parameter A i)) s = (r, t)"
  shows "case r of
      Inl _ \<Rightarrow> t = s
    | Inr _ \<Rightarrow> registry_spec who (DestroyForeign i) (registry_of A view s) =
        Some (registry_of A view t)"
proof (cases r)
  case (Inl e)
  then show ?thesis
    using storage_layer_laws.layer_err [OF layered] assms by simp
next
  case (Inr x)
  then have "start_destroy A (root_origin A) (id_parameter A i) s = (Inr (), t)"
    using storage_layer_laws.layer_ok [OF layered] assms by simp
  then obtain e where e: "registry_of A view s i = Some e"
    and t: "view t = (view s)(id_parameter A i \<mapsto> e\<lparr>entry_live := False\<rparr>)"
    using destroy_effect by (fastforce simp: registry_of_def)
  then show ?thesis
    using registry_update [OF t] Inr by simp
qed

lemma generic_steps:
  "registry_steps (generic_registrar_call A) (lookup_id A (asset_manager_account A))
     (registry_of A view)"
proof
  fix c s e t
  assume "generic_registrar_call A c s = (Inl e, t)"
  then show "t = s"
    using create_refines [of _ "lookup_id A (asset_manager_account A)"] destroy_refines
    by (cases c) (fastforce simp: generic_create_foreign_asset_def destroy_foreign_asset_def in_step)+
next
  fix c s u t
  assume "generic_registrar_call A c s = (Inr u, t)"
  then show "registry_spec (lookup_id A (asset_manager_account A)) c (registry_of A view s) =
      Some (registry_of A view t)"
    using create_refines [of _ "lookup_id A (asset_manager_account A)"]
      destroy_refines [of _ _ _ _ "lookup_id A (asset_manager_account A)"]
    by (cases c) (fastforce simp: generic_create_foreign_asset_def destroy_foreign_asset_def in_step)+
qed

end

text \<open>The EVM runtime passes the manager's account as it is: the case without a wrapper.\<close>

lemma evm_call_eq:
  "evm_registrar_call A c = generic_registrar_call (A\<lparr>lookup_id := \<lambda>a. a\<rparr>) c"
  by (cases c) (simp_all add: evm_create_foreign_asset_def generic_create_foreign_asset_def
      destroy_foreign_asset_def in_step)

lemma evm_steps:
  assumes "assets_pallet A view"
  shows "registry_steps (evm_registrar_call A) (asset_manager_account A) (registry_of A view)"
proof -
  have "assets_pallet (A\<lparr>lookup_id := \<lambda>a. a\<rparr>) view"
    using assms by (simp add: assets_pallet_def)
  moreover have "registry_of (A\<lparr>lookup_id := \<lambda>a. a\<rparr>) view = registry_of A view"
    by (simp add: registry_of_def fun_eq_iff)
  ultimately show ?thesis
    using assets_pallet.generic_steps [of "A\<lparr>lookup_id := \<lambda>a. a\<rparr>" view]
    by (simp add: evm_call_eq [abs_def])
qed

section \<open>When the calls succeed\<close>

text \<open>
  The documented conditions of success: a free identifier and a minimum balance that is not zero,
  an existing asset, and names within the limit of the pallet; a storage layer at the top commits.
\<close>

locale assets_progress =
  fixes A :: "('s, 'e, 'o, 'i, 'p, 'a, 'k, 'w) assets_api"
    and view :: "'s \<Rightarrow> 'p \<Rightarrow> 'k asset_entry option"
    and string_limit :: nat
  assumes create_free: "view s p = None \<Longrightarrow> min_balance \<noteq> 0 \<Longrightarrow>
      \<exists>t. force_create A (root_origin A) p who suff min_balance s = (Inr (), t) \<and> view t p \<noteq> None"
    and describe_used: "view s p \<noteq> None \<Longrightarrow> length nm \<le> string_limit \<Longrightarrow>
      length symb \<le> string_limit \<Longrightarrow>
      \<exists>t. force_set_metadata A (root_origin A) p nm symb dec frozen s = (Inr (), t)"
    and destroy_used: "view s p \<noteq> None \<Longrightarrow>
      \<exists>t. start_destroy A (root_origin A) p s = (Inr (), t)"
    and layer_commits: "f s = (Inr (), t) \<Longrightarrow> storage_layer A f s = (Inr (), t)"
begin

lemma create_succeeds:
  assumes "view s (id_parameter A i) = None" and "min_balance \<noteq> 0"
    and "length (asset_name m) \<le> string_limit" and "length (asset_symbol m) \<le> string_limit"
  shows "\<exists>t. generic_create_foreign_asset A i min_balance m suff s = (Inr (), t)"
proof -
  obtain u where created: "force_create A (root_origin A) (id_parameter A i)
      (lookup_id A (asset_manager_account A)) suff min_balance s = (Inr (), u)"
    and used: "view u (id_parameter A i) \<noteq> None"
    using create_free [OF assms(1,2)] by blast
  obtain t where "force_set_metadata A (root_origin A) (id_parameter A i) (asset_name m)
      (asset_symbol m) (decimals m) (is_frozen m) u = (Inr (), t)"
    using describe_used [OF used assms(3,4)] by blast
  with created show ?thesis
    unfolding generic_create_foreign_asset_def
    by (intro exI layer_commits) (simp add: dispatch_then_def)
qed

lemma destroy_succeeds:
  "view s (id_parameter A i) \<noteq> None \<Longrightarrow> \<exists>t. destroy_foreign_asset A i s = (Inr (), t)"
  unfolding destroy_foreign_asset_def using destroy_used layer_commits by blast

end

lemma evm_create_succeeds:
  assumes "assets_progress A view string_limit"
    and "view s (id_parameter A i) = None" and "min_balance \<noteq> 0"
    and "length (asset_name m) \<le> string_limit" and "length (asset_symbol m) \<le> string_limit"
  shows "\<exists>t. evm_create_foreign_asset A i min_balance m suff s = (Inr (), t)"
proof -
  have "assets_progress (A\<lparr>lookup_id := \<lambda>a. a\<rparr>) view string_limit"
    using assms(1) by (simp add: assets_progress_def)
  then show ?thesis
    using assets_progress.create_succeeds [of "A\<lparr>lookup_id := \<lambda>a. a\<rparr>" view string_limit s i] assms(2-5)
      evm_call_eq [of A "CreateForeign i min_balance m suff"]
    by simp
qed

section \<open>An assets pallet\<close>

text \<open>
  The calls on a map from identifiers to entries. Creation fails for a used identifier and for a
  minimum balance of zero, and names are of bounded length.
\<close>

definition ledger_api ::
  "nat \<Rightarrow> ('i \<Rightarrow> nat asset_entry option, asset_error, unit, 'i, 'i, nat, nat, nat) assets_api" where
  "ledger_api cap = \<lparr>
     root_origin = (), id_parameter = (\<lambda>i. i), asset_manager_account = 1, lookup_id = (\<lambda>a. a),
     force_create = (\<lambda>_ i who suff min_balance s.
       if s i \<noteq> None \<or> min_balance = 0 then (Inl AssetInUse, s)
       else (Inr (), s(i \<mapsto> \<lparr>entry_owner = who, entry_sufficient = suff,
         entry_min_balance = min_balance, entry_metadata = None, entry_live = True\<rparr>))),
     force_set_metadata = (\<lambda>_ i nm symb dec frozen s. (case s i of
         None \<Rightarrow> (Inl AssetUnknown, s)
       | Some e \<Rightarrow> if cap < length nm then (Inl MetadataTooLong, s)
           else (Inr (), s(i \<mapsto> e\<lparr>entry_metadata := Some (nm, symb, dec, frozen)\<rparr>)))),
     start_destroy = (\<lambda>_ i s. (case s i of
         None \<Rightarrow> (Inl AssetUnknown, s)
       | Some e \<Rightarrow> (Inr (), s(i \<mapsto> e\<lparr>entry_live := False\<rparr>)))),
     start_destroy_call_weight = (\<lambda>_. 0),
     storage_layer = rollback_layer\<rparr>"

interpretation ledger: assets_pallet "ledger_api cap" "\<lambda>s. s"
  by unfold_locales
    (auto simp: ledger_api_def inj_def dest: rollback.layer_ok rollback.layer_err
      split: if_splits option.splits)

interpretation ledger_progress: assets_progress "ledger_api cap" "\<lambda>s. s" cap
  by unfold_locales (auto simp: ledger_api_def rollback_layer_def)

interpretation evm_ledger: registry_steps "evm_registrar_call (ledger_api cap)" 1 "\<lambda>s. s"
  using evm_steps [OF ledger.assets_pallet_axioms]
  by (simp add: registry_of_def [abs_def] ledger_api_def)

section \<open>Properties\<close>

text \<open>
  C12: the registrar implements the registry. In both templates a call that fails leaves the storage
  as it was, also when only its second step failed, and a call that succeeds does to the
  registry exactly what the abstract operation does: the asset is entered under an identifier that
  was free, with the manager as its owner and with its metadata, or it is marked as
  destroyed.
\<close>

theorem registrar_refines_registry:
  assumes "assets_pallet A view" and "assets_pallet B view'"
  shows "(case evm_registrar_call A c s of
        (Inl _, t) \<Rightarrow> t = s
      | (Inr _, t) \<Rightarrow> registry_spec (asset_manager_account A) c (registry_of A view s) =
          Some (registry_of A view t)) \<and>
    (case generic_registrar_call B d u of
        (Inl _, v) \<Rightarrow> v = u
      | (Inr _, v) \<Rightarrow> registry_spec (lookup_id B (asset_manager_account B)) d
          (registry_of B view' u) = Some (registry_of B view' v))"
proof -
  note evm = evm_steps [OF assms(1)] and generic = assets_pallet.generic_steps [OF assms(2)]
  show ?thesis
    using registry_steps.refused [OF evm, of c s] registry_steps.performed [OF evm, of c s]
      registry_steps.refused [OF generic, of d u] registry_steps.performed [OF generic, of d u]
    by (simp split: prod.splits sum.splits)
qed

theorem registrar_refines_registry_witness:
  "registry_spec 1 (CreateForeign (7 :: nat) 10 \<lparr>asset_name = [1], asset_symbol = [2], decimals = 6,
       is_frozen = False\<rparr> True) Map.empty =
     Some (snd (evm_registrar_call (ledger_api 4) (CreateForeign 7 10 \<lparr>asset_name = [1],
       asset_symbol = [2], decimals = 6, is_frozen = False\<rparr> True) Map.empty))"
  using registrar_refines_registry [OF ledger.assets_pallet_axioms [of 4]
      ledger.assets_pallet_axioms [of 4], where c = "CreateForeign (7 :: nat) 10 \<lparr>asset_name = [1],
        asset_symbol = [2], decimals = 6, is_frozen = False\<rparr> True" and s = Map.empty]
  by (simp add: registry_of_def [abs_def] ledger_api_def evm_create_foreign_asset_def
      rollback_layer_def dispatch_then_def)

text \<open>
  C13: the history of foreign assets. Whatever calls the registrar is given, in either template, no
  entry is removed or replaced: owner, metadata and minimum balance of an asset never change, an asset
  that is destroyed is never live again, and every asset that is added belongs to the asset manager
  and has its metadata. An identifier that was in use is never given to another asset.
\<close>

theorem registry_history:
  assumes "assets_pallet A view" and "registrar_run (evm_registrar_call A) s t"
    and "assets_pallet B view'" and "registrar_run (generic_registrar_call B) u v"
  shows "registry_le (asset_manager_account A) (registry_of A view s) (registry_of A view t) \<and>
    registry_le (lookup_id B (asset_manager_account B)) (registry_of B view' u)
      (registry_of B view' v) \<and>
    (registry_of A view s i = Some e \<longrightarrow>
       evm_create_foreign_asset A i min_balance m suff t \<noteq> (Inr (), w)) \<and>
    (registry_of B view' u j = Some f \<longrightarrow>
       generic_create_foreign_asset B j min_balance m suff v \<noteq> (Inr (), x))"
proof -
  note evm = evm_steps [OF assms(1)] and generic = assets_pallet.generic_steps [OF assms(3)]
  show ?thesis
    using registry_steps.run_le [OF evm assms(2)] registry_steps.run_le [OF generic assms(4)]
      registry_steps.never_reused [OF evm assms(2), of i e min_balance m suff "()" w]
      registry_steps.never_reused [OF generic assms(4), of j f min_balance m suff "()" x]
    by simp
qed

theorem registry_history_witness:
  "registry_le 1 [7 :: nat \<mapsto> \<lparr>entry_owner = 1, entry_sufficient = True, entry_min_balance = 10,
       entry_metadata = None, entry_live = True\<rparr>]
     [7 \<mapsto> \<lparr>entry_owner = (1 :: nat), entry_sufficient = True, entry_min_balance = 10,
       entry_metadata = None, entry_live = False\<rparr>]"
proof -
  let ?s = "[7 :: nat \<mapsto> \<lparr>entry_owner = 1 :: nat, entry_sufficient = True, entry_min_balance = 10,
       entry_metadata = None, entry_live = True\<rparr>]"
  have "evm_registrar_call (ledger_api 4) (DestroyForeign 7) ?s =
      (Inr (), ?s(7 \<mapsto> \<lparr>entry_owner = 1, entry_sufficient = True, entry_min_balance = 10,
       entry_metadata = None, entry_live = False\<rparr>))"
    by (simp add: ledger_api_def destroy_foreign_asset_def rollback_layer_def)
  then have "registrar_run (evm_registrar_call (ledger_api 4)) ?s
      (?s(7 \<mapsto> \<lparr>entry_owner = 1, entry_sufficient = True, entry_min_balance = 10,
       entry_metadata = None, entry_live = False\<rparr>))"
    by (rule registrar_run.call [OF registrar_run.start])
  from registry_history [OF ledger.assets_pallet_axioms this ledger.assets_pallet_axioms
      registrar_run.start, THEN conjunct1]
  show ?thesis
    by (simp add: registry_of_def [abs_def] ledger_api_def)
qed

end
