(* ===== verification/Unit_Tests.thy ===== *)
theory Unit_Tests
  imports Generic_Xcm Generic_Node Foreign_Assets
begin

text \<open>
  The unit tests that the sources of the two runtimes carry, run on the model. A test module is a
  list of its tests, each with its name and its outcome: the conjunction of its assertions, an
  \<open>expect\<close> being the assertion that there is a value. Tests that exist in some builds only are in
  the list of those builds. What a test takes from the SDK is an argument, as in the theories of the
  components. Tests of what other packages compute (hashes, signatures, the validation of Ethereum
  transactions) are left out.
\<close>

section \<open>Tests\<close>

type_synonym test_module = "(string \<times> bool) list"

definition all_pass :: "test_module \<Rightarrow> bool" where
  "all_pass ts \<longleftrightarrow> list_all snd ts"

lemma all_pass_simps [simp]:
  "all_pass []"
  "all_pass ((n, b) # ts) \<longleftrightarrow> b \<and> all_pass ts"
  "all_pass (ts @ us) \<longleftrightarrow> all_pass ts \<and> all_pass us"
  by (simp_all add: all_pass_def)

section \<open>configs/governance/origins.rs\<close>

text \<open>The origin type that the tests declare, with its two conversions.\<close>

datatype TestOrigin =
    TestSmallTipper
  | TestSmallSpender
  | TestTreasurer
  | TestBigTipper
  | TestMediumSpender
  | TestBigSpender
  | TestWhitelistedCaller
  | TestReferendumCanceller
  | TestReferendumKiller

fun TestOrigin_into :: "TestOrigin \<Rightarrow> TestOrigin + Origin" where
  "TestOrigin_into TestSmallTipper = Inr SmallTipper"
| "TestOrigin_into TestSmallSpender = Inr SmallSpender"
| "TestOrigin_into TestTreasurer = Inr Treasurer"
| "TestOrigin_into TestReferendumCanceller = Inr ReferendumCanceller"
| "TestOrigin_into TestReferendumKiller = Inr ReferendumKiller"
| "TestOrigin_into TestBigTipper = Inr BigTipper"
| "TestOrigin_into TestMediumSpender = Inr MediumSpender"
| "TestOrigin_into TestBigSpender = Inr BigSpender"
| "TestOrigin_into TestWhitelistedCaller = Inr WhitelistedCaller"

fun TestOrigin_from :: "Origin \<Rightarrow> TestOrigin" where
  "TestOrigin_from SmallTipper = TestSmallTipper"
| "TestOrigin_from SmallSpender = TestSmallSpender"
| "TestOrigin_from Treasurer = TestTreasurer"
| "TestOrigin_from ReferendumCanceller = TestReferendumCanceller"
| "TestOrigin_from ReferendumKiller = TestReferendumKiller"
| "TestOrigin_from BigTipper = TestBigTipper"
| "TestOrigin_from MediumSpender = TestMediumSpender"
| "TestOrigin_from BigSpender = TestBigSpender"
| "TestOrigin_from WhitelistedCaller = TestWhitelistedCaller"

definition test_conv :: "TestOrigin origin_conv" where
  "test_conv = \<lparr>into_origin = TestOrigin_into, from_origin = TestOrigin_from\<rparr>"

interpretation evm_test: origin_laws test_conv
proof
  show "into_origin test_conv (from_origin test_conv r) = Inr r" for r
    by (cases r) (simp_all add: test_conv_def)
  show "e = o0" if "into_origin test_conv o0 = Inl e" for o0 e
    using that by (cases o0) (simp_all add: test_conv_def)
qed

definition evm_spender_tests :: "features \<Rightarrow> test_module" where
  "evm_spender_tests F = (
     let try_origin = ensure_try_origin Spender test_conv in
     [(''test_small_tipper'', try_origin TestSmallTipper = Inr (250 * 3 * CENTS)),
      (''test_small_spender'', try_origin TestSmallSpender = Inr (10 * GRAND)),
      (''test_big_tipper'', try_origin TestBigTipper = Inr GRAND),
      (''test_medium_spender'', try_origin TestMediumSpender = Inr (100 * GRAND)),
      (''test_big_spender'', try_origin TestBigSpender = Inr (1000 * GRAND)),
      (''test_treasurer'', try_origin TestTreasurer = Inr (10000 * GRAND)),
      (''test_referendum_killer'', try_origin TestReferendumKiller = Inl TestReferendumKiller),
      (''test_referendum_canceller'',
         try_origin TestReferendumCanceller = Inl TestReferendumCanceller),
      (''test_whitelisted_caller'',
         try_origin TestWhitelistedCaller = Inl TestWhitelistedCaller)] @
     (if runtime_benchmarks F
      then [(''test_try_successful_origin'',
         ensure_try_successful_origin Spender test_conv = Inr TestTreasurer)]
      else []))"

definition evm_treasurer_tests :: "features \<Rightarrow> test_module" where
  "evm_treasurer_tests F =
     [(''test_treasurer_try_origin'',
         unit_try_origin test_conv Treasurer TestTreasurer = Inr () \<and>
         unit_try_origin test_conv Treasurer TestMediumSpender = Inl TestMediumSpender)] @
     (if runtime_benchmarks F
      then [(''test_treasurer_try_successful_origin'',
         unit_try_successful_origin test_conv Treasurer = Inr TestTreasurer)]
      else [])"

definition evm_referendum_canceller_tests :: "features \<Rightarrow> test_module" where
  "evm_referendum_canceller_tests F =
     [(''test_referendum_canceller_try_origin'',
         unit_try_origin test_conv ReferendumCanceller TestReferendumCanceller = Inr () \<and>
         unit_try_origin test_conv ReferendumCanceller TestMediumSpender =
           Inl TestMediumSpender)] @
     (if runtime_benchmarks F
      then [(''test_treasurer_try_successful_origin'',
         unit_try_successful_origin test_conv ReferendumCanceller =
           Inr TestReferendumCanceller)]
      else [])"

lemma evm_origin_tests_pass:
  "all_pass (evm_spender_tests F)"
  "all_pass (evm_treasurer_tests F)"
  "all_pass (evm_referendum_canceller_tests F)"
  by (simp_all add: evm_spender_tests_def evm_treasurer_tests_def
      evm_referendum_canceller_tests_def test_conv_def Spender_def ensure_try_origin_def
      ensure_try_successful_origin_def unit_try_origin_def unit_try_successful_origin_def in_step)

fun generic_TestOrigin_into :: "TestOrigin \<Rightarrow> TestOrigin + Origin" where
  "generic_TestOrigin_into TestSmallTipper = Inr SmallTipper"
| "generic_TestOrigin_into TestSmallSpender = Inr SmallSpender"
| "generic_TestOrigin_into TestTreasurer = Inr Treasurer"
| "generic_TestOrigin_into TestReferendumCanceller = Inr ReferendumCanceller"
| "generic_TestOrigin_into TestReferendumKiller = Inr ReferendumKiller"
| "generic_TestOrigin_into TestBigTipper = Inr BigTipper"
| "generic_TestOrigin_into TestMediumSpender = Inr MediumSpender"
| "generic_TestOrigin_into TestBigSpender = Inr BigSpender"
| "generic_TestOrigin_into TestWhitelistedCaller = Inr WhitelistedCaller"

fun generic_TestOrigin_from :: "Origin \<Rightarrow> TestOrigin" where
  "generic_TestOrigin_from SmallTipper = TestSmallTipper"
| "generic_TestOrigin_from SmallSpender = TestSmallSpender"
| "generic_TestOrigin_from Treasurer = TestTreasurer"
| "generic_TestOrigin_from ReferendumCanceller = TestReferendumCanceller"
| "generic_TestOrigin_from ReferendumKiller = TestReferendumKiller"
| "generic_TestOrigin_from BigTipper = TestBigTipper"
| "generic_TestOrigin_from MediumSpender = TestMediumSpender"
| "generic_TestOrigin_from BigSpender = TestBigSpender"
| "generic_TestOrigin_from WhitelistedCaller = TestWhitelistedCaller"

definition generic_test_conv :: "TestOrigin origin_conv" where
  "generic_test_conv = \<lparr>into_origin = generic_TestOrigin_into, from_origin = generic_TestOrigin_from\<rparr>"

interpretation generic_test: origin_laws generic_test_conv
proof
  show "into_origin generic_test_conv (from_origin generic_test_conv r) = Inr r" for r
    by (cases r) (simp_all add: generic_test_conv_def)
  show "e = o0" if "into_origin generic_test_conv o0 = Inl e" for o0 e
    using that by (cases o0) (simp_all add: generic_test_conv_def)
qed

definition generic_spender_tests :: "features \<Rightarrow> test_module" where
  "generic_spender_tests F = (
     let try_origin = generic_ensure_try_origin generic_Spender generic_test_conv in
     [(''test_small_tipper'', try_origin TestSmallTipper = Inr (250 * 3 * generic_CENTS)),
      (''test_small_spender'', try_origin TestSmallSpender = Inr (10 * generic_GRAND)),
      (''test_big_tipper'', try_origin TestBigTipper = Inr generic_GRAND),
      (''test_medium_spender'', try_origin TestMediumSpender = Inr (100 * generic_GRAND)),
      (''test_big_spender'', try_origin TestBigSpender = Inr (1000 * generic_GRAND)),
      (''test_treasurer'', try_origin TestTreasurer = Inr (10000 * generic_GRAND)),
      (''test_referendum_killer'', try_origin TestReferendumKiller = Inl TestReferendumKiller),
      (''test_referendum_canceller'',
         try_origin TestReferendumCanceller = Inl TestReferendumCanceller),
      (''test_whitelisted_caller'',
         try_origin TestWhitelistedCaller = Inl TestWhitelistedCaller)] @
     (if runtime_benchmarks F
      then [(''test_try_successful_origin'',
         generic_ensure_try_successful_origin generic_Spender generic_test_conv = Inr TestTreasurer)]
      else []))"

definition generic_treasurer_tests :: "features \<Rightarrow> test_module" where
  "generic_treasurer_tests F =
     [(''test_treasurer_try_origin'',
         generic_unit_try_origin generic_test_conv Treasurer TestTreasurer = Inr () \<and>
         generic_unit_try_origin generic_test_conv Treasurer TestMediumSpender = Inl TestMediumSpender)] @
     (if runtime_benchmarks F
      then [(''test_treasurer_try_successful_origin'',
         generic_unit_try_successful_origin generic_test_conv Treasurer = Inr TestTreasurer)]
      else [])"

definition generic_referendum_canceller_tests :: "features \<Rightarrow> test_module" where
  "generic_referendum_canceller_tests F =
     [(''test_referendum_canceller_try_origin'',
         generic_unit_try_origin generic_test_conv ReferendumCanceller TestReferendumCanceller = Inr () \<and>
         generic_unit_try_origin generic_test_conv ReferendumCanceller TestMediumSpender =
           Inl TestMediumSpender)] @
     (if runtime_benchmarks F
      then [(''test_treasurer_try_successful_origin'',
         generic_unit_try_successful_origin generic_test_conv ReferendumCanceller =
           Inr TestReferendumCanceller)]
      else [])"

lemma generic_origin_tests_pass:
  "all_pass (generic_spender_tests F)"
  "all_pass (generic_treasurer_tests F)"
  "all_pass (generic_referendum_canceller_tests F)"
  by (simp_all add: generic_spender_tests_def generic_treasurer_tests_def
      generic_referendum_canceller_tests_def generic_test_conv_def Spender_def ensure_try_origin_def
      ensure_try_successful_origin_def unit_try_origin_def unit_try_successful_origin_def in_step)

section \<open>configs/governance/tracks.rs\<close>

definition evm_tracks_tests ::
  "('c, 'r) caller_api \<Rightarrow> ('r \<Rightarrow> 'c) \<Rightarrow> (Origin \<Rightarrow> 'c) \<Rightarrow> 'r \<Rightarrow> 'r \<Rightarrow> 'c \<Rightarrow> test_module" where
  "evm_tracks_tests A system Origins root none CumulusXcm_Relay = (
     let track_for = track_for A in
     [(''test_track_system_origin'', track_for (system root) = Inr 0),
      (''test_track_system_origin_error'', track_for (system none) = Inl ()),
      (''test_track_custom_origin_whitelisted_caller'', track_for (Origins WhitelistedCaller) = Inr 1),
      (''test_track_custom_origin_treasurer'', track_for (Origins Treasurer) = Inr 11),
      (''test_track_custom_origin_referendum_canceller'',
         track_for (Origins ReferendumCanceller) = Inr 20),
      (''test_track_custom_origin_referendum_killer'', track_for (Origins ReferendumKiller) = Inr 21),
      (''test_track_custom_origin_small_tipper'', track_for (Origins SmallTipper) = Inr 30),
      (''test_track_custom_origin_big_tipper'', track_for (Origins BigTipper) = Inr 31),
      (''test_track_custom_origin_small_spender'', track_for (Origins SmallSpender) = Inr 32),
      (''test_track_custom_origin_medium_spender'', track_for (Origins MediumSpender) = Inr 33),
      (''test_track_custom_origin_big_spender'', track_for (Origins BigSpender) = Inr 34),
      (''test_track_error'', track_for CumulusXcm_Relay = Inl ())])"

definition generic_tracks_tests ::
  "('c, 'r) caller_api \<Rightarrow> ('r \<Rightarrow> 'c) \<Rightarrow> (Origin \<Rightarrow> 'c) \<Rightarrow> 'r \<Rightarrow> 'r \<Rightarrow> 'c \<Rightarrow> test_module" where
  "generic_tracks_tests A system Origins root none CumulusXcm_Relay = (
     let track_for = generic_track_for A in
     [(''test_track_system_origin'', track_for (system root) = Inr 0),
      (''test_track_system_origin_error'', track_for (system none) = Inl ()),
      (''test_track_custom_origin_whitelisted_caller'', track_for (Origins WhitelistedCaller) = Inr 1),
      (''test_track_custom_origin_treasurer'', track_for (Origins Treasurer) = Inr 11),
      (''test_track_custom_origin_referendum_canceller'',
         track_for (Origins ReferendumCanceller) = Inr 20),
      (''test_track_custom_origin_referendum_killer'', track_for (Origins ReferendumKiller) = Inr 21),
      (''test_track_custom_origin_small_tipper'', track_for (Origins SmallTipper) = Inr 30),
      (''test_track_custom_origin_big_tipper'', track_for (Origins BigTipper) = Inr 31),
      (''test_track_custom_origin_small_spender'', track_for (Origins SmallSpender) = Inr 32),
      (''test_track_custom_origin_medium_spender'', track_for (Origins MediumSpender) = Inr 33),
      (''test_track_custom_origin_big_spender'', track_for (Origins BigSpender) = Inr 34),
      (''test_track_error'', track_for CumulusXcm_Relay = Inl ())])"

lemma tracks_tests_pass:
  assumes "caller_laws A system Origins" and "is_Root A root" and "\<not> is_Root A none"
    and "raw_try_from A CumulusXcm_Relay = None" and "custom_try_from A CumulusXcm_Relay = None"
  shows "all_pass (evm_tracks_tests A system Origins root none CumulusXcm_Relay)"
    and "all_pass (generic_tracks_tests A system Origins root none CumulusXcm_Relay)"
  using assms(2-5)
  by (simp_all add: evm_tracks_tests_def generic_tracks_tests_def in_step
      caller_laws.track_for_system [OF assms(1)] caller_laws.track_for_custom [OF assms(1)]
      caller_laws.track_for_other [OF assms(1)])

section \<open>configs/xcm_config.rs\<close>

text \<open>\<open>Asset { id: AssetId(location), fun: Fungibility::Fungible(100) }\<close>.\<close>

abbreviation hundred :: "Location \<Rightarrow> Asset" where
  "hundred location \<equiv> \<lparr>asset_id = location, fungible = Fungible 100\<rparr>"

definition evm_is_bridged_concrete_assets_from_tests :: test_module where
  "evm_is_bridged_concrete_assets_from_tests =
     [(''is_bridged_concrete_assets_from_contains'',
         IsBridgedConcreteAssetFrom_contains AssetHubLocation (hundred (loc 2 [])) AssetHubLocation),
      (''is_bridged_concrete_assets_from_not_contains'',
         \<not> IsBridgedConcreteAssetFrom_contains AssetHubLocation (hundred (loc 1 []))
             AssetHubLocation)]"

text \<open>
  \<open>signed_origin\<close> is \<open>RuntimeOrigin::signed\<close>; \<open>H160::from_low_u64_be(n)\<close> has the number in its last bytes.
\<close>

definition evm_location_conversion_tests ::
  "xcm_api \<Rightarrow> ('o, 'c, 'r) signed_api \<Rightarrow> (bytes \<Rightarrow> 'o) \<Rightarrow> (u128 \<Rightarrow> Location option) \<Rightarrow> Location \<Rightarrow> nat \<Rightarrow>
   test_module" where
  "evm_location_conversion_tests X S signed_origin convert_back Erc20XcmBridgePalletLocation balances = (
     let convert =
       evm_CurrencyIdToLocation_convert X convert_back Erc20XcmBridgePalletLocation balances in
     [(''test_account_id_to_location_conversion'',
         (let account_id = replicate 19 0 @ [1]
          in SignedToAccountId20_try_convert S RelayNetwork (signed_origin account_id) =
               Inr (loc 0 [AccountKey20 None account_id]))),
      (''test_currency_id_to_location_self_reserve'',
         convert Evm_SelfReserve = Some (SelfReserve balances)),
      (''test_currency_id_to_location_erc20'',
         (let contract_address = replicate 18 0 @ [0x12, 0x34];
              (pushed, expected_location) =
                push_interior X Erc20XcmBridgePalletLocation (AccountKey20 None contract_address)
          in pushed = Inr () \<and> convert (Evm_Erc20 contract_address) = Some expected_location))])"

definition evm_asset_fee_filter_tests :: "xcm_api \<Rightarrow> Location \<Rightarrow> test_module" where
  "evm_asset_fee_filter_tests X Erc20XcmBridgePalletLocation = (
     let contains = evm_AssetFeesFilter_contains X Erc20XcmBridgePalletLocation in
     [(''test_asset_fee_filter_valid'', contains (loc 1 [AccountKey20 None (replicate 20 0)])),
      (''test_asset_fee_filter_invalid'', \<not> contains Erc20XcmBridgePalletLocation),
      (''test_asset_fee_filter_no_parents'',
         \<not> contains (loc 0 [AccountKey20 None (replicate 20 0)]))])"

definition evm_test_transactors_destination_relay :: test_module where
  "evm_test_transactors_destination_relay =
     [(''test_transactors_destination_relay'', Transactors_destination Relay = Location_parent)]"

definition evm_test_transactors_try_from :: test_module where
  "evm_test_transactors_try_from =
     [(''test_transactors_try_from_valid'', \<not> isl (Transactors_try_from 0)),
      (''test_transactors_try_from_invalid'', isl (Transactors_try_from 1))]"

definition evm_reserve_providers_tests :: "xcm_api \<Rightarrow> u32 \<Rightarrow> test_module" where
  "evm_reserve_providers_tests X parachain_id = (
     let relative = RelativeReserveProvider_reserve X;
         MockAbsoluteLocation = loc 1 [Parachain 1000] in
     [(''test_relative_reserve_provider_here'',
         relative (hundred (loc 0 [])) = Some Location_here),
      (''test_relative_reserve_provider_local_with_junctions'',
         relative (hundred (loc 0 [AccountId32 None (replicate 32 0)])) = Some Location_here),
      (''test_relative_reserve_provider_parachain'',
         relative (hundred (loc 0 [Parachain 1000])) = Some (loc 0 [Parachain 1000])),
      (''test_relative_reserve_provider_parent'',
         relative (hundred (loc 1 [])) = Some (loc 1 [])),
      (''test_absolute_and_relative_reserve_matches_absolute'',
         AbsoluteAndRelativeReserve_reserve X MockAbsoluteLocation
           (hundred (loc 1 [Parachain 1000])) = Some Location_here),
      (''test_absolute_and_relative_reserve_different_location'',
         AbsoluteAndRelativeReserve_reserve X MockAbsoluteLocation
           (hundred (loc 1 [Parachain 2000])) = Some (loc 1 [Parachain 2000])),
      (''test_absolute_and_relative_reserve_with_self_location'',
         AbsoluteAndRelativeReserve_reserve X (SelfLocationAbsolute parachain_id)
           (hundred (SelfLocationAbsolute parachain_id)) = Some Location_here)])"

context xcm_laws
begin

text \<open>The chain part of the locations that the tests use.\<close>

lemma chain_of_tests:
  "chain_location X (loc p []) = loc p []"
  "chain_location X (loc p [Parachain n]) = loc p [Parachain n]"
  using chain_location_unique [of "loc p []" "[]" "[]"]
    chain_location_unique [of "loc p [Parachain n]" "[Parachain n]" "[]"] by simp_all

lemma reserve_tests_pass: "all_pass (evm_reserve_providers_tests X parachain_id)"
  by (simp add: evm_reserve_providers_tests_def RelativeReserveProvider_reserve_def
      AbsoluteAndRelativeReserve_reserve_def SelfLocationAbsolute_def first_Here first_Cons
      chain_of_tests)

end

lemma evm_xcm_tests_pass:
  assumes "xcm_laws X" and "Erc20XcmBridgePalletLocation = PalletLocation erc20"
  shows "all_pass evm_is_bridged_concrete_assets_from_tests"
    and "all_pass (evm_asset_fee_filter_tests X Erc20XcmBridgePalletLocation)"
    and "all_pass evm_test_transactors_destination_relay"
    and "all_pass evm_test_transactors_try_from"
    and "all_pass (evm_reserve_providers_tests X parachain_id)"
  using xcm_laws.reserve_tests_pass [OF assms(1)]
  by (simp_all add: evm_is_bridged_concrete_assets_from_tests_def evm_asset_fee_filter_tests_def
      evm_test_transactors_destination_relay_def evm_test_transactors_try_from_def
      IsBridgedConcreteAssetFrom_contains_def evm_AssetFeesFilter_contains_def
      Transactors_try_from_def assms(2) PalletLocation_def xcm_laws.first_Cons [OF assms(1)])

lemma evm_location_tests_pass:
  assumes "xcm_laws X" and "Erc20XcmBridgePalletLocation = PalletLocation erc20"
    and "signed_laws S caller_of with_caller"
    and "\<And>account. signer S (caller_of (signed_origin account)) = Some account"
  shows "all_pass (evm_location_conversion_tests X S signed_origin convert_back
    Erc20XcmBridgePalletLocation balances)"
  by (simp add: evm_location_conversion_tests_def signed_laws.try_convert_eq [OF assms(3)]
      assms(2,4) RelayNetwork_def evm_CurrencyIdToLocation_convert_def PalletLocation_def
      xcm_laws.push_ok [OF assms(1)])

definition generic_location_conversion_tests ::
  "(u32 \<Rightarrow> Location option) \<Rightarrow> nat \<Rightarrow> test_module" where
  "generic_location_conversion_tests convert_back balances = (
     let convert = generic_AccountIdToLocation_convert in
     [(''test_account_id_to_location_conversion'',
         convert (replicate 32 1) = loc 0 [AccountId32 None (replicate 32 1)]),
      (''test_account_id_to_location_empty'',
         convert (replicate 32 0) = loc 0 [AccountId32 None (replicate 32 0)]),
      (''test_account_id_to_location_unusual_bytes'',
         convert (replicate 32 0xFF) = loc 0 [AccountId32 None (replicate 32 0xFF)]),
      (''test_currency_id_to_location_self_reserve'',
         generic_CurrencyIdToLocation_convert convert_back balances Generic_SelfReserve =
           Some (generic_SelfReserve balances)),
      (''test_currency_id_to_location_foreign_asset'',
         generic_CurrencyIdToLocation_convert convert_back balances (Generic_ForeignAsset 123) =
           None)])"

text \<open>\<open>GeneralIndex\<close> is one of the junctions that the runtimes do not name.\<close>

definition generic_asset_fee_filter_tests :: "xcm_api \<Rightarrow> nat \<Rightarrow> bytes \<Rightarrow> test_module" where
  "generic_asset_fee_filter_tests X polkadot_xcm general_index_42 = (
     let contains = generic_AssetFeesFilter_contains X polkadot_xcm in
     [(''test_asset_fee_filter_valid'', contains (loc 1 [Parachain 1000])),
      (''test_asset_fee_filter_invalid'', \<not> contains (PolkadotXcmLocation polkadot_xcm)),
      (''test_asset_fee_filter_no_parents'', \<not> contains (loc 0 [])),
      (''test_asset_fee_filter_deeply_nested_junctions'',
         contains (loc 1 [Parachain 1000, PalletInstance 5, OtherJunction general_index_42,
           AccountId32 None (replicate 32 1)])),
      (''test_asset_fee_filter_unusual_parents'', contains (loc 5 [Parachain 1000]))])"

definition generic_test_transactors_destination_relay :: test_module where
  "generic_test_transactors_destination_relay =
     [(''test_transactors_destination_relay'',
         generic_Transactors_destination Relay = Location_parent)]"

definition generic_test_transactors_try_from :: test_module where
  "generic_test_transactors_try_from =
     [(''test_transactors_try_from_valid'', generic_Transactors_try_from 0 = Inr Relay),
      (''test_transactors_try_from_invalid'', isl (generic_Transactors_try_from 1))]"

lemma generic_xcm_tests_pass:
  assumes "xcm_laws X" and "convert_back 123 = None"
  shows "all_pass (generic_location_conversion_tests convert_back balances)"
    and "all_pass (generic_asset_fee_filter_tests X polkadot_xcm general_index_42)"
    and "all_pass generic_test_transactors_destination_relay"
    and "all_pass generic_test_transactors_try_from"
  using assms(2)
  by (simp_all add: generic_location_conversion_tests_def generic_asset_fee_filter_tests_def
      generic_test_transactors_destination_relay_def generic_test_transactors_try_from_def
      generic_AccountIdToLocation_convert_def generic_CurrencyIdToLocation_convert_def in_step
      generic_AssetFeesFilter_contains_def Transactors_try_from_def PolkadotXcmLocation_def
      xcm_laws.first_Cons [OF assms(1)])

section \<open>configs/asset_config.rs\<close>

definition evm_test_asset_id_to_account :: test_module where
  "evm_test_asset_id_to_account =
     [(''test_asset_id_to_account'',
         evm_asset_id_to_account evm_FOREIGN_ASSET_PRECOMPILE_ADDRESS_PREFIX 1 =
           Inr (replicate 4 0xFF @ replicate 15 0 @ [1]))]"

text \<open>A 32-byte account is the array it is made from, so that the tests build it by copying slices.\<close>

definition generic_account_asset_id_conversion_tests :: test_module where
  "generic_account_asset_id_conversion_tests = (
     let PREFIX = generic_FOREIGN_ASSET_PRECOMPILE_ADDRESS_PREFIX; expected_asset_id = 1 in
     [(''test_account_to_asset_id_success'',
         result_bind (slice_copy (replicate 32 0) 0 28 PREFIX) (\<lambda>data.
         result_bind (slice_copy data 28 32 (to_be_bytes 4 expected_asset_id)) (\<lambda>data.
           generic_account_to_asset_id data)) = Inr (Some (PREFIX, expected_asset_id))),
      (''test_account_to_asset_id_error'',
         result_bind (slice_copy (replicate 32 0) 0 27 (take 27 PREFIX)) (\<lambda>data.
         result_bind (slice_copy data 27 28 [0]) (\<lambda>data.
         result_bind (slice_copy data 28 32 (to_be_bytes 4 expected_asset_id)) (\<lambda>data.
           generic_account_to_asset_id data))) = Inr None),
      (''test_asset_id_to_account'',
         generic_asset_id_to_account PREFIX 1 = Inr (replicate 28 255 @ [0, 0, 0, 1]))])"

text \<open>
  The version 4 locations are given by a constructor and the junctions \<open>Here\<close>; a version 3 location is
  a pair of its parents and its junctions.
\<close>

definition evm_test_asset_type_default :: "'l \<Rightarrow> test_module" where
  "evm_test_asset_type_default here =
     [(''test_asset_type_default'', (case AssetType_default here of Xcm location \<Rightarrow> location = here))]"

definition evm_test_asset_type_conversions :: "'l \<Rightarrow> 'l \<Rightarrow> test_module" where
  "evm_test_asset_type_conversions here parent =
     [(''test_asset_type_try_from_location_v4'',
         (case AssetType_from parent of Xcm location \<Rightarrow> location = parent)),
      (''test_asset_type_into_location'', AssetType_into_location (Xcm here) = Some here)]"

definition evm_test_convert_v3_to_v4 ::
  "(junction list \<Rightarrow> junction list option) \<Rightarrow> test_module" where
  "evm_test_convert_v3_to_v4 try_from =
     [(''test_convert_v3_to_v4'',
         convert_v3_to_v4 try_from loc (1, []) = Some (loc 1 []) \<and>
         convert_v3_to_v4 try_from loc (0, [Parachain 1000]) = Some (loc 0 [Parachain 1000]))]"

definition evm_test_from_multilocation_for_asset_type ::
  "(junction list \<Rightarrow> junction list option) \<Rightarrow> Location \<Rightarrow> test_module" where
  "evm_test_from_multilocation_for_asset_type try_from default_location =
     [(''test_from_multilocation_for_asset_type'',
         (case AssetType_from_v3 try_from loc default_location (1, []) of Xcm _ \<Rightarrow> True) \<and>
         (case AssetType_from_v3 try_from loc default_location (0, [Parachain 1000]) of
            Xcm location \<Rightarrow> location = loc 0 [Parachain 1000]))]"

definition generic_asset_type_tests ::
  "(Location \<Rightarrow> Location option) \<Rightarrow> junction \<Rightarrow> test_module" where
  "generic_asset_type_tests try_into OnlyChild =
     [(''test_asset_type_default'', generic_AssetType_default Location_here = Xcm (loc 0 [])),
      (''test_asset_type_from_location_v3'',
         generic_AssetType_from (loc 0 [OnlyChild]) = Xcm (loc 0 [OnlyChild])),
      (''test_asset_type_try_from_location_v4'',
         generic_AssetType_try_from try_into (loc 0 []) = Inr (Xcm (loc 0 []))),
      (''test_asset_type_into_location'',
         generic_AssetType_into_location (Xcm (loc 0 [])) = Some (loc 0 []))]"

lemma to_be_bytes_one:
  "to_be_bytes 16 (1 :: u128) = replicate 15 0 @ [1]"
  "to_be_bytes 4 (1 :: u32) = [0, 0, 0, 1]"
  by code_simp+

lemma asset_tests_pass:
  assumes "try_from [] = Some []" and "try_from [Parachain 1000] = Some [Parachain 1000]"
    and "try_into (loc 0 []) = Some (loc 0 [])"
  shows "all_pass evm_test_asset_id_to_account"
    and "all_pass (evm_test_asset_type_default here)"
    and "all_pass (evm_test_asset_type_conversions here parent)"
    and "all_pass (evm_test_convert_v3_to_v4 try_from)"
    and "all_pass (evm_test_from_multilocation_for_asset_type try_from default_location)"
    and "all_pass (generic_asset_type_tests try_into OnlyChild)"
  using assms
  by (simp_all add: evm_test_asset_id_to_account_def evm_test_asset_type_default_def
      evm_test_asset_type_conversions_def evm_test_convert_v3_to_v4_def
      evm_test_from_multilocation_for_asset_type_def generic_asset_type_tests_def
      evm_conv.to_account evm_conv.prefix_length AssetType_default_def AssetType_from_def
      AssetType_from_v3_def convert_v3_to_v4_def AssetType_try_from_def to_be_bytes_one in_step)
    (simp_all add: evm_FOREIGN_ASSET_PRECOMPILE_ADDRESS_PREFIX_def)

lemma generic_conversion_tests_pass: "all_pass generic_account_asset_id_conversion_tests"
  by code_simp

section \<open>types.rs\<close>

text \<open>
  \<open>burn\<close> is one of the calls of the balances pallet that the sources do not name; its index is an
  argument. The tests with a call of the collator selection exist without \<open>tanssi\<close> only.
\<close>

definition evm_filter_tests :: "features \<Rightarrow> nat \<Rightarrow> bytes \<Rightarrow> bytes \<Rightarrow> test_module" where
  "evm_filter_tests F burn delegate zero_hash = (
     let candidates = CollatorSelection (set_desired_candidates 10);
         burn_call = Balances (other_balances burn) in
     (if tanssi F then [] else
     [(''test_filter_any'', ProxyType_filter Any candidates),
      (''test_filter_nontransfer'',
         ProxyType_filter NonTransfer candidates \<and> \<not> ProxyType_filter NonTransfer burn_call),
      (''test_filter_cancel_proxy'',
         \<not> ProxyType_filter CancelProxy candidates \<and>
         ProxyType_filter CancelProxy (Proxy (reject_announcement delegate zero_hash))),
      (''test_filter_collator'',
         ProxyType_filter Collator candidates \<and> \<not> ProxyType_filter Collator burn_call)]) @
     [(''test_filter_default'', Any = ProxyType_default)])"

definition generic_filter_tests :: "features \<Rightarrow> nat \<Rightarrow> bytes \<Rightarrow> bytes \<Rightarrow> test_module" where
  "generic_filter_tests F burn delegate zero_hash = (
     let candidates = CollatorSelection (set_desired_candidates 10);
         burn_call = Balances (other_balances burn) in
     (if tanssi F then [] else
     [(''test_filter_any'', generic_ProxyType_filter Any candidates),
      (''test_filter_nontransfer'',
         generic_ProxyType_filter NonTransfer candidates \<and> \<not> generic_ProxyType_filter NonTransfer burn_call),
      (''test_filter_cancel_proxy'',
         \<not> generic_ProxyType_filter CancelProxy candidates \<and>
         generic_ProxyType_filter CancelProxy (Proxy (reject_announcement delegate zero_hash))),
      (''test_filter_collator'',
         generic_ProxyType_filter Collator candidates \<and> \<not> generic_ProxyType_filter Collator burn_call)]) @
     [(''test_filter_default'', Any = generic_ProxyType_default)])"

lemma filter_tests_pass:
  "all_pass (evm_filter_tests F burn delegate zero_hash)"
  "all_pass (generic_filter_tests F burn delegate zero_hash)"
  by (simp_all add: evm_filter_tests_def generic_filter_tests_def ProxyType_default_def
      Let_def in_step)

section \<open>lib.rs and configs/mod.rs\<close>

definition evm_lib_tests :: "'p perbill_api \<Rightarrow> 'w weight_api \<Rightarrow> 'v \<Rightarrow> test_module" where
  "evm_lib_tests P W RUNTIME_API_VERSIONS =
     [(''test_native_version'',
         runtime_version (native_version RUNTIME_API_VERSIONS) =
           VERSION RUNTIME_API_VERSIONS),
      (''test_weight_to_fee'',
         WeightToFee_polynomial P W \<noteq> [] \<and>
         (let coef = last (WeightToFee_polynomial P W)
          in \<not> negative coef \<and> degree coef = POLY_DEGREE))]"

definition generic_lib_tests :: "'p perbill_api \<Rightarrow> 'w weight_api \<Rightarrow> 'v \<Rightarrow> test_module" where
  "generic_lib_tests P W RUNTIME_API_VERSIONS =
     [(''test_native_version'',
         runtime_version (generic_native_version RUNTIME_API_VERSIONS) =
           generic_VERSION RUNTIME_API_VERSIONS),
      (''test_weight_to_fee'',
         generic_WeightToFee_polynomial P W \<noteq> [] \<and>
         (let coef = last (generic_WeightToFee_polynomial P W)
          in \<not> negative coef \<and> degree coef = generic_POLY_DEGREE))]"

lemma lib_tests_pass:
  "all_pass (evm_lib_tests P W RUNTIME_API_VERSIONS)"
  "all_pass (generic_lib_tests P W RUNTIME_API_VERSIONS)"
  by (simp_all add: evm_lib_tests_def generic_lib_tests_def native_version_def
      WeightToFee_polynomial_def Let_def in_step)

text \<open>The five tests on a call that is not of the Ethereum pallet.\<close>

definition evm_test_is_not_self_contained ::
  "('a, 'v, 'd, 'o, 'r, 's) ethereum_api \<Rightarrow> nat \<Rightarrow> test_module" where
  "evm_test_is_not_self_contained E burn =
     [(''test_is_not_self_contained'', \<not> is_self_contained E (Balances (other_balances burn)))]"

definition evm_test_check_not_self_contained ::
  "('a, 'v, 'd, 'o, 'r, 's) ethereum_api \<Rightarrow> nat \<Rightarrow> test_module" where
  "evm_test_check_not_self_contained E burn =
     [(''test_check_not_self_contained'',
         Option.is_none (check_self_contained E (Balances (other_balances burn))))]"

definition evm_test_validate_not_self_contained ::
  "('a, 'v, 'd, 'o, 'r, 's) ethereum_api \<Rightarrow> nat \<Rightarrow> 'a \<Rightarrow> 'd \<Rightarrow> test_module" where
  "evm_test_validate_not_self_contained E burn addr info =
     [(''test_validate_not_self_contained'',
         Option.is_none (validate_self_contained E (Balances (other_balances burn)) addr info 0))]"

definition evm_test_pre_dispatch_not_self_contained ::
  "('a, 'v, 'd, 'o, 'r, 's) ethereum_api \<Rightarrow> nat \<Rightarrow> 'a \<Rightarrow> 'd \<Rightarrow> test_module" where
  "evm_test_pre_dispatch_not_self_contained E burn addr info =
     [(''test_pre_dispatch_not_self_contained'',
         Option.is_none
           (pre_dispatch_self_contained E (Balances (other_balances burn)) addr info 0))]"

definition evm_test_apply_not_self_contained ::
  "('a, 'v, 'd, 'o, 'r, 's) ethereum_api \<Rightarrow> nat \<Rightarrow> 'a \<Rightarrow> 's \<Rightarrow> test_module" where
  "evm_test_apply_not_self_contained E burn addr s =
     [(''test_apply_not_self_contained'',
         Option.is_none (fst (apply_self_contained E (Balances (other_balances burn)) addr s)))]"

text \<open>\<open>function_of\<close> is the call of an extrinsic, \<open>extrinsic.0.function\<close>.\<close>

definition evm_test_convert_transaction ::
  "(runtime_call \<Rightarrow> 'x) \<Rightarrow> ('x \<Rightarrow> runtime_call) \<Rightarrow> bytes \<Rightarrow> test_module" where
  "evm_test_convert_transaction new_bare function_of transaction =
     [(''test_convert_transaction'',
         (case function_of (convert_transaction new_bare transaction) of
            Ethereum _ \<Rightarrow> True | _ \<Rightarrow> False))]"

lemma ethereum_tests_pass:
  assumes "\<And>c. function_of (new_bare c) = c"
  shows "all_pass (evm_test_is_not_self_contained E burn)"
    and "all_pass (evm_test_check_not_self_contained E burn)"
    and "all_pass (evm_test_validate_not_self_contained E burn addr info)"
    and "all_pass (evm_test_pre_dispatch_not_self_contained E burn addr info)"
    and "all_pass (evm_test_apply_not_self_contained E burn addr s)"
    and "all_pass (evm_test_convert_transaction new_bare function_of transaction)"
  by (simp_all add: evm_test_is_not_self_contained_def evm_test_check_not_self_contained_def
      evm_test_validate_not_self_contained_def evm_test_pre_dispatch_not_self_contained_def
      evm_test_apply_not_self_contained_def evm_test_convert_transaction_def assms
      is_self_contained_def check_self_contained_def validate_self_contained_def
      pre_dispatch_self_contained_def apply_self_contained_def convert_transaction_def)

section \<open>genesis_config_presets.rs\<close>

text \<open>
  The tests read the genesis state through JSON; in the model they read the fields of the
  record, and they compare accounts where the source compares the JSON of accounts. The panic of a
  derivation makes a test fail.
\<close>

definition test_of_result :: "rust_panic + 'g \<Rightarrow> ('g \<Rightarrow> bool) \<Rightarrow> bool" where
  "test_of_result r check = (case r of Inl _ \<Rightarrow> False | Inr v \<Rightarrow> check v)"

lemma test_of_result_simps [simp]:
  "test_of_result (Inl p) check = False"
  "test_of_result (Inr v) check = check v"
  by (simp_all add: test_of_result_def)

definition evm_shape_test :: "features \<Rightarrow> ('e, 'k) keys_api \<Rightarrow> test_module" where
  "evm_shape_test F K =
     [(''local_testnet_genesis_shape_and_contents'',
         test_of_result (evm_local_testnet_genesis F K) (\<lambda>v.
           g_parachain_id v = PARACHAIN_ID \<and>
           g_safe_xcm_version v = XCM_VERSION K \<and>
           test_of_result (get_account_id_from_seed K (ecdsa_from_string K) ''Alice'')
             (\<lambda>expected_alice.
           test_of_result (get_account_id_from_seed K (ecdsa_from_string K) ''Bob'')
             (\<lambda>expected_bob.
             case (g_collator_selection v, g_session_keys v) of
               (Some (invuls, bond), Some sess) \<Rightarrow>
                 length invuls = 2 \<and> invuls ! 0 = expected_alice \<and> invuls ! 1 = expected_bob \<and>
                 bond = unat (evm_EXISTENTIAL_DEPOSIT F * 16) \<and>
                 length sess = length invuls \<and>
                 list_all (\<lambda>(acc, validator, aura). acc = validator) sess
             | _ \<Rightarrow> False)) \<and>
           g_sudo_key v = evm_dev_account 0xf24FF3a9CF04c71Dbc94D0b566f7A27B94566cac \<and>
           (let expected_endowed = map evm_dev_account
                  [0xf24FF3a9CF04c71Dbc94D0b566f7A27B94566cac,
                   0x3Cd0A705a2DC65e5b1E1205896BaA2be8A07c6e0,
                   0x798d4Ba9baf0064Ec19eB4F0a1a45785ae9D6DFc,
                   0x773539d4Ac0e786233D90A233654ccEE26a613D9,
                   0xFf64d3F6efE2317EE2807d223a0Bdc4c0c49dfDB]
            in length (g_balances v) = length expected_endowed \<and>
               set (map fst (g_balances v)) = set expected_endowed)))]"

definition generic_shape_test :: "features \<Rightarrow> ('e, 'k) keys_api \<Rightarrow> test_module" where
  "generic_shape_test F K =
     [(''local_testnet_genesis_shape_is_reasonable'',
         test_of_result (generic_local_testnet_genesis F K) (\<lambda>v.
           g_parachain_id v = PARACHAIN_ID \<and>
           g_safe_xcm_version v = XCM_VERSION K \<and>
           length (g_balances v) = length (map (keyring_account K) (well_known K)) \<and>
           g_sudo_key v = keyring_account K ''Alice'' \<and>
           (case (g_collator_selection v, g_session_keys v) of
              (Some (invuls, bond), Some sess) \<Rightarrow>
                length invuls = 2 \<and>
                invuls ! 0 = keyring_account K ''Alice'' \<and> invuls ! 1 = keyring_account K ''Bob'' \<and>
                bond = unat (generic_EXISTENTIAL_DEPOSIT * 16) \<and>
                length sess = length invuls \<and>
                list_all (\<lambda>(acc, validator, aura). acc = validator) sess
            | _ \<Rightarrow> False)))]"

text \<open>\<open>from_slice\<close> is the JSON parser of the tests, \<open>to_string\<close> the printer of \<open>get_preset\<close>.\<close>

definition evm_development_test :: "features \<Rightarrow> ('e, 'k) keys_api \<Rightarrow> test_module" where
  "evm_development_test F K =
     [(''development_genesis_mirrors_local_testnet'',
         test_of_result (evm_development_config_genesis F K) (\<lambda>dev.
         test_of_result (evm_local_testnet_genesis F K) (\<lambda>local. dev = local)))]"

definition evm_preset_tests ::
  "features \<Rightarrow> ('e, 'k) keys_api \<Rightarrow> string \<Rightarrow> string \<Rightarrow> ('k genesis_config \<Rightarrow> bytes) \<Rightarrow>
   (bytes \<Rightarrow> 'k genesis_config option) \<Rightarrow> test_module" where
  "evm_preset_tests F K LOCAL_TESTNET DEV to_string from_slice = (
     let preset = get_preset LOCAL_TESTNET DEV to_string (evm_local_testnet_genesis F K)
           (evm_development_config_genesis F K) in
     [(''get_preset_roundtrips_known_ids'',
         test_of_result (evm_local_testnet_genesis F K) (\<lambda>from_fn.
           test_of_result (preset LOCAL_TESTNET) (\<lambda>p.
             Option.bind p from_slice = Some from_fn)) \<and>
         test_of_result (evm_development_config_genesis F K) (\<lambda>from_fn.
           test_of_result (preset DEV) (\<lambda>p. Option.bind p from_slice = Some from_fn))),
      (''preset_names_lists_supported'',
         DEV \<in> set (preset_names LOCAL_TESTNET DEV) \<and>
         LOCAL_TESTNET \<in> set (preset_names LOCAL_TESTNET DEV))])"

definition generic_development_test :: "features \<Rightarrow> ('e, 'k) keys_api \<Rightarrow> test_module" where
  "generic_development_test F K =
     [(''development_genesis_mirrors_local_testnet'',
         test_of_result (generic_development_config_genesis F K) (\<lambda>dev.
         test_of_result (generic_local_testnet_genesis F K) (\<lambda>local. dev = local)))]"

definition generic_preset_tests ::
  "features \<Rightarrow> ('e, 'k) keys_api \<Rightarrow> string \<Rightarrow> string \<Rightarrow> ('k genesis_config \<Rightarrow> bytes) \<Rightarrow>
   (bytes \<Rightarrow> 'k genesis_config option) \<Rightarrow> test_module" where
  "generic_preset_tests F K LOCAL_TESTNET DEV to_string from_slice = (
     let preset = generic_get_preset LOCAL_TESTNET DEV to_string (generic_local_testnet_genesis F K)
           (generic_development_config_genesis F K) in
     [(''get_preset_roundtrips_known_ids'',
         test_of_result (generic_local_testnet_genesis F K) (\<lambda>from_fn.
           test_of_result (preset LOCAL_TESTNET) (\<lambda>p.
             Option.bind p from_slice = Some from_fn)) \<and>
         test_of_result (generic_development_config_genesis F K) (\<lambda>from_fn.
           test_of_result (preset DEV) (\<lambda>p. Option.bind p from_slice = Some from_fn))),
      (''preset_names_lists_supported'',
         DEV \<in> set (generic_preset_names LOCAL_TESTNET DEV) \<and>
         LOCAL_TESTNET \<in> set (generic_preset_names LOCAL_TESTNET DEV))])"

definition evm_invulnerables_test :: "features \<Rightarrow> ('e, 'k) keys_api \<Rightarrow> test_module" where
  "evm_invulnerables_test F K =
     [(''invulnerables_match_ecdsa_seed_derivation'',
         test_of_result (evm_local_testnet_genesis F K) (\<lambda>v.
         test_of_result (get_account_id_from_seed K (ecdsa_from_string K) ''Alice'') (\<lambda>alice.
         test_of_result (get_account_id_from_seed K (ecdsa_from_string K) ''Bob'') (\<lambda>bob.
           case g_collator_selection v of
             Some (invuls, _) \<Rightarrow> invuls ! 0 = alice \<and> invuls ! 1 = bob
           | None \<Rightarrow> False))))]"

lemma evm_preset_tests_pass:
  assumes "ecdsa_from_string K ''//Alice'' = Some alice" and "ecdsa_from_string K ''//Bob'' = Some bob"
    and "aura_from_string K ''//Alice'' = Some alice_aura"
    and "aura_from_string K ''//Bob'' = Some bob_aura"
    and "\<And>g. evm_local_testnet_genesis F K = Inr g \<Longrightarrow> from_slice (to_string g) = Some g"
  shows "all_pass (evm_shape_test F K)"
    and "all_pass (evm_development_test F K)"
    and "all_pass (evm_preset_tests F K LOCAL_TESTNET DEV to_string from_slice)"
    and "all_pass (evm_invulnerables_test F K)"
  using assms
  by (simp_all add: evm_shape_test_def evm_development_test_def evm_preset_tests_def
      evm_invulnerables_test_def evm_local_testnet_genesis_def evm_development_config_genesis_def
      evm_collators_def get_account_id_from_seed_def get_collator_keys_from_seed_def
      get_from_seed_def evm_preset_testnet_genesis_def evm_endowed_accounts_def evm_root_def
      get_preset_def preset_names_def)

lemma generic_preset_tests_pass:
  assumes "\<And>g. generic_local_testnet_genesis F K = Inr g \<Longrightarrow> from_slice (to_string g) = Some g"
  shows "\<not> tanssi F \<Longrightarrow> all_pass (generic_shape_test F K)"
    and "all_pass (generic_development_test F K)"
    and "all_pass (generic_preset_tests F K LOCAL_TESTNET DEV to_string from_slice)"
  using assms
  by (simp_all add: generic_shape_test_def generic_development_test_def generic_preset_tests_def
      generic_local_testnet_genesis_def generic_development_config_genesis_def
      preset_testnet_genesis_def get_preset_def preset_names_def in_step)

text \<open>
  The test of the generic runtime's preset is compiled in every build, but it fails with \<open>tanssi\<close>,
  where the preset has no collators.
\<close>

theorem generic_shape_test_iff: "all_pass (generic_shape_test F K) \<longleftrightarrow> \<not> tanssi F"
  by (auto simp: generic_shape_test_def generic_local_testnet_genesis_def
      preset_testnet_genesis_def)

section \<open>Tests on the storage of pallets\<close>

text \<open>
  The registrar on the storage \<open>s\<close> of an empty chain; the result of the preparing \<open>force_create\<close> is
  dropped.
\<close>

definition test_metadata :: AssetRegistrarMetadata where
  "test_metadata = \<lparr>asset_name = [0, 1, 2, 3], asset_symbol = [4, 5, 6, 7], decimals = 6,
     is_frozen = False\<rparr>"

definition evm_asset_registrar_tests ::
  "('s, 'e, 'o, u128, 'p, 'a, 'a, 'w) assets_api \<Rightarrow> 's \<Rightarrow> test_module" where
  "evm_asset_registrar_tests A s =
     [(''test_destroy_foreign_asset'',
         (let s = snd (force_create A (root_origin A) (id_parameter A 1) (asset_manager_account A)
                True 1 s)
          in \<not> isl (fst (destroy_foreign_asset A 1 s)))),
      (''test_create_foreign_asset'',
         \<not> isl (fst (evm_create_foreign_asset A 1 1 test_metadata False s)))]"

definition generic_asset_registrar_tests ::
  "('s, 'e, 'o, u32, 'p, 'a, 'k, 'w) assets_api \<Rightarrow> 's \<Rightarrow> test_module" where
  "generic_asset_registrar_tests A s =
     [(''test_destroy_foreign_asset'',
         (let s = snd (force_create A (root_origin A) (id_parameter A 1)
                (lookup_id A (asset_manager_account A)) True 1 s)
          in \<not> isl (fst (generic_destroy_foreign_asset A 1 s)))),
      (''test_create_foreign_asset'',
         \<not> isl (fst (generic_create_foreign_asset A 1 1 test_metadata False s)))]"

lemma registrar_tests_pass:
  assumes "assets_progress A view limit" and "4 \<le> limit" and "\<And>p. view s p = None"
    and "assets_progress B view' limit'" and "4 \<le> limit'" and "\<And>p. view' t p = None"
  shows "all_pass (evm_asset_registrar_tests A s)"
    and "all_pass (generic_asset_registrar_tests B t)"
proof -
  obtain u where u: "force_create A (root_origin A) (id_parameter A 1) (asset_manager_account A)
      True 1 s = (Inr (), u)" "view u (id_parameter A 1) \<noteq> None"
    using assets_progress.create_free [OF assms(1), of s "id_parameter A 1" 1] assms(3) by fastforce
  show "all_pass (evm_asset_registrar_tests A s)"
    using assets_progress.destroy_succeeds [OF assms(1) u(2)]
      evm_create_succeeds [OF assms(1), of s 1 1 test_metadata False] assms(2,3)
    by (auto simp: evm_asset_registrar_tests_def u(1) test_metadata_def)
  obtain v where v: "force_create B (root_origin B) (id_parameter B 1)
      (lookup_id B (asset_manager_account B)) True 1 t = (Inr (), v)"
    "view' v (id_parameter B 1) \<noteq> None"
    using assets_progress.create_free [OF assms(4), of t "id_parameter B 1" 1] assms(6) by fastforce
  show "all_pass (generic_asset_registrar_tests B t)"
    using assets_progress.destroy_succeeds [OF assms(4) v(2)]
      assets_progress.create_succeeds [OF assms(4), of t 1 1 test_metadata False] assms(5,6)
    by (auto simp: generic_asset_registrar_tests_def v(1) test_metadata_def in_step)
qed

text \<open>
  \<open>from_32\<close> is \<open>AccountId20::from([u8; 32])\<close>, which keeps the first 20 bytes.
\<close>

definition evm_account_to_asset_id_tests :: "(bytes \<Rightarrow> bytes) \<Rightarrow> test_module" where
  "evm_account_to_asset_id_tests from_32 = (
     let PREFIX = evm_FOREIGN_ASSET_PRECOMPILE_ADDRESS_PREFIX; expected_asset_id = 1 in
     [(''test_account_to_asset_id_success'',
         result_bind (slice_copy (replicate 32 0) 0 4 PREFIX) (\<lambda>data.
         result_bind (slice_copy data 4 20 (to_be_bytes 16 expected_asset_id)) (\<lambda>data.
           evm_account_to_asset_id (from_32 data))) = Inr (Some (PREFIX, expected_asset_id))),
      (''test_account_to_asset_id_error'',
         result_bind (slice_copy (replicate 32 0) 0 3 (take 3 PREFIX)) (\<lambda>data.
         result_bind (slice_copy data 3 4 [0]) (\<lambda>data.
         result_bind (slice_copy data 4 20 (to_be_bytes 16 expected_asset_id)) (\<lambda>data.
           evm_account_to_asset_id (from_32 data)))) = Inr None)])"

lemma evm_account_tests_pass: "all_pass (evm_account_to_asset_id_tests (take 20))"
  by code_simp

definition evm_test_asset_type_from_location_v3 ::
  "(junction list \<Rightarrow> junction list option) \<Rightarrow> Location \<Rightarrow> test_module" where
  "evm_test_asset_type_from_location_v3 try_from default_location =
     [(''test_asset_type_from_location_v3'',
         (case AssetType_from_v3 try_from loc default_location (1, []) of Xcm _ \<Rightarrow> True))]"

text \<open>
  The credit of a fee: \<open>issue\<close> makes a credit of an asset, \<open>resolve\<close> pays it out to an account. \<open>s\<close> is
  the storage in which the test has set the author and created the asset.
\<close>

definition evm_test_handle_credit_works ::
  "(u128 \<Rightarrow> nat \<Rightarrow> 's \<Rightarrow> 'c \<times> 's) \<Rightarrow> (bytes \<Rightarrow> 'c \<Rightarrow> 's \<Rightarrow> ('c + unit) \<times> 's) \<Rightarrow> ('c \<Rightarrow> 's \<Rightarrow> 's) \<Rightarrow>
   ('s \<Rightarrow> u128 \<Rightarrow> bytes \<Rightarrow> nat) \<Rightarrow> ('s \<Rightarrow> bytes option) \<Rightarrow> bytes \<Rightarrow> 's \<Rightarrow> test_module" where
  "evm_test_handle_credit_works issue resolve drop_credit balance block_author author s =
     [(''handle_credit_works_when_author_exists'',
         (let ASSET_ID = 1; AMOUNT = 100; (credit, s) = issue ASSET_ID AMOUNT s;
              s = AssetsToBlockAuthor_handle_credit (block_author s) resolve drop_credit credit s
          in balance s ASSET_ID author = AMOUNT))]"

lemma handle_credit_test_passes:
  assumes "\<And>i n s c t. issue i n s = (c, t) \<Longrightarrow> block_author t = block_author s"
    and "\<And>i n s c t a. issue i n s = (c, t) \<Longrightarrow> exists_asset s i \<Longrightarrow> 0 < n \<Longrightarrow>
      \<exists>u. resolve a c t = (Inr (), u) \<and> balance u i a = balance s i a + n"
    and "block_author s = Some author" and "exists_asset s 1" and "balance s 1 author = 0"
  shows "all_pass (evm_test_handle_credit_works issue resolve drop_credit balance block_author author s)"
proof (cases "issue 1 100 s")
  case (Pair c t)
  then obtain u where "resolve author c t = (Inr (), u)" and "balance u 1 author = 100"
    using assms(2) [of 1 100 s c t author] assms(4,5) by auto
  then show ?thesis
    using assms(1) [OF Pair] assms(3)
    by (simp add: evm_test_handle_credit_works_def AssetsToBlockAuthor_handle_credit_def Pair)
qed

text \<open>The hypotheses hold on a ledger of balances, with a credit as its asset and its amount.\<close>

lemma handle_credit_test_on_ledger:
  "all_pass (evm_test_handle_credit_works (\<lambda>i n s. ((i, n), s))
     (\<lambda>a (i, n) s. (Inr (), s(i := (s i)(a := s i a + n)))) (\<lambda>_ s. s) (\<lambda>s i a. s i a)
     (\<lambda>_. Some author) author (\<lambda>_ _. 0))"
  by (rule handle_credit_test_passes [where exists_asset = "\<lambda>_ _. True"]) auto

definition evm_test_is_self_contained_ethereum ::
  "('a, 'v, 'd, 'o, 'r, 's) ethereum_api \<Rightarrow> bytes \<Rightarrow> test_module" where
  "evm_test_is_self_contained_ethereum E transaction =
     [(''test_is_self_contained_ethereum'', is_self_contained E (Ethereum (transact transaction)))]"

definition evm_test_convert_transaction_to_opaque ::
  "(runtime_call \<Rightarrow> 'x) \<Rightarrow> ('x \<Rightarrow> bytes) \<Rightarrow> (bytes \<Rightarrow> 'y option) \<Rightarrow> bytes \<Rightarrow> test_module" where
  "evm_test_convert_transaction_to_opaque new_bare encode decode transaction =
     [(''test_convert_transaction_to_opaque'',
         \<not> isl (opaque_convert_transaction new_bare encode decode transaction))]"

lemma transaction_tests_pass:
  assumes "\<And>t. eth_is_self_contained E (transact t)" and "\<And>x. decode (encode x) \<noteq> None"
  shows "all_pass (evm_test_is_self_contained_ethereum E transaction)"
    and "all_pass (evm_test_convert_transaction_to_opaque new_bare encode decode transaction)"
    and "all_pass (evm_test_asset_type_from_location_v3 try_from default_location)"
  using assms
  by (auto simp: evm_test_is_self_contained_ethereum_def evm_test_convert_transaction_to_opaque_def
      evm_test_asset_type_from_location_v3_def AssetType_from_v3_def is_self_contained_def
      opaque_convert_transaction_def Let_def split: option.split)

section \<open>The suites\<close>

text \<open>
  The unit tests of the runtimes pass on the model. The tests of the governance origins and
  tracks, of the XCM and asset configuration, of the proxy filter, of fees and versions, of calls
  that are not Ethereum transactions and of the genesis presets hold in the builds without
  \<open>tanssi\<close>, for every SDK that keeps to its documentation: a root origin is recognised, a signed
  origin has its signer, junctions of the earlier XCM versions convert, the development seeds
  derive, and the JSON of a preset is read as it was written.
\<close>

theorem unit_tests_pass:
  assumes "\<not> tanssi F"
    and "caller_laws A system Origins" and "is_Root A root" and "\<not> is_Root A none"
    and "raw_try_from A CumulusXcm_Relay = None" and "custom_try_from A CumulusXcm_Relay = None"
    and "xcm_laws X" and "Erc20XcmBridgePalletLocation = PalletLocation erc20"
    and "signed_laws S caller_of with_caller"
    and "\<And>account. signer S (caller_of (signed_origin account)) = Some account"
    and "try_from [] = Some []" and "try_from [Parachain 1000] = Some [Parachain 1000]"
    and "try_into (loc 0 []) = Some (loc 0 [])"
    and "\<And>c. function_of (new_bare c) = c" and "generic_convert_back 123 = None"
    and "ecdsa_from_string K ''//Alice'' = Some alice" and "ecdsa_from_string K ''//Bob'' = Some bob"
    and "aura_from_string K ''//Alice'' = Some alice_aura"
    and "aura_from_string K ''//Bob'' = Some bob_aura"
    and "\<And>g. evm_local_testnet_genesis F K = Inr g \<Longrightarrow> from_slice (to_string g) = Some g"
    and "\<And>g. generic_local_testnet_genesis F K = Inr g \<Longrightarrow> generic_from_slice (to_string g) = Some g"
  shows "all_pass (concat [
      evm_spender_tests F, evm_treasurer_tests F, evm_referendum_canceller_tests F,
      evm_tracks_tests A system Origins root none CumulusXcm_Relay,
      evm_is_bridged_concrete_assets_from_tests,
      evm_location_conversion_tests X S signed_origin convert_back Erc20XcmBridgePalletLocation
        balances,
      evm_asset_fee_filter_tests X Erc20XcmBridgePalletLocation,
      evm_test_transactors_destination_relay, evm_test_transactors_try_from,
      evm_reserve_providers_tests X parachain_id, evm_test_asset_id_to_account,
      evm_test_asset_type_default here, evm_test_asset_type_conversions here parent,
      evm_test_convert_v3_to_v4 try_from,
      evm_test_from_multilocation_for_asset_type try_from default_location,
      evm_filter_tests F burn delegate zero_hash, evm_lib_tests P W RUNTIME_API_VERSIONS,
      evm_test_is_not_self_contained E burn, evm_test_check_not_self_contained E burn,
      evm_test_validate_not_self_contained E burn addr info,
      evm_test_pre_dispatch_not_self_contained E burn addr info,
      evm_test_apply_not_self_contained E burn addr s,
      evm_test_convert_transaction new_bare function_of transaction,
      evm_shape_test F K, evm_development_test F K, evm_invulnerables_test F K,
      evm_preset_tests F K LOCAL_TESTNET DEV to_string from_slice]) \<and>
    all_pass (concat [
      generic_spender_tests F, generic_treasurer_tests F, generic_referendum_canceller_tests F,
      generic_tracks_tests A system Origins root none CumulusXcm_Relay,
      generic_location_conversion_tests generic_convert_back balances,
      generic_asset_fee_filter_tests X polkadot_xcm general_index_42,
      generic_test_transactors_destination_relay, generic_test_transactors_try_from,
      generic_account_asset_id_conversion_tests, generic_asset_type_tests try_into OnlyChild,
      generic_filter_tests F burn delegate zero_hash, generic_lib_tests P W RUNTIME_API_VERSIONS,
      generic_shape_test F K, generic_development_test F K,
      generic_preset_tests F K LOCAL_TESTNET DEV to_string generic_from_slice])"
  unfolding concat.simps all_pass_simps
  by (intro conjI evm_origin_tests_pass generic_origin_tests_pass all_pass_simps(1)
      tracks_tests_pass [OF assms(2-6)] evm_xcm_tests_pass [OF assms(7,8)]
      evm_location_tests_pass [OF assms(7-10)] 
      generic_xcm_tests_pass [where convert_back = generic_convert_back, OF assms(7,15)]
      asset_tests_pass [where try_from = try_from and try_into = try_into, OF assms(11-13)]
      generic_conversion_tests_pass filter_tests_pass lib_tests_pass
      ethereum_tests_pass [where function_of = function_of and new_bare = new_bare, OF assms(14)]
      evm_preset_tests_pass
        [where from_slice = from_slice and to_string = to_string, OF assms(16-20)]
      generic_preset_tests_pass
        [where from_slice = generic_from_slice and to_string = to_string, OF assms(21)] assms(1))

theorem unit_tests_pass_witness:
  "all_pass (evm_tracks_tests
     (runtime_caller_api :: ((unit raw_origin, unit) runtime_caller, unit raw_origin) caller_api)
     SystemCaller CustomCaller RawRoot RawNone (OtherCaller ())) \<and>
   all_pass (evm_shape_test default_features demo_keys) \<and>
   all_pass (generic_shape_test default_features demo_keys)"
proof -
  let ?api = "runtime_caller_api ::
    ((unit raw_origin, unit) runtime_caller, unit raw_origin) caller_api"
  let ?signed = "\<lambda>account. (Inl (DemoSigned account), 0) :: (demo_raw + nat) \<times> nat"
  have callers: "is_Root ?api RawRoot" "\<not> is_Root ?api RawNone"
    "raw_try_from ?api (OtherCaller ()) = None" "custom_try_from ?api (OtherCaller ()) = None"
    by (simp_all add: runtime_caller_api_def)
  have signed: "signer demo_signed_api (fst (?signed account)) = Some account" for account
    by (simp add: signer_def demo_signed_api_def)
  have keys: "ecdsa_from_string demo_keys seed = Some seed" "aura_from_string demo_keys seed = Some seed"
    for seed
    by (simp_all add: demo_keys_def)
  have "\<not> tanssi default_features"
    by (simp add: default_features_def)
  note pass = unit_tests_pass [OF this rtc.caller_laws_axioms callers xl.xcm_laws_axioms refl
      demo.signed_laws_axioms signed, where try_from = Some and try_into = Some
      and function_of = "\<lambda>c. c" and new_bare = "\<lambda>c. c" and generic_convert_back = "\<lambda>_. None"
      and K = demo_keys and to_string = "\<lambda>_. []"
      and from_slice = "\<lambda>_. case evm_local_testnet_genesis default_features demo_keys of
        Inr g \<Rightarrow> Some g | Inl _ \<Rightarrow> None"
      and generic_from_slice = "\<lambda>_. case generic_local_testnet_genesis default_features demo_keys of
        Inr g \<Rightarrow> Some g | Inl _ \<Rightarrow> None"]
  show ?thesis
    using pass [OF refl refl refl refl refl keys(1) keys(1) keys(2) keys(2)]
    unfolding concat.simps all_pass_simps by force
qed

end
