(* ===== verification/Spec2Isabelle.thy ===== *)
theory Spec2Isabelle
  imports Runtime_Weights Node_Rpc Contract_Abi Transaction_Pipeline Generic_Fuzzer Node_Run Unit_Tests
begin

text \<open>
  A verification library for the Polkadot runtime templates: two parachain templates, one with
  20-byte accounts and an Ethereum virtual machine (\<open>src/evm-template\<close>) and one with 32-byte
  accounts (\<open>src/generic-template\<close>). Each has a runtime, a node and a fuzzer of the runtime.

  \<^bold>\<open>The program and its parts.\<close> A runtime is assembled from the pallets of the Polkadot SDK
  and of other packages; the repository's own code is what configures and joins them: the
  constants and the weights of calls, the governance tracks and origins, the identity of
  foreign assets, the XCM configuration, the proxy types, the fee polynomial, the treatment of
  Ethereum transactions, the precompile set and the genesis states. The node builds chain
  specifications from these and from contract files, selects one by the command line and starts the
  services of a full node or a collator; the fuzzer plays generated calls through
  blocks of the runtime and checks the ledger at the end. Much of the text is the same in both
  templates, as separate copies. The definitions of the components are those of the EVM template
  where they have no prefix; the copies in the generic template are translated on their own, with the
  prefix \<open>generic_\<close>, and proved equal (\<open>Generic_*\<close> below). Where the templates differ there is one
  definition each, with the prefix \<open>evm_\<close> or \<open>generic_\<close>. Data types are shared.

  \<^bold>\<open>Code of other packages.\<close> What belongs to the SDK, to the XCM library or to other packages
  is a parameter: a record with one field for each function that the source calls
  (\<open>weight_api\<close>, \<open>perbill_api\<close>, \<open>referenda_api\<close>, \<open>caller_api\<close>, \<open>xcm_api\<close>, \<open>filter_api\<close>, \<open>assets_api\<close>,
  \<open>signed_api\<close>, \<open>ethereum_api\<close>, \<open>precompile_impls\<close>, \<open>executive_api\<close>, \<open>contracts_api\<close>, \<open>keys_api\<close>,
  \<open>service_api\<close>, \<open>command_api\<close>, \<open>rpc_api\<close>, \<open>tanssi_api\<close>, \<open>account_converters\<close>,
  \<open>asset_matchers\<close>, \<open>fee_components\<close>, \<open>router_components\<close>, \<open>origin_converters\<close>,
  \<open>barrier_components\<close>, \<open>ensure_api\<close>, \<open>registry_api\<close>, \<open>pay_api\<close>). What
  the code relies on is a locale over that record (\<open>weight_laws\<close>, \<open>perbill_laws\<close>, \<open>perbill_product\<close>, \<open>caller_laws\<close>,
  \<open>xcm_laws\<close>, \<open>reserve_filters\<close>, \<open>storage_layer_laws\<close>, \<open>hash_256\<close>, \<open>signed_laws\<close>, \<open>deposit_ledger\<close>,
  \<open>h160_laws\<close>, \<open>origin_laws\<close>, \<open>runner_laws\<close>, \<open>rpc_laws\<close>,
  \<open>account_laws\<close>, \<open>matcher_laws\<close>, \<open>fee_laws\<close>, \<open>router_laws\<close>, \<open>dispatch_origin_laws\<close>,
  \<open>barrier_laws\<close>, \<open>ensure_laws\<close>, \<open>registry_laws\<close>, \<open>abi_laws\<close>,
  \<open>assets_pallet\<close>, \<open>assets_progress\<close>), whose
  assumptions are the documented behaviour of those functions. Every locale is interpreted on an executable instance, which the witnesses of the properties use.
  Two locales are interfaces inside the program: \<open>account_asset_conversion\<close> of \<open>Asset_Config\<close>, whose
  interpretations are the account conversions of the two runtimes, and \<open>registry_steps\<close> of
  \<open>Foreign_Assets\<close>, which the registrars of the two runtimes provide on every assets pallet that keeps
  its laws.

  \<^bold>\<open>The theories.\<close>
  \<^item> \<open>Prelude\<close>: machine integers, \<open>Result\<close> as a sum, panics as values, slices, big- and
    little-endian readings, saturating \<open>u64\<close> arithmetic, and the cargo features, which select code
    and are an argument of the definitions that depend on them.
  \<^item> \<open>Frame_Weight\<close>: the interface of weights, and the calculus of bounds (\<open>within_weight\<close>) and
    monotonicity (\<open>weight_le\<close>) that carries the proofs about the weight functions.
  \<^item> \<open>Runtime_Constants\<close>: \<open>constants.rs\<close>, block and extrinsic weights, database weights.
    The block-count constants are wall-clock times, deposits do not wrap, and the gas of a
    block is computed.
  \<^item> \<open>Evm_Weights_*\<close>, \<open>Generic_Weights_*\<close>: one definition for each function of the files of
    \<open>runtime/src/weights/\<close>, grouped as the pallets are, with a registry for each group that lists
    the functions with the ranges their components were benchmarked over.
  \<^item> \<open>Runtime_Weights\<close>: the registries of the two runtimes. All but four functions fit, in
    both dimensions, what a normal extrinsic may use of a block (\<open>normal_extrinsic_fits\<close>, which states
    what the comments in \<open>constants.rs\<close> say); for the four, the part of the range that fits is exact.
  \<^item> \<open>Governance_Origins\<close>, \<open>Governance_Tracks\<close>: \<open>configs/governance/origins.rs\<close> and
    \<open>tracks.rs\<close>. The filters of origins are exact, the tracks and the origins correspond, and
    deposits, periods and curves are consistent.
  \<^item> \<open>Asset_Config\<close>: \<open>configs/asset_config.rs\<close>. Asset identifiers and accounts correspond,
    identifiers collide exactly when the kept bytes of the hashes agree, and the registration of
    assets is atomic.
  \<^item> \<open>Foreign_Assets\<close>: the registrar of \<open>configs/asset_config.rs\<close> over time. Its calls implement an
    abstract registry of assets, and every history of them keeps what is registered.
  \<^item> \<open>Xcm_Location\<close>, \<open>Xcm_Reserves\<close>, \<open>Xcm_Config\<close>: \<open>configs/xcm_config.rs\<close>. The reserve chosen for a
    transfer and the reserves accepted are compared case by case, fees are conserved, and the
    conversions of origins, currencies and transactors are exact.
  \<^item> \<open>Xcm_Transactors\<close>: the accounts of locations, the asset transactors, the fee manager and the
    router of \<open>configs/xcm_config.rs\<close>, composed from library types as the type aliases say. The
    ledger an asset is kept in, the account of a location and the destinations that can be
    reached are determined exactly, and with them the assets that no transactor handles.
  \<^item> \<open>Xcm_Barrier\<close>: the barrier and the conversion of message origins. What a message that passes
    looks like, that programs nested in it are not looked at, and that no message is ever dispatched
    with root privileges.
  \<^item> \<open>Runtime_Config\<close>: the configuration traits of \<open>configs/mod.rs\<close>, the parameter types of
    \<open>types.rs\<close>, and the pallet groups and API modules of \<open>lib.rs\<close> and \<open>apis.rs\<close>. Which origin holds
    which privilege in which build, the origins that act for an EVM address included, and the periods of
    governance.
  \<^item> \<open>Transaction_Pipeline\<close>: the lists of transaction extensions of \<open>types.rs\<close> and the session keys.
    How the SDK runs the extensions is not modelled.
  \<^item> \<open>Benchmark_Support\<close>: \<open>benchmark.rs\<close> and the code that exists in benchmark builds only. Every
    weight function of the registries belongs to a pallet of the benchmark list, with the
    exceptions named.
  \<^item> \<open>Runtime_Call\<close>: the calls that the sources match on, and \<open>ProxyType\<close> of \<open>types.rs\<close>.
  \<^item> \<open>Runtime_Lib\<close>: \<open>lib.rs\<close> and the code of \<open>configs/mod.rs\<close>.
  \<^item> \<open>Evm_Precompiles\<close>: \<open>precompiles.rs\<close>.
  \<^item> \<open>Fuzzer\<close>, \<open>Fuzzer_Trace\<close>: \<open>template-fuzzer/src/main.rs\<close>. The filter of calls is
    characterised by what a call carries at any depth and by the wrappers whose content it never sees;
    the loop, run on an instance of the runtime
    that records what happens, keeps to a protocol of blocks; the final checks are characterised.
  \<^item> \<open>Fuzzer_Chain\<close>: an abstract chain of blocks, as a step relation, and the refinement: every run
    of the fuzzer's loop on any runtime is a run of the abstract chain.
  \<^item> \<open>Fuzzer_Main\<close>: the decoding of inputs, the genesis state and \<open>main\<close>. Decoding ends for every
    decoder that reads at least a byte for each call; an alarm of the fuzzer is a real fault of the
    runtime; the key of sudo is one of the accounts that calls are made from.
  \<^item> \<open>Node_Contracts\<close>: \<open>node/src/contracts/\<close>, the loading of contract files.
  \<^item> \<open>Contract_Abi\<close>: \<open>node/src/contracts/abi.rs\<close>. Which contracts the declared kinds of ABI items keep
    out of the genesis state.
  \<^item> \<open>Genesis\<close>: \<open>genesis_config_presets.rs\<close> and the genesis states of \<open>node/src/chain_spec.rs\<close>.
  \<^item> \<open>Node_Service\<close>: \<open>node/src/service.rs\<close> and \<open>node/src/eth.rs\<close>. A node that starts runs
    exactly the tasks its configuration asks for.
  \<^item> \<open>Node_Faults\<close>: everything that can keep a node from starting, as a relation
    (\<open>service_fault\<close>); a start fails exactly when one of these faults is there, and reports one.
  \<^item> \<open>Node_Command\<close>: \<open>node/src/cli.rs\<close>, \<open>node/src/command.rs\<close> and the chain specifications. Every
    branch of \<open>run\<close>; what the names of chains load, and on which genesis state a sub-command works.
    The command line of the generic node has types of its own, which \<open>as_Cli\<close> embeds in those of
    the EVM node; \<open>run\<close> is then one definition.
  \<^item> \<open>Node_Run\<close>: \<open>run\<close> composed with the services. When a command line ends in a running node, and
    which tasks that node runs.
  \<^item> \<open>Node_Cli\<close>: \<open>SubstrateCli\<close> and \<open>CliConfiguration\<close> of \<open>command.rs\<close>. The relay-chain side answers as its
    own arguments say, but for the base path and the chain.
  \<^item> \<open>Node_Rpc\<close>: \<open>node/src/rpc\<close> and \<open>node/src/tanssi_rpc\<close>. The RPC modules that are merged and when
    that succeeds; the two variants offer the same methods.
  \<^item> \<open>Generic_Governance\<close>, \<open>Generic_Xcm\<close>, \<open>Generic_Fuzzer\<close>, \<open>Generic_Node\<close>: the copies in the generic
    template of the code above, and the equations that show them in step.
  \<^item> \<open>Unit_Tests\<close>: the unit tests that the sources of the runtimes carry, as lists of named outcomes,
    and that they pass on the model.
  \<^item> \<open>Spec2Isabelle\<close>: properties that span components, of messages and of authoring against the
    weight of a block.

  \<^bold>\<open>State and effects.\<close> The runtime's storage is a type variable that the operations take and
  return, with the result first (\<open>dispatch\<close> in \<open>Asset_Config\<close>, \<open>deposit_asset\<close> in \<open>Xcm_Config\<close>); the
  loop of the fuzzer has a record of its own. Errors and panics are values of a sum type. Machine
  integers are words where the source computes with them; the components of a weight are natural
  numbers with the saturation at \<open>u64::MAX\<close> written out. No definition uses fuel: every loop of the
  modelled code runs over a list, or over the structure of a call. The one exception is the decoding
  of the fuzzer's input (\<open>decode_extrinsics\<close>), which ends only if the decoder consumes input: it is a
  partial function whose value is \<open>None\<close> when it does not end, and that it ends is proved.

  \<^bold>\<open>Bounds.\<close> \<open>weight_laws\<close> asks of \<open>MAX_POV_SIZE\<close> that it lies between 5 MiB and \<open>u32::MAX\<close>, since
  releases of the SDK differ in it; results hold for every such value.

  \<^bold>\<open>Not modelled.\<close> The parsers of arguments and of JSON, which other packages derive from the
  types; the inside of the components that the services wire together; the code that the
  configuration macros of another package generate from the traits, and the type aliases that
  only rename types of the SDK (block, header, address); the unit tests of what other packages
  compute (hashes, signatures, the validation of Ethereum transactions), and the tests under
  \<open>tests/\<close>, which run a simulated network or read back what the configuration macros make of the
  constants. The fuzzer's genesis is a record of the configured values; the building of the storage
  from it belongs to the SDK.
\<close>

section \<open>Messages and blocks\<close>



section \<open>Authoring and blocks\<close>

text \<open>
  C25: the time a collator has for a block against the block's weight. The authoring time of the
  node always covers the share of the block that is open to normal extrinsics and never
  exceeds the whole block: it is the whole block in the plain build, and exactly the normal
  share with asynchronous backing. It is shorter than a slot of the runtime in every build.
\<close>

theorem authoring_time_covers_block:
  assumes "weight_laws W" and "perbill_laws P"
    and "start_consensus F key pid slot tasks = (params, tasks')"
  shows "authoring_duration_ms params * (WEIGHT_REF_TIME_PER_SECOND W div 1000) =
      (if async_backing F
       then ref_time W (MAXIMUM_BLOCK_WEIGHT F W) * deconstruct P (NORMAL_DISPATCH_RATIO P)
         div 1000000000
       else ref_time W (MAXIMUM_BLOCK_WEIGHT F W)) \<and>
    ref_time W (MAXIMUM_BLOCK_WEIGHT F W) * deconstruct P (NORMAL_DISPATCH_RATIO P)
      div 1000000000 \<le> authoring_duration_ms params * (WEIGHT_REF_TIME_PER_SECOND W div 1000) \<and>
    authoring_duration_ms params < unat (SLOT_DURATION F)"
proof -
  have "authoring_duration_ms params = (if async_backing F then 1500 else 500)"
    using assms(3) by (auto simp: start_consensus_def)
  then show ?thesis
    by (simp add: MAXIMUM_BLOCK_WEIGHT_def NORMAL_DISPATCH_RATIO_def SLOT_DURATION_def
        weight_laws.components [OF assms(1)] weight_laws.per_second [OF assms(1)]
        perbill_laws.deconstruct_percent [OF assms(2)] u64_saturating_defs u64_MAX_def const_defs)
qed

theorem authoring_time_covers_block_witness:
  "authoring_duration_ms (fst (start_consensus async_features () 2000 6 [])) <
     unat (SLOT_DURATION async_features)"
  using authoring_time_covers_block [OF sp.weight_laws_axioms spp.perbill_laws_axioms,
      of async_features "()" 2000 6 "[]"]
  by (metis prod.collapse)

end
